(* ===== verification/Prelude.thy ===== *)
theory Prelude
  imports Complex_Main "HOL-Library.Word" "HOL-Library.AList" "HOL-Library.Multiset"
begin

text \<open>
  Shared base of the development: the machine integers, the string functions of Go's
  \<open>strings\<close> and \<open>strconv\<close> packages and the list operations that SQL statements translate
  to, with the lemma collections the component theories use.

  A Go string is a byte string, here \<open>string\<close> (a list of 8-bit characters).
  \<open>strings.TrimSpace\<close> and \<open>strings.ToLower\<close> are modelled on ASCII: a byte above 127 is
  neither a space nor a letter. Instants (\<open>time.Time\<close>, \<open>TIMESTAMPTZ\<close>) are \<open>int\<close>
  nanoseconds since the Unix epoch, and durations are \<open>int\<close> nanoseconds.
\<close>

named_theorems row_simps \<open>defining equations of SQL SET clauses and row predicates\<close>
named_theorems op_defs \<open>definitions of store operations\<close>
named_theorems inv_rules \<open>preservation facts for the invariants of the store\<close>

type_synonym instant = int
type_synonym duration = int
type_synonym uuid = "128 word"

type_synonym getenv = "string \<Rightarrow> string" \<comment> \<open>the process environment\<close>

abbreviation uuid_Nil :: uuid where "uuid_Nil \<equiv> 0"

definition second :: duration where "second = 1000000000"

definition minute :: duration where "minute = 60 * second"

definition zero_time :: instant where
  \<comment> \<open>Go's zero \<open>time.Time\<close>: 0001-01-01T00:00:00Z\<close>
  "zero_time = - 62135596800 * second"

subsection \<open>Integers\<close>

text \<open>The conversion \<open>int16(x)\<close> keeps the low 16 bits, read as two's complement.\<close>

definition int16 :: "int \<Rightarrow> int" where
  "int16 x = sint (word_of_int x :: 16 word)"

definition is_int16 :: "int \<Rightarrow> bool" where
  "is_int16 x \<longleftrightarrow> - 32768 \<le> x \<and> x \<le> 32767"

definition is_int64 :: "int \<Rightarrow> bool" where
  "is_int64 x \<longleftrightarrow> - 9223372036854775808 \<le> x \<and> x \<le> 9223372036854775807"

lemma int16_id: "is_int16 x \<Longrightarrow> int16 x = x"
  by (simp add: int16_def is_int16_def sint_sbintrunc' signed_take_bit_int_eq_self)

lemma int16_range: "is_int16 (int16 x)"
  using sint_lt [of "word_of_int x :: 16 word"] sint_ge [of "word_of_int x :: 16 word"]
  by (simp add: int16_def is_int16_def)

definition wrap64 :: "int \<Rightarrow> int" where
  \<comment> \<open>\<open>int\<close> arithmetic wraps at 64 bits\<close>
  "wrap64 i = sint (word_of_int i :: 64 word)"

lemma wrap64_id: "is_int64 x \<Longrightarrow> wrap64 x = x"
  by (simp add: wrap64_def is_int64_def sint_sbintrunc' signed_take_bit_int_eq_self)

lemma is_int16_int64: "is_int16 x \<Longrightarrow> is_int64 x"
  by (simp add: is_int16_def is_int64_def)

subsection \<open>Strings\<close>

definition is_space :: "char \<Rightarrow> bool" where
  "is_space c \<longleftrightarrow> (of_char c :: nat) \<in> {9, 10, 11, 12, 13, 32}"

definition TrimSpace :: "string \<Rightarrow> string" where
  "TrimSpace s = rev (dropWhile is_space (rev (dropWhile is_space s)))"

definition lower_char :: "char \<Rightarrow> char" where
  "lower_char c =
     (let n = (of_char c :: nat) in if 65 \<le> n \<and> n \<le> 90 then char_of (n + 32) else c)"

definition ToLower :: "string \<Rightarrow> string" where
  "ToLower s = map lower_char s"

fun HasPrefix :: "string \<Rightarrow> string \<Rightarrow> bool" where
  "HasPrefix s [] = True"
| "HasPrefix [] (p # ps) = False"
| "HasPrefix (c # s) (p # ps) = (c = p \<and> HasPrefix s ps)"

definition HasSuffix :: "string \<Rightarrow> string \<Rightarrow> bool" where
  "HasSuffix s suf = HasPrefix (rev s) (rev suf)"

definition TrimPrefix :: "string \<Rightarrow> string \<Rightarrow> string" where
  "TrimPrefix s p = (if HasPrefix s p then drop (length p) s else s)"

definition TrimSuffix :: "string \<Rightarrow> string \<Rightarrow> string" where
  "TrimSuffix s suf = (if HasSuffix s suf then take (length s - length suf) s else s)"

definition CutPrefix :: "string \<Rightarrow> string \<Rightarrow> string option" where
  "CutPrefix s p = (if HasPrefix s p then Some (drop (length p) s) else None)"

fun Contains :: "string \<Rightarrow> string \<Rightarrow> bool" where
  "Contains [] p = (p = [])"
| "Contains (c # s) p = (HasPrefix (c # s) p \<or> Contains s p)"

fun Split :: "char \<Rightarrow> string \<Rightarrow> string list" where
  "Split sep [] = [[]]"
| "Split sep (c # s) =
     (if c = sep then [] # Split sep s
      else (case Split sep s of [] \<Rightarrow> [[c]] | w # ws \<Rightarrow> (c # w) # ws))"

definition CutChar :: "char \<Rightarrow> string \<Rightarrow> string \<times> string \<times> bool" where
  \<comment> \<open>\<open>strings.Cut\<close> at a one-character separator\<close>
  "CutChar sep s =
     (let a = takeWhile (\<lambda>c. c \<noteq> sep) s; b = dropWhile (\<lambda>c. c \<noteq> sep) s in
      if b = [] then (s, [], False) else (a, tl b, True))"

definition TrimRightChar :: "char \<Rightarrow> string \<Rightarrow> string" where
  "TrimRightChar c s = rev (dropWhile (\<lambda>x. x = c) (rev s))"

definition hex_digit :: "nat \<Rightarrow> char" where
  "hex_digit n = (if n < 10 then char_of (48 + n) else char_of (87 + n))"

fun hex_encode :: "string \<Rightarrow> string" where
  "hex_encode [] = []"
| "hex_encode (c # s) =
     (let n = (of_char c :: nat) in hex_digit (n div 16) # hex_digit (n mod 16) # hex_encode s)"

lemma HasPrefix_iff: "HasPrefix s p \<longleftrightarrow> (\<exists>t. s = p @ t)"
  by (induction s p rule: HasPrefix.induct) auto

lemma HasPrefix_append [simp]: "HasPrefix (p @ t) p"
  by (auto simp: HasPrefix_iff)

lemma HasSuffix_iff: "HasSuffix s suf \<longleftrightarrow> (\<exists>t. s = t @ suf)"
proof -
  have "(\<exists>t. rev s = rev suf @ t) \<longleftrightarrow> (\<exists>t. s = t @ suf)"
    by (metis rev_append rev_rev_ident)
  then show ?thesis by (simp add: HasSuffix_def HasPrefix_iff)
qed

lemma HasSuffix_append [simp]: "HasSuffix (t @ suf) suf"
  by (auto simp: HasSuffix_iff)

lemma TrimSuffix_append [simp]: "TrimSuffix (t @ suf) suf = t"
  by (simp add: TrimSuffix_def)

lemma Split_nonempty [simp]: "Split sep s \<noteq> []"
  by (induction s) (auto split: list.splits)

subsection \<open>Decimal numbers: \<open>strconv.Itoa\<close> and \<open>strconv.Atoi\<close>\<close>

definition digit_char :: "nat \<Rightarrow> char" where
  "digit_char d = char_of (48 + d)"

definition digit_val :: "char \<Rightarrow> int option" where
  "digit_val c =
     (let n = (of_char c :: nat) in if 48 \<le> n \<and> n \<le> 57 then Some (int n - 48) else None)"

fun nat_dec :: "nat \<Rightarrow> string" where
  "nat_dec n = (if n < 10 then [digit_char n] else nat_dec (n div 10) @ [digit_char (n mod 10)])"

declare nat_dec.simps [simp del]

definition Itoa :: "int \<Rightarrow> string" where
  "Itoa i = (if i < 0 then CHR ''-'' # nat_dec (nat (- i)) else nat_dec (nat i))"

fun dec_val :: "int \<Rightarrow> string \<Rightarrow> int option" where
  "dec_val acc [] = Some acc"
| "dec_val acc (c # cs) =
     (case digit_val c of None \<Rightarrow> None | Some d \<Rightarrow> dec_val (10 * acc + d) cs)"

text \<open>
  \<open>Atoi\<close> returns the value and whether the error is nil. A syntax error yields 0; a range
  error yields the nearest 64-bit value together with the error, which callers that drop
  the error see.
\<close>

definition sign_split :: "string \<Rightarrow> bool \<times> string" where
  "sign_split s =
     (case s of [] \<Rightarrow> (False, [])
      | c # r \<Rightarrow> if c = CHR ''-'' then (True, r) else if c = CHR ''+'' then (False, r)
                else (False, s))"

definition Atoi :: "string \<Rightarrow> int \<times> bool" where
  "Atoi s =
     (case sign_split s of (neg, ds) \<Rightarrow>
        if ds = [] then (0, False)
        else (case dec_val 0 ds of None \<Rightarrow> (0, False)
          | Some n \<Rightarrow>
              (let v = (if neg then - n else n) in
               if 9223372036854775807 < v then (9223372036854775807, False)
               else if v < - 9223372036854775808 then (- 9223372036854775808, False)
               else (v, True))))"

lemma digit_val_char: "d < 10 \<Longrightarrow> digit_val (digit_char d) = Some (int d)"
  by (simp add: digit_val_def digit_char_def of_char_of Let_def)

lemma dec_val_append:
  "dec_val acc (xs @ ys) = (case dec_val acc xs of None \<Rightarrow> None | Some v \<Rightarrow> dec_val v ys)"
  by (induction xs arbitrary: acc) (auto split: option.splits)

lemma dec_val_nat_dec: "dec_val 0 (nat_dec n) = Some (int n)"
proof (induction n rule: nat_dec.induct)
  case (1 n)
  show ?case
  proof (cases "n < 10")
    case True
    then show ?thesis by (simp add: nat_dec.simps [of n] digit_val_char)
  next
    case False
    then have "dec_val 0 (nat_dec (n div 10)) = Some (int (n div 10))" using 1 by simp
    with False show ?thesis
      by (simp add: nat_dec.simps [of n] dec_val_append digit_val_char zdiv_int zmod_int)
  qed
qed

lemma digit_char_digit: "d < 10 \<Longrightarrow> digit_char d \<noteq> CHR ''-'' \<and> digit_char d \<noteq> CHR ''+''"
proof -
  assume "d < 10"
  then have "digit_val (digit_char d) \<noteq> None" by (simp add: digit_val_char)
  then show ?thesis by (auto simp: digit_val_def Let_def)
qed

lemma nat_dec_nonempty [simp]: "nat_dec n \<noteq> []"
  by (subst nat_dec.simps) simp

lemma nat_dec_hd: "hd (nat_dec n) \<noteq> CHR ''-'' \<and> hd (nat_dec n) \<noteq> CHR ''+''"
proof (induction n rule: nat_dec.induct)
  case (1 n)
  then show ?case
    by (cases "n < 10") (simp_all add: nat_dec.simps [of n] digit_char_digit)
qed

lemma sign_split_nat_dec: "sign_split (nat_dec n) = (False, nat_dec n)"
  using nat_dec_hd [of n] by (cases "nat_dec n") (auto simp: sign_split_def)

lemma Itoa_nonempty [simp]: "Itoa i \<noteq> []"
  by (simp add: Itoa_def)

lemma sign_split_Itoa: "sign_split (Itoa i) = (i < 0, nat_dec (nat \<bar>i\<bar>))"
  by (simp add: Itoa_def sign_split_nat_dec) (simp add: sign_split_def)

lemma Atoi_Itoa: "is_int64 i \<Longrightarrow> Atoi (Itoa i) = (i, True)"
  by (auto simp: Atoi_def sign_split_Itoa dec_val_nat_dec is_int64_def Let_def)

lemma Atoi_range: "is_int64 (fst (Atoi s))"
  by (auto simp: Atoi_def is_int64_def Let_def split: prod.splits option.splits)

subsection \<open>SQL statements on tables as lists of rows\<close>

text \<open>
  A table is the list of its rows in insertion order. \<open>update_where\<close> is
  \<open>UPDATE t SET f WHERE p\<close>, \<open>order_by\<close> is a stable sort and \<open>limit_to\<close> the
  \<open>LIMIT\<close> clause.
\<close>

definition update_where :: "('r \<Rightarrow> bool) \<Rightarrow> ('r \<Rightarrow> 'r) \<Rightarrow> 'r list \<Rightarrow> 'r list" where
  "update_where p f rs = map (\<lambda>r. if p r then f r else r) rs"

definition limit_to :: "int \<Rightarrow> 'r list \<Rightarrow> 'r list" where
  "limit_to n rs = take (nat n) rs"

definition order_by :: "('r \<Rightarrow> int) \<Rightarrow> 'r list \<Rightarrow> 'r list" where
  "order_by k rs = sort_key k rs"

definition order_by_desc :: "('r \<Rightarrow> int) \<Rightarrow> 'r list \<Rightarrow> 'r list" where
  "order_by_desc k rs = sort_key (\<lambda>r. - k r) rs"

definition order_by_null :: "('r \<Rightarrow> int option) \<Rightarrow> 'r list \<Rightarrow> 'r list" where
  \<comment> \<open>\<open>ORDER BY\<close> a nullable column ascending: NULLs last\<close>
  "order_by_null k rs =
     sort_key (\<lambda>r. the (k r)) (filter (\<lambda>r. k r \<noteq> None) rs) @ filter (\<lambda>r. k r = None) rs"

definition clamp_limit :: "int \<Rightarrow> int \<Rightarrow> int \<Rightarrow> int" where
  \<comment> \<open>the store's batch guard: a non-positive limit gets the default, a large one the cap\<close>
  "clamp_limit dflt cap limit =
     (let l = (if limit \<le> 0 then dflt else limit) in if cap < l then cap else l)"

lemma set_order_by [simp]: "set (order_by k rs) = set rs"
  by (simp add: order_by_def)

lemma set_order_by_desc [simp]: "set (order_by_desc k rs) = set rs"
  by (simp add: order_by_desc_def)

lemma set_order_by_null [simp]: "set (order_by_null k rs) = set rs"
  by (auto simp: order_by_null_def)

lemma set_limit_to: "x \<in> set (limit_to n rs) \<Longrightarrow> x \<in> set rs"
  by (auto simp: limit_to_def dest: in_set_takeD)

lemma length_limit_to [simp]: "length (limit_to n rs) = min (length rs) (nat n)"
  by (simp add: limit_to_def min.commute)

lemma clamp_limit_bounds:
  "0 < dflt \<Longrightarrow> dflt \<le> cap \<Longrightarrow> 0 < clamp_limit dflt cap l \<and> clamp_limit dflt cap l \<le> cap"
  by (auto simp: clamp_limit_def Let_def)

lemma update_where_Nil [simp]: "update_where p f [] = []"
  by (simp add: update_where_def)

lemma set_update_where: "set (update_where p f rs) = (\<lambda>r. if p r then f r else r) ` set rs"
  by (auto simp: update_where_def)

lemma length_update_where [simp]: "length (update_where p f rs) = length rs"
  by (simp add: update_where_def)

lemma map_update_where:
  "(\<And>r. p r \<Longrightarrow> g (f r) = g r) \<Longrightarrow> map g (update_where p f rs) = map g rs"
  by (auto simp: update_where_def)

lemma find_Some_iff_distinct:
  "distinct (map k rs) \<Longrightarrow> r \<in> set rs \<Longrightarrow> List.find (\<lambda>x. k x = k r) rs = Some r"
  by (induction rs) (auto simp: rev_image_eqI)

lemma find_SomeD: "List.find p rs = Some r \<Longrightarrow> r \<in> set rs \<and> p r"
  by (auto simp: find_Some_iff)

lemma find_map_same:
  "List.find q (map g rs) = map_option g (List.find (q \<circ> g) rs)"
  by (induction rs) auto

lemma mset_order_by_null: "mset (order_by_null k rs) = mset rs"
  using multiset_partition [of "mset rs" "\<lambda>r. k r \<noteq> None"] by (simp add: order_by_null_def)

lemma distinct_order_by_null: "distinct (map g rs) \<Longrightarrow> distinct (map g (order_by_null k rs))"
  using mset_eq_imp_distinct_iff [of "map g (order_by_null k rs)" "map g rs"]
  by (simp add: mset_order_by_null)

lemma distinct_order_by: "distinct (map g rs) \<Longrightarrow> distinct (map g (order_by k rs))"
  using mset_eq_imp_distinct_iff [of "map g (order_by k rs)" "map g rs"]
  by (simp add: order_by_def)

lemma distinct_limit_to: "distinct (map g rs) \<Longrightarrow> distinct (map g (limit_to n rs))"
  by (simp add: limit_to_def take_map [symmetric])

end
