(* ===== verification/Task.thy ===== *)
theory Task
  imports Prelude
begin

text \<open>
  The job model of \<open>internal/task/tasks.go\<close> and its wire format. A job row (the columns of
  the \<open>jobs\<close> table, in the order of \<open>jobColumns\<close>) is the record \<open>job_row\<close>; the Go struct
  \<open>Job\<close> extends it with the runtime-only fields. \<open>sql.Null*\<close> columns are options. Stream
  values (\<open>map[string]any\<close>) are association lists of \<open>fval\<close>. The parts of the Go standard
  library and of third-party packages that the code calls and that are not modelled (the
  JSON codec, UUID text, RFC 3339 text, the cron parser and the time zone database) are the
  fields of \<open>golib\<close>, a parameter of every definition that uses them; \<open>golib_ok\<close> states the
  round trips they document.
\<close>

subsection \<open>Job status\<close>

datatype JobStatus =
    JobPending | JobQueued | JobScheduled | JobRunning | JobCompleted | JobFailed
  | JobCancelled
  | JobStatusOther string \<comment> \<open>any other value of the Go string type\<close>

fun status_string :: "JobStatus \<Rightarrow> string" where
  "status_string JobPending = ''pending''"
| "status_string JobQueued = ''queued''"
| "status_string JobScheduled = ''scheduled''"
| "status_string JobRunning = ''running''"
| "status_string JobCompleted = ''completed''"
| "status_string JobFailed = ''failed''"
| "status_string JobCancelled = ''cancelled''"
| "status_string (JobStatusOther s) = s"

definition db_statuses :: "JobStatus list" where
  \<comment> \<open>the values of the \<open>job_status\<close> enum\<close>
  "db_statuses =
     [JobPending, JobQueued, JobScheduled, JobRunning, JobCompleted, JobFailed, JobCancelled]"

definition JobStatus_of :: "string \<Rightarrow> JobStatus" where
  \<comment> \<open>the conversion \<open>JobStatus(s)\<close>\<close>
  "JobStatus_of s =
     (case List.find (\<lambda>st. status_string st = s) db_statuses of
        Some st \<Rightarrow> st | None \<Rightarrow> JobStatusOther s)"

definition proper_status :: "JobStatus \<Rightarrow> bool" where
  \<comment> \<open>the normal form: \<open>JobStatusOther\<close> only for strings outside the enum\<close>
  "proper_status st \<longleftrightarrow> JobStatus_of (status_string st) = st"

lemma proper_db_status [simp]: "st \<in> set db_statuses \<Longrightarrow> proper_status st"
  by (cases st) (simp_all add: proper_status_def JobStatus_of_def db_statuses_def)

lemma status_string_of [simp]: "status_string (JobStatus_of s) = s"
  by (auto simp: JobStatus_of_def dest: find_SomeD split: option.splits)

subsection \<open>Values\<close>

datatype json =
    JNull | JBool bool | JNum rat | JStr string | JArr "json list"
  | JObj "(string \<times> json) list"

datatype fval = FStr string | FInt int | FInt64 int | FFloat rat | FOther

type_synonym fields = "(string \<times> fval) list"

record golib =
  uuid_String :: "uuid \<Rightarrow> string"
  uuid_Parse :: "string \<Rightarrow> uuid option"
  json_Marshal :: "json \<Rightarrow> string option"
  json_Unmarshal_obj :: "string \<Rightarrow> (string \<times> json) list option"
  time_FormatNano :: "instant \<Rightarrow> string"
  time_ParseNano :: "string \<Rightarrow> instant option"
  cron_ParseStandard :: "string \<Rightarrow> (string \<Rightarrow> instant \<Rightarrow> instant) option"
  LoadLocation :: "string \<Rightarrow> bool"

definition rfc3339_range :: "instant \<Rightarrow> bool" where
  \<comment> \<open>the years 0 to 9999, which RFC 3339 can write\<close>
  "rfc3339_range t \<longleftrightarrow> - 62167219200 * second \<le> t \<and> t < 253402300800 * second"

definition golib_ok :: "golib \<Rightarrow> bool" where
  "golib_ok lib \<longleftrightarrow>
     (\<forall>u. uuid_Parse lib (uuid_String lib u) = Some u \<and> uuid_String lib u \<noteq> []) \<and>
     (\<forall>t. rfc3339_range t \<longrightarrow>
        time_ParseNano lib (time_FormatNano lib t) = Some t \<and> time_FormatNano lib t \<noteq> []) \<and>
     (\<forall>v s. json_Marshal lib v = Some s \<longrightarrow> s \<noteq> [])"

subsection \<open>Structs\<close>

record TaskRequest =
  tr_Type :: string
  tr_Payload :: "(string \<times> json) list"
  tr_Attempt :: int

record job_row =
  JobID :: uuid
  Status :: JobStatus
  Type :: string
  PayloadRef :: "string option"
  QueueName :: string
  Priority :: int
  AttemptCount :: int
  MaxRetry :: int
  WorkerID :: "string option"
  ClaimToken :: "uuid option"
  IdempotencyKey :: "string option"
  OwnerUserID :: "uuid option"
  CronExpr :: "string option"
  CronTZ :: "string option"
  SeriesID :: "uuid option"
  IsRecurring :: bool
  ScheduledAt :: "instant option"
  NotBefore :: "instant option"
  CreatedAt :: instant
  StartedAt :: "instant option"
  CompletedAt :: "instant option"
  HeartbeatAt :: "instant option"
  LastError :: "string option"

record Job = job_row +
  MsgID :: string
  Stream :: string
  Group :: string
  Payload :: json

definition zero_row :: job_row where
  "zero_row =
     \<lparr>JobID = uuid_Nil, Status = JobStatusOther [], Type = [], PayloadRef = None,
      QueueName = [], Priority = 0, AttemptCount = 0, MaxRetry = 0, WorkerID = None,
      ClaimToken = None, IdempotencyKey = None, OwnerUserID = None, CronExpr = None,
      CronTZ = None, SeriesID = None, IsRecurring = False, ScheduledAt = None,
      NotBefore = None, CreatedAt = zero_time, StartedAt = None, CompletedAt = None,
      HeartbeatAt = None, LastError = None\<rparr>"

definition zero_runtime :: "\<lparr>MsgID :: string, Stream :: string, Group :: string, Payload :: json\<rparr>" where
  "zero_runtime = Job.fields [] [] [] JNull"

definition zero_job :: Job where
  "zero_job = job_row.extend zero_row zero_runtime"

subsection \<open>Numbers in stream values\<close>

definition float_to_int :: "rat \<Rightarrow> int" where
  \<comment> \<open>Go's \<open>int(v)\<close> on a float64: towards zero; out of range the amd64 result\<close>
  "float_to_int v =
     (let i = (if v < 0 then \<lceil>v\<rceil> else \<lfloor>v\<rfloor>) in
      if is_int64 i then i else - 9223372036854775808)"

fun parseNum :: "fval option \<Rightarrow> int" where
  "parseNum (Some (FStr n)) = fst (Atoi n)"
| "parseNum (Some (FInt n)) = n"
| "parseNum (Some (FInt64 n)) = n"
| "parseNum (Some (FFloat n)) = float_to_int n"
| "parseNum _ = 0"

definition get_str :: "fields \<Rightarrow> string \<Rightarrow> string option" where
  \<comment> \<open>\<open>fields[k].(string)\<close>\<close>
  "get_str fs k = (case map_of fs k of Some (FStr s) \<Rightarrow> Some s | _ \<Rightarrow> None)"

subsection \<open>The legacy task request\<close>

datatype task_err =
    MissingTaskType | MissingTaskPayload | BadTaskPayload
  | MissingJobID | InvalidJobID | MissingJobType

definition ToFields :: "golib \<Rightarrow> TaskRequest \<Rightarrow> fields" where
  "ToFields lib t =
     (case json_Marshal lib (JObj (tr_Payload t)) of
        None \<Rightarrow> []
      | Some b \<Rightarrow>
          [(''type'', FStr (tr_Type t)), (''payload'', FStr b), (''attempt'', FInt (tr_Attempt t))])"

definition legacy_attempt :: "fields \<Rightarrow> int" where
  "legacy_attempt fs =
     (case map_of fs ''attempt'' of
        Some (FStr v) \<Rightarrow> fst (Atoi v)
      | Some (FInt64 v) \<Rightarrow> v
      | Some (FFloat v) \<Rightarrow> float_to_int v
      | _ \<Rightarrow> 0)"

definition FromFields :: "golib \<Rightarrow> fields \<Rightarrow> task_err + TaskRequest" where
  "FromFields lib fs =
     (case get_str fs ''type'' of
        None \<Rightarrow> Inl MissingTaskType
      | Some taskType \<Rightarrow>
          (case get_str fs ''payload'' of
             None \<Rightarrow> Inl MissingTaskPayload
           | Some payloadStr \<Rightarrow>
               (case json_Unmarshal_obj lib payloadStr of
                  None \<Rightarrow> Inl BadTaskPayload
                | Some payload \<Rightarrow>
                    Inr \<lparr>tr_Type = taskType, tr_Payload = payload,
                         tr_Attempt = legacy_attempt fs\<rparr>)))"

subsection \<open>The DB-first job reference\<close>

definition opt_field :: "string \<Rightarrow> string option \<Rightarrow> fields" where
  "opt_field k v = (case v of None \<Rightarrow> [] | Some s \<Rightarrow> [(k, FStr s)])"

definition wire_payload :: "golib \<Rightarrow> Job \<Rightarrow> string option" where
  "wire_payload lib j =
     (case PayloadRef j of
        Some s \<Rightarrow>
          if s \<noteq> [] then Some s
          else if Payload j \<noteq> JNull then json_Marshal lib (Payload j) else None
      | None \<Rightarrow> if Payload j \<noteq> JNull then json_Marshal lib (Payload j) else None)"

definition ToJobFields :: "golib \<Rightarrow> Job \<Rightarrow> fields" where
  "ToJobFields lib j =
     [(''job_id'', FStr (uuid_String lib (JobID j))),
      (''job_type'', FStr (Type j)),
      (''status'', FStr (status_string (Status j))),
      (''queue_name'', FStr (QueueName j)),
      (''attempt'', FStr (Itoa (AttemptCount j))),
      (''max_retry'', FStr (Itoa (MaxRetry j))),
      (''priority'', FStr (Itoa (Priority j))),
      (''created_at'', FStr (time_FormatNano lib (CreatedAt j)))]
     @ opt_field ''idempotency_key'' (IdempotencyKey j)
     @ opt_field ''scheduled_at'' (map_option (time_FormatNano lib) (ScheduledAt j))
     @ opt_field ''payload'' (wire_payload lib j)"

definition decode_payload :: "golib \<Rightarrow> string \<Rightarrow> json" where
  "decode_payload lib s =
     (case json_Unmarshal_obj lib s of Some m \<Rightarrow> JObj m | None \<Rightarrow> JStr s)"

definition job_type_field :: "fields \<Rightarrow> string option" where
  "job_type_field fs =
     (case get_str fs ''job_type'' of
        Some t \<Rightarrow>
          if t \<noteq> [] then Some t
          else (case get_str fs ''type'' of Some u \<Rightarrow> if u \<noteq> [] then Some u else None | None \<Rightarrow> None)
      | None \<Rightarrow>
          (case get_str fs ''type'' of Some u \<Rightarrow> if u \<noteq> [] then Some u else None | None \<Rightarrow> None))"

definition nonempty :: "string option \<Rightarrow> string option" where
  "nonempty v = (case v of Some s \<Rightarrow> if s \<noteq> [] then Some s else None | None \<Rightarrow> None)"

definition JobFromFields :: "golib \<Rightarrow> fields \<Rightarrow> task_err + Job" where
  "JobFromFields lib fs =
     (case nonempty (get_str fs ''job_id'') of
        None \<Rightarrow> Inl MissingJobID
      | Some rawID \<Rightarrow>
          (case uuid_Parse lib rawID of
             None \<Rightarrow> Inl InvalidJobID
           | Some jid \<Rightarrow>
               (case job_type_field fs of
                  None \<Rightarrow> Inl MissingJobType
                | Some rawType \<Rightarrow>
                    Inr (zero_job
                      \<lparr>JobID := jid, Type := rawType,
                       Status := (case get_str fs ''status'' of
                                    Some s \<Rightarrow> JobStatus_of s | None \<Rightarrow> Status zero_job),
                       QueueName := (case get_str fs ''queue_name'' of Some s \<Rightarrow> s | None \<Rightarrow> []),
                       AttemptCount := int16 (parseNum (map_of fs ''attempt'')),
                       MaxRetry := int16 (parseNum (map_of fs ''max_retry'')),
                       Priority := int16 (parseNum (map_of fs ''priority'')),
                       IdempotencyKey := nonempty (get_str fs ''idempotency_key''),
                       CreatedAt := (case get_str fs ''created_at'' of
                                       Some s \<Rightarrow> (case time_ParseNano lib s of
                                                    Some ts \<Rightarrow> ts | None \<Rightarrow> zero_time)
                                     | None \<Rightarrow> zero_time),
                       ScheduledAt := (case nonempty (get_str fs ''scheduled_at'') of
                                         Some s \<Rightarrow> time_ParseNano lib s | None \<Rightarrow> None),
                       PayloadRef := nonempty (get_str fs ''payload''),
                       Payload := (case nonempty (get_str fs ''payload'') of
                                     Some s \<Rightarrow> decode_payload lib s | None \<Rightarrow> JNull)\<rparr>))))"

subsection \<open>Lemmas\<close>

lemma get_str_ToJobFields:
  "get_str (ToJobFields lib j) ''job_id'' = Some (uuid_String lib (JobID j))"
  "get_str (ToJobFields lib j) ''job_type'' = Some (Type j)"
  "get_str (ToJobFields lib j) ''status'' = Some (status_string (Status j))"
  "get_str (ToJobFields lib j) ''queue_name'' = Some (QueueName j)"
  "get_str (ToJobFields lib j) ''created_at'' = Some (time_FormatNano lib (CreatedAt j))"
  by (simp_all add: ToJobFields_def get_str_def)

lemma num_ToJobFields:
  "map_of (ToJobFields lib j) ''attempt'' = Some (FStr (Itoa (AttemptCount j)))"
  "map_of (ToJobFields lib j) ''max_retry'' = Some (FStr (Itoa (MaxRetry j)))"
  "map_of (ToJobFields lib j) ''priority'' = Some (FStr (Itoa (Priority j)))"
  by (simp_all add: ToJobFields_def)

lemma opt_ToJobFields:
  "get_str (ToJobFields lib j) ''idempotency_key'' = IdempotencyKey j"
  "get_str (ToJobFields lib j) ''scheduled_at'' = map_option (time_FormatNano lib) (ScheduledAt j)"
  "get_str (ToJobFields lib j) ''payload'' = wire_payload lib j"
  by (auto simp: ToJobFields_def get_str_def opt_field_def map_add_def split: option.splits)

lemma nonempty_Some [simp]: "nonempty (Some s) = (if s \<noteq> [] then Some s else None)"
  by (simp add: nonempty_def)

lemma nonempty_None [simp]: "nonempty None = None"
  by (simp add: nonempty_def)

lemma nonempty_id: "v \<noteq> Some [] \<Longrightarrow> nonempty v = v"
  by (cases v) auto

lemma wire_payload_nonempty: "golib_ok lib \<Longrightarrow> wire_payload lib j \<noteq> Some []"
  by (auto simp: wire_payload_def golib_ok_def split: option.splits)

lemma parse_int16_field: "is_int16 i \<Longrightarrow> int16 (parseNum (Some (FStr (Itoa i)))) = i"
  by (simp add: Atoi_Itoa int16_id is_int16_int64)

text \<open>A concrete instance of the parameter, for the witnesses.\<close>

definition dec_parse :: "string \<Rightarrow> int option" where
  "dec_parse s =
     (case sign_split s of (neg, ds) \<Rightarrow>
        if ds = [] then None else map_option (\<lambda>n. if neg then - n else n) (dec_val 0 ds))"

definition demo_lib :: golib where
  "demo_lib =
     \<lparr>uuid_String = (\<lambda>u. Itoa (uint u)),
      uuid_Parse = (\<lambda>s. map_option word_of_int (dec_parse s)),
      json_Marshal = (\<lambda>v. Some ''{}''),
      json_Unmarshal_obj = (\<lambda>s. if s = ''{}'' then Some [] else None),
      time_FormatNano = Itoa,
      time_ParseNano = dec_parse,
      cron_ParseStandard = (\<lambda>e. if e = ''@hourly'' then Some (\<lambda>tz t. (t div (60 * minute) + 1) * (60 * minute)) else None),
      LoadLocation = (\<lambda>tz. tz = ''UTC'')\<rparr>"

lemma dec_parse_Itoa: "dec_parse (Itoa i) = Some i"
  by (simp add: dec_parse_def sign_split_Itoa dec_val_nat_dec)

lemma golib_ok_demo: "golib_ok demo_lib"
  by (simp add: golib_ok_def demo_lib_def dec_parse_Itoa)

subsection \<open>Properties\<close>

text \<open>C26. Round trip of the DB-first job reference: what \<open>JobFromFields\<close> reads back from
  the stream values \<open>ToJobFields\<close> wrote is the job's identity, type, status, queue, counts,
  idempotency key, creation and schedule instants and payload text, for every job whose
  fields are in the ranges the database keeps; the payload is decoded from its text.\<close>

theorem job_fields_roundtrip:
  assumes "golib_ok lib" and "Type j \<noteq> []" and "proper_status (Status j)"
    and "is_int16 (Priority j)" and "is_int16 (AttemptCount j)" and "is_int16 (MaxRetry j)"
    and "IdempotencyKey j \<noteq> Some []"
    and "rfc3339_range (CreatedAt j)"
    and "\<And>t. ScheduledAt j = Some t \<Longrightarrow> rfc3339_range t"
  shows "JobFromFields lib (ToJobFields lib j) =
    Inr (zero_job
      \<lparr>JobID := JobID j, Type := Type j, Status := Status j, QueueName := QueueName j,
       AttemptCount := AttemptCount j, MaxRetry := MaxRetry j, Priority := Priority j,
       IdempotencyKey := IdempotencyKey j, CreatedAt := CreatedAt j,
       ScheduledAt := ScheduledAt j, PayloadRef := wire_payload lib j,
       Payload := (case wire_payload lib j of
                     Some s \<Rightarrow> decode_payload lib s | None \<Rightarrow> JNull)\<rparr>)"
proof -
  have lib: "uuid_Parse lib (uuid_String lib u) = Some u" "uuid_String lib u \<noteq> []"
    "rfc3339_range t \<Longrightarrow> time_ParseNano lib (time_FormatNano lib t) = Some t"
    "rfc3339_range t \<Longrightarrow> time_FormatNano lib t \<noteq> []" for u t
    using assms(1) by (auto simp: golib_ok_def)
  have sched: "(case nonempty (map_option (time_FormatNano lib) (ScheduledAt j)) of
      Some s \<Rightarrow> time_ParseNano lib s | None \<Rightarrow> None) = ScheduledAt j"
    using assms(9) by (cases "ScheduledAt j") (auto simp: lib)
  have jty: "job_type_field (ToJobFields lib j) = Some (Type j)"
    using assms(2) by (simp add: job_type_field_def get_str_ToJobFields)
  have st: "JobStatus_of (status_string (Status j)) = Status j"
    using assms(3) by (simp add: proper_status_def)
  show ?thesis
    using assms(4-8)
    by (simp add: JobFromFields_def get_str_ToJobFields num_ToJobFields opt_ToJobFields
        parse_int16_field lib jty st sched nonempty_id wire_payload_nonempty [OF assms(1)]
        del: parseNum.simps)
qed

lemma job_fields_roundtrip_witness:
  "JobFromFields demo_lib (ToJobFields demo_lib
     (zero_job\<lparr>JobID := 7, Type := ''email'', Status := JobPending, AttemptCount := 2,
               ScheduledAt := Some 5\<rparr>)) =
   Inr (zero_job\<lparr>JobID := 7, Type := ''email'', Status := JobPending, AttemptCount := 2,
               ScheduledAt := Some 5\<rparr>)"
proof -
  let ?j = "zero_job\<lparr>JobID := 7, Type := ''email'', Status := JobPending, AttemptCount := 2,
               ScheduledAt := Some 5\<rparr>"
  have z: "?j = \<lparr>JobID = 7, Status = JobPending, Type = ''email'', PayloadRef = None,
      QueueName = [], Priority = 0, AttemptCount = 2, MaxRetry = 0, WorkerID = None,
      ClaimToken = None, IdempotencyKey = None, OwnerUserID = None, CronExpr = None,
      CronTZ = None, SeriesID = None, IsRecurring = False, ScheduledAt = Some 5,
      NotBefore = None, CreatedAt = zero_time, StartedAt = None, CompletedAt = None,
      HeartbeatAt = None, LastError = None, MsgID = [], Stream = [], Group = [], Payload = JNull\<rparr>"
    by (simp add: zero_job_def zero_row_def zero_runtime_def job_row.defs Job.defs)
  have w: "wire_payload demo_lib ?j = None" unfolding z by (simp add: wire_payload_def)
  show ?thesis
    using job_fields_roundtrip [OF golib_ok_demo, of ?j] w
    by (simp add: z is_int16_def rfc3339_range_def zero_time_def second_def
        db_statuses_def zero_job_def zero_row_def zero_runtime_def job_row.defs Job.defs)
qed

end
