(* ===== verification/Jobs_Schema.thy ===== *)
theory Jobs_Schema
  imports Task
begin

text \<open>
  The tables of \<open>migrations/\<close> that \<open>internal/storage/jobs\<close> reads and writes, the statements
  its operations share (\<open>scanJobRow\<close>, \<open>hydratePayload\<close>, \<open>insertEvent\<close>), database failures,
  and the invariant of the store with the four table-level facts every operation's
  preservation proof rests on (transition, touch, insert, delete).

  Every database call of an operation can fail: \<open>flt c\<close> says that call \<open>c\<close> returns an
  error. \<open>CommitTx\<close> is a commit that did not happen; \<open>CommitAck\<close> is a commit whose
  acknowledgement is lost: the caller sees an error and the transaction is applied.
  A transaction that returns early is rolled back by its deferred \<open>tx.Rollback()\<close>.

  Instants are stored as they are; PostgreSQL's \<open>TIMESTAMPTZ\<close> rounds them to microseconds.
\<close>

record JobEvent =
  EvJobID :: uuid
  OldStatus :: "JobStatus option"
  NewStatus :: JobStatus
  EvWorkerID :: "string option"
  EvReason :: "string option"
  Occurred :: instant

record db =
  jobs_tbl :: "job_row list"
  events_tbl :: "JobEvent list"
  idem_tbl :: "(string \<times> uuid) list" \<comment> \<open>\<open>job_idempotency\<close>\<close>
  retry_tbl :: "(string \<times> uuid) list" \<comment> \<open>\<open>retry_idempotency\<close>\<close>

datatype dbcall =
    BeginTx | SelectRows | UpdateRow uuid | InsertRow uuid | InsertEv uuid
  | InsertKey | CheckKey | DeleteRows | DeleteKeys | CountRows | CommitTx | CommitAck

type_synonym faults = "dbcall \<Rightarrow> bool"

datatype store_err =
    ErrNotClaimable | ErrNotRetryable | ErrNotCancellable | ErrJobExists
  | ErrRetryKeyConflict | ErrNoRows | DbErr dbcall

type_synonym 'a result = "store_err + 'a"

definition no_faults :: faults where "no_faults c = False"

definition commit_tx :: "faults \<Rightarrow> db \<Rightarrow> db \<Rightarrow> 'a \<Rightarrow> 'a result \<times> db" where
  \<comment> \<open>\<open>tx.Commit()\<close>: the database before the transaction, after it, and the result\<close>
  "commit_tx flt d0 d1 x =
     (if flt CommitTx then (Inl (DbErr CommitTx), d0)
      else if flt CommitAck then (Inl (DbErr CommitAck), d1)
      else (Inr x, d1))"

subsection \<open>Shared statements\<close>

definition scanJobRow :: "job_row \<Rightarrow> Job" where
  \<comment> \<open>scanning the columns into a zero \<open>Job\<close>: the runtime fields stay zero\<close>
  "scanJobRow r = job_row.extend r zero_runtime"

definition hydratePayload :: "golib \<Rightarrow> Job \<Rightarrow> Job" where
  "hydratePayload lib j =
     (case PayloadRef j of
        Some s \<Rightarrow> if s \<noteq> [] then j\<lparr>Payload := decode_payload lib s\<rparr> else j
      | None \<Rightarrow> j)"

definition fetched :: "golib \<Rightarrow> job_row \<Rightarrow> Job" where
  "fetched lib r = hydratePayload lib (scanJobRow r)"

definition find_job :: "uuid \<Rightarrow> db \<Rightarrow> job_row option" where
  \<comment> \<open>\<open>SELECT ... FROM jobs WHERE job_id = $1\<close>, first row\<close>
  "find_job jid d = List.find (\<lambda>r. JobID r = jid) (jobs_tbl d)"

definition upd_job :: "uuid \<Rightarrow> (job_row \<Rightarrow> bool) \<Rightarrow> (job_row \<Rightarrow> job_row) \<Rightarrow> db \<Rightarrow> db" where
  \<comment> \<open>\<open>UPDATE jobs SET f WHERE job_id = $1 AND p\<close>\<close>
  "upd_job jid p f d =
     d\<lparr>jobs_tbl := update_where (\<lambda>r. JobID r = jid \<and> p r) f (jobs_tbl d)\<rparr>"

abbreviation any_row :: "job_row \<Rightarrow> bool" where "any_row \<equiv> \<lambda>_. True"

definition insertEvent :: "uuid \<Rightarrow> JobStatus \<Rightarrow> JobStatus \<Rightarrow> instant \<Rightarrow> db \<Rightarrow> db" where
  "insertEvent jid old new t d =
     d\<lparr>events_tbl := events_tbl d @
        [\<lparr>EvJobID = jid, OldStatus = Some old, NewStatus = new, EvWorkerID = None,
          EvReason = None, Occurred = t\<rparr>]\<rparr>"

definition insertInitialEvent :: "uuid \<Rightarrow> JobStatus \<Rightarrow> instant \<Rightarrow> db \<Rightarrow> db" where
  "insertInitialEvent jid new t d =
     d\<lparr>events_tbl := events_tbl d @
        [\<lparr>EvJobID = jid, OldStatus = None, NewStatus = new, EvWorkerID = None,
          EvReason = None, Occurred = t\<rparr>]\<rparr>"

definition insert_job :: "job_row \<Rightarrow> db \<Rightarrow> db" where
  "insert_job r d = d\<lparr>jobs_tbl := jobs_tbl d @ [r]\<rparr>"

lemma scanJobRow_fields [simp]:
  "JobID (scanJobRow r) = JobID r" "Status (scanJobRow r) = Status r"
  "Type (scanJobRow r) = Type r" "PayloadRef (scanJobRow r) = PayloadRef r"
  "QueueName (scanJobRow r) = QueueName r" "Priority (scanJobRow r) = Priority r"
  "AttemptCount (scanJobRow r) = AttemptCount r" "MaxRetry (scanJobRow r) = MaxRetry r"
  "WorkerID (scanJobRow r) = WorkerID r" "ClaimToken (scanJobRow r) = ClaimToken r"
  "IdempotencyKey (scanJobRow r) = IdempotencyKey r" "OwnerUserID (scanJobRow r) = OwnerUserID r"
  "SeriesID (scanJobRow r) = SeriesID r" "IsRecurring (scanJobRow r) = IsRecurring r"
  "CronExpr (scanJobRow r) = CronExpr r" "CronTZ (scanJobRow r) = CronTZ r"
  "ScheduledAt (scanJobRow r) = ScheduledAt r" "NotBefore (scanJobRow r) = NotBefore r"
  "CreatedAt (scanJobRow r) = CreatedAt r" "CompletedAt (scanJobRow r) = CompletedAt r"
  "HeartbeatAt (scanJobRow r) = HeartbeatAt r" "LastError (scanJobRow r) = LastError r"
  "Payload (scanJobRow r) = JNull" "MsgID (scanJobRow r) = []"
  by (cases r; simp add: scanJobRow_def zero_runtime_def job_row.defs Job.defs)+

lemma fetched_fields [simp]:
  "JobID (fetched lib r) = JobID r" "Status (fetched lib r) = Status r"
  "Type (fetched lib r) = Type r" "PayloadRef (fetched lib r) = PayloadRef r"
  "QueueName (fetched lib r) = QueueName r" "Priority (fetched lib r) = Priority r"
  "AttemptCount (fetched lib r) = AttemptCount r" "MaxRetry (fetched lib r) = MaxRetry r"
  "ClaimToken (fetched lib r) = ClaimToken r" "OwnerUserID (fetched lib r) = OwnerUserID r"
  "SeriesID (fetched lib r) = SeriesID r" "NotBefore (fetched lib r) = NotBefore r"
  "ScheduledAt (fetched lib r) = ScheduledAt r" "CreatedAt (fetched lib r) = CreatedAt r"
  "IsRecurring (fetched lib r) = IsRecurring r" "IdempotencyKey (fetched lib r) = IdempotencyKey r"
  by (simp_all add: fetched_def hydratePayload_def split: option.split)

subsection \<open>The invariant\<close>

text \<open>The status graph: the transitions the operations may record, \<open>None\<close> being birth.\<close>

fun status_edge :: "JobStatus option \<Rightarrow> JobStatus \<Rightarrow> bool" where
  "status_edge None s = (s \<in> {JobPending, JobQueued, JobScheduled})"
| "status_edge (Some JobScheduled) s = (s \<in> {JobPending, JobRunning, JobCancelled})"
| "status_edge (Some JobPending) s = (s \<in> {JobRunning, JobCancelled})"
| "status_edge (Some JobQueued) s = (s \<in> {JobRunning, JobCancelled})"
| "status_edge (Some JobRunning) s = (s \<in> {JobCompleted, JobPending, JobFailed})"
| "status_edge (Some JobFailed) s = (s = JobPending)"
| "status_edge (Some _) s = False"

definition row_inv :: "job_row \<Rightarrow> bool" where
  "row_inv r \<longleftrightarrow>
     Status r \<in> set db_statuses \<and>
     (ClaimToken r \<noteq> None \<longleftrightarrow> Status r \<in> {JobRunning, JobCompleted}) \<and>
     (CompletedAt r \<noteq> None \<longleftrightarrow> Status r \<in> {JobCompleted, JobFailed, JobCancelled}) \<and>
     (Status r = JobRunning \<longrightarrow>
        HeartbeatAt r \<noteq> None \<and> StartedAt r \<noteq> None \<and> WorkerID r \<noteq> None \<and> NotBefore r = None) \<and>
     (Status r = JobScheduled \<longrightarrow> ScheduledAt r \<noteq> None) \<and>
     is_int16 (AttemptCount r)"

fun ev_chain :: "JobStatus option \<Rightarrow> JobEvent list \<Rightarrow> JobStatus option \<Rightarrow> bool" where
  \<comment> \<open>the events lead from one status to another, each starting where the last one ended\<close>
  "ev_chain o1 [] o2 = (o1 = o2)"
| "ev_chain o1 (e # es) o2 = (OldStatus e = o1 \<and> ev_chain (Some (NewStatus e)) es o2)"

definition history :: "uuid \<Rightarrow> db \<Rightarrow> JobEvent list" where
  "history jid d = filter (\<lambda>e. EvJobID e = jid) (events_tbl d)"

definition job_inv :: "db \<Rightarrow> job_row \<Rightarrow> bool" where
  "job_inv d r \<longleftrightarrow>
     row_inv r \<and> ev_chain None (history (JobID r) d) (Some (Status r)) \<and>
     (\<forall>k. IdempotencyKey r = Some k \<and> k \<noteq> [] \<longrightarrow> map_of (idem_tbl d) k = Some (JobID r))"

definition store_inv :: "db \<Rightarrow> bool" where
  "store_inv d \<longleftrightarrow>
     distinct (map JobID (jobs_tbl d)) \<and>
     (\<forall>r \<in> set (jobs_tbl d). job_inv d r) \<and>
     (\<forall>e \<in> set (events_tbl d). status_edge (OldStatus e) (NewStatus e)) \<and>
     distinct (map fst (idem_tbl d))"

definition empty_db :: db where
  "empty_db = \<lparr>jobs_tbl = [], events_tbl = [], idem_tbl = [], retry_tbl = []\<rparr>"

lemma store_inv_empty [simp]: "store_inv empty_db"
  by (simp add: store_inv_def empty_db_def)

lemma ev_chain_snoc:
  "ev_chain o1 (es @ [e]) o2 \<longleftrightarrow> ev_chain o1 es (OldStatus e) \<and> o2 = Some (NewStatus e)"
  by (induction es arbitrary: o1) auto

lemma history_jobs_tbl [simp]: "history jid (d\<lparr>jobs_tbl := js\<rparr>) = history jid d"
  by (simp add: history_def)

lemma find_jobD: "find_job jid d = Some r \<Longrightarrow> r \<in> set (jobs_tbl d) \<and> JobID r = jid"
  by (auto simp: find_job_def dest: find_SomeD)

lemma find_job_mem:
  "store_inv d \<Longrightarrow> r \<in> set (jobs_tbl d) \<Longrightarrow> find_job (JobID r) d = Some r"
  by (simp add: find_job_def store_inv_def find_Some_iff_distinct)

lemma find_job_unique:
  "store_inv d \<Longrightarrow> find_job jid d = Some r \<Longrightarrow> r' \<in> set (jobs_tbl d) \<Longrightarrow> JobID r' = jid \<Longrightarrow> r' = r"
  using find_job_mem by fastforce

lemma store_inv_row: "store_inv d \<Longrightarrow> find_job jid d = Some r \<Longrightarrow> row_inv r"
  by (auto simp: store_inv_def job_inv_def dest: find_jobD)

lemma find_job_upd:
  assumes "\<And>r. JobID (f r) = JobID r"
  shows "find_job jid' (upd_job jid p f d) =
     (if jid' = jid then map_option (\<lambda>r. if p r then f r else r) (find_job jid d)
      else find_job jid' d)"
proof -
  have *: "List.find (\<lambda>r. JobID r = jid') (update_where (\<lambda>r. JobID r = jid \<and> p r) f rs) =
     (if jid' = jid then map_option (\<lambda>r. if p r then f r else r) (List.find (\<lambda>r. JobID r = jid) rs)
      else List.find (\<lambda>r. JobID r = jid') rs)" for rs
    by (induction rs) (auto simp: update_where_def assms)
  show ?thesis by (simp add: find_job_def upd_job_def *)
qed

lemma find_job_insertEvent [simp]: "find_job jid (insertEvent i a b t d) = find_job jid d"
  by (simp add: find_job_def insertEvent_def)

lemma find_job_insertInitialEvent [simp]:
  "find_job jid (insertInitialEvent i a t d) = find_job jid d"
  by (simp add: find_job_def insertInitialEvent_def)

lemma insertEvent_tbls [simp]:
  "jobs_tbl (insertEvent i a b t d) = jobs_tbl d" "idem_tbl (insertEvent i a b t d) = idem_tbl d"
  "retry_tbl (insertEvent i a b t d) = retry_tbl d"
  "events_tbl (insertEvent i a b t d) = events_tbl d @
     [\<lparr>EvJobID = i, OldStatus = Some a, NewStatus = b, EvWorkerID = None, EvReason = None,
       Occurred = t\<rparr>]"
  by (simp_all add: insertEvent_def)

lemma insertInitialEvent_tbls [simp]:
  "jobs_tbl (insertInitialEvent i b t d) = jobs_tbl d"
  "idem_tbl (insertInitialEvent i b t d) = idem_tbl d"
  "retry_tbl (insertInitialEvent i b t d) = retry_tbl d"
  "events_tbl (insertInitialEvent i b t d) = events_tbl d @
     [\<lparr>EvJobID = i, OldStatus = None, NewStatus = b, EvWorkerID = None, EvReason = None,
       Occurred = t\<rparr>]"
  by (simp_all add: insertInitialEvent_def)

lemma upd_job_tbls [simp]:
  "events_tbl (upd_job i p f d) = events_tbl d" "idem_tbl (upd_job i p f d) = idem_tbl d"
  "retry_tbl (upd_job i p f d) = retry_tbl d"
  by (simp_all add: upd_job_def)

lemma insert_job_tbls [simp]:
  "events_tbl (insert_job r d) = events_tbl d" "idem_tbl (insert_job r d) = idem_tbl d"
  "retry_tbl (insert_job r d) = retry_tbl d" "jobs_tbl (insert_job r d) = jobs_tbl d @ [r]"
  by (simp_all add: insert_job_def)

subsection \<open>Table-level preservation\<close>

definition keeps_keys :: "(job_row \<Rightarrow> job_row) \<Rightarrow> bool" where
  \<comment> \<open>a SET clause that leaves the identifying columns alone\<close>
  "keeps_keys f \<longleftrightarrow> (\<forall>r. JobID (f r) = JobID r \<and> IdempotencyKey (f r) = IdempotencyKey r)"

lemma keeps_keysD:
  "keeps_keys f \<Longrightarrow> JobID (f r) = JobID r" "keeps_keys f \<Longrightarrow> IdempotencyKey (f r) = IdempotencyKey r"
  by (auto simp: keeps_keys_def)

lemma distinct_upd_job:
  "keeps_keys f \<Longrightarrow> map JobID (jobs_tbl (upd_job jid p f d)) = map JobID (jobs_tbl d)"
  by (simp add: upd_job_def map_update_where keeps_keysD)

lemma upd_job_row:
  assumes "store_inv d" and "find_job jid d = Some r0" and "p r0" and "keeps_keys f"
    and "r \<in> set (jobs_tbl (upd_job jid p f d))"
  shows "(r \<in> set (jobs_tbl d) \<and> JobID r \<noteq> jid) \<or> (r = f r0 \<and> JobID r = jid)"
proof -
  from assms(5) obtain x where x: "x \<in> set (jobs_tbl d)"
      "r = (if JobID x = jid \<and> p x then f x else x)"
    by (auto simp: upd_job_def set_update_where)
  show ?thesis
  proof (cases "JobID x = jid")
    case True
    then have "x = r0" using find_job_unique [OF assms(1,2) x(1)] by simp
    then show ?thesis using x True assms(3,4) by (simp add: keeps_keysD)
  next
    case False
    then show ?thesis using x by simp
  qed
qed

lemma store_inv_transition:
  assumes "store_inv d" and "find_job jid d = Some r0" and "p r0" and "keeps_keys f"
    and "row_inv (f r0)" and "status_edge (Some (Status r0)) (Status (f r0))"
  shows "store_inv (insertEvent jid (Status r0) (Status (f r0)) t (upd_job jid p f d))"
    (is "store_inv ?d")
proof -
  have old: "job_inv d r" if "r \<in> set (jobs_tbl d)" for r
    using assms(1) that by (auto simp: store_inv_def)
  have hist: "history i ?d = history i d @
      (if i = jid then [\<lparr>EvJobID = jid, OldStatus = Some (Status r0), NewStatus = Status (f r0),
         EvWorkerID = None, EvReason = None, Occurred = t\<rparr>] else [])" for i
    by (auto simp: history_def)
  have r0: "job_inv d r0" "JobID r0 = jid" using assms(2) old by (auto dest: find_jobD)
  have "job_inv ?d r" if r: "r \<in> set (jobs_tbl ?d)" for r
  proof -
    from r have "r \<in> set (jobs_tbl (upd_job jid p f d))" by simp
    then consider (same) "r \<in> set (jobs_tbl d)" "JobID r \<noteq> jid" | (new) "r = f r0" "JobID r = jid"
      using upd_job_row [where p = p, OF assms(1-4)] by blast
    then show ?thesis
    proof cases
      case same
      then show ?thesis using old [of r] by (simp add: job_inv_def hist)
    next
      case new
      then show ?thesis using r0 assms(5)
        by (simp add: job_inv_def hist ev_chain_snoc keeps_keysD [OF assms(4)])
    qed
  qed
  moreover have "distinct (map JobID (jobs_tbl ?d))"
    using assms(1,4) by (simp add: store_inv_def distinct_upd_job)
  ultimately show ?thesis using assms(1,6) by (simp add: store_inv_def)
qed

lemma upd_job_none:
  assumes "store_inv d" and "\<And>r. find_job jid d = Some r \<Longrightarrow> \<not> p r"
  shows "upd_job jid p f d = d"
proof -
  have "\<not> (JobID r = jid \<and> p r)" if "r \<in> set (jobs_tbl d)" for r
    using assms(2) find_job_mem [OF assms(1) that] by auto
  then have "map (\<lambda>r. if JobID r = jid \<and> p r then f r else r) (jobs_tbl d) = jobs_tbl d"
    by (intro map_idI) auto
  then show ?thesis by (simp add: upd_job_def update_where_def)
qed

lemma store_inv_touch:
  assumes "store_inv d" and "keeps_keys f"
    and "\<And>r. find_job jid d = Some r \<Longrightarrow> p r \<Longrightarrow> row_inv (f r) \<and> Status (f r) = Status r"
  shows "store_inv (upd_job jid p f d)"
proof (cases "\<exists>r0. find_job jid d = Some r0 \<and> p r0")
  case False
  have "upd_job jid p f d = d" using upd_job_none [OF assms(1)] False by blast
  then show ?thesis using assms(1) by simp
next
  case True
  then obtain r0 where r0: "find_job jid d = Some r0" "p r0" by auto
  have old: "job_inv d r" if "r \<in> set (jobs_tbl d)" for r
    using assms(1) that by (auto simp: store_inv_def)
  have hist: "history i (upd_job jid p f d) = history i d" for i by (simp add: history_def)
  have "job_inv (upd_job jid p f d) r" if r: "r \<in> set (jobs_tbl (upd_job jid p f d))" for r
  proof -
    from r consider (same) "r \<in> set (jobs_tbl d)" "JobID r \<noteq> jid" | (new) "r = f r0" "JobID r = jid"
      using upd_job_row [where p = p, OF assms(1) r0 assms(2)] by blast
    then show ?thesis
    proof cases
      case same
      then show ?thesis using old [of r] by (simp add: job_inv_def hist)
    next
      case new
      then show ?thesis using old [of r0] find_jobD [OF r0(1)] assms(3) [OF r0]
        by (simp add: job_inv_def hist keeps_keysD [OF assms(2)])
    qed
  qed
  then show ?thesis using assms(1,2) by (simp add: store_inv_def distinct_upd_job)
qed

definition fresh_id :: "uuid \<Rightarrow> db \<Rightarrow> bool" where
  \<comment> \<open>no row, event or key mentions the identifier: what \<open>uuid.New()\<close> is relied on for\<close>
  "fresh_id i d \<longleftrightarrow>
     (\<forall>r \<in> set (jobs_tbl d). JobID r \<noteq> i) \<and> (\<forall>e \<in> set (events_tbl d). EvJobID e \<noteq> i) \<and>
     (\<forall>p \<in> set (idem_tbl d). snd p \<noteq> i)"

lemma store_inv_insert:
  assumes "store_inv d" and "fresh_id (JobID r) d" and "row_inv r"
    and "status_edge None (Status r)"
    and "\<forall>k. IdempotencyKey r = Some k \<and> k \<noteq> [] \<longrightarrow> map_of (idem_tbl d) k = None"
  shows "store_inv (insertInitialEvent (JobID r) (Status r) t
           ((insert_job r d)\<lparr>idem_tbl := (case IdempotencyKey r of
              Some k \<Rightarrow> if k \<noteq> [] then (k, JobID r) # idem_tbl d else idem_tbl d
            | None \<Rightarrow> idem_tbl d)\<rparr>))"
    (is "store_inv ?d")
proof -
  have old: "job_inv d x" "JobID x \<noteq> JobID r" if "x \<in> set (jobs_tbl d)" for x
    using assms(1,2) that by (auto simp: store_inv_def fresh_id_def)
  have hist: "history i ?d = history i d @
      (if i = JobID r then [\<lparr>EvJobID = JobID r, OldStatus = None, NewStatus = Status r,
         EvWorkerID = None, EvReason = None, Occurred = t\<rparr>] else [])" for i
    by (auto simp: history_def)
  have "history (JobID r) d = []"
    using assms(2) by (auto simp: fresh_id_def history_def filter_empty_conv)
  then have new: "job_inv ?d r"
    using assms(3) by (auto simp: job_inv_def hist split: option.splits)
  have keys: "map_of (idem_tbl d) k = Some i \<Longrightarrow> map_of (idem_tbl ?d) k = Some i" for k i
    using assms(5) by (auto split: option.splits)
  have "job_inv ?d x" if "x \<in> set (jobs_tbl d)" for x
  proof -
    have "history (JobID x) ?d = history (JobID x) d" using old(2) [OF that] by (simp add: hist)
    then show ?thesis using old(1) [OF that] keys by (auto simp: job_inv_def)
  qed
  with new have "\<forall>x \<in> set (jobs_tbl ?d). job_inv ?d x" by simp
  moreover have "distinct (map JobID (jobs_tbl ?d))"
    using assms(1,2) by (auto simp: store_inv_def fresh_id_def)
  moreover have "distinct (map fst (idem_tbl ?d))"
  proof -
    have "k \<notin> fst ` set (idem_tbl d)" if "IdempotencyKey r = Some k" "k \<noteq> []" for k
      using assms(5) that by (auto simp: map_of_eq_None_iff)
    then show ?thesis using assms(1) by (auto simp: store_inv_def split: option.splits)
  qed
  ultimately show ?thesis using assms(1,4) by (simp add: store_inv_def)
qed

lemma store_inv_delete:
  assumes "store_inv d"
    and "\<And>r k. r \<in> set (filter q (jobs_tbl d)) \<Longrightarrow> IdempotencyKey r = Some k \<Longrightarrow> k \<noteq> [] \<Longrightarrow>
           keep (k, JobID r)"
  shows "store_inv (d\<lparr>jobs_tbl := filter q (jobs_tbl d), idem_tbl := filter keep (idem_tbl d)\<rparr>)"
    (is "store_inv ?d")
proof -
  have hist: "history i ?d = history i d" for i by (simp add: history_def)
  have dk: "distinct (map fst (idem_tbl d))" using assms(1) by (simp add: store_inv_def)
  have "job_inv ?d r" if r: "r \<in> set (filter q (jobs_tbl d))" for r
  proof -
    have j: "job_inv d r" using assms(1) r by (simp add: store_inv_def)
    have "map_of (filter keep (idem_tbl d)) k = Some (JobID r)"
      if k: "IdempotencyKey r = Some k" "k \<noteq> []" for k
    proof -
      have "(k, JobID r) \<in> set (idem_tbl d)"
        using j k by (auto simp: job_inv_def dest: map_of_SomeD)
      then have "(k, JobID r) \<in> set (filter keep (idem_tbl d))" using assms(2) [OF r k] by simp
      moreover have "distinct (map fst (filter keep (idem_tbl d)))"
        using dk by (simp add: distinct_map_filter)
      ultimately show ?thesis by simp
    qed
    with j show ?thesis by (simp add: job_inv_def hist)
  qed
  moreover have "distinct (map JobID (filter q (jobs_tbl d)))"
    using assms(1) by (simp add: store_inv_def distinct_map_filter)
  ultimately show ?thesis using assms(1) dk by (simp add: store_inv_def distinct_map_filter)
qed

lemma store_inv_retry_tbl [simp]: "store_inv (d\<lparr>retry_tbl := x\<rparr>) \<longleftrightarrow> store_inv d"
  by (simp add: store_inv_def job_inv_def history_def)

lemma store_inv_commit:
  "store_inv d0 \<Longrightarrow> store_inv d1 \<Longrightarrow> store_inv (snd (commit_tx flt d0 d1 x))"
  by (simp add: commit_tx_def)

end
