(* ===== verification/Jobs_Ops.thy ===== *)
theory Jobs_Ops
  imports Jobs_Schema
begin

text \<open>
  The operator side of the job store, \<open>internal/storage/jobs/jobs_ops.go\<close>: retry keys,
  manual retry, cancellation of a job and of a series, listing and statistics.
  \<open>locked\<close> is the set of rows other sessions hold, which \<open>SKIP LOCKED\<close> leaves out.
\<close>

subsection \<open>Owner scoping\<close>

definition nullableOwner :: "uuid list \<Rightarrow> uuid option" where
  "nullableOwner owner =
     (case owner of [] \<Rightarrow> None | u # _ \<Rightarrow> if u \<noteq> uuid_Nil then Some u else None)"

definition owner_ok :: "uuid option \<Rightarrow> job_row \<Rightarrow> bool" where
  \<comment> \<open>\<open>($n::UUID IS NULL OR owner_user_id = $n)\<close>\<close>
  "owner_ok o1 r = (case o1 of None \<Rightarrow> True | Some u \<Rightarrow> OwnerUserID r = Some u)"

subsection \<open>Retry keys and manual retry\<close>

definition RecordRetryKey :: "faults \<Rightarrow> string \<Rightarrow> uuid \<Rightarrow> db \<Rightarrow> bool result \<times> db" where
  "RecordRetryKey flt key jobID d =
     (if key = [] then (Inr False, d)
      else if flt InsertKey then (Inl (DbErr InsertKey), d)
      else
        let fresh = (map_of (retry_tbl d) key = None);
            d1 = (if fresh then d\<lparr>retry_tbl := (key, jobID) # retry_tbl d\<rparr> else d)
        in if flt CountRows then (Inl (DbErr CountRows), d1)
           else if fresh then (Inr False, d1)
           else if flt CheckKey then (Inl (DbErr CheckKey), d1)
           else (case map_of (retry_tbl d1) key of
                   None \<Rightarrow> (Inl (DbErr CheckKey), d1)
                 | Some owner \<Rightarrow>
                     if owner \<noteq> jobID then (Inl ErrRetryKeyConflict, d1) else (Inr True, d1)))"

definition set_retried :: "job_row \<Rightarrow> job_row" where
  "set_retried r =
     r\<lparr>Status := JobPending, AttemptCount := 0, ClaimToken := None, WorkerID := None,
       LastError := None, NotBefore := None, CompletedAt := None\<rparr>"

definition RetryJob :: "golib \<Rightarrow> faults \<Rightarrow> instant \<Rightarrow> uuid \<Rightarrow> db \<Rightarrow> Job result \<times> db" where
  "RetryJob lib flt dbnow jobID d =
     (if flt BeginTx then (Inl (DbErr BeginTx), d)
      else if flt SelectRows then (Inl (DbErr SelectRows), d)
      else case find_job jobID d of
        None \<Rightarrow> (Inl ErrNotRetryable, d)
      | Some job \<Rightarrow>
          if Status job \<noteq> JobFailed then (Inl ErrNotRetryable, d)
          else if flt (UpdateRow jobID) then (Inl (DbErr (UpdateRow jobID)), d)
          else if flt (InsertEv jobID) then (Inl (DbErr (InsertEv jobID)), d)
          else commit_tx flt d
                 (insertEvent jobID JobFailed JobPending dbnow (upd_job jobID any_row set_retried d))
                 (fetched lib (set_retried job)))"

subsection \<open>Cancellation\<close>

definition cancellable :: "JobStatus \<Rightarrow> bool" where
  "cancellable s \<longleftrightarrow> s = JobScheduled \<or> s = JobPending \<or> s = JobQueued"

definition set_cancelled :: "instant \<Rightarrow> job_row \<Rightarrow> job_row" where
  "set_cancelled dbnow r = r\<lparr>Status := JobCancelled, CompletedAt := Some dbnow\<rparr>"

definition CancelJob :: "golib \<Rightarrow> faults \<Rightarrow> instant \<Rightarrow> uuid \<Rightarrow> db \<Rightarrow> Job result \<times> db" where
  "CancelJob lib flt dbnow jobID d =
     (if flt BeginTx then (Inl (DbErr BeginTx), d)
      else if flt SelectRows then (Inl (DbErr SelectRows), d)
      else case find_job jobID d of
        None \<Rightarrow> (Inl ErrNotCancellable, d)
      | Some job \<Rightarrow>
          if \<not> cancellable (Status job) then (Inl ErrNotCancellable, d)
          else if flt (UpdateRow jobID) then (Inl (DbErr (UpdateRow jobID)), d)
          else if flt (InsertEv jobID) then (Inl (DbErr (InsertEv jobID)), d)
          else commit_tx flt d
                 (insertEvent jobID (Status job) JobCancelled dbnow
                    (upd_job jobID any_row (set_cancelled dbnow) d))
                 (fetched lib (set_cancelled dbnow job)))"

fun cancel_loop ::
  "faults \<Rightarrow> instant \<Rightarrow> (uuid \<times> JobStatus) list \<Rightarrow> db \<Rightarrow> int \<Rightarrow> (int \<times> db) result" where
  "cancel_loop flt dbnow [] d n = Inr (n, d)"
| "cancel_loop flt dbnow ((i, st) # cs) d n =
     (if flt (UpdateRow i) then Inl (DbErr (UpdateRow i))
      else
        let hit = (\<exists>r \<in> set (jobs_tbl d). JobID r = i \<and> cancellable (Status r));
            d1 = upd_job i (\<lambda>r. cancellable (Status r)) (set_cancelled dbnow) d
        in if flt CountRows then Inl (DbErr CountRows)
           else if \<not> hit then cancel_loop flt dbnow cs d1 n
           else if flt (InsertEv i) then Inl (DbErr (InsertEv i))
           else cancel_loop flt dbnow cs (insertEvent i st JobCancelled dbnow d1) (n + 1))"

definition series_targets :: "(uuid \<Rightarrow> bool) \<Rightarrow> uuid \<Rightarrow> uuid option \<Rightarrow> db \<Rightarrow> job_row list" where
  "series_targets locked seriesID owner d =
     order_by_null ScheduledAt
       (filter (\<lambda>r. SeriesID r = Some seriesID \<and> cancellable (Status r) \<and> owner_ok owner r \<and>
                    \<not> locked (JobID r)) (jobs_tbl d))"

definition CancelSeries ::
  "faults \<Rightarrow> (uuid \<Rightarrow> bool) \<Rightarrow> instant \<Rightarrow> uuid \<Rightarrow> uuid list \<Rightarrow> db \<Rightarrow> int result \<times> db" where
  "CancelSeries flt locked dbnow seriesID owner d =
     (if flt BeginTx then (Inl (DbErr BeginTx), d)
      else if flt SelectRows then (Inl (DbErr SelectRows), d)
      else
        let targets = map (\<lambda>r. (JobID r, Status r))
                        (series_targets locked seriesID (nullableOwner owner) d)
        in case cancel_loop flt dbnow targets d 0 of
             Inl e \<Rightarrow> (Inl e, d)
           | Inr (n, d1) \<Rightarrow> commit_tx flt d d1 n)"

subsection \<open>Listing\<close>

definition status_filter :: "string \<Rightarrow> job_row \<Rightarrow> bool" where
  \<comment> \<open>\<open>($1 = '' OR status = $1::job_status)\<close>\<close>
  "status_filter status r \<longleftrightarrow> status = [] \<or> status_string (Status r) = status"

definition bad_status :: "string \<Rightarrow> bool" where
  \<comment> \<open>the cast to the enum fails\<close>
  "bad_status status \<longleftrightarrow> status \<noteq> [] \<and> status \<notin> set (map status_string db_statuses)"

definition page :: "int \<Rightarrow> int \<Rightarrow> job_row list \<Rightarrow> job_row list" where
  "page limit offset rs =
     limit_to (clamp_limit 50 100 limit) (drop (nat (if offset < 0 then 0 else offset)) rs)"

definition ListSeriesJobs ::
  "golib \<Rightarrow> faults \<Rightarrow> uuid \<Rightarrow> string \<Rightarrow> int \<Rightarrow> int \<Rightarrow> uuid list \<Rightarrow> db \<Rightarrow> Job list result" where
  "ListSeriesJobs lib flt seriesID status limit offset owner d =
     (if flt SelectRows \<or> bad_status status then Inl (DbErr SelectRows)
      else Inr (map (fetched lib) (page limit offset (order_by_desc CreatedAt
        (filter (\<lambda>r. SeriesID r = Some seriesID \<and> status_filter status r \<and>
                     owner_ok (nullableOwner owner) r) (jobs_tbl d))))))"

definition ListJobs ::
  "golib \<Rightarrow> faults \<Rightarrow> string \<Rightarrow> int \<Rightarrow> int \<Rightarrow> uuid list \<Rightarrow> db \<Rightarrow> Job list result" where
  "ListJobs lib flt status limit offset owner d =
     (if flt SelectRows \<or> bad_status status then Inl (DbErr SelectRows)
      else Inr (map (fetched lib) (page limit offset (order_by_desc CreatedAt
        (filter (\<lambda>r. status_filter status r \<and> owner_ok (nullableOwner owner) r) (jobs_tbl d))))))"

subsection \<open>Statistics\<close>

record Stats =
  n_scheduled :: int
  n_pending :: int
  n_queued :: int
  n_running :: int
  n_completed :: int
  n_failed :: int
  n_cancelled :: int

definition zero_stats :: Stats where
  "zero_stats = \<lparr>n_scheduled = 0, n_pending = 0, n_queued = 0, n_running = 0, n_completed = 0,
                 n_failed = 0, n_cancelled = 0\<rparr>"

fun store_count :: "JobStatus \<times> int \<Rightarrow> Stats \<Rightarrow> Stats" where
  "store_count (JobScheduled, n) s = s\<lparr>n_scheduled := n\<rparr>"
| "store_count (JobPending, n) s = s\<lparr>n_pending := n\<rparr>"
| "store_count (JobQueued, n) s = s\<lparr>n_queued := n\<rparr>"
| "store_count (JobRunning, n) s = s\<lparr>n_running := n\<rparr>"
| "store_count (JobCompleted, n) s = s\<lparr>n_completed := n\<rparr>"
| "store_count (JobFailed, n) s = s\<lparr>n_failed := n\<rparr>"
| "store_count (JobCancelled, n) s = s\<lparr>n_cancelled := n\<rparr>"
| "store_count (JobStatusOther _, n) s = s"

definition count_status :: "JobStatus \<Rightarrow> job_row list \<Rightarrow> int" where
  "count_status s rs = int (length (filter (\<lambda>r. Status r = s) rs))"

definition status_groups :: "job_row list \<Rightarrow> (JobStatus \<times> int) list" where
  \<comment> \<open>\<open>SELECT status, count(*) ... GROUP BY status\<close>\<close>
  "status_groups rs = map (\<lambda>s. (s, count_status s rs)) (remdups (map Status rs))"

definition JobStats :: "faults \<Rightarrow> uuid list \<Rightarrow> db \<Rightarrow> Stats result" where
  "JobStats flt owner d =
     (if flt BeginTx then Inl (DbErr BeginTx)
      else if flt SelectRows then Inl (DbErr SelectRows)
      else
        let stats = fold store_count
              (status_groups (filter (owner_ok (nullableOwner owner)) (jobs_tbl d))) zero_stats
        in if flt CommitTx then Inl (DbErr CommitTx)
           else if flt CommitAck then Inl (DbErr CommitAck) else Inr stats)"

definition round_sec :: "duration \<Rightarrow> int" where
  \<comment> \<open>the cast of a numeric to BIGINT: nearest, halves away from zero\<close>
  "round_sec t =
     (if 0 \<le> t then (t + second div 2) div second else - ((- t + second div 2) div second))"

definition OldestPendingAgeSec :: "faults \<Rightarrow> instant \<Rightarrow> uuid list \<Rightarrow> db \<Rightarrow> int result" where
  "OldestPendingAgeSec flt dbnow owner d =
     (if flt SelectRows then Inl (DbErr SelectRows)
      else
        let rs = filter (\<lambda>r. Status r \<in> {JobPending, JobQueued} \<and>
                             owner_ok (nullableOwner owner) r) (jobs_tbl d)
        in if rs = [] then Inr 0
           else Inr (round_sec (dbnow - Min (CreatedAt ` set rs))))"

subsection \<open>Lemmas\<close>

lemma set_retried_simps [simp]:
  "JobID (set_retried r) = JobID r" "Status (set_retried r) = JobPending"
  "IdempotencyKey (set_retried r) = IdempotencyKey r" "AttemptCount (set_retried r) = 0"
  "NotBefore (set_retried r) = None" "ClaimToken (set_retried r) = None"
  "QueueName (set_retried r) = QueueName r" "Priority (set_retried r) = Priority r"
  by (simp_all add: set_retried_def)

lemma set_cancelled_simps [simp]:
  "JobID (set_cancelled n r) = JobID r" "Status (set_cancelled n r) = JobCancelled"
  "IdempotencyKey (set_cancelled n r) = IdempotencyKey r"
  "SeriesID (set_cancelled n r) = SeriesID r" "OwnerUserID (set_cancelled n r) = OwnerUserID r"
  by (simp_all add: set_cancelled_def)

lemma keeps_keys_ops [simp]: "keeps_keys set_retried" "keeps_keys (set_cancelled n)"
  by (simp_all add: keeps_keys_def)

lemma row_inv_set_retried: "row_inv r \<Longrightarrow> row_inv (set_retried r)"
  by (simp add: row_inv_def set_retried_def db_statuses_def is_int16_def)

lemma row_inv_set_cancelled:
  "row_inv r \<Longrightarrow> cancellable (Status r) \<Longrightarrow> row_inv (set_cancelled n r)"
  by (simp add: row_inv_def cancellable_def db_statuses_def set_cancelled_def)
    (elim conjE disjE; simp)

lemma cancellable_edge: "cancellable s \<Longrightarrow> status_edge (Some s) JobCancelled"
  by (auto simp: cancellable_def)

lemma RetryJob_inv [inv_rules]:
  assumes "store_inv d"
  shows "store_inv (snd (RetryJob lib flt dbnow jobID d))"
proof -
  have "store_inv (insertEvent jobID JobFailed JobPending dbnow (upd_job jobID any_row set_retried d))"
    if "find_job jobID d = Some job" "Status job = JobFailed" for job
    using store_inv_transition [OF assms that(1), of any_row set_retried dbnow]
      that row_inv_set_retried [OF store_inv_row [OF assms that(1)]] by simp
  then show ?thesis using assms
    by (auto simp: RetryJob_def intro!: store_inv_commit split: option.split)
qed

lemma RecordRetryKey_inv [inv_rules]:
  "store_inv d \<Longrightarrow> store_inv (snd (RecordRetryKey flt key jobID d))"
  by (simp add: RecordRetryKey_def Let_def split: option.split)

lemma store_inv_cancel:
  assumes "store_inv d" and "find_job i d = Some r0" and "cancellable (Status r0)"
    and "\<And>r. r = r0 \<Longrightarrow> p r"
  shows "store_inv (insertEvent i (Status r0) JobCancelled t (upd_job i p (set_cancelled n) d))"
  using store_inv_transition [OF assms(1,2), of p "set_cancelled n" t] assms(3,4)
    row_inv_set_cancelled [OF store_inv_row [OF assms(1,2)]] cancellable_edge by simp

lemma CancelJob_inv [inv_rules]:
  assumes "store_inv d"
  shows "store_inv (snd (CancelJob lib flt dbnow jobID d))"
  using assms store_inv_cancel [OF assms, where p = any_row and t = dbnow and n = dbnow and i = jobID]
  by (auto simp: CancelJob_def intro!: store_inv_commit split: option.split)

definition live_targets :: "(uuid \<times> JobStatus) list \<Rightarrow> db \<Rightarrow> bool" where
  "live_targets cs d \<longleftrightarrow> distinct (map fst cs) \<and>
     (\<forall>(i, st) \<in> set cs. \<exists>r. find_job i d = Some r \<and> Status r = st \<and> cancellable st)"

lemma live_targets_step:
  assumes "live_targets ((i, st) # cs) d"
  shows "live_targets cs (insertEvent i st JobCancelled t (upd_job i p (set_cancelled n) d))"
proof -
  have "find_job j (insertEvent i st JobCancelled t (upd_job i p (set_cancelled n) d)) = find_job j d"
    if "(j, s) \<in> set cs" for j s
  proof -
    have "j \<noteq> i" using assms that by (force simp: live_targets_def)
    then show ?thesis by (simp add: find_job_upd)
  qed
  then show ?thesis using assms unfolding live_targets_def by (fastforce split: prod.splits)
qed

lemma live_target_hd:
  assumes "live_targets ((i, st) # cs) d"
  obtains r where "find_job i d = Some r" "Status r = st" "cancellable st"
    "\<exists>r \<in> set (jobs_tbl d). JobID r = i \<and> cancellable (Status r)"
proof -
  from assms obtain r where r: "find_job i d = Some r" "Status r = st" "cancellable st"
    by (auto simp: live_targets_def)
  with find_jobD [OF r(1)] have "\<exists>r \<in> set (jobs_tbl d). JobID r = i \<and> cancellable (Status r)"
    by blast
  with r that show ?thesis by blast
qed

lemma cancel_loop_inv:
  "store_inv d \<Longrightarrow> live_targets cs d \<Longrightarrow> cancel_loop flt dbnow cs d n = Inr (m, d') \<Longrightarrow>
     store_inv d' \<and> m = n + int (length cs)"
proof (induction cs arbitrary: d n)
  case Nil
  then show ?case by simp
next
  case (Cons c cs)
  obtain i st where c: "c = (i, st)" by (cases c)
  let ?d1 = "upd_job i (\<lambda>r. cancellable (Status r)) (set_cancelled dbnow) d"
  from Cons.prems(2) obtain r where r: "find_job i d = Some r" "Status r = st" "cancellable st"
      "\<exists>r \<in> set (jobs_tbl d). JobID r = i \<and> cancellable (Status r)"
    unfolding c by (rule live_target_hd)
  have "store_inv (insertEvent i st JobCancelled dbnow ?d1)"
    using store_inv_cancel [OF Cons.prems(1) r(1), of "\<lambda>r. cancellable (Status r)"] r by simp
  moreover have "live_targets cs (insertEvent i st JobCancelled dbnow ?d1)"
    using Cons.prems(2) unfolding c by (rule live_targets_step)
  moreover have "cancel_loop flt dbnow cs (insertEvent i st JobCancelled dbnow ?d1) (n + 1) = Inr (m, d')"
    using Cons.prems(3) r(4) by (simp add: c Let_def split: if_splits)
  ultimately show ?case using Cons.IH by fastforce
qed

lemma CancelSeries_targets_live:
  assumes "store_inv d"
  shows "live_targets (map (\<lambda>r. (JobID r, Status r)) (series_targets locked s o1 d)) d"
proof -
  have "distinct (map JobID (filter P (jobs_tbl d)))" for P
    using assms by (simp add: store_inv_def distinct_map_filter)
  then have "distinct (map JobID (series_targets locked s o1 d))"
    unfolding series_targets_def by (rule distinct_order_by_null)
  then show ?thesis
    using find_job_mem [OF assms] by (auto simp: live_targets_def series_targets_def comp_def)
qed

lemma CancelSeries_inv [inv_rules]:
  assumes "store_inv d"
  shows "store_inv (snd (CancelSeries flt locked dbnow s owner d))"
  using assms cancel_loop_inv [OF assms CancelSeries_targets_live [OF assms]]
  by (auto simp: CancelSeries_def Let_def intro!: store_inv_commit split: sum.split)

end
