(* ===== verification/Jobs_Queries.thy ===== *)
theory Jobs_Queries
  imports Jobs_Ops
begin

text \<open>
  Creation and single-job reads, \<open>internal/storage/jobs/jobs_queueries.go\<close>: \<open>CreateJob\<close>
  with its idempotency key, \<open>GetJobByID\<close> and \<open>GetJobEvents\<close>. \<open>newid\<close> is the value
  \<open>uuid.New()\<close> returns.
\<close>

subsection \<open>Operations\<close>

definition create_defaults :: "uuid \<Rightarrow> instant \<Rightarrow> Job \<Rightarrow> Job" where
  \<comment> \<open>the zero-value defaults at the head of \<open>CreateJob\<close>\<close>
  "create_defaults newid now inp =
     inp\<lparr>JobID := (if JobID inp = uuid_Nil then newid else JobID inp),
        Status := (if Status inp = JobStatusOther [] then JobPending else Status inp),
        CreatedAt := (if CreatedAt inp = zero_time then now else CreatedAt inp),
        MaxRetry := (if MaxRetry inp = 0 then 3 else MaxRetry inp)\<rparr>"

definition create_payload_ref :: "golib \<Rightarrow> Job \<Rightarrow> string option" where
  "create_payload_ref lib inp =
     (case PayloadRef inp of
        Some s \<Rightarrow> Some s
      | None \<Rightarrow> if Payload inp \<noteq> JNull then json_Marshal lib (Payload inp) else None)"

definition create_cron_tz :: "Job \<Rightarrow> string option" where
  "create_cron_tz inp = (case nonempty (CronTZ inp) of None \<Rightarrow> Some ''UTC'' | Some s \<Rightarrow> Some s)"

definition created_row :: "golib \<Rightarrow> Job \<Rightarrow> job_row" where
  \<comment> \<open>the inserted row: the columns of \<open>insertJob\<close>, the others NULL\<close>
  "created_row lib inp =
     zero_row\<lparr>JobID := JobID inp, Status := Status inp, Type := Type inp,
       PayloadRef := create_payload_ref lib inp, QueueName := QueueName inp,
       Priority := Priority inp, AttemptCount := AttemptCount inp, MaxRetry := MaxRetry inp,
       IdempotencyKey := IdempotencyKey inp, OwnerUserID := OwnerUserID inp,
       CronExpr := CronExpr inp, CronTZ := create_cron_tz inp, SeriesID := SeriesID inp,
       IsRecurring := IsRecurring inp, ScheduledAt := ScheduledAt inp,
       NotBefore := NotBefore inp, CreatedAt := CreatedAt inp\<rparr>"

definition created_job :: "golib \<Rightarrow> Job \<Rightarrow> Job" where
  \<comment> \<open>the returned \<open>out\<close>\<close>
  "created_job lib inp = (scanJobRow (created_row lib inp))\<lparr>Payload := Payload inp\<rparr>"

definition key_conflict :: "job_row \<Rightarrow> db \<Rightarrow> bool" where
  \<comment> \<open>\<open>ON CONFLICT (idempotency_key, created_at) WHERE idempotency_key IS NOT NULL\<close>\<close>
  "key_conflict r d \<longleftrightarrow> IdempotencyKey r \<noteq> None \<and>
     (\<exists>x \<in> set (jobs_tbl d). IdempotencyKey x = IdempotencyKey r \<and> CreatedAt x = CreatedAt r)"

definition pk_conflict :: "job_row \<Rightarrow> db \<Rightarrow> bool" where
  "pk_conflict r d \<longleftrightarrow> (\<exists>x \<in> set (jobs_tbl d). JobID x = JobID r \<and> CreatedAt x = CreatedAt r)"

definition claim_key :: "string \<Rightarrow> uuid \<Rightarrow> db \<Rightarrow> db" where
  \<comment> \<open>\<open>INSERT INTO job_idempotency ... ON CONFLICT DO NOTHING\<close>\<close>
  "claim_key key jobID d =
     (if map_of (idem_tbl d) key = None then d\<lparr>idem_tbl := (key, jobID) # idem_tbl d\<rparr> else d)"

definition CreateJob ::
  "golib \<Rightarrow> faults \<Rightarrow> uuid \<Rightarrow> instant \<Rightarrow> instant \<Rightarrow> Job \<Rightarrow> db \<Rightarrow> Job result \<times> db" where
  "CreateJob lib flt newid now dbnow inp0 d =
     (let inp = create_defaults newid now inp0; r = created_row lib inp in
      if flt BeginTx then (Inl (DbErr BeginTx), d)
      else if flt (InsertRow (JobID r)) \<or> Status r \<notin> set db_statuses
        then (Inl (DbErr (InsertRow (JobID r))), d)
      else if key_conflict r d then (Inl ErrJobExists, d)
      else if pk_conflict r d then (Inl (DbErr (InsertRow (JobID r))), d)
      else
        let d1 = insert_job r d in
        (case nonempty (IdempotencyKey inp) of
           None \<Rightarrow>
             if flt (InsertEv (JobID r)) then (Inl (DbErr (InsertEv (JobID r))), d)
             else commit_tx flt d (insertInitialEvent (JobID r) (Status r) dbnow d1)
                    (created_job lib inp)
         | Some key \<Rightarrow>
             if flt InsertKey then (Inl (DbErr InsertKey), d)
             else
               let d2 = claim_key key (JobID r) d1 in
               if flt CheckKey then (Inl (DbErr CheckKey), d)
               else if map_of (idem_tbl d2) key \<noteq> Some (JobID r) then (Inl ErrJobExists, d)
               else if flt (InsertEv (JobID r)) then (Inl (DbErr (InsertEv (JobID r))), d)
               else commit_tx flt d (insertInitialEvent (JobID r) (Status r) dbnow d2)
                      (created_job lib inp)))"

definition GetJobByID :: "golib \<Rightarrow> faults \<Rightarrow> uuid \<Rightarrow> uuid list \<Rightarrow> db \<Rightarrow> Job result" where
  "GetJobByID lib flt jobID owner d =
     (if flt SelectRows then Inl (DbErr SelectRows)
      else case List.find (\<lambda>r. JobID r = jobID \<and> owner_ok (nullableOwner owner) r) (jobs_tbl d) of
        None \<Rightarrow> Inl ErrNoRows
      | Some r \<Rightarrow> Inr (fetched lib r))"

definition GetJobEvents :: "faults \<Rightarrow> uuid \<Rightarrow> db \<Rightarrow> JobEvent list result" where
  "GetJobEvents flt jobID d =
     (if flt SelectRows then Inl (DbErr SelectRows)
      else Inr (order_by Occurred (history jobID d)))"

subsection \<open>Lemmas\<close>

lemma created_row_simps [simp]:
  "JobID (created_row lib inp) = JobID inp" "Status (created_row lib inp) = Status inp"
  "IdempotencyKey (created_row lib inp) = IdempotencyKey inp"
  "CreatedAt (created_row lib inp) = CreatedAt inp" "ScheduledAt (created_row lib inp) = ScheduledAt inp"
  "AttemptCount (created_row lib inp) = AttemptCount inp"
  "ClaimToken (created_row lib inp) = None" "CompletedAt (created_row lib inp) = None"
  "OwnerUserID (created_row lib inp) = OwnerUserID inp" "MaxRetry (created_row lib inp) = MaxRetry inp"
  "QueueName (created_row lib inp) = QueueName inp" "Priority (created_row lib inp) = Priority inp"
  by (simp_all add: created_row_def zero_row_def)

definition initial_job :: "Job \<Rightarrow> bool" where
  \<comment> \<open>what the callers of \<open>CreateJob\<close> pass: no identifier, a birth status, a schedule
     instant for scheduled jobs\<close>
  "initial_job inp \<longleftrightarrow>
     JobID inp = uuid_Nil \<and>
     Status inp \<in> {JobStatusOther [], JobPending, JobQueued, JobScheduled} \<and>
     (Status inp = JobScheduled \<longrightarrow> ScheduledAt inp \<noteq> None) \<and> is_int16 (AttemptCount inp)"

lemma row_inv_created:
  assumes "initial_job inp"
  shows "row_inv (created_row lib (create_defaults newid now inp))"
    and "status_edge None (Status (create_defaults newid now inp))"
  using assms by (auto simp: row_inv_def initial_job_def create_defaults_def db_statuses_def)

lemma CreateJob_applied_inv:
  assumes "store_inv d" and "initial_job inp0" and "fresh_id newid d"
    and "r = created_row lib (create_defaults newid now inp0)"
  shows "nonempty (IdempotencyKey r) = None \<Longrightarrow>
           store_inv (insertInitialEvent (JobID r) (Status r) dbnow (insert_job r d))"
    and "nonempty (IdempotencyKey r) = Some key \<Longrightarrow>
           map_of (idem_tbl (claim_key key (JobID r) (insert_job r d))) key = Some (JobID r) \<Longrightarrow>
           store_inv (insertInitialEvent (JobID r) (Status r) dbnow
             (claim_key key (JobID r) (insert_job r d)))"
proof -
  have id: "JobID r = newid"
    using assms(2,4) by (simp add: create_defaults_def initial_job_def)
  have ri: "row_inv r" "status_edge None (Status r)"
    using row_inv_created [OF assms(2)] by (simp_all add: assms(4))
  note ins = store_inv_insert [OF assms(1), of r dbnow, unfolded id, OF assms(3) ri]
  show "store_inv (insertInitialEvent (JobID r) (Status r) dbnow (insert_job r d))"
    if "nonempty (IdempotencyKey r) = None"
  proof -
    have k: "IdempotencyKey r = None \<or> IdempotencyKey r = Some []"
      using that by (cases "IdempotencyKey r") (auto split: if_splits)
    then have "(insert_job r d)\<lparr>idem_tbl := (case IdempotencyKey r of
              Some k \<Rightarrow> if k \<noteq> [] then (k, newid) # idem_tbl d else idem_tbl d
            | None \<Rightarrow> idem_tbl d)\<rparr> = insert_job r d"
      by (auto simp: insert_job_def)
    with ins k show ?thesis by (auto simp: id)
  qed
  show "store_inv (insertInitialEvent (JobID r) (Status r) dbnow
          (claim_key key (JobID r) (insert_job r d)))"
    if "nonempty (IdempotencyKey r) = Some key"
      "map_of (idem_tbl (claim_key key (JobID r) (insert_job r d))) key = Some (JobID r)"
  proof -
    have k: "IdempotencyKey r = Some key" "key \<noteq> []"
      using that(1) by (cases "IdempotencyKey r"; auto split: if_splits)+
    have free: "map_of (idem_tbl d) key = None"
    proof (rule ccontr)
      assume "map_of (idem_tbl d) key \<noteq> None"
      then have "map_of (idem_tbl d) key = Some newid"
        using that(2) by (auto simp: claim_key_def id split: if_splits)
      then have "(key, newid) \<in> set (idem_tbl d)" by (rule map_of_SomeD)
      with assms(3) show False by (force simp: fresh_id_def)
    qed
    with ins k show ?thesis by (simp add: claim_key_def id)
  qed
qed

lemma CreateJob_inv [inv_rules]:
  assumes "store_inv d" and "initial_job inp" and "fresh_id newid d"
  shows "store_inv (snd (CreateJob lib flt newid now dbnow inp d))"
proof -
  let ?r = "created_row lib (create_defaults newid now inp)"
  note ok = CreateJob_applied_inv [OF assms refl, where lib = lib and now = now and dbnow = dbnow]
  show ?thesis
    using assms(1) ok
    by (auto simp: CreateJob_def Let_def intro!: store_inv_commit split: option.splits)
qed

end
