(* ===== verification/Jobs_Lifecycle.thy ===== *)
theory Jobs_Lifecycle
  imports Jobs_Schema
begin

text \<open>
  The worker side of the job store, \<open>internal/storage/jobs/jobs_lifecycle.go\<close>: claiming a
  job, its heartbeat, completion, failure with back-off, and the stale-pending query. Each
  transaction is one atomic step (the row lock of \<open>SELECT ... FOR UPDATE\<close> serialises
  them). \<open>now\<close> is the Go clock of the caller, \<open>dbnow\<close> the database's \<open>now()\<close>, and
  \<open>token\<close> the value \<open>uuid.New()\<close> returns.
\<close>

subsection \<open>Operations\<close>

definition claimable :: "JobStatus \<Rightarrow> bool" where
  "claimable s \<longleftrightarrow> s = JobPending \<or> s = JobQueued \<or> s = JobScheduled"

definition gated :: "job_row \<Rightarrow> instant \<Rightarrow> bool" where
  \<comment> \<open>\<open>job.NotBefore.Valid && job.NotBefore.Time.After(now)\<close>\<close>
  "gated r now = (case NotBefore r of None \<Rightarrow> False | Some t \<Rightarrow> now < t)"

definition set_running :: "string \<Rightarrow> uuid \<Rightarrow> instant \<Rightarrow> job_row \<Rightarrow> job_row" where
  "set_running workerID token dbnow r =
     r\<lparr>Status := JobRunning, WorkerID := Some workerID, ClaimToken := Some token,
       StartedAt := (case StartedAt r of None \<Rightarrow> Some dbnow | Some t \<Rightarrow> Some t),
       HeartbeatAt := Some dbnow, NotBefore := None, AttemptCount := AttemptCount r + 1\<rparr>"

definition ClaimRunning ::
  "golib \<Rightarrow> faults \<Rightarrow> instant \<Rightarrow> instant \<Rightarrow> uuid \<Rightarrow> uuid \<Rightarrow> string \<Rightarrow> db \<Rightarrow> (Job \<times> uuid) result \<times> db"
where
  "ClaimRunning lib flt now dbnow token jobID workerID d =
     (if flt BeginTx then (Inl (DbErr BeginTx), d)
      else if flt SelectRows then (Inl (DbErr SelectRows), d)
      else case find_job jobID d of
        None \<Rightarrow> (Inl ErrNotClaimable, d)
      | Some job \<Rightarrow>
          if \<not> claimable (Status job) then (Inl ErrNotClaimable, d)
          else if gated job now then (Inl ErrNotClaimable, d)
          else if flt (UpdateRow jobID) \<or> \<not> is_int16 (AttemptCount job + 1)
            then (Inl (DbErr (UpdateRow jobID)), d) \<comment> \<open>\<open>SMALLINT\<close> raises out of range\<close>
          else
            let d1 = upd_job jobID any_row (set_running workerID token dbnow) d;
                out = set_running workerID token dbnow job
            in if flt (InsertEv jobID) then (Inl (DbErr (InsertEv jobID)), d)
               else commit_tx flt d (insertEvent jobID (Status job) JobRunning dbnow d1)
                      (fetched lib out, token))"

definition owned_running :: "uuid \<Rightarrow> job_row \<Rightarrow> bool" where
  \<comment> \<open>\<open>claim_token = $2 AND status = 'running'\<close>\<close>
  "owned_running token r \<longleftrightarrow> ClaimToken r = Some token \<and> Status r = JobRunning"

definition Heartbeat :: "faults \<Rightarrow> instant \<Rightarrow> uuid \<Rightarrow> uuid \<Rightarrow> db \<Rightarrow> unit result \<times> db" where
  "Heartbeat flt dbnow jobID claimToken d =
     (if flt (UpdateRow jobID) then (Inl (DbErr (UpdateRow jobID)), d)
      else
        let d1 = upd_job jobID (owned_running claimToken) (\<lambda>r. r\<lparr>HeartbeatAt := Some dbnow\<rparr>) d;
            n = length (filter (\<lambda>r. JobID r = jobID \<and> owned_running claimToken r) (jobs_tbl d))
        in if flt CountRows then (Inl (DbErr CountRows), d1)
           else if n = 0 then (Inl ErrNotClaimable, d1)
           else (Inr (), d1))"

definition set_completed :: "instant \<Rightarrow> job_row \<Rightarrow> job_row" where
  "set_completed dbnow r = r\<lparr>Status := JobCompleted, CompletedAt := Some dbnow\<rparr>"

definition Complete :: "faults \<Rightarrow> instant \<Rightarrow> uuid \<Rightarrow> uuid \<Rightarrow> db \<Rightarrow> unit result \<times> db" where
  "Complete flt dbnow jobID claimToken d =
     (if flt BeginTx then (Inl (DbErr BeginTx), d)
      else if flt SelectRows then (Inl (DbErr SelectRows), d)
      else case find_job jobID d of
        None \<Rightarrow> (Inl ErrNotClaimable, d)
      | Some job \<Rightarrow>
          if Status job \<noteq> JobRunning \<or> ClaimToken job \<noteq> Some claimToken
            then (Inl ErrNotClaimable, d)
          else if flt (UpdateRow jobID) then (Inl (DbErr (UpdateRow jobID)), d)
          else
            let d1 = upd_job jobID any_row (set_completed dbnow) d
            in if flt (InsertEv jobID) then (Inl (DbErr (InsertEv jobID)), d)
               else commit_tx flt d (insertEvent jobID JobRunning JobCompleted dbnow d1) ())"

definition minAttemptShift :: "int \<Rightarrow> nat" where
  "minAttemptShift attempt = (if attempt < 0 then 0 else if 5 < attempt then 5 else nat attempt)"

definition RetryBackoff :: "int \<Rightarrow> duration" where
  "RetryBackoff attempt =
     (let d = push_bit (minAttemptShift attempt) (10 * second)
      in if 5 * minute < d then 5 * minute else d)"

definition set_failed ::
  "JobStatus \<Rightarrow> string \<Rightarrow> instant option \<Rightarrow> instant \<Rightarrow> job_row \<Rightarrow> job_row" where
  "set_failed nxt lastErr notBefore dbnow r =
     (let r1 = r\<lparr>Status := nxt, ClaimToken := None,
                 LastError := (if lastErr \<noteq> [] then Some lastErr else None),
                 NotBefore := notBefore\<rparr>
      in if nxt = JobFailed then r1\<lparr>CompletedAt := Some dbnow\<rparr> else r1)"

definition fail_next :: "job_row \<Rightarrow> JobStatus" where
  "fail_next job = (if MaxRetry job \<le> AttemptCount job then JobFailed else JobPending)"

definition FailOrRetry ::
  "golib \<Rightarrow> faults \<Rightarrow> instant \<Rightarrow> instant \<Rightarrow> uuid \<Rightarrow> uuid \<Rightarrow> string \<Rightarrow> db \<Rightarrow> Job result \<times> db" where
  "FailOrRetry lib flt now dbnow jobID claimToken lastErr d =
     (if flt BeginTx then (Inl (DbErr BeginTx), d)
      else if flt SelectRows then (Inl (DbErr SelectRows), d)
      else case find_job jobID d of
        None \<Rightarrow> (Inl ErrNotClaimable, d)
      | Some job \<Rightarrow>
          if Status job \<noteq> JobRunning \<or> ClaimToken job \<noteq> Some claimToken
            then (Inl ErrNotClaimable, d)
          else
            let nxt = fail_next job;
                notBefore = (if nxt = JobPending then Some (now + RetryBackoff (AttemptCount job))
                             else None);
                f = set_failed nxt lastErr notBefore dbnow
            in if flt (UpdateRow jobID) then (Inl (DbErr (UpdateRow jobID)), d)
               else if flt (InsertEv jobID) then (Inl (DbErr (InsertEv jobID)), d)
               else commit_tx flt d
                      (insertEvent jobID JobRunning nxt dbnow (upd_job jobID any_row f d))
                      (fetched lib (f job)))"

definition stale_pending :: "instant \<Rightarrow> instant \<Rightarrow> job_row \<Rightarrow> bool" where
  "stale_pending olderThan dbnow r \<longleftrightarrow>
     Status r \<in> {JobPending, JobQueued} \<and> CreatedAt r < olderThan \<and>
     (case NotBefore r of None \<Rightarrow> True | Some t \<Rightarrow> t \<le> dbnow)"

definition ListStalePending ::
  "golib \<Rightarrow> faults \<Rightarrow> instant \<Rightarrow> instant \<Rightarrow> int \<Rightarrow> db \<Rightarrow> Job list result" where
  "ListStalePending lib flt dbnow olderThan limit d =
     (if flt SelectRows \<or> limit < 0 then Inl (DbErr SelectRows)
      else Inr (map (fetched lib)
        (limit_to limit (order_by CreatedAt (filter (stale_pending olderThan dbnow) (jobs_tbl d))))))"

subsection \<open>Lemmas\<close>

lemma set_running_simps [simp]:
  "JobID (set_running w t n r) = JobID r" "Status (set_running w t n r) = JobRunning"
  "IdempotencyKey (set_running w t n r) = IdempotencyKey r"
  "ClaimToken (set_running w t n r) = Some t" "NotBefore (set_running w t n r) = None"
  "WorkerID (set_running w t n r) = Some w" "HeartbeatAt (set_running w t n r) = Some n"
  "AttemptCount (set_running w t n r) = AttemptCount r + 1"
  "MaxRetry (set_running w t n r) = MaxRetry r" "ScheduledAt (set_running w t n r) = ScheduledAt r"
  "CompletedAt (set_running w t n r) = CompletedAt r" "CreatedAt (set_running w t n r) = CreatedAt r"
  "StartedAt (set_running w t n r) \<noteq> None"
  by (simp_all add: set_running_def split: option.split)

lemma set_completed_simps [simp]:
  "JobID (set_completed n r) = JobID r" "Status (set_completed n r) = JobCompleted"
  "IdempotencyKey (set_completed n r) = IdempotencyKey r"
  "ClaimToken (set_completed n r) = ClaimToken r" "CompletedAt (set_completed n r) = Some n"
  "AttemptCount (set_completed n r) = AttemptCount r"
  by (simp_all add: set_completed_def)

lemma set_failed_simps [simp]:
  "JobID (set_failed s e nb n r) = JobID r" "Status (set_failed s e nb n r) = s"
  "IdempotencyKey (set_failed s e nb n r) = IdempotencyKey r"
  "ClaimToken (set_failed s e nb n r) = None" "NotBefore (set_failed s e nb n r) = nb"
  "AttemptCount (set_failed s e nb n r) = AttemptCount r"
  "MaxRetry (set_failed s e nb n r) = MaxRetry r"
  "CompletedAt (set_failed s e nb n r) = (if s = JobFailed then Some n else CompletedAt r)"
  "LastError (set_failed s e nb n r) = (if e \<noteq> [] then Some e else None)"
  by (simp_all add: set_failed_def Let_def)

lemma keeps_keys_sets [simp]:
  "keeps_keys (set_running w t n)" "keeps_keys (set_completed n)" "keeps_keys (set_failed s e nb n)"
  by (simp_all add: keeps_keys_def)

lemma row_inv_set_running:
  "row_inv r \<Longrightarrow> claimable (Status r) \<Longrightarrow> is_int16 (AttemptCount r + 1) \<Longrightarrow>
     row_inv (set_running w t n r)"
  by (simp add: row_inv_def claimable_def db_statuses_def) (elim conjE disjE; simp)

lemma row_inv_set_completed:
  "row_inv r \<Longrightarrow> Status r = JobRunning \<Longrightarrow> row_inv (set_completed n r)"
  by (auto simp: row_inv_def db_statuses_def)

lemma row_inv_set_failed:
  "row_inv r \<Longrightarrow> Status r = JobRunning \<Longrightarrow> s \<in> {JobPending, JobFailed} \<Longrightarrow>
     row_inv (set_failed s e nb n r)"
  by (auto simp: row_inv_def db_statuses_def)

lemma fail_next_cases: "fail_next r = JobFailed \<or> fail_next r = JobPending"
  by (simp add: fail_next_def)

lemma claimable_edge: "claimable s \<Longrightarrow> status_edge (Some s) JobRunning"
  by (auto simp: claimable_def)

subsection \<open>Preservation of the invariant\<close>

lemma ClaimRunning_inv [inv_rules]:
  assumes "store_inv d"
  shows "store_inv (snd (ClaimRunning lib flt now dbnow token jobID workerID d))"
proof -
  have "store_inv (insertEvent jobID (Status job) JobRunning dbnow
          (upd_job jobID any_row (set_running workerID token dbnow) d))"
    if "find_job jobID d = Some job" "claimable (Status job)" "is_int16 (AttemptCount job + 1)" for job
    using store_inv_transition [OF assms that(1), of any_row "set_running workerID token dbnow" dbnow]
      that row_inv_set_running [OF store_inv_row [OF assms that(1)]] claimable_edge by simp
  then show ?thesis using assms
    by (auto simp: ClaimRunning_def Let_def intro!: store_inv_commit split: option.split)
qed

lemma Heartbeat_inv [inv_rules]:
  assumes "store_inv d"
  shows "store_inv (snd (Heartbeat flt dbnow jobID token d))"
proof -
  have "store_inv (upd_job jobID (owned_running token) (\<lambda>r. r\<lparr>HeartbeatAt := Some dbnow\<rparr>) d)"
  proof (rule store_inv_touch [OF assms])
    fix r assume "find_job jobID d = Some r"
    then have "row_inv r" by (rule store_inv_row [OF assms])
    then show "row_inv (r\<lparr>HeartbeatAt := Some dbnow\<rparr>) \<and> Status (r\<lparr>HeartbeatAt := Some dbnow\<rparr>) = Status r"
      by (auto simp: row_inv_def)
  qed (simp add: keeps_keys_def)
  then show ?thesis using assms by (simp add: Heartbeat_def Let_def)
qed

lemma Complete_inv [inv_rules]:
  assumes "store_inv d"
  shows "store_inv (snd (Complete flt dbnow jobID token d))"
proof -
  have "store_inv (insertEvent jobID JobRunning JobCompleted dbnow
          (upd_job jobID any_row (set_completed dbnow) d))"
    if "find_job jobID d = Some job" "Status job = JobRunning" for job
    using store_inv_transition [OF assms that(1), of any_row "set_completed dbnow" dbnow]
      that row_inv_set_completed [OF store_inv_row [OF assms that(1)]] by simp
  then show ?thesis using assms
    by (auto simp: Complete_def Let_def intro!: store_inv_commit split: option.split)
qed

lemma FailOrRetry_inv [inv_rules]:
  assumes "store_inv d"
  shows "store_inv (snd (FailOrRetry lib flt now dbnow jobID token err d))"
proof -
  have "store_inv (insertEvent jobID JobRunning nxt dbnow
          (upd_job jobID any_row (set_failed nxt err nb dbnow) d))"
    if "find_job jobID d = Some job" "Status job = JobRunning" "fail_next job = nxt" for job nxt nb
    using store_inv_transition [OF assms that(1), of any_row "set_failed nxt err nb dbnow" dbnow]
      that row_inv_set_failed [OF store_inv_row [OF assms that(1)] that(2)] fail_next_cases [of job]
    by auto
  then show ?thesis using assms
    by (auto simp: FailOrRetry_def Let_def intro!: store_inv_commit split: option.split)
qed

end
