(* ===== verification/Queue.thy ===== *)
theory Queue
  imports Task
begin

text \<open>
  Routing, \<open>internal/queue/queue.go\<close>: stream and group names and \<open>StreamFor\<close>, with the
  stream table of \<open>broker.initStreams\<close> and the cron helper \<open>internal/cronx/cronx.go\<close>.
\<close>

subsection \<open>Stream and group constants\<close>

definition EmailHighStream :: string where "EmailHighStream = ''stream:queue:email:high''"
definition EmailLowStream :: string where "EmailLowStream = ''stream:queue:email:low''"
definition FileHighStream :: string where "FileHighStream = ''stream:queue:file_processing:high''"
definition FileLowStream :: string where "FileLowStream = ''stream:queue:file_processing:low''"
definition ExecHighStream :: string where "ExecHighStream = ''stream:queue:exec_processing:high''"
definition ExecLowStream :: string where "ExecLowStream = ''stream:queue:exec_processing:low''"
definition EmailGroupHigh :: string where "EmailGroupHigh = ''email-workers-high''"
definition EmailGroupLow :: string where "EmailGroupLow = ''email-workers-low''"
definition FileGroupHigh :: string where "FileGroupHigh = ''file_processing-workers-high''"
definition FileGroupLow :: string where "FileGroupLow = ''file_processing-workers-low''"
definition ExecGroupHigh :: string where "ExecGroupHigh = ''exec-workers-workers-high''"
definition ExecGroupLow :: string where "ExecGroupLow = ''exec-workers-workers-low''"

lemmas stream_consts = EmailHighStream_def EmailLowStream_def FileHighStream_def
  FileLowStream_def ExecHighStream_def ExecLowStream_def EmailGroupHigh_def EmailGroupLow_def
  FileGroupHigh_def FileGroupLow_def ExecGroupHigh_def ExecGroupLow_def

definition streamsAndGroups :: "(string \<times> string) list" where
  \<comment> \<open>the streams \<open>broker.initStreams\<close> creates, each with its consumer group\<close>
  "streamsAndGroups =
     [(EmailHighStream, EmailGroupHigh), (EmailLowStream, EmailGroupLow),
      (FileHighStream, FileGroupHigh), (FileLowStream, FileGroupLow),
      (ExecHighStream, ExecGroupHigh), (ExecLowStream, ExecGroupLow)]"

subsection \<open>Routing\<close>

definition split_tier :: "string \<Rightarrow> int \<Rightarrow> string \<times> bool" where
  \<comment> \<open>the explicit \<open>-high\<close>/\<open>-low\<close> suffix wins over the priority\<close>
  "split_tier name priority =
     (if HasSuffix name ''-high'' then (TrimSuffix name ''-high'', True)
      else if HasSuffix name ''-low'' then (TrimSuffix name ''-low'', False)
      else (name, 0 < priority))"

definition StreamFor :: "string \<Rightarrow> int \<Rightarrow> (string \<times> string) option" where
  \<comment> \<open>\<open>None\<close> is the unknown-queue error\<close>
  "StreamFor queueName priority =
     (case split_tier (ToLower (TrimSpace queueName)) priority of (name, high) \<Rightarrow>
        if name = ''email'' then
          Some (if high then (EmailHighStream, EmailGroupHigh) else (EmailLowStream, EmailGroupLow))
        else if name = ''file'' \<or> name = ''file_processing'' then
          Some (if high then (FileHighStream, FileGroupHigh) else (FileLowStream, FileGroupLow))
        else if name = ''exec'' \<or> name = ''exec_processing'' then
          Some (if high then (ExecHighStream, ExecGroupHigh) else (ExecLowStream, ExecGroupLow))
        else None)"

definition type_streams :: "(string \<times> string) list" where
  \<comment> \<open>queue base names with the base name of their streams\<close>
  "type_streams =
     [(''email'', ''email''), (''file'', ''file_processing''),
      (''file_processing'', ''file_processing''), (''exec'', ''exec_processing''),
      (''exec_processing'', ''exec_processing'')]"

definition tier_name :: "bool \<Rightarrow> string" where
  "tier_name high = (if high then ''high'' else ''low'')"

lemma StreamFor_eq:
  "StreamFor q p =
     (case split_tier (ToLower (TrimSpace q)) p of (name, high) \<Rightarrow>
        (case map_of type_streams name of
           None \<Rightarrow> None
         | Some base \<Rightarrow>
             (let s = ''stream:queue:'' @ base @ '':'' @ tier_name high in
              Some (s, the (map_of streamsAndGroups s)))))"
  by (cases "split_tier (ToLower (TrimSpace q)) p")
    (simp add: StreamFor_def type_streams_def tier_name_def streamsAndGroups_def stream_consts)

lemma StreamFor_created: "StreamFor q p = Some sg \<Longrightarrow> sg \<in> set streamsAndGroups"
proof -
  have "set_option (StreamFor q p) \<subseteq> set streamsAndGroups"
    by (cases "split_tier (ToLower (TrimSpace q)) p")
      (simp add: StreamFor_def streamsAndGroups_def)
  then show "StreamFor q p = Some sg \<Longrightarrow> sg \<in> set streamsAndGroups" by auto
qed

lemma streams_nonempty: "(s, g) \<in> set streamsAndGroups \<Longrightarrow> s \<noteq> [] \<and> g \<noteq> []"
  by (auto simp: streamsAndGroups_def stream_consts)

lemma StreamFor_nonempty: "StreamFor q p = Some (s, g) \<Longrightarrow> s \<noteq> [] \<and> g \<noteq> []"
  by (blast dest: StreamFor_created streams_nonempty)

subsection \<open>Cron (\<open>internal/cronx\<close>)\<close>

datatype cron_err = EmptyCron | InvalidCron | InvalidTimezone

definition DefaultTZ :: string where "DefaultTZ = ''UTC''"

definition cron_Location :: "golib \<Rightarrow> string \<Rightarrow> cron_err + string" where
  "cron_Location lib tz =
     (let tz' = TrimSpace tz in
      if tz' = [] then Inr DefaultTZ
      else if LoadLocation lib tz' then Inr tz' else Inl InvalidTimezone)"

definition cron_Parse ::
  "golib \<Rightarrow> string \<Rightarrow> cron_err + (string \<Rightarrow> instant \<Rightarrow> instant)" where
  "cron_Parse lib expr =
     (let e = TrimSpace expr in
      if e = [] then Inl EmptyCron
      else (case cron_ParseStandard lib e of None \<Rightarrow> Inl InvalidCron | Some sched \<Rightarrow> Inr sched))"

definition NextAfter :: "golib \<Rightarrow> string \<Rightarrow> string \<Rightarrow> instant \<Rightarrow> cron_err + instant" where
  "NextAfter lib expr tz t =
     (case cron_Parse lib expr of
        Inl e \<Rightarrow> Inl e
      | Inr sched \<Rightarrow>
          (case cron_Location lib tz of
             Inl e \<Rightarrow> Inl e
           | Inr loc \<Rightarrow> Inr (sched loc t)))"

subsection \<open>Properties\<close>

text \<open>Routing is total on the documented names and consistent with the streams that are
  created: \<open>StreamFor\<close> succeeds exactly when the base name (trimmed, lower-cased, suffix
  removed) is one of the five queue names, its stream is the one named after the type and
  tier, the explicit suffix decides the tier and otherwise the sign of the priority does, and
  the (stream, group) pair is one that \<open>initStreams\<close> creates at start-up.\<close>

theorem StreamFor_spec:
  "StreamFor q p =
     (case split_tier (ToLower (TrimSpace q)) p of (name, high) \<Rightarrow>
        (case map_of type_streams name of
           None \<Rightarrow> None
         | Some base \<Rightarrow>
             (let s = ''stream:queue:'' @ base @ '':'' @ tier_name high in
              Some (s, the (map_of streamsAndGroups s)))))
   \<and> set_option (StreamFor q p) \<subseteq> set streamsAndGroups"
  using StreamFor_eq [of q p] StreamFor_created [of q p] by auto

end
