(* ===== verification/Jobs_Batch.thy ===== *)
theory Jobs_Batch
  imports Jobs_Lifecycle Queue
begin

text \<open>
  The batch operations of the scheduler, the reaper and the purger:
  \<open>internal/storage/jobs/jobs_scheduler.go\<close>, \<open>jobs_reaper.go\<close> and
  \<open>jobs_retention.go\<close>. The three claim operations have one shape, a
  \<open>SELECT job_id ... FOR UPDATE SKIP LOCKED\<close> and a loop over the identifiers inside one
  transaction; \<open>batch_loop\<close> and \<open>batch_tx\<close> are that shape and \<open>batch_step\<close> is the
  contract of a loop body. \<open>locked\<close> is the set of rows other sessions hold, \<open>gen\<close> gives
  the value \<open>uuid.New()\<close> returns while the loop handles a parent.
\<close>

subsection \<open>The shared loop\<close>

type_synonym batch_body = "uuid \<Rightarrow> db \<Rightarrow> (Job option \<times> db) result"

fun batch_loop :: "batch_body \<Rightarrow> uuid list \<Rightarrow> db \<Rightarrow> Job list \<Rightarrow> (Job list \<times> db) result" where
  "batch_loop body [] d out = Inr (out, d)"
| "batch_loop body (i # ids) d out =
     (case body i d of
        Inl e \<Rightarrow> Inl e
      | Inr (None, d1) \<Rightarrow> batch_loop body ids d1 out \<comment> \<open>lost a race: skip\<close>
      | Inr (Some job, d1) \<Rightarrow> batch_loop body ids d1 (out @ [job]))"

definition batch_tx :: "faults \<Rightarrow> batch_body \<Rightarrow> uuid list \<Rightarrow> db \<Rightarrow> Job list result \<times> db" where
  "batch_tx flt body ids d =
     (if flt BeginTx then (Inl (DbErr BeginTx), d)
      else if flt SelectRows then (Inl (DbErr SelectRows), d)
      else case batch_loop body ids d [] of
        Inl e \<Rightarrow> (Inl e, d)
      | Inr (out, d1) \<Rightarrow> commit_tx flt d d1 out)"

definition update_returning ::
  "uuid \<Rightarrow> (job_row \<Rightarrow> bool) \<Rightarrow> (job_row \<Rightarrow> job_row) \<Rightarrow> db \<Rightarrow> job_row option \<times> db" where
  \<comment> \<open>\<open>UPDATE jobs SET f WHERE job_id = $1 AND p RETURNING ...\<close>\<close>
  "update_returning i p f d =
     (map_option f (List.find (\<lambda>r. JobID r = i \<and> p r) (jobs_tbl d)), upd_job i p f d)"

subsection \<open>Promotion of due scheduled jobs\<close>

definition due_scheduled :: "instant \<Rightarrow> job_row \<Rightarrow> bool" where
  "due_scheduled now r \<longleftrightarrow>
     Status r = JobScheduled \<and> (case ScheduledAt r of None \<Rightarrow> False | Some t \<Rightarrow> t \<le> now)"

definition due_ids :: "(uuid \<Rightarrow> bool) \<Rightarrow> instant \<Rightarrow> int \<Rightarrow> db \<Rightarrow> uuid list" where
  "due_ids locked now limit d =
     map JobID (limit_to (clamp_limit 100 1000 limit) (order_by (\<lambda>r. the (ScheduledAt r))
       (filter (\<lambda>r. due_scheduled now r \<and> \<not> locked (JobID r)) (jobs_tbl d))))"

definition followup_row :: "uuid \<Rightarrow> Job \<Rightarrow> string \<Rightarrow> instant \<Rightarrow> instant \<Rightarrow> job_row" where
  "followup_row childID parent tz nxt now =
     zero_row\<lparr>JobID := childID, Status := JobScheduled, Type := Type parent,
       PayloadRef := PayloadRef parent, QueueName := QueueName parent,
       Priority := Priority parent, AttemptCount := 0, MaxRetry := MaxRetry parent,
       OwnerUserID := OwnerUserID parent, CronExpr := CronExpr parent, CronTZ := Some tz,
       SeriesID := SeriesID parent, IsRecurring := True, ScheduledAt := Some nxt,
       CreatedAt := now\<rparr>"

definition recurring :: "'a job_row_scheme \<Rightarrow> bool" where
  \<comment> \<open>the guards of \<open>scheduleFollowup\<close>: a series member with an expression\<close>
  "recurring parent \<longleftrightarrow>
     IsRecurring parent \<and> nonempty (CronExpr parent) \<noteq> None \<and> SeriesID parent \<noteq> None"

definition followup_tz :: "'a job_row_scheme \<Rightarrow> string" where
  "followup_tz parent = (case nonempty (CronTZ parent) of None \<Rightarrow> ''UTC'' | Some tz \<Rightarrow> tz)"

definition scheduleFollowup ::
  "golib \<Rightarrow> faults \<Rightarrow> uuid \<Rightarrow> instant \<Rightarrow> Job \<Rightarrow> instant \<Rightarrow> db \<Rightarrow> db result" where
  "scheduleFollowup lib flt childID dbnow parent now d =
     (if \<not> recurring parent then Inr d
      else case NextAfter lib (the (CronExpr parent)) (followup_tz parent) now of
        Inl e \<Rightarrow> Inr d \<comment> \<open>a poisoned expression ends the series\<close>
      | Inr nxt \<Rightarrow>
          if flt (InsertRow childID) then Inl (DbErr (InsertRow childID))
          else if flt (InsertEv childID) then Inl (DbErr (InsertEv childID))
          else Inr (insertInitialEvent childID JobScheduled dbnow
                 (insert_job (followup_row childID parent (followup_tz parent) nxt now) d)))"

definition set_pending :: "job_row \<Rightarrow> job_row" where
  "set_pending r = r\<lparr>Status := JobPending\<rparr>"

definition promote_one ::
  "golib \<Rightarrow> faults \<Rightarrow> (uuid \<Rightarrow> uuid) \<Rightarrow> instant \<Rightarrow> instant \<Rightarrow> batch_body" where
  "promote_one lib flt gen now dbnow i d =
     (if flt (UpdateRow i) then Inl (DbErr (UpdateRow i))
      else case update_returning i (\<lambda>r. Status r = JobScheduled) set_pending d of
        (None, d1) \<Rightarrow> Inr (None, d1)
      | (Some r, d1) \<Rightarrow>
          if flt (InsertEv i) then Inl (DbErr (InsertEv i))
          else (case scheduleFollowup lib flt (gen i) dbnow (scanJobRow r) now
                       (insertEvent i JobScheduled JobPending dbnow d1) of
                  Inl e \<Rightarrow> Inl e
                | Inr d2 \<Rightarrow> Inr (Some (fetched lib r), d2)))"

definition ClaimDueScheduled ::
  "golib \<Rightarrow> faults \<Rightarrow> (uuid \<Rightarrow> bool) \<Rightarrow> (uuid \<Rightarrow> uuid) \<Rightarrow> instant \<Rightarrow> instant \<Rightarrow> int \<Rightarrow> db \<Rightarrow>
     Job list result \<times> db" where
  "ClaimDueScheduled lib flt locked gen dbnow now limit d =
     batch_tx flt (promote_one lib flt gen now dbnow) (due_ids locked now limit d) d"

subsection \<open>Promotion of matured retries\<close>

definition due_retry :: "instant \<Rightarrow> job_row \<Rightarrow> bool" where
  "due_retry now r \<longleftrightarrow>
     Status r \<in> {JobPending, JobQueued} \<and>
     (case NotBefore r of None \<Rightarrow> False | Some t \<Rightarrow> t \<le> now)"

definition retry_ids :: "(uuid \<Rightarrow> bool) \<Rightarrow> instant \<Rightarrow> int \<Rightarrow> db \<Rightarrow> uuid list" where
  "retry_ids locked now limit d =
     map JobID (limit_to (clamp_limit 100 1000 limit) (order_by (\<lambda>r. the (NotBefore r))
       (filter (\<lambda>r. due_retry now r \<and> \<not> locked (JobID r)) (jobs_tbl d))))"

definition set_ungated :: "job_row \<Rightarrow> job_row" where
  "set_ungated r = r\<lparr>NotBefore := None\<rparr>"

definition ungate_one :: "golib \<Rightarrow> faults \<Rightarrow> batch_body" where
  "ungate_one lib flt i d =
     (if flt (UpdateRow i) then Inl (DbErr (UpdateRow i))
      else case update_returning i (\<lambda>r. Status r \<in> {JobPending, JobQueued}) set_ungated d of
        (None, d1) \<Rightarrow> Inr (None, d1)
      | (Some r, d1) \<Rightarrow> Inr (Some (fetched lib r), d1))"

definition ClaimDueRetries ::
  "golib \<Rightarrow> faults \<Rightarrow> (uuid \<Rightarrow> bool) \<Rightarrow> instant \<Rightarrow> int \<Rightarrow> db \<Rightarrow> Job list result \<times> db" where
  "ClaimDueRetries lib flt locked now limit d =
     batch_tx flt (ungate_one lib flt) (retry_ids locked now limit d) d"

subsection \<open>Reclaim of stale running jobs\<close>

definition stale_running :: "instant \<Rightarrow> job_row \<Rightarrow> bool" where
  "stale_running staleBefore r \<longleftrightarrow>
     Status r = JobRunning \<and>
     (case HeartbeatAt r of None \<Rightarrow> False | Some t \<Rightarrow> t < staleBefore)"

definition stale_ids :: "(uuid \<Rightarrow> bool) \<Rightarrow> instant \<Rightarrow> int \<Rightarrow> db \<Rightarrow> uuid list" where
  "stale_ids locked staleBefore limit d =
     map JobID (limit_to (clamp_limit 100 1000 limit) (order_by (\<lambda>r. the (HeartbeatAt r))
       (filter (\<lambda>r. stale_running staleBefore r \<and> \<not> locked (JobID r)) (jobs_tbl d))))"

definition set_reclaimed :: "job_row \<Rightarrow> job_row" where
  "set_reclaimed r = r\<lparr>Status := JobPending, WorkerID := None, ClaimToken := None\<rparr>"

definition reclaim_one :: "golib \<Rightarrow> faults \<Rightarrow> instant \<Rightarrow> batch_body" where
  "reclaim_one lib flt dbnow i d =
     (if flt (UpdateRow i) then Inl (DbErr (UpdateRow i))
      else case update_returning i (\<lambda>r. Status r = JobRunning) set_reclaimed d of
        (None, d1) \<Rightarrow> Inr (None, d1)
      | (Some r, d1) \<Rightarrow>
          if flt (InsertEv i) then Inl (DbErr (InsertEv i))
          else Inr (Some (fetched lib r), insertEvent i JobRunning JobPending dbnow d1))"

definition ClaimStaleRunning ::
  "golib \<Rightarrow> faults \<Rightarrow> (uuid \<Rightarrow> bool) \<Rightarrow> instant \<Rightarrow> instant \<Rightarrow> int \<Rightarrow> db \<Rightarrow> Job list result \<times> db" where
  "ClaimStaleRunning lib flt locked dbnow staleBefore limit d =
     batch_tx flt (reclaim_one lib flt dbnow) (stale_ids locked staleBefore limit d) d"

subsection \<open>Retention\<close>

definition old_terminal :: "instant \<Rightarrow> job_row \<Rightarrow> bool" where
  "old_terminal before r \<longleftrightarrow>
     Status r \<in> {JobCompleted, JobCancelled} \<and>
     (case CompletedAt r of None \<Rightarrow> False | Some t \<Rightarrow> t < before)"

definition doomed :: "instant \<Rightarrow> int \<Rightarrow> db \<Rightarrow> (uuid \<times> instant) list" where
  "doomed before limit d =
     map (\<lambda>r. (JobID r, CreatedAt r)) (limit_to limit (order_by (\<lambda>r. the (CompletedAt r))
       (filter (old_terminal before) (jobs_tbl d))))"

definition orphan_keys :: "int \<Rightarrow> db \<Rightarrow> string list" where
  "orphan_keys limit d =
     map fst (limit_to limit (filter (\<lambda>p. \<forall>r \<in> set (jobs_tbl d). JobID r \<noteq> snd p) (idem_tbl d)))"

definition delete_jobs :: "(uuid \<times> instant) list \<Rightarrow> db \<Rightarrow> db" where
  "delete_jobs dm d =
     d\<lparr>jobs_tbl := filter (\<lambda>r. (JobID r, CreatedAt r) \<notin> set dm) (jobs_tbl d)\<rparr>"

definition delete_keys :: "string list \<Rightarrow> db \<Rightarrow> db" where
  "delete_keys ks d = d\<lparr>idem_tbl := filter (\<lambda>p. fst p \<notin> set ks) (idem_tbl d)\<rparr>"

definition DeleteOldJobs :: "faults \<Rightarrow> instant \<Rightarrow> int \<Rightarrow> db \<Rightarrow> int result \<times> db" where
  "DeleteOldJobs flt before limit0 d =
     (let limit = clamp_limit 1000 10000 limit0 in
      if flt BeginTx then (Inl (DbErr BeginTx), d)
      else if flt DeleteRows then (Inl (DbErr DeleteRows), d)
      else
        let d1 = delete_jobs (doomed before limit d) d;
            n = int (length (jobs_tbl d)) - int (length (jobs_tbl d1))
        in if flt CountRows then (Inl (DbErr CountRows), d)
           else if flt DeleteKeys then (Inl (DbErr DeleteKeys), d)
           else commit_tx flt d (delete_keys (orphan_keys limit d1) d1) n)"

subsection \<open>Monthly partitions\<close>

definition civil_year_month :: "instant \<Rightarrow> int \<times> int" where
  \<comment> \<open>\<open>time.Time.Year()\<close> and \<open>Month()\<close> in UTC, from the day number (Gregorian calendar)\<close>
  "civil_year_month t =
     (let z = t div (86400 * second) + 719468; era = z div 146097; doe = z mod 146097;
          yoe = (doe - doe div 1460 + doe div 36524 - doe div 146096) div 365;
          doy = doe - (365 * yoe + yoe div 4 - yoe div 100);
          mp = (5 * doy + 2) div 153;
          m = (if mp < 10 then mp + 3 else mp - 9)
      in (yoe + era * 400 + (if m \<le> 2 then 1 else 0), m))"

definition month_index :: "int \<times> int \<Rightarrow> int" where
  "month_index ym = fst ym * 12 + (snd ym - 1)"

definition pad0 :: "nat \<Rightarrow> int \<Rightarrow> string" where
  \<comment> \<open>\<open>%0wd\<close> of a non-negative number\<close>
  "pad0 w i = (let s = Itoa i in replicate (w - length s) (CHR ''0'') @ s)"

record partition =
  part_table :: string
  part_name :: string
  part_from :: string
  part_to :: string

definition month_part :: "string \<Rightarrow> int \<Rightarrow> partition" where
  \<comment> \<open>the partition of the month with index \<open>m\<close>: \<open>start\<close>, \<open>end\<close> and the name\<close>
  "month_part table m =
     \<lparr>part_table = table,
      part_name = table @ ''_p'' @ pad0 4 (m div 12) @ ''_'' @ pad0 2 (m mod 12 + 1),
      part_from = pad0 4 (m div 12) @ ''-'' @ pad0 2 (m mod 12 + 1) @ ''-01'',
      part_to = pad0 4 ((m + 1) div 12) @ ''-'' @ pad0 2 ((m + 1) mod 12 + 1) @ ''-01''\<rparr>"

definition create_partition :: "partition \<Rightarrow> partition list \<Rightarrow> partition list" where
  \<comment> \<open>\<open>CREATE TABLE IF NOT EXISTS\<close>, by name\<close>
  "create_partition p ps = (if part_name p \<in> part_name ` set ps then ps else ps @ [p])"

fun partition_loop ::
  "(string \<Rightarrow> bool) \<Rightarrow> int \<Rightarrow> nat \<Rightarrow> partition list \<Rightarrow> bool \<times> partition list" where
  \<comment> \<open>\<open>n\<close> further months from index \<open>m\<close>; the flag is false when a statement failed\<close>
  "partition_loop fails m 0 ps = (True, ps)"
| "partition_loop fails m (Suc n) ps =
     (let pj = month_part ''jobs'' m; pe = month_part ''job_events'' m in
      if fails (part_name pj) then (False, ps)
      else if fails (part_name pe) then (False, create_partition pj ps)
      else partition_loop fails (m + 1) n (create_partition pe (create_partition pj ps)))"

definition EnsureMonthlyPartitions ::
  "(string \<Rightarrow> bool) \<Rightarrow> instant \<Rightarrow> int \<Rightarrow> partition list \<Rightarrow> bool \<times> partition list" where
  "EnsureMonthlyPartitions fails now ahead ps =
     (let a = (if ahead < 0 then 0 else if 12 < ahead then 12 else ahead)
      in partition_loop fails (month_index (civil_year_month now)) (nat a + 1) ps)"

subsection \<open>The contract of a loop body\<close>

text \<open>
  A body handles a selected row: it keeps the invariant, rewrites that row with \<open>eff\<close>,
  returns the job with its identifier, and leaves every other existing row alone. \<open>ok\<close> is
  what the remaining identifiers need of the database (fresh child identifiers).
\<close>

locale batch_step =
  fixes body :: batch_body and sel :: "job_row \<Rightarrow> bool" and eff :: "job_row \<Rightarrow> job_row"
    and ret :: "job_row \<Rightarrow> Job" and ok :: "uuid list \<Rightarrow> db \<Rightarrow> bool"
  assumes step: "store_inv d \<Longrightarrow> find_job i d = Some r \<Longrightarrow> sel r \<Longrightarrow> i \<notin> set ids \<Longrightarrow> ok (i # ids) d \<Longrightarrow>
      body i d = Inr (res, d1) \<Longrightarrow>
        store_inv d1 \<and> ok ids d1 \<and> res = Some (ret (eff r)) \<and> JobID (ret (eff r)) = i \<and>
        find_job i d1 = Some (eff r) \<and>
        (\<forall>j x. j \<noteq> i \<longrightarrow> find_job j d = Some x \<longrightarrow> find_job j d1 = Some x)"
begin

definition selected :: "uuid list \<Rightarrow> db \<Rightarrow> bool" where
  "selected ids d \<longleftrightarrow> distinct ids \<and> (\<forall>i \<in> set ids. \<exists>r. find_job i d = Some r \<and> sel r)"

lemma selectedD:
  "selected ids d \<Longrightarrow> j \<in> set ids \<Longrightarrow> \<exists>r. find_job j d = Some r \<and> sel r"
  by (simp add: selected_def)

lemma loop_step:
  assumes "store_inv d" and "selected (i # ids) d" and "ok (i # ids) d"
    and "body i d = Inr (res, d1)"
  obtains job r where "res = Some job" and "JobID job = i" and "job = ret (eff r)" and "store_inv d1"
    and "selected ids d1" and "ok ids d1" and "find_job i d = Some r" and "sel r"
    and "find_job i d1 = Some (eff r)"
    and "\<And>j x. j \<noteq> i \<Longrightarrow> find_job j d = Some x \<Longrightarrow> find_job j d1 = Some x"
proof -
  obtain r where r: "find_job i d = Some r" "sel r" "i \<notin> set ids"
    using assms(2) by (auto simp: selected_def)
  note s = step [OF assms(1) r assms(3,4)]
  have "\<exists>x. find_job j d1 = Some x \<and> sel x" if "j \<in> set ids" for j
  proof -
    have "\<exists>x. find_job j d = Some x \<and> sel x" using assms(2) that by (simp add: selected_def)
    then obtain x where "find_job j d = Some x" "sel x" by blast
    moreover have "j \<noteq> i" using r(3) that by blast
    ultimately show ?thesis using s by blast
  qed
  then have "selected ids d1" using assms(2) by (simp add: selected_def)
  with s r that show ?thesis by blast
qed

lemma loop:
  "store_inv d \<Longrightarrow> selected ids d \<Longrightarrow> ok ids d \<Longrightarrow> batch_loop body ids d out = Inr (out', d') \<Longrightarrow>
     store_inv d' \<and> map JobID out' = map JobID out @ ids \<and>
     out' = out @ map (\<lambda>i. ret (eff (the (find_job i d)))) ids \<and>
     (\<forall>j \<in> set ids. find_job j d' = map_option eff (find_job j d)) \<and>
     (\<forall>j x. j \<notin> set ids \<longrightarrow> find_job j d = Some x \<longrightarrow> find_job j d' = Some x)"
proof (induction ids arbitrary: d out)
  case Nil
  then show ?case by simp
next
  case (Cons i ids)
  then obtain res d1 where b: "body i d = Inr (res, d1)" by (auto split: sum.splits)
  from loop_step [OF Cons.prems(1-3) b] obtain job r where s: "res = Some job" "JobID job = i"
      "store_inv d1" "selected ids d1" "ok ids d1" "find_job i d = Some r" "job = ret (eff r)"
      "find_job i d1 = Some (eff r)"
      "\<And>j x. j \<noteq> i \<Longrightarrow> find_job j d = Some x \<Longrightarrow> find_job j d1 = Some x"
    by metis
  have "batch_loop body ids d1 (out @ [job]) = Inr (out', d')"
    using Cons.prems(4) b s(1) by simp
  note ih = Cons.IH [OF s(3-5) this]
  have i: "i \<notin> set ids" using Cons.prems(2) by (simp add: selected_def)
  have same: "find_job j d1 = find_job j d" if "j \<in> set ids" for j
  proof -
    have "j \<noteq> i" "\<exists>x. find_job j d = Some x"
      using that i Cons.prems(2) by (auto simp: selected_def)
    then show ?thesis using s(9) by force
  qed
  show ?case using ih i s same by auto
qed

lemma tx_inv:
  "store_inv d \<Longrightarrow> selected ids d \<Longrightarrow> ok ids d \<Longrightarrow> store_inv (snd (batch_tx flt body ids d))"
  using loop [of d ids "[]"]
  by (auto simp: batch_tx_def intro!: store_inv_commit split: sum.split)

lemma tx_rows:
  assumes "store_inv d" and "selected ids d" and "ok ids d"
    and "batch_tx flt body ids d = (Inr out, d')"
  shows "map JobID out = ids \<and>
     (\<forall>j \<in> set ids. find_job j d' = map_option eff (find_job j d)) \<and>
     (\<forall>j x. j \<notin> set ids \<longrightarrow> find_job j d = Some x \<longrightarrow> find_job j d' = Some x)"
  using assms(4) loop [OF assms(1-3), of "[]"]
  by (auto simp: batch_tx_def commit_tx_def split: if_splits sum.splits)

lemma tx_out:
  assumes "store_inv d" and "selected ids d" and "ok ids d"
    and "batch_tx flt body ids d = (Inr out, d')"
  shows "out = map (\<lambda>i. ret (eff (the (find_job i d)))) ids"
  using assms(4) loop [OF assms(1-3), of "[]"]
  by (auto simp: batch_tx_def commit_tx_def split: if_splits sum.splits)

lemma tx_error:
  "batch_tx flt body ids d = (Inl e, d') \<Longrightarrow> e \<noteq> DbErr CommitAck \<Longrightarrow> d' = d"
  by (auto simp: batch_tx_def commit_tx_def split: if_splits sum.splits)

end

text \<open>A body that never fails on a selected row: the batch then returns.\<close>

locale total_batch_step = batch_step +
  assumes total: "store_inv d \<Longrightarrow> find_job i d = Some r \<Longrightarrow> sel r \<Longrightarrow> \<exists>res d1. body i d = Inr (res, d1)"
begin

lemma loop_returns:
  "store_inv d \<Longrightarrow> selected ids d \<Longrightarrow> ok ids d \<Longrightarrow> \<exists>out' d'. batch_loop body ids d out = Inr (out', d')"
proof (induction ids arbitrary: d out)
  case Nil
  then show ?case by simp
next
  case (Cons i ids)
  obtain r where "find_job i d = Some r" "sel r" using Cons.prems(2) by (auto simp: selected_def)
  then obtain res d1 where b: "body i d = Inr (res, d1)" using total [OF Cons.prems(1)] by blast
  from loop_step [OF Cons.prems b] obtain job where
      s: "res = Some job" "store_inv d1" "selected ids d1" "ok ids d1"
    by metis
  from Cons.IH [OF s(2-4), of "out @ [job]"] show ?case using b s(1) by simp
qed

lemma tx_returns:
  assumes "store_inv d" and "selected ids d" and "ok ids d"
  shows "\<exists>out d'. batch_tx no_faults body ids d = (Inr out, d')"
  using loop_returns [OF assms, of "[]"] by (auto simp: batch_tx_def commit_tx_def no_faults_def)

end

subsection \<open>The three bodies meet the contract\<close>

lemma find_returning:
  assumes "store_inv d" and "find_job i d = Some r" and "p r"
  shows "List.find (\<lambda>x. JobID x = i \<and> p x) (jobs_tbl d) = Some r"
proof -
  have "List.find (\<lambda>x. JobID x = i \<and> p x) xs = Some r"
    if "List.find (\<lambda>x. JobID x = i) xs = Some r" for xs
    using that assms(3) by (induction xs) (auto split: if_splits)
  then show ?thesis using assms(2) by (simp add: find_job_def)
qed

lemma batch_update:
  assumes "store_inv d" and "find_job i d = Some r" and "p r"
  shows "update_returning i p f d = (Some (f r), upd_job i p f d)"
  using find_returning [where p = p, OF assms] by (simp add: update_returning_def)

definition fresh_children :: "(uuid \<Rightarrow> uuid) \<Rightarrow> uuid list \<Rightarrow> db \<Rightarrow> bool" where
  "fresh_children gen ids d \<longleftrightarrow> inj_on gen (set ids) \<and> (\<forall>j \<in> set ids. fresh_id (gen j) d)"

lemma batch_sets_simps [simp]:
  "JobID (set_pending r) = JobID r" "Status (set_pending r) = JobPending"
  "JobID (set_ungated r) = JobID r" "Status (set_ungated r) = Status r"
  "NotBefore (set_ungated r) = None"
  "JobID (set_reclaimed r) = JobID r" "Status (set_reclaimed r) = JobPending"
  "ClaimToken (set_reclaimed r) = None" "AttemptCount (set_reclaimed r) = AttemptCount r"
  "MaxRetry (set_reclaimed r) = MaxRetry r"
  "keeps_keys set_pending" "keeps_keys set_ungated" "keeps_keys set_reclaimed"
  by (simp_all add: set_pending_def set_ungated_def set_reclaimed_def keeps_keys_def)

lemma row_inv_batch_sets:
  "row_inv r \<Longrightarrow> Status r = JobScheduled \<Longrightarrow> row_inv (set_pending r)"
  "row_inv r \<Longrightarrow> Status r = JobRunning \<Longrightarrow> row_inv (set_reclaimed r)"
  "row_inv r \<Longrightarrow> Status r \<noteq> JobRunning \<Longrightarrow> row_inv (set_ungated r)"
  by (auto simp: row_inv_def set_pending_def set_ungated_def set_reclaimed_def db_statuses_def)

lemma find_job_insert:
  "find_job j (insert_job r d) =
     (case find_job j d of Some x \<Rightarrow> Some x | None \<Rightarrow> if JobID r = j then Some r else None)"
proof -
  have "List.find P (xs @ [r]) = (case List.find P xs of Some x \<Rightarrow> Some x
      | None \<Rightarrow> if P r then Some r else None)" for P xs
    by (induction xs) auto
  then show ?thesis by (simp add: find_job_def)
qed


lemma insert_job_same_keys [simp]: "(insert_job r d)\<lparr>idem_tbl := idem_tbl d\<rparr> = insert_job r d"
  by (simp add: insert_job_def)

lemma store_inv_followup:
  assumes "store_inv d" and "fresh_id i d"
  shows "store_inv (insertInitialEvent i JobScheduled t (insert_job (followup_row i p tz nxt now) d))"
proof -
  let ?r = "followup_row i p tz nxt now"
  have r: "JobID ?r = i" "Status ?r = JobScheduled" "IdempotencyKey ?r = None"
    by (simp_all add: followup_row_def zero_row_def)
  have "row_inv ?r"
    by (simp add: row_inv_def followup_row_def zero_row_def db_statuses_def is_int16_def)
  then show ?thesis using store_inv_insert [OF assms(1), of ?r t] assms(2) by (simp add: r)
qed

definition promoted_db :: "(uuid \<Rightarrow> uuid) \<Rightarrow> instant \<Rightarrow> instant \<Rightarrow> golib \<Rightarrow> uuid \<Rightarrow> job_row \<Rightarrow> db \<Rightarrow> db" where
  \<comment> \<open>what one promotion without a fault does\<close>
  "promoted_db gen now dbnow lib i r d =
     (let d1 = insertEvent i JobScheduled JobPending dbnow
                 (upd_job i (\<lambda>r. Status r = JobScheduled) set_pending d) in
      if recurring r then
        (case NextAfter lib (the (CronExpr r)) (followup_tz r) now of
           Inl e \<Rightarrow> d1
         | Inr nxt \<Rightarrow> insertInitialEvent (gen i) JobScheduled dbnow
             (insert_job (followup_row (gen i) (scanJobRow r) (followup_tz r) nxt now) d1))
      else d1)"

lemma recurring_set_pending [simp]:
  "recurring (scanJobRow (set_pending r)) = recurring r"
  "CronExpr (set_pending r) = CronExpr r"
  "followup_tz (scanJobRow (set_pending r)) = followup_tz r"
  "followup_row c (scanJobRow (set_pending r)) tz nxt now = followup_row c (scanJobRow r) tz nxt now"
  by (simp_all add: recurring_def followup_tz_def followup_row_def set_pending_def)

lemma promote_one_eq:
  assumes "store_inv d" and "find_job i d = Some r" and "Status r = JobScheduled"
  shows "promote_one lib flt gen now dbnow i d = Inr (res, d1) \<Longrightarrow>
           res = Some (fetched lib (set_pending r)) \<and> d1 = promoted_db gen now dbnow lib i r d"
    and "promote_one lib no_faults gen now dbnow i d =
           Inr (Some (fetched lib (set_pending r)), promoted_db gen now dbnow lib i r d)"
  using batch_update [where p = "\<lambda>r. Status r = JobScheduled", OF assms]
  by (auto simp: promote_one_def scheduleFollowup_def promoted_db_def Let_def no_faults_def
      split: if_splits sum.splits)

lemma promoted_db_inv:
  assumes "store_inv d" and "find_job i d = Some r" and "Status r = JobScheduled"
    and "fresh_id (gen i) d"
  shows "store_inv (promoted_db gen now dbnow lib i r d)"
proof -
  let ?d1 = "insertEvent i JobScheduled JobPending dbnow
               (upd_job i (\<lambda>r. Status r = JobScheduled) set_pending d)"
  have i1: "store_inv ?d1"
    using store_inv_transition [where p = "\<lambda>r. Status r = JobScheduled" and f = set_pending,
        OF assms(1,2)] row_inv_batch_sets(1) [OF store_inv_row [OF assms(1,2)] assms(3)] assms(3)
    by simp
  have "gen i \<noteq> i" using assms(4) find_jobD [OF assms(2)] by (auto simp: fresh_id_def)
  then have "fresh_id (gen i) ?d1"
    using assms(4) by (auto simp: fresh_id_def upd_job_def set_update_where)
  with i1 show ?thesis by (simp add: promoted_db_def Let_def store_inv_followup split: sum.split)
qed

lemma find_job_promoted:
  assumes "find_job i d = Some r" and "Status r = JobScheduled" and "fresh_id (gen i) d"
  shows "find_job i (promoted_db gen now dbnow lib i r d) = Some (set_pending r)"
    and "j \<noteq> i \<Longrightarrow> find_job j d = Some x \<Longrightarrow> find_job j (promoted_db gen now dbnow lib i r d) = Some x"
  using assms
  by (simp_all add: promoted_db_def Let_def find_job_insert find_job_upd split: sum.split)

lemma fresh_promoted:
  assumes "find_job i d = Some r" and "fresh_id c d" and "c \<noteq> gen i"
  shows "fresh_id c (promoted_db gen now dbnow lib i r d)"
proof -
  have "c \<noteq> i" using assms(1,2) by (auto simp: fresh_id_def dest: find_jobD)
  moreover have "JobID (followup_row k p tz nxt now) = k" for k p tz nxt
    by (simp add: followup_row_def zero_row_def)
  ultimately show ?thesis using assms(2,3)
    by (auto simp: promoted_db_def Let_def fresh_id_def upd_job_def set_update_where
        split: sum.split)
qed

interpretation promote: batch_step "promote_one lib flt gen now dbnow"
  "\<lambda>r. Status r = JobScheduled" set_pending "fetched lib" "fresh_children gen" for lib flt gen now dbnow
proof
  fix d i r ids res d1
  assume a: "store_inv d" "find_job i d = Some r" "Status r = JobScheduled" "i \<notin> set ids"
    "fresh_children gen (i # ids) d" "promote_one lib flt gen now dbnow i d = Inr (res, d1)"
  have d1: "res = Some (fetched lib (set_pending r))" "d1 = promoted_db gen now dbnow lib i r d"
    using promote_one_eq(1) [OF a(1-3,6)] by simp_all
  have g: "fresh_id (gen i) d" using a(5) by (simp add: fresh_children_def)
  have "fresh_id (gen j) d1" if "j \<in> set ids" for j
  proof -
    have "gen j \<noteq> gen i"
      using a(4,5) imageI [OF that, of gen] by (auto simp: fresh_children_def)
    then show ?thesis using a(5) that fresh_promoted [OF a(2)] by (simp add: d1 fresh_children_def)
  qed
  then have "fresh_children gen ids d1" using a(5) by (auto simp: fresh_children_def)
  then show "store_inv d1 \<and> fresh_children gen ids d1 \<and> res = Some (fetched lib (set_pending r)) \<and>
      JobID (fetched lib (set_pending r)) = i \<and> find_job i d1 = Some (set_pending r) \<and>
      (\<forall>j x. j \<noteq> i \<longrightarrow> find_job j d = Some x \<longrightarrow> find_job j d1 = Some x)"
    using promoted_db_inv [where gen = gen, OF a(1-3) g] find_job_promoted [where gen = gen, OF a(2,3) g] find_jobD [OF a(2)]
    by (simp add: d1)
qed

interpretation promote0: total_batch_step "promote_one lib no_faults gen now dbnow"
  "\<lambda>r. Status r = JobScheduled" set_pending "fetched lib" "fresh_children gen" for lib gen now dbnow
  by unfold_locales (auto simp: promote_one_eq(2))


interpretation ungate: batch_step "ungate_one lib flt"
  "\<lambda>r. Status r \<in> {JobPending, JobQueued}" set_ungated "fetched lib" "\<lambda>_ _. True" for lib flt
proof
  fix d i r ids res d1
  assume a: "store_inv d" "find_job i d = Some r" "Status r \<in> {JobPending, JobQueued}"
    "ungate_one lib flt i d = Inr (res, d1)"
  let ?p = "\<lambda>r. Status r \<in> {JobPending, JobQueued}"
  have d1: "res = Some (fetched lib (set_ungated r))" "d1 = upd_job i ?p set_ungated d"
    using a(4) batch_update [where p = ?p and f = set_ungated, OF a(1-3)]
    by (auto simp: ungate_one_def split: if_splits)
  have "store_inv d1" unfolding d1
  proof (rule store_inv_touch [OF a(1)])
    fix x assume "find_job i d = Some x" "?p x"
    then show "row_inv (set_ungated x) \<and> Status (set_ungated x) = Status x"
      using row_inv_batch_sets(3) [OF store_inv_row [OF a(1)]] by auto
  qed simp
  then show "store_inv d1 \<and> True \<and> res = Some (fetched lib (set_ungated r)) \<and>
      JobID (fetched lib (set_ungated r)) = i \<and> find_job i d1 = Some (set_ungated r) \<and>
      (\<forall>j x. j \<noteq> i \<longrightarrow> find_job j d = Some x \<longrightarrow> find_job j d1 = Some x)"
    using a(2,3) find_jobD [OF a(2)] by (simp add: d1 find_job_upd)
qed

interpretation ungate0: total_batch_step "ungate_one lib no_faults"
  "\<lambda>r. Status r \<in> {JobPending, JobQueued}" set_ungated "fetched lib" "\<lambda>_ _. True" for lib
proof
  fix d i r
  assume "store_inv d" "find_job i d = Some r" "Status r \<in> {JobPending, JobQueued}"
  from batch_update [where p = "\<lambda>r. Status r \<in> {JobPending, JobQueued}" and f = set_ungated, OF this]
  show "\<exists>res d1. ungate_one lib no_faults i d = Inr (res, d1)"
    by (simp add: ungate_one_def no_faults_def)
qed

interpretation reclaim: batch_step "reclaim_one lib flt dbnow"
  "\<lambda>r. Status r = JobRunning" set_reclaimed "fetched lib" "\<lambda>_ _. True" for lib flt dbnow
proof
  fix d i r ids res d1
  assume a: "store_inv d" "find_job i d = Some r" "Status r = JobRunning"
    "reclaim_one lib flt dbnow i d = Inr (res, d1)"
  have d1: "res = Some (fetched lib (set_reclaimed r))"
      "d1 = insertEvent i JobRunning JobPending dbnow
              (upd_job i (\<lambda>r. Status r = JobRunning) set_reclaimed d)"
    using a(4) batch_update [where p = "\<lambda>r. Status r = JobRunning" and f = set_reclaimed, OF a(1-3)]
    by (auto simp: reclaim_one_def split: if_splits)
  have "store_inv d1"
    using store_inv_transition [where p = "\<lambda>r. Status r = JobRunning" and f = set_reclaimed,
        OF a(1-3)] row_inv_batch_sets(2) [OF store_inv_row [OF a(1,2)] a(3)] a(3)
    by (simp add: d1)
  then show "store_inv d1 \<and> True \<and> res = Some (fetched lib (set_reclaimed r)) \<and>
      JobID (fetched lib (set_reclaimed r)) = i \<and> find_job i d1 = Some (set_reclaimed r) \<and>
      (\<forall>j x. j \<noteq> i \<longrightarrow> find_job j d = Some x \<longrightarrow> find_job j d1 = Some x)"
    using a(2,3) find_jobD [OF a(2)] by (simp add: d1 find_job_upd)
qed

interpretation reclaim0: total_batch_step "reclaim_one lib no_faults dbnow"
  "\<lambda>r. Status r = JobRunning" set_reclaimed "fetched lib" "\<lambda>_ _. True" for lib dbnow
proof
  fix d i r
  assume "store_inv d" "find_job i d = Some r" "Status r = JobRunning"
  from batch_update [where p = "\<lambda>r. Status r = JobRunning" and f = set_reclaimed, OF this]
  show "\<exists>res d1. reclaim_one lib no_faults dbnow i d = Inr (res, d1)"
    by (simp add: reclaim_one_def no_faults_def)
qed

subsection \<open>Selections\<close>

lemma distinct_ids: "store_inv d \<Longrightarrow>
    distinct (map JobID (limit_to n (order_by k (filter P (jobs_tbl d)))))"
  by (intro distinct_limit_to distinct_order_by) (simp add: store_inv_def distinct_map_filter)

lemma selected_rows:
  assumes "store_inv d" and "i \<in> set (map JobID (limit_to n (order_by k (filter P (jobs_tbl d)))))"
  obtains r where "find_job i d = Some r" and "P r"
proof -
  from assms(2) obtain r where "r \<in> set (jobs_tbl d)" "P r" "i = JobID r"
    by (auto dest!: set_limit_to)
  with find_job_mem [OF assms(1)] that show ?thesis by blast
qed

lemma due_ids_selected: "store_inv d \<Longrightarrow> promote.selected (due_ids locked now limit d) d"
  unfolding promote.selected_def due_ids_def
  by (auto simp: distinct_ids due_scheduled_def elim!: selected_rows)

lemma retry_ids_selected: "store_inv d \<Longrightarrow> ungate.selected (retry_ids locked now limit d) d"
  unfolding ungate.selected_def retry_ids_def
  by (auto simp: distinct_ids due_retry_def elim!: selected_rows)

lemma stale_ids_selected: "store_inv d \<Longrightarrow> reclaim.selected (stale_ids locked b limit d) d"
  unfolding reclaim.selected_def stale_ids_def
  by (auto simp: distinct_ids stale_running_def elim!: selected_rows)

lemma ClaimDueScheduled_inv [inv_rules]:
  "store_inv d \<Longrightarrow> fresh_children gen (due_ids locked now limit d) d \<Longrightarrow>
     store_inv (snd (ClaimDueScheduled lib flt locked gen dbnow now limit d))"
  unfolding ClaimDueScheduled_def by (intro promote.tx_inv due_ids_selected)

lemma ClaimDueRetries_inv [inv_rules]:
  "store_inv d \<Longrightarrow> store_inv (snd (ClaimDueRetries lib flt locked now limit d))"
  unfolding ClaimDueRetries_def by (intro ungate.tx_inv retry_ids_selected TrueI)

lemma ClaimStaleRunning_inv [inv_rules]:
  "store_inv d \<Longrightarrow> store_inv (snd (ClaimStaleRunning lib flt locked dbnow b limit d))"
  unfolding ClaimStaleRunning_def by (intro reclaim.tx_inv stale_ids_selected TrueI)

lemma DeleteOldJobs_inv [inv_rules]:
  assumes "store_inv d"
  shows "store_inv (snd (DeleteOldJobs flt before limit d))"
proof -
  have "store_inv (delete_keys (orphan_keys n (delete_jobs dm d)) (delete_jobs dm d))" for n dm
  proof -
    let ?q = "\<lambda>r. (JobID r, CreatedAt r) \<notin> set dm"
    let ?ks = "orphan_keys n (delete_jobs dm d)"
    have "fst p \<notin> set ?ks"
      if r: "r \<in> set (filter ?q (jobs_tbl d))" and p: "p \<in> set (idem_tbl d)" "snd p = JobID r"
      for r p
    proof
      assume "fst p \<in> set ?ks"
      then obtain p' where p': "p' \<in> set (idem_tbl d)" "fst p' = fst p"
          "\<forall>r \<in> set (jobs_tbl (delete_jobs dm d)). JobID r \<noteq> snd p'"
        by (auto simp: orphan_keys_def delete_jobs_def dest!: set_limit_to)
      have "p' = p" using p'(1,2) p(1) assms eq_key_imp_eq_value [of "idem_tbl d"]
        by (metis prod.collapse store_inv_def)
      with p'(3) r p(2) show False by (auto simp: delete_jobs_def)
    qed
    then have "store_inv (d\<lparr>jobs_tbl := filter ?q (jobs_tbl d),
        idem_tbl := filter (\<lambda>p. fst p \<notin> set ?ks) (idem_tbl d)\<rparr>)"
    proof (intro store_inv_delete [OF assms])
      fix r k
      assume 1: "\<And>r p. r \<in> set (filter ?q (jobs_tbl d)) \<Longrightarrow> p \<in> set (idem_tbl d) \<Longrightarrow>
          snd p = JobID r \<Longrightarrow> fst p \<notin> set ?ks"
        and 2: "r \<in> set (filter ?q (jobs_tbl d))" "IdempotencyKey r = Some k" "k \<noteq> []"
      have "(k, JobID r) \<in> set (idem_tbl d)"
        using assms 2 by (auto simp: store_inv_def job_inv_def dest!: map_of_SomeD)
      from 1 [OF 2(1) this] show "fst (k, JobID r) \<notin> set ?ks" by simp
    qed
    then show ?thesis by (simp add: delete_keys_def delete_jobs_def)
  qed
  then show ?thesis using assms
    by (auto simp: DeleteOldJobs_def Let_def intro!: store_inv_commit)
qed

end
