(* ===== verification/World.thy ===== *)
theory World
  imports Jobs_Queries Jobs_Batch
begin

text \<open>
  The effects of the Go processes: Redis commands, database operations, hand-overs to the
  dispatcher, waits. A procedure takes the environment \<open>env\<close> and a \<open>world\<close> (the database
  and the trace of effects so far) and returns its result with the new world. What the code
  does not control is an oracle of \<open>env\<close> that sees the trace: the replies of Redis (a
  server behind the \<open>go-redis\<close> package), database faults, the clocks, \<open>uuid.New()\<close>,
  cancellation of the context and the choices of \<open>select\<close>. Every theorem holds for all
  oracles, that is for every behaviour of these.
\<close>

subsection \<open>Effects\<close>

record xmsg =
  xm_id :: string
  xm_values :: fields

datatype rcmd =
    XAdd string fields int
  | XAck string string string
  | XRange string string
  | XReadGroup string string string
  | XAutoClaim string string string
  | XGroupCreateMkStream string string
  | Scan int
  | XLen string
  | Ping
  | SetKey string string int \<comment> \<open>with an expiry in seconds\<close>
  | Del string
  | XInfoConsumers string string
  | XPendingExt string string int

datatype rerr = RedisNil | RedisCanceled | RedisErr string

record reply = \<comment> \<open>the value and the error a \<open>go-redis\<close> call returns\<close>
  rp_err :: "rerr option"
  rp_id :: string
  rp_int :: int
  rp_msgs :: "xmsg list"
  rp_keys :: "string list"

datatype dbop =
    OpClaim uuid string | OpHeartbeat uuid uuid | OpComplete uuid uuid | OpFail uuid uuid
  | OpPromote | OpRetries | OpReclaim | OpStale
  | OpCreate | OpGet uuid | OpEvents uuid | OpCancel uuid | OpCancelSeries uuid
  | OpRetryKey string uuid | OpRetryJob uuid | OpList | OpListSeries uuid | OpStats | OpAge

datatype effect =
    ERedis rcmd reply
  | EDb dbop "store_err option"
  | EDispatch Job bool \<comment> \<open>\<open>DispatchTask\<close>, and whether the job was queued\<close>
  | EWait duration
  | ERun string string \<comment> \<open>a handler ran: job type and payload\<close>

type_synonym trace = "effect list"

record env =
  e_lib :: golib
  e_redis :: "trace \<Rightarrow> rcmd \<Rightarrow> reply"
  e_flt :: "trace \<Rightarrow> faults"
  e_now :: "trace \<Rightarrow> instant"
  e_dbnow :: "trace \<Rightarrow> instant"
  e_uuid :: "trace \<Rightarrow> uuid"
  e_series :: "trace \<Rightarrow> uuid" \<comment> \<open>\<open>uuid.New()\<close> for a recurring series\<close>
  e_locked :: "trace \<Rightarrow> uuid \<Rightarrow> bool" \<comment> \<open>rows other sessions hold\<close>
  e_gen :: "trace \<Rightarrow> uuid \<Rightarrow> uuid" \<comment> \<open>identifiers of follow-ups\<close>
  e_done :: "trace \<Rightarrow> bool" \<comment> \<open>\<open>ctx.Done()\<close> is ready\<close>
  e_tick :: "trace \<Rightarrow> bool" \<comment> \<open>a ticker is ready\<close>
  e_json_err :: string \<comment> \<open>the JSON codec's error text\<close>
  e_fmt :: "json \<Rightarrow> string" \<comment> \<open>\<open>fmt.Sprintf("%v", v)\<close>\<close>
  e_replica :: "trace \<Rightarrow> db \<Rightarrow> db" \<comment> \<open>what the read pool answers from\<close>

record world =
  w_db :: db
  w_trace :: trace

definition emit :: "effect \<Rightarrow> world \<Rightarrow> world" where
  "emit e w = w\<lparr>w_trace := w_trace w @ [e]\<rparr>"

definition redis_do :: "env \<Rightarrow> rcmd \<Rightarrow> world \<Rightarrow> reply \<times> world" where
  "redis_do env cmd w =
     (let r = e_redis env (w_trace w) cmd in (r, emit (ERedis cmd r) w))"

definition err_of :: "'a result \<Rightarrow> store_err option" where
  "err_of r = (case r of Inl e \<Rightarrow> Some e | Inr _ \<Rightarrow> None)"

definition db_do :: "dbop \<Rightarrow> (db \<Rightarrow> 'a result \<times> db) \<Rightarrow> world \<Rightarrow> 'a result \<times> world" where
  "db_do label f w =
     (case f (w_db w) of (r, d) \<Rightarrow> (r, emit (EDb label (err_of r)) (w\<lparr>w_db := d\<rparr>)))"

lemma emit_simps [simp]: "w_db (emit e w) = w_db w" "w_trace (emit e w) = w_trace w @ [e]"
  by (simp_all add: emit_def)

lemma redis_do_world [simp]:
  "w_db (snd (redis_do env cmd w)) = w_db w"
  "w_trace (snd (redis_do env cmd w)) = w_trace w @ [ERedis cmd (e_redis env (w_trace w) cmd)]"
  "fst (redis_do env cmd w) = e_redis env (w_trace w) cmd"
  by (simp_all add: redis_do_def Let_def)

lemma db_do_world [simp]:
  "w_db (snd (db_do l f w)) = snd (f (w_db w))"
  "w_trace (snd (db_do l f w)) = w_trace w @ [EDb l (err_of (fst (f (w_db w))))]"
  "fst (db_do l f w) = fst (f (w_db w))"
  by (simp_all add: db_do_def split: prod.split)

lemma err_of_simps [simp]: "err_of (Inl e) = Some e" "err_of (Inr x) = None"
  by (simp_all add: err_of_def)

subsection \<open>The job store behind the \<open>JobStore\<close> interface\<close>

definition pg_ClaimRunning :: "env \<Rightarrow> uuid \<Rightarrow> string \<Rightarrow> world \<Rightarrow> (Job \<times> uuid) result \<times> world" where
  "pg_ClaimRunning env j wid w =
     (let t = w_trace w in
      db_do (OpClaim j wid)
        (ClaimRunning (e_lib env) (e_flt env t) (e_now env t) (e_dbnow env t) (e_uuid env t) j wid) w)"

definition pg_Heartbeat :: "env \<Rightarrow> uuid \<Rightarrow> uuid \<Rightarrow> world \<Rightarrow> unit result \<times> world" where
  "pg_Heartbeat env j tok w =
     (let t = w_trace w in db_do (OpHeartbeat j tok) (Heartbeat (e_flt env t) (e_dbnow env t) j tok) w)"

definition pg_Complete :: "env \<Rightarrow> uuid \<Rightarrow> uuid \<Rightarrow> world \<Rightarrow> unit result \<times> world" where
  "pg_Complete env j tok w =
     (let t = w_trace w in db_do (OpComplete j tok) (Complete (e_flt env t) (e_dbnow env t) j tok) w)"

definition pg_FailOrRetry :: "env \<Rightarrow> uuid \<Rightarrow> uuid \<Rightarrow> string \<Rightarrow> world \<Rightarrow> Job result \<times> world" where
  "pg_FailOrRetry env j tok err w =
     (let t = w_trace w in
      db_do (OpFail j tok)
        (FailOrRetry (e_lib env) (e_flt env t) (e_now env t) (e_dbnow env t) j tok err) w)"

text \<open>
  The interface \<open>broker.JobStore\<close>: what the consume path relies on. \<open>owner s j\<close> is the token
  that may finish job \<open>j\<close>. A successful claim makes its token the owner, finishing requires
  being the owner and gives ownership up, and a finish that is refused changes nothing.
\<close>

locale job_store =
  fixes inv :: "'s \<Rightarrow> bool" and owner :: "'s \<Rightarrow> uuid \<Rightarrow> uuid option"
    and claim :: "uuid \<Rightarrow> string \<Rightarrow> 's \<Rightarrow> (Job \<times> uuid) result \<times> 's"
    and complete :: "uuid \<Rightarrow> uuid \<Rightarrow> 's \<Rightarrow> unit result \<times> 's"
    and fail :: "uuid \<Rightarrow> uuid \<Rightarrow> string \<Rightarrow> 's \<Rightarrow> Job result \<times> 's"
  assumes claim_inv: "inv s \<Longrightarrow> inv (snd (claim j wid s))"
    and complete_inv: "inv s \<Longrightarrow> inv (snd (complete j t s))"
    and fail_inv: "inv s \<Longrightarrow> inv (snd (fail j t err s))"
    and claim_owner: "inv s \<Longrightarrow> claim j wid s = (Inr (job, t), s') \<Longrightarrow> owner s j = None \<and> owner s' j = Some t"
    and complete_owner: "inv s \<Longrightarrow> complete j t s = (Inr (), s') \<Longrightarrow> owner s j = Some t \<and> owner s' j = None"
    and fail_owner: "inv s \<Longrightarrow> fail j t err s = (Inr job, s') \<Longrightarrow> owner s j = Some t \<and> owner s' j = None"
begin

lemma owned_not_claimable:
  assumes "inv s" and "owner s j = Some t"
  shows "\<exists>e. fst (claim j wid s) = Inl e"
proof (cases "claim j wid s")
  case (Pair r s')
  then show ?thesis using claim_owner [OF assms(1), of j wid _ _ s'] assms(2) by (cases r) auto
qed

lemma finish_once:
  assumes "inv s" and "complete j t s = (Inr (), s')"
  shows "fst (complete j t2 s') \<noteq> Inr ()" and "fst (fail j t2 err s') \<noteq> Inr job"
proof -
  have inv': "inv s'" using complete_inv [OF assms(1), of j t] assms(2) by simp
  have none: "owner s' j = None" using complete_owner [OF assms] by simp
  show "fst (complete j t2 s') \<noteq> Inr ()"
    using complete_owner [OF inv', of j t2 "snd (complete j t2 s')"] none by (auto simp: prod_eq_iff)
  show "fst (fail j t2 err s') \<noteq> Inr job"
    using fail_owner [OF inv', of j t2 err job "snd (fail j t2 err s')"] none by (auto simp: prod_eq_iff)
qed

end

definition db_owner :: "db \<Rightarrow> uuid \<Rightarrow> uuid option" where
  "db_owner d j =
     (case find_job j d of
        None \<Rightarrow> None | Some r \<Rightarrow> if Status r = JobRunning then ClaimToken r else None)"

lemma claim_owner:
  "ClaimRunning lib flt now n tok j wid d = (Inr (job, t), d') \<Longrightarrow>
     db_owner d j = None \<and> db_owner d' j = Some t"
  by (auto simp: ClaimRunning_def commit_tx_def Let_def db_owner_def find_job_upd claimable_def
      split: if_splits option.splits)

lemma complete_owner:
  "Complete flt n j t d = (Inr (), d') \<Longrightarrow> db_owner d j = Some t \<and> db_owner d' j = None"
  by (auto simp: Complete_def commit_tx_def Let_def db_owner_def find_job_upd
      split: if_splits option.splits)

lemma fail_owner:
  "FailOrRetry lib flt now n j t err d = (Inr job, d') \<Longrightarrow> db_owner d j = Some t \<and> db_owner d' j = None"
  by (auto simp: FailOrRetry_def commit_tx_def Let_def db_owner_def find_job_upd fail_next_def
      split: if_splits option.splits)

lemma db_do_result: "db_do l f w = (r, w') \<Longrightarrow> f (w_db w) = (r, w_db w')"
  by (auto simp: db_do_def split: prod.splits)

interpretation pg: job_store "\<lambda>w. store_inv (w_db w)" "\<lambda>w. db_owner (w_db w)" "pg_ClaimRunning env"
  "pg_Complete env" "pg_FailOrRetry env" for env
proof
  fix w :: world and j wid t err
  assume "store_inv (w_db w)"
  then show "store_inv (w_db (snd (pg_ClaimRunning env j wid w)))"
    "store_inv (w_db (snd (pg_Complete env j t w)))"
    "store_inv (w_db (snd (pg_FailOrRetry env j t err w)))"
    by (simp_all add: pg_ClaimRunning_def pg_Complete_def pg_FailOrRetry_def Let_def inv_rules)
qed (auto simp: pg_ClaimRunning_def pg_Complete_def pg_FailOrRetry_def Let_def
  dest!: db_do_result claim_owner complete_owner fail_owner)

end
