(* ===== verification/Broker.thy ===== *)
theory Broker
  imports World
begin

text \<open>
  The Redis side, \<open>internal/broker\<close>: stream set-up and producers (\<open>stream_producer.go\<close>,
  \<open>redis.go\<close>) and the consume path (\<open>consumer.go\<close>) with its claim, hand-over, retry and
  dead-letter logic. Procedures act on the \<open>world\<close> of theory \<open>World\<close>.
\<close>

subsection \<open>Configuration\<close>

definition claimInIdl :: duration where "claimInIdl = 60 * second"
definition claimBatchSize :: int where "claimBatchSize = 35"
definition maxRetries :: int where "maxRetries = 3"
definition minReadBackoff :: duration where "minReadBackoff = 100000000"
definition maxReadBackoff :: duration where "maxReadBackoff = 5 * second"
definition DefaultStreamMaxLen :: int where "DefaultStreamMaxLen = 50000"
definition DefaultSentinelMaster :: string where "DefaultSentinelMaster = ''mymaster''"

record RedisStore =
  MaxLen :: int
  HasJobs :: bool \<comment> \<open>\<open>rds.Jobs != nil\<close>\<close>

definition EffectiveMaxLen :: "RedisStore \<Rightarrow> int" where
  "EffectiveMaxLen rds = (if 0 < MaxLen rds then MaxLen rds else DefaultStreamMaxLen)"

definition NextReadBackoff :: "duration \<Rightarrow> duration" where
  "NextReadBackoff current =
     (if current < minReadBackoff then minReadBackoff
      else let nxt = current * 2 in if nxt < maxReadBackoff then nxt else maxReadBackoff)"

definition ParseSentinelAddrs :: "string \<Rightarrow> string list" where
  "ParseSentinelAddrs e = filter (\<lambda>a. a \<noteq> []) (map TrimSpace (Split (CHR '','') e))"

datatype topology = SingleNode string | Sentinel string "string list" string

definition ConnectFromConfig :: "string \<Rightarrow> string \<Rightarrow> string \<Rightarrow> topology" where
  \<comment> \<open>which transport is dialled\<close>
  "ConnectFromConfig redisURL sentinelsEnv master =
     (let addrs = ParseSentinelAddrs sentinelsEnv in
      if 0 < length addrs
      then Sentinel (if master = [] then DefaultSentinelMaster else master) addrs redisURL
      else SingleNode redisURL)"

datatype redis_err =
    EmptyStream | XAddFailed | EmptyMsgID | XAckFailed | XGroupFailed | PipelineFailed
  | ReadFailed | MsgNotFound | RequeueFailed | DLQFailed

subsection \<open>Streams and producers\<close>

definition InitConsumerGroupsAndStreams ::
  "env \<Rightarrow> string \<Rightarrow> string \<Rightarrow> world \<Rightarrow> redis_err option \<times> world" where
  "InitConsumerGroupsAndStreams env streamName groupName w =
     (case redis_do env (XGroupCreateMkStream streamName groupName) w of (r, w1) \<Rightarrow>
        (case rp_err r of
           None \<Rightarrow> (None, w1)
         | Some (RedisErr msg) \<Rightarrow>
             if Contains msg ''BUSYGROUP'' then (None, w1) else (Some XGroupFailed, w1)
         | Some _ \<Rightarrow> (Some XGroupFailed, w1)))"

fun initStreams :: "env \<Rightarrow> (string \<times> string) list \<Rightarrow> world \<Rightarrow> redis_err option \<times> world" where
  \<comment> \<open>over the entries of the map, in the order the iteration visits them\<close>
  "initStreams env [] w = (None, w)"
| "initStreams env ((s, g) # sgs) w =
     (case InitConsumerGroupsAndStreams env s g w of
        (Some e, w1) \<Rightarrow> (Some e, w1)
      | (None, w1) \<Rightarrow> initStreams env sgs w1)"

definition AddJobRefToStream ::
  "env \<Rightarrow> RedisStore \<Rightarrow> string \<Rightarrow> Job \<Rightarrow> world \<Rightarrow> (redis_err + string) \<times> world" where
  "AddJobRefToStream env rds streamName job w =
     (if streamName = [] then (Inl EmptyStream, w)
      else case redis_do env (XAdd streamName (ToJobFields (e_lib env) job) (EffectiveMaxLen rds)) w of
        (r, w1) \<Rightarrow> (case rp_err r of Some _ \<Rightarrow> (Inl XAddFailed, w1) | None \<Rightarrow> (Inr (rp_id r), w1)))"

fun pipeline_xadds ::
  "env \<Rightarrow> RedisStore \<Rightarrow> string \<Rightarrow> TaskRequest list \<Rightarrow> world \<Rightarrow> reply list \<times> world" where
  "pipeline_xadds env rds s [] w = ([], w)"
| "pipeline_xadds env rds s (t # ts) w =
     (case redis_do env (XAdd s (ToFields (e_lib env) t) (EffectiveMaxLen rds)) w of (r, w1) \<Rightarrow>
        (case pipeline_xadds env rds s ts w1 of (rs, w2) \<Rightarrow> (r # rs, w2)))"

definition AddTaskToStream ::
  "env \<Rightarrow> RedisStore \<Rightarrow> string \<Rightarrow> TaskRequest list \<Rightarrow> world \<Rightarrow> (redis_err + string list) \<times> world" where
  \<comment> \<open>\<open>pipeline.Exec\<close> sends every command and returns the first error\<close>
  "AddTaskToStream env rds streamName tasks w =
     (case pipeline_xadds env rds streamName tasks w of (rs, w1) \<Rightarrow>
        if \<exists>r \<in> set rs. rp_err r \<noteq> None then (Inl PipelineFailed, w1)
        else (Inr (map rp_id rs), w1))"

definition AckJob ::
  "env \<Rightarrow> string \<Rightarrow> string \<Rightarrow> string \<Rightarrow> world \<Rightarrow> (redis_err + int) \<times> world" where
  "AckJob env streamName groupName msgId w =
     (if msgId = [] then (Inl EmptyMsgID, w)
      else case redis_do env (XAck streamName groupName msgId) w of
        (r, w1) \<Rightarrow> (case rp_err r of Some _ \<Rightarrow> (Inl XAckFailed, w1) | None \<Rightarrow> (Inr (rp_int r), w1)))"

subsection \<open>Retry and dead-letter streams\<close>

definition CheckLiveGroups ::
  "env \<Rightarrow> string \<Rightarrow> string \<Rightarrow> world \<Rightarrow> (redis_err + string list) \<times> world" where
  \<comment> \<open>the names of a group's consumers\<close>
  "CheckLiveGroups env streamName groupName w =
     (case redis_do env (XInfoConsumers streamName groupName) w of (r, w1) \<Rightarrow>
        (case rp_err r of Some _ \<Rightarrow> (Inl ReadFailed, w1) | None \<Rightarrow> (Inr (rp_keys r), w1)))"

definition GetPendingMessages ::
  "env \<Rightarrow> string \<Rightarrow> string \<Rightarrow> world \<Rightarrow> (redis_err + string list) \<times> world" where
  \<comment> \<open>the identifiers of up to 100 pending entries\<close>
  "GetPendingMessages env streamName groupName w =
     (case redis_do env (XPendingExt streamName groupName 100) w of (r, w1) \<Rightarrow>
        (case rp_err r of Some _ \<Rightarrow> (Inl ReadFailed, w1) | None \<Rightarrow> (Inr (rp_keys r), w1)))"

definition getAttempt :: "fields \<Rightarrow> int" where
  "getAttempt values =
     (case map_of values ''attempt'' of
        Some (FStr v) \<Rightarrow> (case Atoi v of (n, ok) \<Rightarrow> if ok then n else 0)
      | Some (FInt64 v) \<Rightarrow> v
      | Some (FFloat v) \<Rightarrow> float_to_int v
      | _ \<Rightarrow> 0)"

definition dlqStream :: "string \<Rightarrow> string" where
  "dlqStream streamName =
     (case CutPrefix streamName ''stream:'' of
        Some rest \<Rightarrow> ''dlq:'' @ rest | None \<Rightarrow> ''dlq:'' @ streamName)"

definition retry_values :: "fields \<Rightarrow> fields" where
  "retry_values values = AList.update ''attempt'' (FStr (Itoa (wrap64 (getAttempt values + 1)))) values"

definition dlq_values :: "string \<Rightarrow> instant \<Rightarrow> string \<Rightarrow> fields \<Rightarrow> fields" where
  "dlq_values reason now streamName values =
     AList.update ''_original_stream'' (FStr streamName)
       (AList.update ''_dlq_time'' (FStr (Itoa (now div second)))
         (AList.update ''_dlq_reason'' (FStr reason) values))"

definition move_copy ::
  "env \<Rightarrow> RedisStore \<Rightarrow> string \<Rightarrow> (world \<Rightarrow> fields \<Rightarrow> fields) \<Rightarrow> redis_err \<Rightarrow> string \<Rightarrow> string \<Rightarrow> string \<Rightarrow>
     world \<Rightarrow> redis_err option \<times> world" where
  \<comment> \<open>read the entry, XADD its rewritten copy, then ack the original\<close>
  "move_copy env rds target rewrite failed msgID streamName groupName w =
     (case redis_do env (XRange streamName msgID) w of (r, w1) \<Rightarrow>
        if rp_err r \<noteq> None then (Some ReadFailed, w1)
        else if rp_msgs r = [] then (Some MsgNotFound, w1)
        else
          (case redis_do env (XAdd target (rewrite w1 (xm_values (hd (rp_msgs r)))) (EffectiveMaxLen rds)) w1 of
             (r2, w2) \<Rightarrow>
               if rp_err r2 \<noteq> None then (Some failed, w2)
               else (case AckJob env streamName groupName msgID w2 of
                       (Inl e, w3) \<Rightarrow> (Some e, w3) | (Inr _, w3) \<Rightarrow> (None, w3))))"

definition broker_RetryJob ::
  "env \<Rightarrow> RedisStore \<Rightarrow> string \<Rightarrow> string \<Rightarrow> string \<Rightarrow> world \<Rightarrow> redis_err option \<times> world" where
  "broker_RetryJob env rds msgID streamName groupName w =
     move_copy env rds streamName (\<lambda>_. retry_values) RequeueFailed msgID streamName groupName w"

definition MoveToDeadLetterQueue ::
  "env \<Rightarrow> RedisStore \<Rightarrow> string \<Rightarrow> string \<Rightarrow> string \<Rightarrow> string \<Rightarrow> world \<Rightarrow> redis_err option \<times> world" where
  "MoveToDeadLetterQueue env rds msgID streamName groupName reason w =
     move_copy env rds (dlqStream streamName)
       (\<lambda>w1. dlq_values reason (e_now env (w_trace w1)) streamName) DLQFailed
       msgID streamName groupName w"

definition HandleJobFailure ::
  "env \<Rightarrow> RedisStore \<Rightarrow> string \<Rightarrow> string \<Rightarrow> string \<Rightarrow> int \<Rightarrow> world \<Rightarrow> redis_err option \<times> world" where
  "HandleJobFailure env rds msgID streamName groupName attempt w =
     (if attempt < maxRetries then broker_RetryJob env rds msgID streamName groupName w
      else MoveToDeadLetterQueue env rds msgID streamName groupName ''max retries exceeded'' w)"

subsection \<open>The consume path\<close>

definition DispatchTask :: "env \<Rightarrow> Job \<Rightarrow> world \<Rightarrow> bool \<times> world" where
  \<comment> \<open>seen from the consumer: queued (\<open>nil\<close>), or the context ended first\<close>
  "DispatchTask env job w =
     (let ok = (\<not> e_done env (w_trace w)) in (ok, emit (EDispatch job ok) w))"

definition ref_job :: "xmsg \<Rightarrow> Job \<Rightarrow> string \<Rightarrow> string \<Rightarrow> Job" where
  "ref_job msg ref streamName groupName =
     zero_job\<lparr>JobID := JobID ref, MsgID := xm_id msg, Stream := streamName, Group := groupName,
       Status := Status ref, Type := Type ref, Payload := Payload ref,
       PayloadRef := PayloadRef ref, QueueName := QueueName ref, Priority := Priority ref,
       AttemptCount := AttemptCount ref, MaxRetry := MaxRetry ref, CreatedAt := CreatedAt ref,
       ScheduledAt := ScheduledAt ref\<rparr>"

definition claimed_job :: "Job \<Rightarrow> Job \<Rightarrow> uuid \<Rightarrow> Job" where
  \<comment> \<open>the fields the claimed row overrides\<close>
  "claimed_job job claimed token =
     job\<lparr>Status := Status claimed, AttemptCount := AttemptCount claimed,
        MaxRetry := MaxRetry claimed, Priority := Priority claimed, ClaimToken := Some token,
        Payload := (if Payload claimed \<noteq> JNull then Payload claimed else Payload job),
        PayloadRef := (case PayloadRef claimed of Some s \<Rightarrow> Some s | None \<Rightarrow> PayloadRef job)\<rparr>"

definition dispatch_ref ::
  "env \<Rightarrow> RedisStore \<Rightarrow> xmsg \<Rightarrow> Job \<Rightarrow> string \<Rightarrow> string \<Rightarrow> world \<Rightarrow> world" where
  "dispatch_ref env rds msg job streamName groupName w =
     (case DispatchTask env job w of
        (True, w1) \<Rightarrow> w1
      | (False, w1) \<Rightarrow>
          (case ClaimToken job of
             Some tok \<Rightarrow>
               if HasJobs rds
               then snd (AckJob env streamName groupName (xm_id msg)
                      (snd (pg_FailOrRetry env (JobID job) tok ''dispatch failed'' w1)))
               else snd (HandleJobFailure env rds (xm_id msg) streamName groupName (AttemptCount job) w1)
           | None \<Rightarrow>
               snd (HandleJobFailure env rds (xm_id msg) streamName groupName (AttemptCount job) w1)))"

definition processRef ::
  "env \<Rightarrow> RedisStore \<Rightarrow> xmsg \<Rightarrow> Job \<Rightarrow> string \<Rightarrow> string \<Rightarrow> string \<Rightarrow> world \<Rightarrow> world" where
  "processRef env rds msg ref streamName groupName workerID w =
     (let job = ref_job msg ref streamName groupName in
      if \<not> HasJobs rds then dispatch_ref env rds msg job streamName groupName w
      else
        (case pg_ClaimRunning env (JobID ref) workerID w of
           (Inl ErrNotClaimable, w1) \<Rightarrow> snd (AckJob env streamName groupName (xm_id msg) w1)
         | (Inl _, w1) \<Rightarrow> w1
         | (Inr (claimed, token), w1) \<Rightarrow>
             dispatch_ref env rds msg (claimed_job job claimed token) streamName groupName w1))"

definition legacy_job :: "xmsg \<Rightarrow> TaskRequest \<Rightarrow> string \<Rightarrow> string \<Rightarrow> Job" where
  "legacy_job msg t streamName groupName =
     zero_job\<lparr>MsgID := xm_id msg, Stream := streamName, Group := groupName, Type := tr_Type t,
       Payload := JObj (tr_Payload t), AttemptCount := int16 (tr_Attempt t), MaxRetry := maxRetries\<rparr>"

definition task_err_text :: "env \<Rightarrow> task_err \<Rightarrow> string" where
  \<comment> \<open>the errors of \<open>FromFields\<close>\<close>
  "task_err_text env e =
     (case e of
        MissingTaskType \<Rightarrow> ''missing task type''
      | MissingTaskPayload \<Rightarrow> ''missing task payload''
      | _ \<Rightarrow> e_json_err env)"

definition process_msg ::
  "env \<Rightarrow> RedisStore \<Rightarrow> string \<Rightarrow> string \<Rightarrow> string \<Rightarrow> xmsg \<Rightarrow> world \<Rightarrow> world" where
  "process_msg env rds streamName groupName workerID msg w =
     (case JobFromFields (e_lib env) (xm_values msg) of
        Inr ref \<Rightarrow> processRef env rds msg ref streamName groupName workerID w
      | Inl _ \<Rightarrow>
          (case FromFields (e_lib env) (xm_values msg) of
             Inl e \<Rightarrow>
               snd (MoveToDeadLetterQueue env rds (xm_id msg) streamName groupName
                      (''malformed message: '' @ task_err_text env e) w)
           | Inr t \<Rightarrow>
               (case DispatchTask env (legacy_job msg t streamName groupName) w of
                  (True, w1) \<Rightarrow> w1
                | (False, w1) \<Rightarrow>
                    snd (HandleJobFailure env rds (xm_id msg) streamName groupName (tr_Attempt t) w1))))"

fun ProcessJobs ::
  "env \<Rightarrow> RedisStore \<Rightarrow> string \<Rightarrow> string \<Rightarrow> string \<Rightarrow> xmsg list \<Rightarrow> world \<Rightarrow> world" where
  "ProcessJobs env rds s g wid [] w = w"
| "ProcessJobs env rds s g wid (m # ms) w =
     ProcessJobs env rds s g wid ms (process_msg env rds s g wid m w)"

subsection \<open>The poll loop\<close>

datatype serve_exit = Continue duration | Return

definition waitBackoff :: "env \<Rightarrow> duration \<Rightarrow> world \<Rightarrow> serve_exit \<times> world" where
  \<comment> \<open>advance the back-off and wait, unless the context ends during the wait\<close>
  "waitBackoff env backoff w =
     (let b = NextReadBackoff backoff; w1 = emit (EWait b) w
      in if e_done env (w_trace w1) then (Return, w1) else (Continue b, w1))"

definition serve_iter ::
  "env \<Rightarrow> RedisStore \<Rightarrow> string \<Rightarrow> string \<Rightarrow> string \<Rightarrow> duration \<Rightarrow> world \<Rightarrow> serve_exit \<times> world" where
  \<comment> \<open>one round of the \<open>for\<close> loop\<close>
  "serve_iter env rds s g consumer backoff w =
     (if e_done env (w_trace w) then (Return, w)
      else if e_tick env (w_trace w) then
        (case redis_do env (XAutoClaim s g consumer) w of (r, w1) \<Rightarrow>
           if rp_err r \<noteq> None \<and> rp_err r \<noteq> Some RedisNil then waitBackoff env backoff w1
           else if rp_msgs r \<noteq> [] then (Continue backoff, ProcessJobs env rds s g consumer (rp_msgs r) w1)
           else (Continue backoff, w1))
      else
        (case redis_do env (XReadGroup s g consumer) w of (r, w1) \<Rightarrow>
           if rp_err r = Some RedisNil \<or> rp_msgs r = [] then (Continue 0, w1)
           else if rp_err r = Some RedisCanceled then (Return, w1)
           else if rp_err r \<noteq> None then waitBackoff env backoff w1
           else (Continue 0, ProcessJobs env rds s g consumer (rp_msgs r) w1)))"

fun ServeJobs ::
  "env \<Rightarrow> RedisStore \<Rightarrow> string \<Rightarrow> string \<Rightarrow> string \<Rightarrow> nat \<Rightarrow> duration \<Rightarrow> world \<Rightarrow> bool \<times> world" where
  \<comment> \<open>at most \<open>n\<close> rounds; the flag says whether the loop has returned\<close>
  "ServeJobs env rds s g consumer 0 backoff w = (False, w)"
| "ServeJobs env rds s g consumer (Suc n) backoff w =
     (case serve_iter env rds s g consumer backoff w of
        (Return, w1) \<Rightarrow> (True, w1)
      | (Continue b, w1) \<Rightarrow> ServeJobs env rds s g consumer n b w1)"


subsection \<open>Lemmas\<close>

definition extends :: "(effect list \<Rightarrow> bool) \<Rightarrow> world \<Rightarrow> world \<Rightarrow> bool" where
  \<comment> \<open>the effects of a procedure satisfy \<open>P\<close>\<close>
  "extends P w w' \<longleftrightarrow> (\<exists>es. w_trace w' = w_trace w @ es \<and> P es)"

lemma extendsI: "w_trace w' = w_trace w @ es \<Longrightarrow> P es \<Longrightarrow> extends P w w'"
  by (auto simp: extends_def)

lemma extends_trans:
  assumes "extends P w w1" and "extends Q w1 w2" and "\<And>a b. P a \<Longrightarrow> Q b \<Longrightarrow> R (a @ b)"
  shows "extends R w w2"
  using assms by (fastforce simp: extends_def)

definition is_ack :: "effect \<Rightarrow> bool" where
  "is_ack e = (case e of ERedis (XAck _ _ _) _ \<Rightarrow> True | _ \<Rightarrow> False)"

definition durable :: "effect \<Rightarrow> bool" where
  \<comment> \<open>after this effect the message is no longer needed: PG has the job (claimed here, or owned or
     finished elsewhere), or a copy is in a stream\<close>
  "durable e =
     (case e of
        EDb (OpClaim _ _) None \<Rightarrow> True
      | EDb (OpClaim _ _) (Some ErrNotClaimable) \<Rightarrow> True
      | ERedis (XAdd _ _ _) r \<Rightarrow> rp_err r = None
      | _ \<Rightarrow> False)"

fun acks_ok :: "bool \<Rightarrow> effect list \<Rightarrow> bool" where
  "acks_ok b [] = True"
| "acks_ok b (e # es) = ((is_ack e \<longrightarrow> b) \<and> acks_ok (b \<or> durable e) es)"

lemma acks_ok_True: "acks_ok True es"
  by (induction es) auto

lemma acks_ok_append: "acks_ok b (xs @ ys) \<longleftrightarrow> acks_ok b xs \<and> acks_ok (b \<or> (\<exists>e \<in> set xs. durable e)) ys"
  by (induction xs arbitrary: b) (auto simp: disj_assoc)

lemma AckJob_trace:
  "\<exists>es. w_trace (snd (AckJob env s g i w)) = w_trace w @ es"
  by (simp add: AckJob_def split: prod.split option.split) (metis append_Nil2 redis_do_world(2) snd_conv)

lemma move_copy_acks:
  "extends (acks_ok False) w (snd (move_copy env rds target f e i s g w))"
proof -
  obtain r w1 where 1: "redis_do env (XRange s i) w = (r, w1)" by (rule prod.exhaust)
  have t1: "w_trace w1 = w_trace w @ [ERedis (XRange s i) r]"
    using redis_do_world(2,3) [of env "XRange s i" w] by (simp add: 1)
  let ?x = "XAdd target (f w1 (xm_values (hd (rp_msgs r)))) (EffectiveMaxLen rds)"
  obtain r2 w2 where 2: "redis_do env ?x w1 = (r2, w2)" by (rule prod.exhaust)
  have t2: "w_trace w2 = w_trace w1 @ [ERedis ?x r2]"
    using redis_do_world(2,3) [of env ?x w1] by (simp add: 2)
  obtain es where t3: "w_trace (snd (AckJob env s g i w2)) = w_trace w2 @ es"
    using AckJob_trace by blast
  have short: "acks_ok False [ERedis (XRange s i) r]" "acks_ok False [ERedis (XRange s i) r, ERedis ?x r2]"
    by (simp_all add: is_ack_def)
  have long: "acks_ok False ([ERedis (XRange s i) r, ERedis ?x r2] @ es)" if "rp_err r2 = None"
    using that by (simp add: is_ack_def durable_def acks_ok_True)
  have "snd (move_copy env rds target f e i s g w) =
      (if rp_err r \<noteq> None \<or> rp_msgs r = [] then w1
       else if rp_err r2 \<noteq> None then w2 else snd (AckJob env s g i w2))"
    by (simp add: move_copy_def 1 2 split: prod.split sum.split)
  then show ?thesis using short long
    by (auto simp: t1 t2 t3 intro: extendsI)
qed


lemma extends_mono: "extends P w w' \<Longrightarrow> (\<And>es. P es \<Longrightarrow> Q es) \<Longrightarrow> extends Q w w'"
  by (auto simp: extends_def)

lemma HandleJobFailure_acks:
  "extends (acks_ok False) w (snd (HandleJobFailure env rds i s g n w))"
  by (simp add: HandleJobFailure_def broker_RetryJob_def MoveToDeadLetterQueue_def move_copy_acks)

lemma DispatchTask_trace:
  "fst (DispatchTask env job w) = (\<not> e_done env (w_trace w))"
  "w_trace (snd (DispatchTask env job w)) = w_trace w @ [EDispatch job (\<not> e_done env (w_trace w))]"
  "w_db (snd (DispatchTask env job w)) = w_db w"
  by (simp_all add: DispatchTask_def Let_def)

lemma dispatch_legacy_acks:
  "extends (acks_ok False) w
     (case DispatchTask env job w of
        (True, w1) \<Rightarrow> w1 | (False, w1) \<Rightarrow> snd (HandleJobFailure env rds i s g n w1))"
proof (cases "DispatchTask env job w")
  case (Pair ok w1)
  then have t: "w_trace w1 = w_trace w @ [EDispatch job ok]"
    using DispatchTask_trace [of env job w] by simp
  have d: "extends (\<lambda>es. es = [EDispatch job ok]) w w1" using t by (rule extendsI) simp
  show ?thesis
  proof (cases ok)
    case True
    then show ?thesis using Pair d by (auto intro!: extends_mono [OF d] simp: is_ack_def)
  next
    case False
    have "extends (acks_ok False) w (snd (HandleJobFailure env rds i s g n w1))"
      by (rule extends_trans [OF d HandleJobFailure_acks]) (simp add: is_ack_def durable_def)
    then show ?thesis using Pair False by simp
  qed
qed

lemma AckJob_grows: "extends (\<lambda>_. True) w (snd (AckJob env s g i w))"
  using AckJob_trace by (auto simp: extends_def)

lemma dispatch_ref_acks:
  "extends (acks_ok (HasJobs rds \<and> ClaimToken job \<noteq> None)) w (dispatch_ref env rds msg job s g w)"
proof (cases "HasJobs rds \<and> ClaimToken job \<noteq> None")
  case False
  then have "dispatch_ref env rds msg job s g w =
     (case DispatchTask env job w of
        (True, w1) \<Rightarrow> w1
      | (False, w1) \<Rightarrow> snd (HandleJobFailure env rds (xm_id msg) s g (AttemptCount job) w1))"
    by (auto simp: dispatch_ref_def split: prod.splits bool.splits option.splits)
  then show ?thesis using False dispatch_legacy_acks by (auto simp del: acks_ok.simps)
next
  case True
  then obtain tok where tok: "ClaimToken job = Some tok" by auto
  obtain ok w1 where d: "DispatchTask env job w = (ok, w1)" by (rule prod.exhaust)
  have t: "extends (\<lambda>_. True) w w1"
    using DispatchTask_trace [of env job w] by (auto simp: d extends_def)
  let ?w2 = "snd (pg_FailOrRetry env (JobID job) tok ''dispatch failed'' w1)"
  have f: "extends (\<lambda>_. True) w1 ?w2" by (auto simp: pg_FailOrRetry_def Let_def extends_def)
  have a: "extends (\<lambda>_. True) w1 (snd (AckJob env s g (xm_id msg) ?w2))"
    by (rule extends_trans [OF f AckJob_grows]) simp
  have "extends (\<lambda>_. True) w (dispatch_ref env rds msg job s g w)"
    using extends_trans [OF t a] t True tok
    by (auto simp: dispatch_ref_def d split: bool.split)
  then show ?thesis using True by (auto intro: extends_mono simp: acks_ok_True)
qed

lemma processRef_acks:
  "extends (acks_ok False) w (processRef env rds msg ref s g wid w)"
proof (cases "HasJobs rds")
  case False
  then show ?thesis using dispatch_ref_acks [of rds "ref_job msg ref s g" w env msg s g]
    by (simp add: processRef_def)
next
  case True
  obtain r w1 where c: "pg_ClaimRunning env (JobID ref) wid w = (r, w1)" by (rule prod.exhaust)
  have t: "extends (\<lambda>es. es = [EDb (OpClaim (JobID ref) wid) (err_of r)]) w w1"
    using db_do_world(2,3) [of "OpClaim (JobID ref) wid"] c
    by (auto simp: pg_ClaimRunning_def Let_def db_do_def extends_def split: prod.splits)
  have early: "extends (acks_ok False) w w1"
    by (rule extends_mono [OF t]) (simp add: is_ack_def)
  show ?thesis
  proof (cases r)
    case (Inl e)
    have "extends (acks_ok False) w (snd (AckJob env s g (xm_id msg) w1))" if "e = ErrNotClaimable"
      by (rule extends_trans [OF t AckJob_grows])
        (simp add: Inl that durable_def is_ack_def acks_ok_True)
    then show ?thesis using early
      by (cases e) (auto simp: processRef_def True c Inl)
  next
    case (Inr x)
    obtain claimed tok where x: "x = (claimed, tok)" by (cases x)
    let ?j = "claimed_job (ref_job msg ref s g) claimed tok"
    have "extends (acks_ok False) w (dispatch_ref env rds msg ?j s g w1)"
      by (rule extends_trans [OF t dispatch_ref_acks])
        (simp add: Inr durable_def is_ack_def acks_ok_True)
    then show ?thesis by (simp add: processRef_def True c Inr x)
  qed
qed

lemma process_msg_acks:
  "extends (acks_ok False) w (process_msg env rds s g wid msg w)"
  using processRef_acks dispatch_legacy_acks move_copy_acks
  by (simp add: process_msg_def MoveToDeadLetterQueue_def split: sum.split)

subsection \<open>Properties\<close>

text \<open>C3. The consumer never acks a message whose work could be lost: whatever the message (a job
  reference, a legacy request or garbage), the replies of Redis, the database faults and the
  state of the dispatcher, each XACK that processing issues comes after an effect that made
  the message redundant: the job was claimed, PostgreSQL answered that it is owned or
  finished, or a copy was added to the stream or to the dead-letter stream.\<close>

theorem process_msg_no_early_ack:
  "\<exists>es. w_trace (process_msg env rds s g wid msg w) = w_trace w @ es \<and> acks_ok False es"
  using process_msg_acks [of w env rds s g wid msg] by (auto simp: extends_def)

text \<open>The reconnect back-off starts at 100 ms, doubles with every consecutive failure and
  stops at 5 s.\<close>

theorem NextReadBackoff_sequence:
  "(NextReadBackoff ^^ Suc k) 0 = min maxReadBackoff (minReadBackoff * 2 ^ k)"
proof (induction k)
  case 0
  then show ?case by (simp add: NextReadBackoff_def minReadBackoff_def maxReadBackoff_def second_def)
next
  case (Suc k)
  have "(1::int) \<le> 2 ^ k" by simp
  have "NextReadBackoff (min maxReadBackoff (minReadBackoff * 2 ^ k)) =
      min maxReadBackoff (minReadBackoff * 2 ^ Suc k)"
    by (simp add: NextReadBackoff_def minReadBackoff_def maxReadBackoff_def second_def Let_def min_def)
      (use \<open>(1::int) \<le> 2 ^ k\<close> in linarith)
  then show ?case using Suc by simp
qed

definition no_wait :: "effect list \<Rightarrow> bool" where
  "no_wait es = list_all (\<lambda>e. case e of EWait _ \<Rightarrow> False | _ \<Rightarrow> True) es"

text \<open>A dead Redis makes the poll loop spin without any back-off: when every command fails
  (and, as \<open>go-redis\<close> documents, a failed call returns no messages), \<open>n\<close> rounds of
  \<open>ServeJobs\<close> issue \<open>n\<close> XREADGROUP commands and not a single wait, because the test for an
  empty result comes before the test for an error.\<close>

theorem outage_spins_without_backoff:
  assumes "\<And>t c. rp_err (e_redis env t c) = Some (RedisErr m) \<and> rp_msgs (e_redis env t c) = []"
    and "\<And>t. \<not> e_done env t" and "\<And>t. \<not> e_tick env t"
  shows "\<exists>w' es. ServeJobs env rds s g consumer n backoff w = (False, w') \<and>
    w_trace w' = w_trace w @ es \<and> length es = n \<and> no_wait es"
proof (induction n arbitrary: backoff w)
  case 0
  then show ?case by (simp add: no_wait_def)
next
  case (Suc n)
  let ?c = "XReadGroup s g consumer"
  obtain r w1 where r: "redis_do env ?c w = (r, w1)" by (rule prod.exhaust)
  have t: "w_trace w1 = w_trace w @ [ERedis ?c r]" "rp_msgs r = []"
    using redis_do_world(2,3) [of env ?c w] assms(1) by (simp_all add: r)
  have "serve_iter env rds s g consumer backoff w = (Continue 0, w1)"
    using assms(2,3) t(2) by (simp add: serve_iter_def r)
  with Suc.IH [of 0 w1] t(1) show ?case by (auto simp: no_wait_def)
qed

definition dead_env :: env where
  \<comment> \<open>an environment in which Redis is down\<close>
  "dead_env =
     \<lparr>e_lib = demo_lib,
      e_redis = (\<lambda>_ _. \<lparr>rp_err = Some (RedisErr ''connection refused''), rp_id = [], rp_int = 0, rp_msgs = [], rp_keys = []\<rparr>),
      e_flt = (\<lambda>_. no_faults), e_now = (\<lambda>_. 0), e_dbnow = (\<lambda>_. 0), e_uuid = (\<lambda>_. 1), e_series = (\<lambda>_. 2),
      e_locked = (\<lambda>_ _. False), e_gen = (\<lambda>_ i. i), e_done = (\<lambda>_. False), e_tick = (\<lambda>_. False),
      e_json_err = [], e_fmt = (\<lambda>_. []), e_replica = (\<lambda>_ d. d)\<rparr>"

lemma outage_spins_without_backoff_witness:
  "\<exists>w' es. ServeJobs dead_env \<lparr>MaxLen = 0, HasJobs = True\<rparr> ''s'' ''g'' ''c'' 1000 0
      \<lparr>w_db = empty_db, w_trace = []\<rparr> = (False, w') \<and> w_trace w' = es \<and> length es = 1000 \<and> no_wait es"
  using outage_spins_without_backoff [of dead_env "''connection refused''"
      "\<lparr>MaxLen = 0, HasJobs = True\<rparr>" "''s''" "''g''" "''c''" 1000 0 "\<lparr>w_db = empty_db, w_trace = []\<rparr>"]
  by (simp add: dead_env_def)


lemma dlqStream_no_loop: "(s, g) \<in> set streamsAndGroups \<Longrightarrow> dlqStream s \<notin> fst ` set streamsAndGroups"
  by (auto simp: streamsAndGroups_def stream_consts dlqStream_def CutPrefix_def)

lemma getAttempt_retry_values:
  "is_int64 (getAttempt v + 1) \<Longrightarrow> getAttempt (retry_values v) = getAttempt v + 1"
proof -
  assume r: "is_int64 (getAttempt v + 1)"
  show ?thesis using Atoi_Itoa [OF r] wrap64_id [OF r]
    by (simp add: retry_values_def getAttempt_def [of "AList.update _ _ _"] update_conv)
qed

text \<open>A failed legacy message is never dropped and never loops: when Redis answers, a message
  with fewer than \<open>maxRetries\<close> attempts is re-added to its own stream with its attempt
  number one higher and every other value unchanged, any other goes to the dead-letter stream
  of its stream with the reason and its origin, a dead-letter stream is none of the consumed
  streams, and in both cases the original is acked last.\<close>

theorem legacy_failure_moves:
  assumes "\<And>t c. rp_err (e_redis env t c) = None" and "\<And>t. rp_msgs (e_redis env t (XRange s i)) = [m]"
    and "i \<noteq> []" and "(s, g) \<in> set streamsAndGroups" and "is_int64 (getAttempt (xm_values m) + 1)"
  shows "\<exists>w' vals r1 r2 r3. HandleJobFailure env rds i s g n w = (None, w') \<and>
    w_trace w' = w_trace w @ [ERedis (XRange s i) r1,
      ERedis (XAdd (if n < maxRetries then s else dlqStream s) vals (EffectiveMaxLen rds)) r2,
      ERedis (XAck s g i) r3] \<and>
    dlqStream s \<notin> fst ` set streamsAndGroups \<and>
    (if n < maxRetries
     then getAttempt vals = getAttempt (xm_values m) + 1 \<and>
          (\<forall>k. k \<noteq> ''attempt'' \<longrightarrow> map_of vals k = map_of (xm_values m) k)
     else map_of vals ''_dlq_reason'' = Some (FStr ''max retries exceeded'') \<and>
          map_of vals ''_original_stream'' = Some (FStr s))"
proof -
  have copy: "\<exists>w' r1 r2 r3 w1. move_copy env rds tgt f e i s g w = (None, w') \<and>
      w_trace w' = w_trace w @ [ERedis (XRange s i) r1,
        ERedis (XAdd tgt (f w1 (xm_values m)) (EffectiveMaxLen rds)) r2, ERedis (XAck s g i) r3]" for tgt f e
    using assms(1-3) by (simp add: move_copy_def AckJob_def redis_do_def Let_def) blast
  show ?thesis
  proof (cases "n < maxRetries")
    case True
    obtain w' r1 r2 r3 where "HandleJobFailure env rds i s g n w = (None, w')"
        "w_trace w' = w_trace w @ [ERedis (XRange s i) r1,
          ERedis (XAdd s (retry_values (xm_values m)) (EffectiveMaxLen rds)) r2, ERedis (XAck s g i) r3]"
      using copy [of s "\<lambda>_. retry_values" RequeueFailed] True
      by (auto simp: HandleJobFailure_def broker_RetryJob_def)
    then show ?thesis
      using True getAttempt_retry_values [OF assms(5)] dlqStream_no_loop [OF assms(4)]
      by (intro exI conjI) (assumption | simp add: retry_values_def update_conv)+
  next
    case False
    obtain w' r1 r2 r3 now where "HandleJobFailure env rds i s g n w = (None, w')"
        "w_trace w' = w_trace w @ [ERedis (XRange s i) r1,
          ERedis (XAdd (dlqStream s) (dlq_values ''max retries exceeded'' now s (xm_values m))
            (EffectiveMaxLen rds)) r2, ERedis (XAck s g i) r3]"
      using copy [of "dlqStream s" "\<lambda>w1. dlq_values ''max retries exceeded'' (e_now env (w_trace w1)) s" DLQFailed]
        False
      by (auto simp: HandleJobFailure_def MoveToDeadLetterQueue_def)
    then show ?thesis
      using False dlqStream_no_loop [OF assms(4)]
      by (intro exI conjI) (assumption | simp add: dlq_values_def update_conv)+
  qed
qed

definition live_env :: env where
  \<comment> \<open>an environment in which Redis answers, with one stored message\<close>
  "live_env = dead_env\<lparr>e_redis := (\<lambda>_ _. \<lparr>rp_err = None, rp_id = ''9-0'', rp_int = 1,
     rp_msgs = [\<lparr>xm_id = ''1-0'', xm_values = [(''attempt'', FStr ''1'')]\<rparr>], rp_keys = []\<rparr>)\<rparr>"

lemma legacy_failure_moves_witness:
  "\<exists>w'. HandleJobFailure live_env \<lparr>MaxLen = 0, HasJobs = False\<rparr> ''1-0'' EmailHighStream EmailGroupHigh 1
     \<lparr>w_db = empty_db, w_trace = []\<rparr> = (None, w') \<and> length (w_trace w') = 3"
proof -
  have "(EmailHighStream, EmailGroupHigh) \<in> set streamsAndGroups" by (simp add: streamsAndGroups_def)
  moreover have "getAttempt [(''attempt'', FStr ''1'')] = 1" by code_simp
  ultimately show ?thesis
    using legacy_failure_moves [of live_env EmailHighStream "''1-0''"
        "\<lparr>xm_id = ''1-0'', xm_values = [(''attempt'', FStr ''1'')]\<rparr>" EmailGroupHigh
        "\<lparr>MaxLen = 0, HasJobs = False\<rparr>" 1 "\<lparr>w_db = empty_db, w_trace = []\<rparr>"]
    by (auto simp: live_env_def is_int64_def)
qed

end
