(* ===== verification/Worker.thy ===== *)
theory Worker
  imports Broker
begin

text \<open>
  The worker process, \<open>internal/worker/worker.go\<close>: pool selection and configuration, the
  supervisor's restart delays, the timeout race of a handler, and one round of
  \<open>workerLoop\<close> with its failure and acknowledgement paths. What a handler does is a
  parameter: \<open>ev\<close> says how its race with the deadline and the context ends. The channels
  between the goroutines are theory \<open>Worker_Pool\<close>.
\<close>

subsection \<open>Configuration\<close>

record poolConfig =
  pc_Type :: string
  HighStream :: string
  LowStream :: string
  HighGroup :: string
  LowGroup :: string

definition poolConfigs :: "(string \<times> poolConfig) list" where
  "poolConfigs =
     [(''email'', \<lparr>pc_Type = ''email'', HighStream = EmailHighStream, LowStream = EmailLowStream,
         HighGroup = EmailGroupHigh, LowGroup = EmailGroupLow\<rparr>),
      (''file_processing'', \<lparr>pc_Type = ''file_processing'', HighStream = FileHighStream,
         LowStream = FileLowStream, HighGroup = FileGroupHigh, LowGroup = FileGroupLow\<rparr>),
      (''exec_processing'', \<lparr>pc_Type = ''exec_processing'', HighStream = ExecHighStream,
         LowStream = ExecLowStream, HighGroup = ExecGroupHigh, LowGroup = ExecGroupLow\<rparr>)]"

definition poolOrder :: "string list" where
  "poolOrder = [''email'', ''file_processing'', ''exec_processing'']"

fun pool_arg :: "string list \<Rightarrow> string option" where
  "pool_arg [] = None"
| "pool_arg (a # as) =
     (if HasPrefix a ''--pool='' \<and> map_of poolConfigs (TrimPrefix a ''--pool='') \<noteq> None
      then Some (TrimPrefix a ''--pool='') else pool_arg as)"

definition poolFromArgs :: "string list \<Rightarrow> getenv \<Rightarrow> string" where
  "poolFromArgs args getenv =
     (case pool_arg args of
        Some v \<Rightarrow> v
      | None \<Rightarrow>
          (let v = getenv ''WORKER_POOL'' in
           if v \<noteq> [] \<and> map_of poolConfigs v \<noteq> None then v else []))"

definition dynamicPoolSize :: "getenv \<Rightarrow> int \<Rightarrow> int" where
  \<comment> \<open>with \<open>runtime.GOMAXPROCS(0)\<close>\<close>
  "dynamicPoolSize getenv gomaxprocs =
     (case Atoi (getenv ''POOL_WORKERS'') of (k, ok) \<Rightarrow>
        if getenv ''POOL_WORKERS'' \<noteq> [] \<and> ok \<and> 0 < k then k
        else
          (let n = gomaxprocs * 2; n1 = (if n < 4 then 4 else n) in if 32 < n1 then 32 else n1))"

definition DefaultJobTimeout :: duration where "DefaultJobTimeout = 5 * minute"

definition jobTimeout :: "getenv \<Rightarrow> duration" where
  \<comment> \<open>the product of two durations wraps at 64 bits\<close>
  "jobTimeout getenv =
     (let v = TrimSpace (getenv ''JOB_TIMEOUT_SEC'') in
      case Atoi v of (n, ok) \<Rightarrow>
        if v \<noteq> [] \<and> ok \<and> 0 < n then wrap64 (n * second) else DefaultJobTimeout)"

definition pool_redisAddr :: "getenv \<Rightarrow> string" where
  "pool_redisAddr getenv =
     (let a = getenv ''REDIS_ADDR'';
          b = (if a = [] then getenv ''RedisURI'' else a);
          c = (if b = [] then ''redis://123456890ca@localhost:6379/0'' else b)
      in if Contains c ''://'' then c else ''redis://'' @ c)"

definition pool_maxLen :: "getenv \<Rightarrow> int" where
  "pool_maxLen getenv =
     (case Atoi (getenv ''STREAM_MAX_LEN'') of (n, ok) \<Rightarrow> if ok \<and> 0 < n then n else 0)"

subsection \<open>The supervisor's restarts\<close>

definition restart_delay :: "duration \<Rightarrow> duration" where
  "restart_delay d =
     (if d = 0 then second else let d2 = d * 2 in if 30 * second < d2 then 30 * second else d2)"

definition supervise :: "bool \<Rightarrow> duration \<Rightarrow> duration \<times> duration" where
  \<comment> \<open>a child exited: the delay before the restart and the pool's back-off after it, given
     whether \<open>startChild\<close> succeeds\<close>
  "supervise start_ok d = (restart_delay d, if start_ok then 0 else restart_delay d)"

fun restart_delays :: "bool list \<Rightarrow> duration \<Rightarrow> duration list" where
  "restart_delays [] d = []"
| "restart_delays (ok # oks) d =
     (case supervise ok d of (delay, d1) \<Rightarrow> delay # restart_delays oks d1)"

subsection \<open>Job types\<close>

definition streamForType :: "string \<Rightarrow> string" where
  "streamForType jobType =
     (if jobType = ''email'' then EmailHighStream
      else if jobType = ''file'' \<or> jobType = ''file_processing'' then FileHighStream
      else if jobType = ''exec'' \<or> jobType = ''exec_processing'' then ExecHighStream
      else [])"

definition groupForType :: "string \<Rightarrow> string" where
  "groupForType jobType =
     (if jobType = ''email'' then EmailGroupHigh
      else if jobType = ''file'' \<or> jobType = ''file_processing'' then FileGroupHigh
      else if jobType = ''exec'' \<or> jobType = ''exec_processing'' then ExecGroupHigh
      else [])"

definition ackTarget :: "Job \<Rightarrow> string \<times> string" where
  "ackTarget job =
     (if Stream job \<noteq> [] \<and> Group job \<noteq> [] then (Stream job, Group job)
      else (streamForType (Type job), groupForType (Type job)))"

datatype claim_err = EmptyWorkerID | NilContext | UnknownJobType

definition ClaimJob :: "string \<Rightarrow> string \<Rightarrow> bool \<Rightarrow> claim_err option" where
  \<comment> \<open>the third argument: the context is nil\<close>
  "ClaimJob wId job_type nil_ctx =
     (if wId = [] then Some EmptyWorkerID
      else if nil_ctx then Some NilContext
      else if map_of poolConfigs job_type = None \<and> job_type \<notin> {''email'', ''file'', ''exec''}
        then Some UnknownJobType
      else None)"

definition truncateLog :: "string \<Rightarrow> nat \<Rightarrow> string" where
  \<comment> \<open>the ellipsis is the three bytes of U+2026\<close>
  "truncateLog s n =
     (if length s \<le> n then s
      else take n s @ [char_of (226::nat), char_of (128::nat), char_of (166::nat)] @ ''[truncated]'')"

subsection \<open>Running a handler\<close>

datatype run_event =
    HandlerDone "string + string" \<comment> \<open>the outcome arrives first: an error or a result\<close>
  | DeadlinePassed duration "(string + string) option"
      \<comment> \<open>the timeout that passed; an outcome may have arrived since\<close>
  | ContextDone \<comment> \<open>the pool is shutting down\<close>
  | HandlerPanic \<comment> \<open>in the goroutine \<open>runWithTimeout\<close> started\<close>

datatype run_result = RunOk string | RunErr string | ProcessDies

definition frac_digits :: "nat \<Rightarrow> int \<Rightarrow> string" where
  \<comment> \<open>the fraction of a duration in a unit of \<open>10 ^ w\<close> nanoseconds, without trailing zeros\<close>
  "frac_digits w u =
     (let ds = rev (dropWhile (\<lambda>c. c = CHR ''0'') (rev (pad0 w (u mod 10 ^ w))))
      in if ds = [] then [] else CHR ''.'' # ds)"

definition Duration_String :: "duration \<Rightarrow> string" where
  \<comment> \<open>\<open>time.Duration.String\<close>\<close>
  "Duration_String d =
     (let u = \<bar>d\<bar>; sec = u div second in
      if u = 0 then ''0s''
      else (if d < 0 then ''-'' else []) @
        (if u < 1000 then Itoa u @ ''ns''
         else if u < 1000000 then Itoa (u div 1000) @ frac_digits 3 u @ [CHR 0xC2, CHR 0xB5, CHR ''s'']
         else if u < second then Itoa (u div 1000000) @ frac_digits 6 u @ ''ms''
         else (if 3600 \<le> sec then Itoa (sec div 3600) @ ''h'' else []) @
              (if 60 \<le> sec then Itoa (sec div 60 mod 60) @ ''m'' else []) @
              Itoa (sec mod 60) @ frac_digits 9 u @ ''s''))"

definition runWithTimeout :: "run_event \<Rightarrow> run_result" where
  "runWithTimeout ev =
     (case ev of
        HandlerDone (Inr res) \<Rightarrow> RunOk res
      | HandlerDone (Inl e) \<Rightarrow> RunErr e
      | DeadlinePassed _ (Some (Inr res)) \<Rightarrow> RunOk res
      | DeadlinePassed _ (Some (Inl e)) \<Rightarrow> RunErr e
      | DeadlinePassed timeout None \<Rightarrow> RunErr (''job execution timed out after '' @ Duration_String timeout)
      | ContextDone \<Rightarrow> RunErr ''context canceled''
      | HandlerPanic \<Rightarrow> ProcessDies)" \<comment> \<open>a panic is recovered only in its own goroutine\<close>

definition hasClaim :: "RedisStore \<Rightarrow> Job \<Rightarrow> bool" where
  "hasClaim rds job \<longleftrightarrow> HasJobs rds \<and> JobID job \<noteq> uuid_Nil \<and> ClaimToken job \<noteq> None"

fun heartbeatJob :: "env \<Rightarrow> Job \<Rightarrow> nat \<Rightarrow> world \<Rightarrow> bool \<times> world" where
  \<comment> \<open>at most \<open>n\<close> rounds, one per five seconds\<close>
  "heartbeatJob env job 0 w = (False, w)"
| "heartbeatJob env job (Suc n) w =
     (if e_done env (w_trace w) then (True, w)
      else heartbeatJob env job n
        (snd (pg_Heartbeat env (JobID job) (the (ClaimToken job)) (emit (EWait (5 * second)) w))))"

definition ack_job :: "env \<Rightarrow> Job \<Rightarrow> world \<Rightarrow> world" where
  "ack_job env job w =
     (case ackTarget job of (stream, grp) \<Rightarrow>
        if stream \<noteq> [] \<and> grp \<noteq> [] then snd (AckJob env stream grp (MsgID job) w) else w)"

definition failJob :: "env \<Rightarrow> RedisStore \<Rightarrow> Job \<Rightarrow> string \<Rightarrow> world \<Rightarrow> world" where
  "failJob env rds job err w =
     (if hasClaim rds job then
        (let w1 = snd (pg_FailOrRetry env (JobID job) (the (ClaimToken job)) err w)
         in if MsgID job \<noteq> [] then ack_job env job w1 else w1)
      else if MsgID job \<noteq> [] then
        (case ackTarget job of (stream, grp) \<Rightarrow>
           if stream \<noteq> [] \<and> grp \<noteq> []
           then snd (HandleJobFailure env rds (MsgID job) stream grp (AttemptCount job) w) else w)
      else w)"

definition payload_text :: "env \<Rightarrow> json \<Rightarrow> string" where
  "payload_text env v =
     (case v of
        JStr s \<Rightarrow> s
      | _ \<Rightarrow> (case json_Marshal (e_lib env) v of Some b \<Rightarrow> b | None \<Rightarrow> e_fmt env v))"

definition worker_round ::
  "env \<Rightarrow> RedisStore \<Rightarrow> Job \<Rightarrow> run_event \<Rightarrow> world \<Rightarrow> bool \<times> world" where
  \<comment> \<open>the body of \<open>workerLoop\<close> for one job; the flag is false when the process dies\<close>
  "worker_round env rds job ev w =
     (let w1 = emit (ERun (Type job) (payload_text env (Payload job))) w in
      case runWithTimeout ev of
        ProcessDies \<Rightarrow> (False, w1)
      | RunErr e \<Rightarrow> (True, failJob env rds job e w1)
      | RunOk _ \<Rightarrow>
          (let w2 = (if hasClaim rds job
                     then snd (pg_Complete env (JobID job) (the (ClaimToken job)) w1) else w1)
           in (True, ack_job env job w2)))"

subsection \<open>Properties\<close>

lemma pg_trace:
  "w_trace (snd (pg_Complete env j t w)) = w_trace w @ [EDb (OpComplete j t) (err_of (fst (pg_Complete env j t w)))]"
  "w_trace (snd (pg_FailOrRetry env j t e w)) = w_trace w @ [EDb (OpFail j t) (err_of (fst (pg_FailOrRetry env j t e w)))]"
  by (simp_all add: pg_Complete_def pg_FailOrRetry_def Let_def)

lemma ack_job_trace:
  assumes "Stream job \<noteq> []" and "Group job \<noteq> []" and "MsgID job \<noteq> []"
  shows "\<exists>r. w_trace (ack_job env job w) = w_trace w @ [ERedis (XAck (Stream job) (Group job) (MsgID job)) r] \<and>
    w_db (ack_job env job w) = w_db w"
  using assms by (auto simp: ack_job_def ackTarget_def AckJob_def redis_do_def Let_def split: option.split)

text \<open>What a settling call leaves behind, from its error: with none, and when only the
  acknowledgement of its commit was lost, the row that was running under the token has changed as \<open>rel\<close> says;
  otherwise nothing has changed.\<close>

definition settled ::
  "(job_row \<Rightarrow> job_row \<Rightarrow> bool) \<Rightarrow> uuid \<Rightarrow> uuid \<Rightarrow> store_err option \<Rightarrow> db \<Rightarrow> db \<Rightarrow> bool" where
  "settled rel j t e d d' \<longleftrightarrow>
     (if e = None \<or> e = Some (DbErr CommitAck)
      then \<exists>x y. find_job j d = Some x \<and> Status x = JobRunning \<and> ClaimToken x = Some t \<and>
        find_job j d' = Some y \<and> rel x y
      else d' = d)"

definition row_completed :: "job_row \<Rightarrow> job_row \<Rightarrow> bool" where
  "row_completed x y \<longleftrightarrow> Status y = JobCompleted \<and> CompletedAt y \<noteq> None \<and> AttemptCount y = AttemptCount x"

definition row_failed :: "string \<Rightarrow> job_row \<Rightarrow> job_row \<Rightarrow> bool" where
  \<comment> \<open>the error text \<open>msg\<close> is kept; the job waits for its next attempt while the budget lasts\<close>
  "row_failed msg x y \<longleftrightarrow>
     Status y = (if AttemptCount x < MaxRetry x then JobPending else JobFailed) \<and> ClaimToken y = None \<and>
     LastError y = (if msg = [] then None else Some msg) \<and> (NotBefore y \<noteq> None \<longleftrightarrow> AttemptCount x < MaxRetry x)"

lemma pg_Complete_settles:
  "settled row_completed j t (err_of (fst (pg_Complete env j t w))) (w_db w) (w_db (snd (pg_Complete env j t w)))"
  "e_flt env (w_trace w) = no_faults \<Longrightarrow> find_job j (w_db w) = Some x \<Longrightarrow> Status x = JobRunning \<Longrightarrow>
     ClaimToken x = Some t \<Longrightarrow> err_of (fst (pg_Complete env j t w)) = None"
  by (auto simp: settled_def row_completed_def pg_Complete_def db_do_def Complete_def commit_tx_def err_of_def
      Let_def no_faults_def find_job_upd set_completed_def split: option.splits)

lemma pg_FailOrRetry_settles:
  "settled (row_failed msg) j t (err_of (fst (pg_FailOrRetry env j t msg w))) (w_db w)
     (w_db (snd (pg_FailOrRetry env j t msg w)))"
  "e_flt env (w_trace w) = no_faults \<Longrightarrow> find_job j (w_db w) = Some x \<Longrightarrow> Status x = JobRunning \<Longrightarrow>
     ClaimToken x = Some t \<Longrightarrow> err_of (fst (pg_FailOrRetry env j t msg w)) = None"
  by (cases "find_job j (w_db w)"; force simp: settled_def row_failed_def pg_FailOrRetry_def db_do_def
      FailOrRetry_def commit_tx_def err_of_def Let_def no_faults_def find_job_upd set_failed_def fail_next_def)+

text \<open>C2. PostgreSQL first, then the stream: for a claimed job a worker's effects are exactly
  the run of the handler, one \<open>Complete\<close> or \<open>FailOrRetry\<close> with the job's own token, and then
  the XACK of the message in the stream and group it was read from. Before the ack the outcome is in the row:
  completed, or failed with the handler's error, pending again while attempts are left; this holds whenever
  the store reports no error (or has lost only the acknowledgement of the commit), as it does when the
  database answers and the row is still running under the job's token. Any other error of the
  store is only logged: nothing is recorded, and the message is acked all the same, so that
  the row is left to the reaper. When the handler panics the process dies after the run alone: nothing is acked and no
  row changes, so the job is still running in PostgreSQL and its message still pending in the stream.\<close>

theorem worker_db_before_ack:
  assumes "hasClaim rds job" and "ClaimToken job = Some t"
    and "Stream job \<noteq> []" and "Group job \<noteq> []" and "MsgID job \<noteq> []"
    and "worker_round env rds job ev w = (alive, w')"
  shows "case runWithTimeout ev of
     ProcessDies \<Rightarrow> \<not> alive \<and> w_db w' = w_db w \<and>
       w_trace w' = w_trace w @ [ERun (Type job) (payload_text env (Payload job))]
   | RunErr msg \<Rightarrow> alive \<and> (\<exists>e r. settled (row_failed msg) (JobID job) t e (w_db w) (w_db w') \<and>
       w_trace w' = w_trace w @ [ERun (Type job) (payload_text env (Payload job)), EDb (OpFail (JobID job) t) e,
         ERedis (XAck (Stream job) (Group job) (MsgID job)) r] \<and>
       (\<forall>x. (\<forall>tr. e_flt env tr = no_faults) \<and> find_job (JobID job) (w_db w) = Some x \<and> Status x = JobRunning \<and>
          ClaimToken x = Some t \<longrightarrow> e = None))
   | RunOk _ \<Rightarrow> alive \<and> (\<exists>e r. settled row_completed (JobID job) t e (w_db w) (w_db w') \<and>
       w_trace w' = w_trace w @ [ERun (Type job) (payload_text env (Payload job)), EDb (OpComplete (JobID job) t) e,
         ERedis (XAck (Stream job) (Group job) (MsgID job)) r] \<and>
       (\<forall>x. (\<forall>tr. e_flt env tr = no_faults) \<and> find_job (JobID job) (w_db w) = Some x \<and> Status x = JobRunning \<and>
          ClaimToken x = Some t \<longrightarrow> e = None))"
proof -
  let ?w1 = "emit (ERun (Type job) (payload_text env (Payload job))) w"
  show ?thesis
  proof (cases "runWithTimeout ev")
    case (RunOk res)
    let ?w2 = "snd (pg_Complete env (JobID job) t ?w1)"
    obtain r where r: "w_trace (ack_job env job ?w2) =
        w_trace ?w2 @ [ERedis (XAck (Stream job) (Group job) (MsgID job)) r]" "w_db (ack_job env job ?w2) = w_db ?w2"
      using ack_job_trace [OF assms(3-5)] by blast
    have "worker_round env rds job ev w = (True, ack_job env job ?w2)"
      using assms(1,2) RunOk by (simp add: worker_round_def)
    then show ?thesis
      using r RunOk assms(6) pg_Complete_settles [where env = env and j = "JobID job" and t = t and w = ?w1] by (auto simp: pg_trace)
  next
    case (RunErr err)
    let ?w2 = "snd (pg_FailOrRetry env (JobID job) t err ?w1)"
    obtain r where r: "w_trace (ack_job env job ?w2) =
        w_trace ?w2 @ [ERedis (XAck (Stream job) (Group job) (MsgID job)) r]" "w_db (ack_job env job ?w2) = w_db ?w2"
      using ack_job_trace [OF assms(3-5)] by blast
    have "worker_round env rds job ev w = (True, ack_job env job ?w2)"
      using assms(1,2,5) RunErr by (simp add: worker_round_def failJob_def)
    then show ?thesis
      using r RunErr assms(6) pg_FailOrRetry_settles [where env = env and j = "JobID job" and t = t and w = ?w1 and msg = err] by (auto simp: pg_trace)
  next
    case ProcessDies
    then show ?thesis using assms(6) by (auto simp: worker_round_def)
  qed
qed

definition demo_claimed :: Job where
  "demo_claimed = zero_job\<lparr>JobID := 7, Type := ''email'', ClaimToken := Some 12,
     MsgID := ''1-0'', Stream := EmailLowStream, Group := EmailGroupLow\<rparr>"

definition demo_running :: db where
  "demo_running = empty_db\<lparr>jobs_tbl := [zero_row\<lparr>JobID := 7, Status := JobRunning, ClaimToken := Some 12,
     AttemptCount := 1, MaxRetry := 3\<rparr>]\<rparr>"

lemma worker_db_before_ack_witness:
  "\<exists>w' r y. worker_round live_env \<lparr>MaxLen = 0, HasJobs = True\<rparr> demo_claimed
       (DeadlinePassed (5 * minute) None) \<lparr>w_db = demo_running, w_trace = []\<rparr> = (True, w') \<and>
     w_trace w' = [ERun ''email'' (payload_text live_env (Payload demo_claimed)), EDb (OpFail 7 12) None,
      ERedis (XAck EmailLowStream EmailGroupLow ''1-0'') r] \<and>
     find_job 7 (w_db w') = Some y \<and> Status y = JobPending \<and>
     LastError y = Some ''job execution timed out after 5m0s''"
proof -
  let ?ev = "DeadlinePassed (5 * minute) None" and ?w = "\<lparr>w_db = demo_running, w_trace = []\<rparr>"
  have j: "JobID demo_claimed = 7" "Type demo_claimed = ''email''" "ClaimToken demo_claimed = Some 12"
    "MsgID demo_claimed = ''1-0''" "Stream demo_claimed = EmailLowStream" "Group demo_claimed = EmailGroupLow"
    by (simp_all add: demo_claimed_def zero_job_def zero_row_def zero_runtime_def job_row.defs Job.defs)
  have c: "hasClaim \<lparr>MaxLen = 0, HasJobs = True\<rparr> demo_claimed" by (simp add: hasClaim_def j)
  have s: "Stream demo_claimed \<noteq> []" "Group demo_claimed \<noteq> []" "MsgID demo_claimed \<noteq> []"
    by (simp_all add: j stream_consts)
  have "Duration_String (5 * minute) = ''5m0s''" by code_simp
  then have run: "runWithTimeout ?ev = RunErr ''job execution timed out after 5m0s''"
    by (simp add: runWithTimeout_def)
  have row: "find_job 7 demo_running = Some (hd (jobs_tbl demo_running))"
    "Status (hd (jobs_tbl demo_running)) = JobRunning" "ClaimToken (hd (jobs_tbl demo_running)) = Some 12"
    "AttemptCount (hd (jobs_tbl demo_running)) < MaxRetry (hd (jobs_tbl demo_running))"
    by (simp_all add: demo_running_def find_job_def zero_row_def)
  have flt: "e_flt live_env t = no_faults" for t by (simp add: live_env_def dead_env_def)
  obtain alive w' where w': "worker_round live_env \<lparr>MaxLen = 0, HasJobs = True\<rparr> demo_claimed ?ev ?w = (alive, w')"
    by fastforce
  from worker_db_before_ack [OF c j(3) s w'] row flt w' show ?thesis
    by (auto simp: run j settled_def row_failed_def)
qed

end
