(* ===== verification/Worker_Pool.thy ===== *)
theory Worker_Pool
  imports Task
begin

text \<open>
  The channels of a worker process: the dispatcher (\<open>internal/dispatcher\<close>) and the worker
  goroutines' side of them (\<open>workerLoop\<close> and the start-up of \<open>runPool\<close> in
  \<open>internal/worker/worker.go\<close>), as a state machine. A buffered channel is a list with its
  capacity; an operation on a channel that would block is an action that is not enabled
  (\<open>None\<close>); the actions of the goroutines interleave freely. \<open>accepted\<close> and \<open>started\<close> are
  history: the jobs \<open>DispatchTask\<close> queued and those a worker received, with the worker.
  The branches for a done context, and with them the reachable states, are theory
  \<open>Pool_Shutdown\<close>.
\<close>

datatype dispatcher_state =
    Selecting \<comment> \<open>waiting on \<open>Jobqueue\<close>\<close>
  | Holding Job \<comment> \<open>waiting on \<open>WorkerPool\<close>\<close>
  | Handing Job nat \<comment> \<open>waiting for the worker to receive\<close>

datatype worker_state =
    Receiving \<comment> \<open>waiting on its \<open>JobChannel\<close>\<close>
  | Working Job
  | Returning \<comment> \<open>sending itself to \<open>workerPoolCh\<close>\<close>
  | Registering \<comment> \<open>sending its \<open>JobChannel\<close> to the dispatcher's \<open>WorkerPool\<close>\<close>

record pool =
  p_size :: nat
  Jobqueue :: "Job list"
  WorkerPool :: "nat list"
  workerPoolCh :: "nat list"
  dispatcher :: dispatcher_state
  workers :: "worker_state list"
  accepted :: "Job list"
  started :: "(nat \<times> Job) list"

definition Jobqueue_cap :: nat where "Jobqueue_cap = 100"

definition new_pool :: "nat \<Rightarrow> pool" where
  \<comment> \<open>after the start-up loop: every worker is in both channels\<close>
  "new_pool n =
     \<lparr>p_size = n, Jobqueue = [], WorkerPool = [0..<n], workerPoolCh = [0..<n],
      dispatcher = Selecting, workers = replicate n Receiving, accepted = [], started = []\<rparr>"

datatype pool_action =
    Dispatch Job | TakeJob | PickWorker | HandOver | Finish nat | PutBack nat | Register nat

fun pool_act :: "pool_action \<Rightarrow> pool \<Rightarrow> pool option" where
  "pool_act (Dispatch job) s =
     (if length (Jobqueue s) < Jobqueue_cap
      then Some (s\<lparr>Jobqueue := Jobqueue s @ [job], accepted := accepted s @ [job]\<rparr>) else None)"
| "pool_act TakeJob s =
     (case (dispatcher s, Jobqueue s) of
        (Selecting, job # q) \<Rightarrow> Some (s\<lparr>dispatcher := Holding job, Jobqueue := q\<rparr>)
      | _ \<Rightarrow> None)"
| "pool_act PickWorker s =
     (case (dispatcher s, WorkerPool s) of
        (Holding job, i # is) \<Rightarrow> Some (s\<lparr>dispatcher := Handing job i, WorkerPool := is\<rparr>)
      | _ \<Rightarrow> None)"
| "pool_act HandOver s =
     (case dispatcher s of
        Handing job i \<Rightarrow>
          if i < length (workers s) \<and> workers s ! i = Receiving
          then Some (s\<lparr>dispatcher := Selecting, workers := (workers s)[i := Working job],
                      started := started s @ [(i, job)]\<rparr>)
          else None
      | _ \<Rightarrow> None)"
| "pool_act (Finish i) s =
     (if i < length (workers s)
      then (case workers s ! i of
              Working _ \<Rightarrow> Some (s\<lparr>workers := (workers s)[i := Returning]\<rparr>) | _ \<Rightarrow> None)
      else None)"
| "pool_act (PutBack i) s =
     (if i < length (workers s) \<and> workers s ! i = Returning \<and> length (workerPoolCh s) < p_size s
      then Some (s\<lparr>workerPoolCh := workerPoolCh s @ [i], workers := (workers s)[i := Registering]\<rparr>)
      else None)"
| "pool_act (Register i) s =
     (if i < length (workers s) \<and> workers s ! i = Registering \<and> length (WorkerPool s) < p_size s
      then Some (s\<lparr>WorkerPool := WorkerPool s @ [i], workers := (workers s)[i := Receiving]\<rparr>)
      else None)"

fun in_hand :: "dispatcher_state \<Rightarrow> Job list" where
  "in_hand Selecting = []"
| "in_hand (Holding j) = [j]"
| "in_hand (Handing j _) = [j]"

fun offered :: "dispatcher_state \<Rightarrow> nat list" where
  \<comment> \<open>the worker the dispatcher has picked\<close>
  "offered (Handing _ i) = [i]"
| "offered _ = []"

subsection \<open>Invariants\<close>

definition queue_inv :: "pool \<Rightarrow> bool" where
  "queue_inv s \<longleftrightarrow>
     accepted s = map snd (started s) @ in_hand (dispatcher s) @ Jobqueue s \<and> length (Jobqueue s) \<le> Jobqueue_cap"

lemma queue_inv_step: "queue_inv s \<Longrightarrow> pool_act a s = Some s' \<Longrightarrow> queue_inv s'"
  by (cases a) (auto simp: queue_inv_def split: if_splits prod.splits
      dispatcher_state.splits list.splits worker_state.splits)

definition full_inv :: "nat \<Rightarrow> pool \<Rightarrow> bool" where
  \<comment> \<open>\<open>workerPoolCh\<close> is full, so no worker passes it; a worker is idle, offered or used up\<close>
  "full_inv n s \<longleftrightarrow>
     p_size s = n \<and> length (workers s) = n \<and> length (workerPoolCh s) = n \<and>
     (\<forall>i < n. workers s ! i \<noteq> Registering) \<and>
     distinct (WorkerPool s @ offered (dispatcher s) @ map fst (started s)) \<and>
     set (WorkerPool s @ offered (dispatcher s) @ map fst (started s)) \<subseteq> {..<n}"

lemma pool_act_cases:
  assumes "pool_act a s = Some s'"
  obtains (queue) q acc d where "s' = s\<lparr>dispatcher := d, Jobqueue := q, accepted := acc\<rparr>"
      "offered d = []" "offered (dispatcher s) = []"
  | (pick) job i "is" where "dispatcher s = Holding job" "WorkerPool s = i # is"
      "s' = s\<lparr>dispatcher := Handing job i, WorkerPool := is\<rparr>"
  | (hand) job i where "dispatcher s = Handing job i" "i < length (workers s)"
      "s' = s\<lparr>dispatcher := Selecting, workers := (workers s)[i := Working job],
              started := started s @ [(i, job)]\<rparr>"
  | (fin) i where "i < length (workers s)" "s' = s\<lparr>workers := (workers s)[i := Returning]\<rparr>"
  | (send) q acc where "s' = s\<lparr>Jobqueue := q, accepted := acc\<rparr>"
  | (put) "length (workerPoolCh s) < p_size s"
  | (reg) i where "i < length (workers s)" "workers s ! i = Registering"
proof (cases a)
  case (Dispatch job)
  have "s' = s\<lparr>Jobqueue := Jobqueue s @ [job], accepted := accepted s @ [job]\<rparr>"
    using assms Dispatch by (simp split: if_splits)
  then show ?thesis by (rule send)
next
  case TakeJob
  then obtain job q where "dispatcher s = Selecting" "s' = s\<lparr>dispatcher := Holding job, Jobqueue := q\<rparr>"
    using assms by (auto split: dispatcher_state.splits list.splits)
  then show ?thesis using queue [where d = "Holding job" and q = q and acc = "accepted s"] by simp
next
  case PickWorker
  then show ?thesis using assms by (auto split: dispatcher_state.splits list.splits intro: pick)
next
  case HandOver
  then show ?thesis using assms by (auto split: dispatcher_state.splits if_splits intro: hand)
next
  case (Finish i)
  then show ?thesis using assms by (auto split: worker_state.splits if_splits intro: fin)
next
  case (PutBack i)
  then show ?thesis using assms by (auto split: if_splits intro: put)
next
  case (Register i)
  then show ?thesis using assms by (auto split: if_splits intro: reg)
qed

lemma full_inv_step:
  assumes "full_inv n s" and "pool_act a s = Some s'"
  shows "full_inv n s'"
  using assms(2)
proof (cases rule: pool_act_cases)
  case (pick job i "is")
  then show ?thesis using assms(1) by (auto simp: full_inv_def)
next
  case (hand job i)
  then show ?thesis using assms(1) by (auto simp: full_inv_def nth_list_update)
next
  case (fin i)
  then show ?thesis using assms(1) by (auto simp: full_inv_def nth_list_update)
next
  case (queue q acc d)
  then show ?thesis using assms(1) by (simp add: full_inv_def)
next
  case (send q acc)
  then show ?thesis using assms(1) by (simp add: full_inv_def)
next
  case put
  then show ?thesis using assms(1) by (simp add: full_inv_def)
next
  case (reg i)
  then show ?thesis using assms(1) by (auto simp: full_inv_def)
qed

lemma new_pool_inv: "queue_inv (new_pool n)" "full_inv n (new_pool n)"
  by (auto simp: queue_inv_def full_inv_def new_pool_def)

lemma full_inv_started: "full_inv n s \<Longrightarrow> length (started s) \<le> n"
proof -
  assume "full_inv n s"
  then have d: "distinct (map fst (started s))" "set (map fst (started s)) \<subseteq> {..<n}"
    by (auto simp: full_inv_def)
  have "length (started s) = card (set (map fst (started s)))"
    using distinct_card [OF d(1)] by simp
  also have "\<dots> \<le> n" using card_mono [OF _ d(2)] by simp
  finally show ?thesis .
qed

lemma queue_inv_accepted: "queue_inv s \<Longrightarrow> length (accepted s) \<le> length (started s) + 101"
  by (cases "dispatcher s") (auto simp: queue_inv_def Jobqueue_cap_def)

subsection \<open>Runs\<close>

fun run_actions :: "pool_action list \<Rightarrow> pool \<Rightarrow> pool option" where
  "run_actions [] s = Some s"
| "run_actions (a # as) s = (case pool_act a s of None \<Rightarrow> None | Some s1 \<Rightarrow> run_actions as s1)"

definition demo_actions :: "pool_action list" where
  "demo_actions = [Dispatch zero_job, TakeJob, PickWorker, HandOver, Finish 0, Dispatch zero_job, TakeJob]"

definition demo_pool :: pool where
  "demo_pool = the (run_actions demo_actions (new_pool 1))"

lemma demo_pool_facts:
  "run_actions demo_actions (new_pool 1) = Some demo_pool"
  "accepted demo_pool = [zero_job, zero_job]" "started demo_pool = [(0, zero_job)]"
  "workers demo_pool = [Returning]" "dispatcher demo_pool = Holding zero_job" "WorkerPool demo_pool = []"
  "p_size demo_pool = 1" "Jobqueue demo_pool = []" "workerPoolCh demo_pool = [0]"
  by (simp_all add: demo_pool_def demo_actions_def new_pool_def Jobqueue_cap_def)

end
