(* ===== verification/Scheduler.thy ===== *)
theory Scheduler
  imports Broker
begin

text \<open>
  The scheduler process, \<open>internal/scheduler\<close>: the \<open>StreamPusher\<close> interface it shares with
  the reaper, a tick (promotion and dispatch), the poll loop and the retention cycle.
\<close>

subsection \<open>The \<open>StreamPusher\<close> interface\<close>

type_synonym push = "string \<Rightarrow> Job \<Rightarrow> world \<Rightarrow> (redis_err + string) \<times> world"

definition push_one :: "push option \<Rightarrow> Job \<Rightarrow> world \<Rightarrow> bool \<times> world" where
  \<comment> \<open>one job to its stream; \<open>None\<close> is the nil interface\<close>
  "push_one push job w =
     (case StreamFor (QueueName job) (Priority job) of
        None \<Rightarrow> (False, w)
      | Some (stream, _) \<Rightarrow>
          (case push of
             None \<Rightarrow> (False, w)
           | Some add \<Rightarrow>
               (case add stream job w of (Inl _, w1) \<Rightarrow> (False, w1) | (Inr _, w1) \<Rightarrow> (True, w1))))"

fun push_all :: "push option \<Rightarrow> Job list \<Rightarrow> int \<Rightarrow> world \<Rightarrow> int \<times> world" where
  "push_all push [] n w = (n, w)"
| "push_all push (job # jobs) n w =
     (case push_one push job w of
        (True, w1) \<Rightarrow> push_all push jobs (n + 1) w1
      | (False, w1) \<Rightarrow> push_all push jobs n w1)"

definition routed :: "Job list \<Rightarrow> (string \<times> Job) list" where
  \<comment> \<open>the jobs with a known queue, with their stream\<close>
  "routed jobs =
     List.map_filter (\<lambda>j. map_option (\<lambda>sg. (fst sg, j)) (StreamFor (QueueName j) (Priority j))) jobs"

lemma length_routed: "length (routed js) \<le> length js"
  by (simp only: routed_def List.map_filter_def length_map length_filter_le)

definition pushes :: "golib \<Rightarrow> int \<Rightarrow> (string \<times> Job) list \<Rightarrow> rcmd list" where
  "pushes lib cap sjs = map (\<lambda>(s, j). XAdd s (ToJobFields lib j) cap) sjs"

fun redis_cmds :: "effect list \<Rightarrow> rcmd list" where
  "redis_cmds [] = []"
| "redis_cmds (ERedis c _ # es) = c # redis_cmds es"
| "redis_cmds (_ # es) = redis_cmds es"

definition added :: "effect \<Rightarrow> bool" where
  "added e = (case e of ERedis (XAdd _ _ _) r \<Rightarrow> rp_err r = None | _ \<Rightarrow> False)"

lemma redis_cmds_append [simp]: "redis_cmds (xs @ ys) = redis_cmds xs @ redis_cmds ys"
  by (induction xs rule: redis_cmds.induct) auto

text \<open>A pusher sends one XADD of the job's reference to the stream it is given, leaves the
  database alone, and succeeds exactly when Redis does.\<close>

locale stream_pusher =
  fixes push :: push and lib :: golib and cap :: int
  assumes push_step: "s \<noteq> [] \<Longrightarrow> \<exists>r. push s j w =
      ((if rp_err r = None then Inr (rp_id r) else Inl XAddFailed),
       emit (ERedis (XAdd s (ToJobFields lib j) cap) r) w)"
begin

lemma push_one_step:
  "\<exists>es. w_trace (snd (push_one (Some push) job w)) = w_trace w @ es \<and>
     w_db (snd (push_one (Some push) job w)) = w_db w \<and>
     redis_cmds es = pushes lib cap (routed [job]) \<and>
     (if fst (push_one (Some push) job w) then 1 else 0) = int (length (filter added es))"
proof (cases "StreamFor (QueueName job) (Priority job)")
  case None
  then show ?thesis by (simp add: push_one_def routed_def pushes_def List.map_filter_def)
next
  case (Some sg)
  obtain s g where sg: "sg = (s, g)" by (cases sg)
  have "s \<noteq> []" using StreamFor_nonempty [of "QueueName job" "Priority job" s g] Some sg by simp
  from push_step [OF this, of job w] obtain r where
    "push s job w = ((if rp_err r = None then Inr (rp_id r) else Inl XAddFailed),
       emit (ERedis (XAdd s (ToJobFields lib job) cap) r) w)" by blast
  then show ?thesis using Some sg
    by (simp add: push_one_def routed_def pushes_def List.map_filter_def added_def)
qed

lemma push_all_steps:
  "\<exists>es. w_trace (snd (push_all (Some push) jobs n w)) = w_trace w @ es \<and>
     w_db (snd (push_all (Some push) jobs n w)) = w_db w \<and>
     redis_cmds es = pushes lib cap (routed jobs) \<and>
     fst (push_all (Some push) jobs n w) = n + int (length (filter added es))"
proof (induction jobs arbitrary: n w)
  case Nil
  then show ?case by (simp add: routed_def pushes_def List.map_filter_def)
next
  case (Cons job jobs)
  obtain b w1 where p: "push_one (Some push) job w = (b, w1)" by (rule prod.exhaust)
  from push_one_step [of job w] obtain es1 where e1: "w_trace w1 = w_trace w @ es1" "w_db w1 = w_db w"
      "redis_cmds es1 = pushes lib cap (routed [job])" "(if b then 1 else 0) = int (length (filter added es1))"
    by (auto simp: p)
  let ?n = "if b then n + 1 else n"
  from Cons.IH [of ?n w1] obtain es2 where e2: "w_trace (snd (push_all (Some push) jobs ?n w1)) = w_trace w1 @ es2"
      "w_db (snd (push_all (Some push) jobs ?n w1)) = w_db w1"
      "redis_cmds es2 = pushes lib cap (routed jobs)"
      "fst (push_all (Some push) jobs ?n w1) = ?n + int (length (filter added es2))" by blast
  have step: "push_all (Some push) (job # jobs) n w = push_all (Some push) jobs ?n w1"
    by (simp add: p split: bool.split)
  have r: "routed (job # jobs) = routed [job] @ routed jobs"
    by (simp add: routed_def List.map_filter_def)
  show ?case
    unfolding step
    by (rule exI [of _ "es1 @ es2"]) (use e1 e2 in \<open>auto simp: r pushes_def split: if_splits\<close>)
qed

end

interpretation broker: stream_pusher "AddJobRefToStream env rds" "e_lib env" "EffectiveMaxLen rds"
  for env rds
proof
  fix s :: string and j w
  assume "s \<noteq> []"
  then show "\<exists>r. AddJobRefToStream env rds s j w =
      ((if rp_err r = None then Inr (rp_id r) else Inl XAddFailed),
       emit (ERedis (XAdd s (ToJobFields (e_lib env) j) (EffectiveMaxLen rds)) r) w)"
    by (auto simp: AddJobRefToStream_def redis_do_def Let_def split: option.split)
qed

subsection \<open>The scheduler\<close>

definition Sched_DefaultPollInterval :: duration where "Sched_DefaultPollInterval = 10 * second"
definition Sched_DefaultBatchSize :: int where "Sched_DefaultBatchSize = 100"

record Scheduler =
  sc_redis :: "push option"
  sc_pollInterval :: duration
  sc_batchSize :: int

definition Scheduler_New :: "push option \<Rightarrow> duration \<Rightarrow> int \<Rightarrow> Scheduler" where
  "Scheduler_New r pollInterval batchSize =
     \<lparr>sc_redis = r,
      sc_pollInterval = (if pollInterval \<le> 0 then Sched_DefaultPollInterval else pollInterval),
      sc_batchSize = (if batchSize \<le> 0 then Sched_DefaultBatchSize else batchSize)\<rparr>"

definition pg_ClaimDueScheduled :: "env \<Rightarrow> int \<Rightarrow> world \<Rightarrow> Job list result \<times> world" where
  "pg_ClaimDueScheduled env limit w =
     (let t = w_trace w in
      db_do OpPromote
        (ClaimDueScheduled (e_lib env) (e_flt env t) (e_locked env t) (e_gen env t) (e_dbnow env t)
           (e_now env t) limit) w)"

definition pg_ClaimDueRetries :: "env \<Rightarrow> int \<Rightarrow> world \<Rightarrow> Job list result \<times> world" where
  "pg_ClaimDueRetries env limit w =
     (let t = w_trace w in
      db_do OpRetries
        (ClaimDueRetries (e_lib env) (e_flt env t) (e_locked env t) (e_now env t) limit) w)"

definition Scheduler_Tick :: "env \<Rightarrow> Scheduler \<Rightarrow> world \<Rightarrow> int result \<times> world" where
  "Scheduler_Tick env s w =
     (case pg_ClaimDueScheduled env (sc_batchSize s) w of
        (Inl e, w1) \<Rightarrow> (Inl e, w1)
      | (Inr due, w1) \<Rightarrow>
          (case pg_ClaimDueRetries env (sc_batchSize s) w1 of
             (Inl e, w2) \<Rightarrow> (Inl e, w2)
           | (Inr retries, w2) \<Rightarrow>
               (case push_all (sc_redis s) (due @ retries) 0 w2 of (n, w3) \<Rightarrow> (Inr n, w3))))"

fun Scheduler_Run :: "env \<Rightarrow> Scheduler \<Rightarrow> nat \<Rightarrow> world \<Rightarrow> bool \<times> world" where
  \<comment> \<open>at most \<open>n\<close> rounds; a tick's error does not stop the loop\<close>
  "Scheduler_Run env s 0 w = (False, w)"
| "Scheduler_Run env s (Suc n) w =
     (if e_done env (w_trace w) then (True, w)
      else Scheduler_Run env s n (snd (Scheduler_Tick env s (emit (EWait (sc_pollInterval s)) w))))"

subsection \<open>The retention cycle\<close>

definition DefaultRetentionPoll :: duration where "DefaultRetentionPoll = 3600 * second"
definition DefaultRetentionBatch :: int where "DefaultRetentionBatch = 1000"
definition PartitionsAhead :: int where "PartitionsAhead = 2"

definition Maintain ::
  "(string \<Rightarrow> bool) \<Rightarrow> faults \<Rightarrow> instant \<Rightarrow> int \<Rightarrow> int \<Rightarrow> partition list \<Rightarrow> db \<Rightarrow>
     int result option \<times> partition list \<times> db" where
  \<comment> \<open>\<open>None\<close> when a partition statement failed\<close>
  "Maintain fails flt now retentionDays batch ps d =
     (case EnsureMonthlyPartitions fails now PartitionsAhead ps of
        (False, ps1) \<Rightarrow> (None, ps1, d)
      | (True, ps1) \<Rightarrow>
          if retentionDays \<le> 0 then (Some (Inr 0), ps1, d)
          else (case DeleteOldJobs flt (now - retentionDays * (86400 * second)) batch d of
                  (r, d1) \<Rightarrow> (Some r, ps1, d1)))"

subsection \<open>Properties\<close>

lemma db_do_trace: "db_do l f w = (r, w') \<Longrightarrow> w_trace w' = w_trace w @ [EDb l (err_of r)]"
  by (auto simp: db_do_def split: prod.splits)

text \<open>C28. A successful scheduler tick dispatches exactly what it claimed: the Redis commands it
  sends are one XADD per claimed job with a known queue, promoted jobs first and in claim
  order, each to the job's own stream; the number it returns is the number of XADDs that
  succeeded, and a failed XADD leaves the database as the claims left it, so the job stays
  pending for the sweep.\<close>

theorem Scheduler_Tick_dispatches:
  assumes "Scheduler_Tick env (Scheduler_New (Some (AddJobRefToStream env rds)) poll batch) w = (Inr n, w')"
  shows "\<exists>due retries w1 w2 es.
    pg_ClaimDueScheduled env (if batch \<le> 0 then Sched_DefaultBatchSize else batch) w = (Inr due, w1) \<and>
    pg_ClaimDueRetries env (if batch \<le> 0 then Sched_DefaultBatchSize else batch) w1 = (Inr retries, w2) \<and>
    w_trace w' = w_trace w @ [EDb OpPromote None, EDb OpRetries None] @ es \<and> w_db w' = w_db w2 \<and>
    redis_cmds es = pushes (e_lib env) (EffectiveMaxLen rds) (routed (due @ retries)) \<and>
    n = int (length (filter added es)) \<and> n \<le> int (length due + length retries)"
proof -
  let ?b = "if batch \<le> 0 then Sched_DefaultBatchSize else batch"
  obtain due w1 retries w2 where c: "pg_ClaimDueScheduled env ?b w = (Inr due, w1)"
      "pg_ClaimDueRetries env ?b w1 = (Inr retries, w2)"
      "push_all (Some (AddJobRefToStream env rds)) (due @ retries) 0 w2 = (n, w')"
    using assms
    by (auto simp: Scheduler_Tick_def Scheduler_New_def
        split: prod.splits sum.splits)
  from broker.push_all_steps [of env rds "due @ retries" 0 w2] obtain es where es:
      "w_trace w' = w_trace w2 @ es" "w_db w' = w_db w2"
      "redis_cmds es = pushes (e_lib env) (EffectiveMaxLen rds) (routed (due @ retries))"
      "n = int (length (filter added es))"
    by (auto simp: c(3))
  have "w_trace w2 = w_trace w @ [EDb OpPromote None, EDb OpRetries None]"
    using c(1,2) by (auto simp: pg_ClaimDueScheduled_def pg_ClaimDueRetries_def Let_def dest!: db_do_trace)
  moreover have "length (filter added es) \<le> length (redis_cmds es)"
  proof (induction es rule: redis_cmds.induct)
    case (2 c r es)
    then show ?case by (simp add: added_def)
  qed (simp_all add: added_def)
  moreover have "length (redis_cmds es) \<le> length due + length retries"
    using length_routed [of "due @ retries"] by (simp add: es(3) pushes_def)
  ultimately show ?thesis using c(1,2) es
    by (intro exI [of _ due] exI [of _ retries] exI [of _ w1] exI [of _ w2] exI [of _ es]) simp
qed


definition demo_tick_world :: world where
  "demo_tick_world = \<lparr>w_db = snd (CreateJob demo_lib no_faults 9 100 100
     (zero_job\<lparr>Type := ''email'', QueueName := ''email'', Status := JobScheduled, ScheduledAt := Some (-5)\<rparr>)
     empty_db), w_trace = []\<rparr>"

lemma Scheduler_Tick_dispatches_witness:
  "\<exists>n w' es. Scheduler_Tick live_env (Scheduler_New (Some (AddJobRefToStream live_env \<lparr>MaxLen = 0, HasJobs = True\<rparr>)) 0 0)
     demo_tick_world = (Inr n, w') \<and> w_trace w' = [EDb OpPromote None, EDb OpRetries None] @ es \<and>
     n = int (length (filter added es))"
proof -
  let ?add = "AddJobRefToStream live_env \<lparr>MaxLen = 0, HasJobs = True\<rparr>"
  let ?c1 = "pg_ClaimDueScheduled live_env Sched_DefaultBatchSize demo_tick_world"
  let ?c2 = "pg_ClaimDueRetries live_env Sched_DefaultBatchSize (snd ?c1)"
  have "isl (fst ?c1) = False" by code_simp
  then obtain due w1 where c1: "?c1 = (Inr due, w1)" by (cases "fst ?c1") (auto simp: prod_eq_iff)
  have "isl (fst ?c2) = False" by code_simp
  then obtain retries w2 where c2: "?c2 = (Inr retries, w2)"
    by (cases "fst ?c2") (auto simp: prod_eq_iff)
  obtain n w' where "push_all (Some ?add) (due @ retries) 0 w2 = (n, w')" by (rule prod.exhaust)
  then have t: "Scheduler_Tick live_env (Scheduler_New (Some ?add) 0 0) demo_tick_world = (Inr n, w')"
    using c1 c2 by (simp add: Scheduler_Tick_def Scheduler_New_def)
  have "w_trace demo_tick_world = []" by (simp add: demo_tick_world_def)
  with Scheduler_Tick_dispatches [OF t] t show ?thesis
    by (intro exI [of _ n] exI [of _ w']) auto
qed

end
