(* ===== verification/Jobs_Machine.thy ===== *)
theory Jobs_Machine
  imports Jobs_Queries Jobs_Batch
begin

text \<open>
  The job store as a state machine. A state is the database with the set of claim tokens
  issued so far; a step is one operation of \<open>internal/storage/jobs\<close>, with arbitrary
  arguments, clocks, lock sets and database faults, on behalf of any of the server, worker,
  scheduler, reaper and purger processes. What is relied on is that \<open>uuid.New()\<close> returns an
  identifier not used before. \<open>evolves\<close> is what any step may do to a row.
\<close>

subsection \<open>Evolution of rows\<close>

definition same_job :: "job_row \<Rightarrow> job_row \<Rightarrow> bool" where
  \<comment> \<open>the columns no operation rewrites\<close>
  "same_job r r' \<longleftrightarrow>
     JobID r' = JobID r \<and> Type r' = Type r \<and> PayloadRef r' = PayloadRef r \<and>
     QueueName r' = QueueName r \<and> Priority r' = Priority r \<and> MaxRetry r' = MaxRetry r \<and>
     IdempotencyKey r' = IdempotencyKey r \<and> OwnerUserID r' = OwnerUserID r \<and>
     CronExpr r' = CronExpr r \<and> CronTZ r' = CronTZ r \<and> SeriesID r' = SeriesID r \<and>
     IsRecurring r' = IsRecurring r \<and> ScheduledAt r' = ScheduledAt r \<and>
     CreatedAt r' = CreatedAt r"

definition terminal :: "JobStatus \<Rightarrow> bool" where
  "terminal s \<longleftrightarrow> s = JobCompleted \<or> s = JobCancelled"

definition status_reach :: "JobStatus \<Rightarrow> JobStatus \<Rightarrow> bool" where
  "status_reach = (\<lambda>a b. status_edge (Some a) b)\<^sup>*\<^sup>*"

definition row_evolves :: "uuid set \<Rightarrow> job_row \<Rightarrow> job_row \<Rightarrow> bool" where
  \<comment> \<open>\<open>T\<close> are the tokens issued meanwhile\<close>
  "row_evolves T r r' \<longleftrightarrow>
     same_job r r' \<and> status_reach (Status r) (Status r') \<and> (terminal (Status r) \<longrightarrow> r' = r) \<and>
     (ClaimToken r' = None \<or> ClaimToken r' = ClaimToken r \<or> ClaimToken r' \<in> Some ` T)"

definition evolves :: "uuid set \<Rightarrow> db \<Rightarrow> db \<Rightarrow> bool" where
  "evolves T d d' \<longleftrightarrow>
     (\<exists>es. events_tbl d' = events_tbl d @ es) \<and>
     (\<forall>j r'. find_job j d' = Some r' \<longrightarrow>
        (case find_job j d of Some r \<Rightarrow> row_evolves T r r'
         | None \<Rightarrow> history j d = [] \<and> (ClaimToken r' = None \<or> ClaimToken r' \<in> Some ` T)))"

lemma status_edge_terminal: "status_edge (Some s) s' \<Longrightarrow> \<not> terminal s"
  by (auto simp: terminal_def)

lemma row_evolves_refl [simp]: "row_evolves T r r"
  by (simp add: row_evolves_def same_job_def status_reach_def)

lemma row_evolves_trans:
  "row_evolves T a b \<Longrightarrow> row_evolves T b c \<Longrightarrow> row_evolves T a c"
  by (auto simp: row_evolves_def same_job_def status_reach_def)

lemma row_evolvesI:
  "same_job r r' \<Longrightarrow> Status r' = Status r \<or> status_edge (Some (Status r)) (Status r') \<Longrightarrow>
   \<not> terminal (Status r) \<Longrightarrow>
   ClaimToken r' = None \<or> ClaimToken r' = ClaimToken r \<or> ClaimToken r' \<in> Some ` T \<Longrightarrow>
     row_evolves T r r'"
  by (auto simp: row_evolves_def status_reach_def)

lemma evolves_refl [simp]: "evolves T d d"
  by (auto simp: evolves_def split: option.split)

lemma history_prefix: "events_tbl d' = events_tbl d @ es \<Longrightarrow> history j d' = [] \<Longrightarrow> history j d = []"
  by (simp add: history_def)

lemma store_inv_history: "store_inv d \<Longrightarrow> find_job j d = Some r \<Longrightarrow> history j d \<noteq> []"
  by (auto simp: store_inv_def job_inv_def dest!: find_jobD)

lemma evolvesD:
  assumes "evolves T d d'" and "find_job j d' = Some r'"
  shows "case find_job j d of Some r \<Rightarrow> row_evolves T r r'
         | None \<Rightarrow> history j d = [] \<and> (ClaimToken r' = None \<or> ClaimToken r' \<in> Some ` T)"
  using assms unfolding evolves_def by blast

lemma evolves_trans:
  assumes "store_inv a" and "evolves T a b" and "evolves T b c"
  shows "evolves T a c"
proof -
  from assms obtain es1 es2 where es: "events_tbl b = events_tbl a @ es1"
      "events_tbl c = events_tbl b @ es2" by (auto simp: evolves_def)
  have ev: "\<exists>es. events_tbl c = events_tbl a @ es" using es by simp
  have "case find_job j a of Some x \<Rightarrow> row_evolves T x r
      | None \<Rightarrow> history j a = [] \<and> (ClaimToken r = None \<or> ClaimToken r \<in> Some ` T)"
    if r: "find_job j c = Some r" for j r
  proof (cases "find_job j b")
    case None
    then have b: "history j b = []" "ClaimToken r = None \<or> ClaimToken r \<in> Some ` T"
      using evolvesD [OF assms(3) r] None by simp_all
    from es(1) b(1) have a: "history j a = []" by (rule history_prefix)
    with store_inv_history [OF assms(1), of j] have "find_job j a = None" by (cases "find_job j a") auto
    with a b show ?thesis by simp
  next
    case (Some y)
    then have y: "row_evolves T y r" using evolvesD [OF assms(3) r] by simp
    have x: "case find_job j a of Some x \<Rightarrow> row_evolves T x y
      | None \<Rightarrow> history j a = [] \<and> (ClaimToken y = None \<or> ClaimToken y \<in> Some ` T)"
      using evolvesD [OF assms(2) Some] .
    with y show ?thesis
      by (auto simp: row_evolves_def [of _ y r] intro: row_evolves_trans [OF _ y] split: option.splits)
  qed
  with ev show ?thesis by (auto simp: evolves_def)
qed

subsection \<open>Every statement evolves the database\<close>

lemma evolves_event [simp]:
  "evolves T d (insertEvent i a b t d)" "evolves T d (insertInitialEvent i b t d)"
  by (auto simp: evolves_def split: option.split)

lemma evolves_upd:
  assumes "keeps_keys f" and "\<And>r. find_job i d = Some r \<Longrightarrow> p r \<Longrightarrow> row_evolves T r (f r)"
  shows "evolves T d (upd_job i p f d)"
  using assms by (auto simp: evolves_def find_job_upd keeps_keysD split: option.split)

lemma evolves_upd_event:
  assumes "store_inv d" and "keeps_keys f"
    and "\<And>r. find_job i d = Some r \<Longrightarrow> p r \<Longrightarrow> row_evolves T r (f r)"
  shows "evolves T d (insertEvent i a b t (upd_job i p f d))"
  by (rule evolves_trans [OF assms(1) evolves_upd [where p = p, OF assms(2,3)] evolves_event(1)])

lemma evolves_insert:
  assumes "fresh_id (JobID r) d" and "ClaimToken r = None"
  shows "evolves T d (insertInitialEvent (JobID r) s t (insert_job r d))"
proof -
  have "history (JobID r) d = []"
    using assms(1) by (auto simp: fresh_id_def history_def filter_empty_conv)
  then show ?thesis using assms(2)
    by (auto simp: evolves_def find_job_insert split: option.splits if_splits)
qed

lemma evolves_tbls [simp]:
  "evolves T d (d'\<lparr>idem_tbl := x\<rparr>) = evolves T d d'" "evolves T d (d'\<lparr>retry_tbl := x\<rparr>) = evolves T d d'"
  by (simp_all add: evolves_def find_job_def history_def)

lemma evolves_delete:
  assumes "store_inv d"
  shows "evolves T d (d\<lparr>jobs_tbl := filter q (jobs_tbl d), idem_tbl := x\<rparr>)"
proof -
  have "find_job j d = Some r"
    if "find_job j (d\<lparr>jobs_tbl := filter q (jobs_tbl d), idem_tbl := x\<rparr>) = Some r" for j r
    using find_jobD [OF that] find_job_mem [OF assms, of r] by auto
  then show ?thesis unfolding evolves_def by fastforce
qed

lemma evolves_commit:
  "evolves T d d0 \<Longrightarrow> evolves T d d1 \<Longrightarrow> evolves T d (snd (commit_tx flt d0 d1 x))"
  by (simp add: commit_tx_def)

lemma same_job_sets [simp]:
  "same_job r (set_running w t n r)" "same_job r (set_completed n r)"
  "same_job r (set_failed s e nb n r)" "same_job r (set_retried r)" "same_job r (set_cancelled n r)"
  "same_job r (set_pending r)" "same_job r (set_ungated r)" "same_job r (set_reclaimed r)"
  "same_job r (r\<lparr>HeartbeatAt := h\<rparr>)"
  by (simp_all add: same_job_def set_running_def set_completed_def set_failed_def Let_def
      set_retried_def set_cancelled_def set_pending_def set_ungated_def set_reclaimed_def)

lemma token_sets [simp]:
  "ClaimToken (set_cancelled n r) = ClaimToken r" "ClaimToken (set_pending r) = ClaimToken r"
  "ClaimToken (set_ungated r) = ClaimToken r"
  by (simp_all add: set_cancelled_def set_pending_def set_ungated_def)

lemma row_evolves_sets:
  "claimable (Status r) \<Longrightarrow> t \<in> T \<Longrightarrow> row_evolves T r (set_running w t n r)"
  "Status r = JobRunning \<Longrightarrow> row_evolves T r (set_completed n r)"
  "Status r = JobRunning \<Longrightarrow> s = JobPending \<or> s = JobFailed \<Longrightarrow> row_evolves T r (set_failed s e nb n r)"
  "Status r = JobRunning \<Longrightarrow> row_evolves T r (r\<lparr>HeartbeatAt := h\<rparr>)"
  "Status r = JobRunning \<Longrightarrow> row_evolves T r (set_reclaimed r)"
  "Status r = JobFailed \<Longrightarrow> row_evolves T r (set_retried r)"
  "cancellable (Status r) \<Longrightarrow> row_evolves T r (set_cancelled n r)"
  "Status r = JobScheduled \<Longrightarrow> row_evolves T r (set_pending r)"
  "Status r = JobPending \<or> Status r = JobQueued \<Longrightarrow> row_evolves T r (set_ungated r)"
  by (rule row_evolvesI; auto simp: terminal_def claimable_def cancellable_def)+


subsection \<open>Every operation evolves the database\<close>

named_theorems evolves_rules \<open>what the operations do to rows\<close>

lemma ClaimRunning_evolves [evolves_rules]:
  assumes "store_inv d" and "token \<in> T"
  shows "evolves T d (snd (ClaimRunning lib flt now dbnow token jobID w d))"
  using assms
  by (auto simp: ClaimRunning_def Let_def row_evolves_sets
      intro!: evolves_commit evolves_upd_event split: option.split)

lemma Heartbeat_evolves [evolves_rules]:
  "evolves T d (snd (Heartbeat flt dbnow jobID token d))"
  by (auto simp: Heartbeat_def Let_def owned_running_def keeps_keys_def row_evolves_sets
      intro!: evolves_upd)

lemma Complete_evolves [evolves_rules]:
  "store_inv d \<Longrightarrow> evolves T d (snd (Complete flt dbnow jobID token d))"
  by (auto simp: Complete_def Let_def row_evolves_sets
      intro!: evolves_commit evolves_upd_event split: option.split)

lemma FailOrRetry_evolves [evolves_rules]:
  assumes "store_inv d"
  shows "evolves T d (snd (FailOrRetry lib flt now dbnow jobID token err d))"
  using assms fail_next_cases
  by (auto simp: FailOrRetry_def Let_def intro!: evolves_commit evolves_upd_event row_evolves_sets
      split: option.split)

lemma RecordRetryKey_evolves [evolves_rules]: "evolves T d (snd (RecordRetryKey flt key jobID d))"
  by (simp add: RecordRetryKey_def Let_def split: option.split)

lemma RetryJob_evolves [evolves_rules]:
  "store_inv d \<Longrightarrow> evolves T d (snd (RetryJob lib flt dbnow jobID d))"
  by (auto simp: RetryJob_def row_evolves_sets
      intro!: evolves_commit evolves_upd_event split: option.split)

lemma CancelJob_evolves [evolves_rules]:
  "store_inv d \<Longrightarrow> evolves T d (snd (CancelJob lib flt dbnow jobID d))"
  by (auto simp: CancelJob_def row_evolves_sets
      intro!: evolves_commit evolves_upd_event split: option.split)

lemma cancel_loop_evolves:
  "store_inv a \<Longrightarrow> evolves T a d \<Longrightarrow> cancel_loop flt dbnow cs d n = Inr (m, d') \<Longrightarrow> evolves T a d'"
proof (induction flt dbnow cs d n rule: cancel_loop.induct)
  case (2 flt dbnow i st cs d n)
  let ?d1 = "upd_job i (\<lambda>r. cancellable (Status r)) (set_cancelled dbnow) d"
  have "evolves T d ?d1" by (rule evolves_upd) (auto intro: row_evolves_sets)
  from evolves_trans [OF 2(3,4) this] have d1: "evolves T a ?d1" .
  have "evolves T a (insertEvent i st JobCancelled dbnow ?d1)"
    by (rule evolves_trans [OF 2(3) d1 evolves_event(1)])
  with d1 2 show ?case by (auto simp: Let_def split: if_splits)
qed simp

lemma CancelSeries_evolves [evolves_rules]:
  "store_inv d \<Longrightarrow> evolves T d (snd (CancelSeries flt locked dbnow s owner d))"
  by (auto simp: CancelSeries_def Let_def intro!: evolves_commit split: sum.split
      dest: cancel_loop_evolves [where T = T, OF _ evolves_refl])

lemma CreateJob_evolves [evolves_rules]:
  assumes "store_inv d" and "initial_job inp" and "fresh_id newid d"
  shows "evolves T d (snd (CreateJob lib flt newid now dbnow inp d))"
proof -
  let ?r = "created_row lib (create_defaults newid now inp)"
  have "JobID ?r = newid" using assms(2) by (simp add: create_defaults_def initial_job_def)
  then have e: "evolves T d (insertInitialEvent (JobID ?r) s t (insert_job ?r d))" for s t
    using evolves_insert [of ?r d T] assms(3) by simp
  have "insertInitialEvent i s t (claim_key k i' x) =
      (insertInitialEvent i s t x)\<lparr>idem_tbl := idem_tbl (claim_key k i' x)\<rparr>" for i s t k i' x
    by (simp add: claim_key_def insertInitialEvent_def)
  then have "evolves T d (insertInitialEvent (JobID ?r) s t (claim_key k i (insert_job ?r d)))" for s t k i
    using e by simp
  with e show ?thesis
    by (auto simp: CreateJob_def Let_def intro!: evolves_commit split: option.splits)
qed

locale evolving_batch = batch_step +
  fixes T :: "uuid set"
  assumes evo: "store_inv d \<Longrightarrow> find_job i d = Some r \<Longrightarrow> sel r \<Longrightarrow> ok (i # ids) d \<Longrightarrow>
      body i d = Inr (res, d1) \<Longrightarrow> evolves T d d1"
begin

lemma loop_evolves:
  "store_inv a \<Longrightarrow> evolves T a d \<Longrightarrow> store_inv d \<Longrightarrow> selected ids d \<Longrightarrow> ok ids d \<Longrightarrow>
     batch_loop body ids d out = Inr (out', d') \<Longrightarrow> evolves T a d'"
proof (induction ids arbitrary: d out)
  case Nil
  then show ?case by simp
next
  case (Cons i ids)
  then obtain res d1 where b: "body i d = Inr (res, d1)" by (auto split: sum.splits)
  from loop_step [OF Cons.prems(3-5) b] obtain job r where s: "res = Some job"
      "store_inv d1" "selected ids d1" "ok ids d1" "find_job i d = Some r" "sel r"
    by metis
  have "evolves T a d1"
    using evolves_trans [OF Cons.prems(1,2) evo [OF Cons.prems(3) s(5,6) Cons.prems(5) b]] .
  from Cons.IH [OF Cons.prems(1) this s(2-4)] Cons.prems(6) b s(1) show ?case by simp
qed

lemma tx_evolves:
  "store_inv d \<Longrightarrow> selected ids d \<Longrightarrow> ok ids d \<Longrightarrow> evolves T d (snd (batch_tx flt body ids d))"
  using loop_evolves [of d d ids "[]"]
  by (auto simp: batch_tx_def intro!: evolves_commit split: sum.split)

end

interpretation promote: evolving_batch "promote_one lib flt gen now dbnow"
  "\<lambda>r. Status r = JobScheduled" set_pending "fetched lib" "fresh_children gen" T for lib flt gen now dbnow T
proof
  fix d i r ids res d1
  assume a: "store_inv d" "find_job i d = Some r" "Status r = JobScheduled"
    "fresh_children gen (i # ids) d" "promote_one lib flt gen now dbnow i d = Inr (res, d1)"
  let ?e = "insertEvent i JobScheduled JobPending dbnow
              (upd_job i (\<lambda>r. Status r = JobScheduled) set_pending d)"
  have e: "evolves T d ?e"
    using a(1) by (intro evolves_upd_event) (auto intro: row_evolves_sets)
  have g: "fresh_id (gen i) d" using a(4) by (simp add: fresh_children_def)
  then have "gen i \<noteq> i" using find_jobD [OF a(2)] by (auto simp: fresh_id_def)
  then have "fresh_id (gen i) ?e" using g by (auto simp: fresh_id_def upd_job_def set_update_where)
  then have "evolves T ?e (insertInitialEvent (gen i) s t (insert_job (followup_row (gen i) p z n m) ?e))"
    for s t p z n m
    using evolves_insert [of "followup_row (gen i) p z n m" ?e] by (simp add: followup_row_def zero_row_def)
  from evolves_trans [OF a(1) e this] e show "evolves T d d1"
    using promote_one_eq(1) [OF a(1-3,5)] by (auto simp: promoted_db_def Let_def split: sum.split)
qed

interpretation ungate: evolving_batch "ungate_one lib flt"
  "\<lambda>r. Status r \<in> {JobPending, JobQueued}" set_ungated "fetched lib" "\<lambda>_ _. True" T for lib flt T
proof
  fix d i r ids res d1
  assume a: "ungate_one lib flt i d = Inr (res, d1)"
  then have "d1 = upd_job i (\<lambda>r. Status r \<in> {JobPending, JobQueued}) set_ungated d"
    by (auto simp: ungate_one_def update_returning_def split: if_splits option.splits)
  then show "evolves T d d1" by (auto intro!: evolves_upd row_evolves_sets)
qed

interpretation reclaim: evolving_batch "reclaim_one lib flt dbnow"
  "\<lambda>r. Status r = JobRunning" set_reclaimed "fetched lib" "\<lambda>_ _. True" T for lib flt dbnow T
proof
  fix d i r ids res d1
  assume a: "store_inv d" "reclaim_one lib flt dbnow i d = Inr (res, d1)"
  let ?u = "upd_job i (\<lambda>r. Status r = JobRunning) set_reclaimed d"
  from a(2) have "d1 = ?u \<or> d1 = insertEvent i JobRunning JobPending dbnow ?u"
    by (auto simp: reclaim_one_def update_returning_def split: if_splits option.splits)
  then show "evolves T d d1"
    using a(1) by (auto intro!: evolves_upd evolves_upd_event row_evolves_sets)
qed

lemma ClaimDueScheduled_evolves [evolves_rules]:
  "store_inv d \<Longrightarrow> fresh_children gen (due_ids locked now limit d) d \<Longrightarrow>
     evolves T d (snd (ClaimDueScheduled lib flt locked gen dbnow now limit d))"
  unfolding ClaimDueScheduled_def by (intro promote.tx_evolves due_ids_selected)

lemma ClaimDueRetries_evolves [evolves_rules]:
  "store_inv d \<Longrightarrow> evolves T d (snd (ClaimDueRetries lib flt locked now limit d))"
  unfolding ClaimDueRetries_def by (intro ungate.tx_evolves retry_ids_selected TrueI)

lemma ClaimStaleRunning_evolves [evolves_rules]:
  "store_inv d \<Longrightarrow> evolves T d (snd (ClaimStaleRunning lib flt locked dbnow b limit d))"
  unfolding ClaimStaleRunning_def by (intro reclaim.tx_evolves stale_ids_selected TrueI)

lemma DeleteOldJobs_evolves [evolves_rules]:
  assumes "store_inv d"
  shows "evolves T d (snd (DeleteOldJobs flt before limit d))"
proof -
  have "delete_keys ks (delete_jobs dm d) =
      d\<lparr>jobs_tbl := filter (\<lambda>r. (JobID r, CreatedAt r) \<notin> set dm) (jobs_tbl d),
        idem_tbl := filter (\<lambda>p. fst p \<notin> set ks) (idem_tbl d)\<rparr>" for ks dm
    by (simp add: delete_keys_def delete_jobs_def)
  then show ?thesis using assms
    by (auto simp: DeleteOldJobs_def Let_def intro!: evolves_commit evolves_delete)
qed


subsection \<open>The machine\<close>

type_synonym store_state = "db \<times> uuid set"

inductive store_step :: "golib \<Rightarrow> store_state \<Rightarrow> store_state \<Rightarrow> bool" for lib where
  create: "initial_job inp \<Longrightarrow> fresh_id newid d \<Longrightarrow>
    store_step lib (d, U) (snd (CreateJob lib flt newid now dbnow inp d), U)"
| claim: "token \<notin> U \<Longrightarrow>
    store_step lib (d, U) (snd (ClaimRunning lib flt now dbnow token j w d), insert token U)"
| heartbeat: "store_step lib (d, U) (snd (Heartbeat flt dbnow j t d), U)"
| complete: "store_step lib (d, U) (snd (Complete flt dbnow j t d), U)"
| fail: "store_step lib (d, U) (snd (FailOrRetry lib flt now dbnow j t err d), U)"
| record_key: "store_step lib (d, U) (snd (RecordRetryKey flt key j d), U)"
| retry: "store_step lib (d, U) (snd (RetryJob lib flt dbnow j d), U)"
| cancel: "store_step lib (d, U) (snd (CancelJob lib flt dbnow j d), U)"
| cancel_series: "store_step lib (d, U) (snd (CancelSeries flt locked dbnow s owner d), U)"
| promote: "fresh_children gen (due_ids locked now limit d) d \<Longrightarrow>
    store_step lib (d, U) (snd (ClaimDueScheduled lib flt locked gen dbnow now limit d), U)"
| ungate: "store_step lib (d, U) (snd (ClaimDueRetries lib flt locked now limit d), U)"
| reclaim: "store_step lib (d, U) (snd (ClaimStaleRunning lib flt locked dbnow b limit d), U)"
| purge: "store_step lib (d, U) (snd (DeleteOldJobs flt b limit d), U)"

inductive_cases store_stepE: "store_step lib (d, U) (d', U')"

definition store_steps :: "golib \<Rightarrow> store_state \<Rightarrow> store_state \<Rightarrow> bool" where
  "store_steps lib = (store_step lib)\<^sup>*\<^sup>*"

definition reachable :: "golib \<Rightarrow> store_state \<Rightarrow> bool" where
  "reachable lib s \<longleftrightarrow> store_steps lib (empty_db, {}) s"

lemma evolves_mono: "evolves T d d' \<Longrightarrow> T \<subseteq> T' \<Longrightarrow> evolves T' d d'"
  unfolding evolves_def row_evolves_def by (fastforce split: option.splits)

lemma store_step_inv: "store_step lib (d, U) (d', U') \<Longrightarrow> store_inv d \<Longrightarrow> store_inv d'"
  by (erule store_stepE) (auto intro: inv_rules)

lemma store_step_evolves:
  "store_step lib (d, U) (d', U') \<Longrightarrow> store_inv d \<Longrightarrow> U \<subseteq> U' \<and> evolves (U' - U) d d'"
  by (erule store_stepE) (auto intro: evolves_rules)

lemma store_steps_evolves:
  assumes "store_steps lib s s'" and "store_inv (fst s)"
  shows "store_inv (fst s') \<and> snd s \<subseteq> snd s' \<and> evolves (snd s' - snd s) (fst s) (fst s')"
  using assms(1) unfolding store_steps_def
proof (induction rule: rtranclp_induct)
  case base
  then show ?case using assms(2) by simp
next
  case (step y z)
  obtain d U d' U' where yz: "y = (d, U)" "z = (d', U')" by (cases y, cases z)
  have st: "store_step lib (d, U) (d', U')" using step.hyps(2) by (simp add: yz)
  have y: "store_inv d" "snd s \<subseteq> U" "evolves (U - snd s) (fst s) d" using step.IH by (simp_all add: yz)
  have z: "U \<subseteq> U'" "evolves (U' - U) d d'" using store_step_evolves [OF st y(1)] by simp_all
  have "evolves (U' - snd s) (fst s) d'"
    by (rule evolves_trans [OF assms(2) evolves_mono [OF y(3)] evolves_mono [OF z(2)]])
      (use y(2) z(1) in auto)
  then show ?case using y(2) z(1) store_step_inv [OF st y(1)] by (auto simp: yz)
qed

lemma reachable_facts:
  assumes "reachable lib (d, U)"
  shows "store_inv d"
    and "find_job j d = Some r \<Longrightarrow> ClaimToken r = Some t \<Longrightarrow> t \<in> U"
proof -
  have *: "store_inv d \<and> evolves U empty_db d"
    using store_steps_evolves [OF assms [unfolded reachable_def]] by simp
  then show "store_inv d" ..
  have "find_job j empty_db = None" by (simp add: find_job_def empty_db_def)
  then show "find_job j d = Some r \<Longrightarrow> ClaimToken r = Some t \<Longrightarrow> t \<in> U"
    using * by (auto dest!: evolvesD)
qed

lemma steps_row:
  assumes "store_inv d" and "store_steps lib (d, U) (d', U')" and "find_job j d = Some r"
    and "find_job j d' = Some r'"
  shows "row_evolves (U' - U) r r'"
  using store_steps_evolves [OF assms(2)] assms(1,3,4) by (auto dest!: evolvesD)

lemma row_evolves_terminal: "row_evolves T r r' \<Longrightarrow> terminal (Status r) \<Longrightarrow> r' = r"
  by (simp add: row_evolves_def)

lemma row_evolves_disown:
  assumes "row_evolves T r r'" and "row_inv r" and "\<not> owned_running t r" and "t \<notin> T"
  shows "\<not> owned_running t r'"
proof (cases "ClaimToken r = Some t")
  case True
  then have "terminal (Status r)"
    using assms(2,3) by (auto simp: row_inv_def owned_running_def terminal_def)
  then show ?thesis using row_evolves_terminal [OF assms(1)] assms(3) by simp
next
  case False
  then show ?thesis using assms(1,4) by (auto simp: row_evolves_def owned_running_def)
qed

subsection \<open>Answers to a worker that does not own the job\<close>

lemma disowned_ops:
  assumes "store_inv d" and "\<And>r. find_job j d = Some r \<Longrightarrow> \<not> owned_running t r"
  shows "Complete no_faults n j t d = (Inl ErrNotClaimable, d)"
    and "FailOrRetry lib no_faults m n j t e d = (Inl ErrNotClaimable, d)"
    and "Heartbeat no_faults n j t d = (Inl ErrNotClaimable, d)"
proof -
  show "Complete no_faults n j t d = (Inl ErrNotClaimable, d)"
    "FailOrRetry lib no_faults m n j t e d = (Inl ErrNotClaimable, d)"
    using assms(2) by (auto simp: Complete_def FailOrRetry_def no_faults_def owned_running_def
        split: option.split)
  have none: "\<not> (JobID r = j \<and> owned_running t r)" if "r \<in> set (jobs_tbl d)" for r
    using assms(2) find_job_mem [OF assms(1) that] by auto
  then have "filter (\<lambda>r. JobID r = j \<and> owned_running t r) (jobs_tbl d) = []"
    by (simp add: filter_empty_conv)
  moreover have "upd_job j (owned_running t) f d = d" for f
    using assms(2) by (rule upd_job_none [OF assms(1)])
  ultimately show "Heartbeat no_faults n j t d = (Inl ErrNotClaimable, d)"
    by (simp add: Heartbeat_def no_faults_def)
qed

end
