(* ===== verification/Jobs_Props.thy ===== *)
theory Jobs_Props
  imports Jobs_Machine
begin

text \<open>
  The properties of the job store over all interleavings of its operations: the invariant
  and the event timeline, what a job keeps for life, fencing by claim tokens, mutual
  exclusion of claims, the retry budget and its back-off, atomicity, idempotency keys and
  tenant isolation. \<open>demo_d1\<close> to \<open>demo_d4\<close> are the concrete databases of the witnesses: a
  job is created, claimed, reclaimed as stale and claimed by a second worker.
\<close>

subsection \<open>Concrete states\<close>

definition demo_inp :: Job where
  "demo_inp = zero_job\<lparr>Type := ''email'', QueueName := ''email'', IdempotencyKey := Some ''k1''\<rparr>"

definition demo_d1 :: db where
  "demo_d1 = snd (CreateJob demo_lib no_faults 7 100 100 demo_inp empty_db)"

definition demo_d2 :: db where
  "demo_d2 = snd (ClaimRunning demo_lib no_faults 200 200 11 7 ''w1'' demo_d1)"

definition demo_d3 :: db where
  "demo_d3 = snd (ClaimStaleRunning demo_lib no_faults (\<lambda>_. False) 900 800 10 demo_d2)"

definition demo_d4 :: db where
  "demo_d4 = snd (ClaimRunning demo_lib no_faults 1000 1000 12 7 ''w2'' demo_d3)"

definition demo_d5 :: db where
  "demo_d5 = snd (Complete no_faults 1100 7 12 demo_d4)"

lemma demo_steps:
  "store_step demo_lib (empty_db, {}) (demo_d1, {})"
  "store_step demo_lib (demo_d1, {}) (demo_d2, {11})"
  "store_step demo_lib (demo_d2, {11}) (demo_d3, {11})"
  "store_step demo_lib (demo_d3, {11}) (demo_d4, {12, 11})"
  "store_step demo_lib (demo_d4, {12, 11}) (demo_d5, {12, 11})"
proof -
  have "initial_job demo_inp" "fresh_id 7 empty_db"
    by (simp_all add: initial_job_def demo_inp_def zero_job_def zero_row_def zero_runtime_def
        job_row.defs Job.defs is_int16_def fresh_id_def empty_db_def)
  then show "store_step demo_lib (empty_db, {}) (demo_d1, {})"
    unfolding demo_d1_def by (rule store_step.create)
  show "store_step demo_lib (demo_d1, {}) (demo_d2, {11})"
    unfolding demo_d2_def by (rule store_step.claim) simp
  show "store_step demo_lib (demo_d2, {11}) (demo_d3, {11})"
    unfolding demo_d3_def by (rule store_step.reclaim)
  show "store_step demo_lib (demo_d3, {11}) (demo_d4, {12, 11})"
    unfolding demo_d4_def by (rule store_step.claim) simp
  show "store_step demo_lib (demo_d4, {12, 11}) (demo_d5, {12, 11})"
    unfolding demo_d5_def by (rule store_step.complete)
qed

lemma demo_reachable:
  "reachable demo_lib (demo_d1, {})" "reachable demo_lib (demo_d2, {11})"
  "reachable demo_lib (demo_d3, {11})" "reachable demo_lib (demo_d4, {12, 11})"
  "reachable demo_lib (demo_d5, {12, 11})" "store_steps demo_lib (demo_d4, {12, 11}) (demo_d5, {12, 11})"
  "store_steps demo_lib (demo_d2, {11}) (demo_d4, {12, 11})"
  using demo_steps unfolding reachable_def store_steps_def
  by (meson r_into_rtranclp rtranclp.rtrancl_into_rtrancl)+

lemmas demo_inv = reachable_facts(1) [OF demo_reachable(1)] reachable_facts(1) [OF demo_reachable(2)]
  reachable_facts(1) [OF demo_reachable(3)] reachable_facts(1) [OF demo_reachable(4)]
  reachable_facts(1) [OF demo_reachable(5)]

subsection \<open>Invariant and timeline\<close>

text \<open>C16. In every state reachable by any interleaving of store operations, with faults at
  any database call, each job satisfies the row invariant (a token exactly while running or
  completed, a completion instant exactly in the final statuses, a heartbeat, start and
  worker while running and no retry gate, a 16-bit attempt count), identifiers are unique,
  and a job's non-empty idempotency key is recorded for that job alone.\<close>

theorem reachable_rows_ok:
  assumes "reachable lib (d, U)" and "find_job j d = Some r"
  shows "row_inv r \<and> distinct (map JobID (jobs_tbl d)) \<and>
    (\<forall>k. IdempotencyKey r = Some k \<and> k \<noteq> [] \<longrightarrow> map_of (idem_tbl d) k = Some j)"
  using reachable_facts(1) [OF assms(1)] find_jobD [OF assms(2)]
  by (auto simp: store_inv_def job_inv_def)

lemma reachable_rows_ok_witness:
  "row_inv (hd (jobs_tbl demo_d4)) \<and> map_of (idem_tbl demo_d4) ''k1'' = Some 7"
proof -
  have f: "find_job 7 demo_d4 = Some (hd (jobs_tbl demo_d4))" by code_simp
  have k: "IdempotencyKey (hd (jobs_tbl demo_d4)) = Some ''k1''" by code_simp
  show ?thesis using reachable_rows_ok [OF demo_reachable(4) f] k by simp
qed

lemma order_by_sorted: "sorted_wrt (\<lambda>x y. k x \<le> k y) (order_by k xs)"
  using sorted_sort_key [of k xs] by (simp add: order_by_def sorted_map)

lemma order_by_id: "sorted_wrt (\<lambda>x y. k x < k y) xs \<Longrightarrow> order_by k xs = xs"
  unfolding order_by_def by (induction xs) (auto simp: less_imp_le insort_is_Cons)

text \<open>C18. The event timeline of a job is complete and legal. In every reachable state the events
  recorded for an existing job are, in the order they were written, a chain that starts with its
  creation, continues each time in the status the last event reached and ends in the job's
  current status, and every event is an edge of the status graph. \<open>GetJobEvents\<close> returns exactly these
  events in ascending order of their instants; so when each was written at a later instant of the database
  clock than the one before, its answer is that chain.\<close>

theorem timeline_ok:
  assumes "reachable lib (d, U)" and "find_job j d = Some r"
    and "written = filter (\<lambda>e. EvJobID e = j) (events_tbl d)"
  shows "ev_chain None written (Some (Status r)) \<and>
    list_all (\<lambda>e. status_edge (OldStatus e) (NewStatus e)) written \<and>
    (\<exists>es. GetJobEvents no_faults j d = Inr es \<and> mset es = mset written \<and>
       sorted_wrt (\<lambda>a b. Occurred a \<le> Occurred b) es \<and>
       (sorted_wrt (\<lambda>a b. Occurred a < Occurred b) written \<longrightarrow> es = written))"
proof -
  have h: "written = history j d" by (simp add: assms(3) history_def)
  have "store_inv d" by (rule reachable_facts(1) [OF assms(1)])
  then have "ev_chain None written (Some (Status r))"
    and "list_all (\<lambda>e. status_edge (OldStatus e) (NewStatus e)) written"
    using find_jobD [OF assms(2)] by (auto simp: store_inv_def job_inv_def list_all_iff h) (auto simp: history_def)
  then show ?thesis
    using order_by_sorted [of Occurred "history j d"] order_by_id [of Occurred "history j d"]
    by (simp add: GetJobEvents_def no_faults_def h) (simp add: order_by_def)
qed

lemma timeline_ok_witness:
  "\<exists>es. GetJobEvents no_faults 7 demo_d5 = Inr es \<and> es = events_tbl demo_d5 \<and> length es = 5 \<and>
     ev_chain None es (Some JobCompleted)"
proof -
  have f: "find_job 7 demo_d5 = Some (hd (jobs_tbl demo_d5))" by code_simp
  have s: "Status (hd (jobs_tbl demo_d5)) = JobCompleted" by code_simp
  have l: "length (events_tbl demo_d5) = 5" by code_simp
  have w: "events_tbl demo_d5 = filter (\<lambda>e. EvJobID e = 7) (events_tbl demo_d5)" by code_simp
  have "sorted_wrt (\<lambda>a b. Occurred a < Occurred b) (events_tbl demo_d5)" by code_simp
  then show ?thesis using timeline_ok [OF demo_reachable(5) f w] l s by auto
qed

subsection \<open>What a job keeps\<close>

text \<open>C20. Completed and cancelled are final: from a reachable state in which a job is completed
  or cancelled, no sequence of operations changes any column of it; the only thing that can
  happen to it is removal by retention, after which its identifier never comes back.\<close>

theorem terminal_forever:
  assumes "reachable lib (d, U)" and "find_job j d = Some r" and "terminal (Status r)"
    and "store_steps lib (d, U) (d', U')"
  shows "find_job j d' = Some r \<or> find_job j d' = None"
proof (cases "find_job j d'")
  case (Some r')
  have "row_evolves (U' - U) r r'"
    by (rule steps_row [OF reachable_facts(1) [OF assms(1)] assms(4,2) Some])
  then show ?thesis using row_evolves_terminal assms(3) Some by simp
qed simp

lemma terminal_forever_witness:
  "find_job 7 (snd (CancelJob demo_lib no_faults 2000 7 demo_d5)) = find_job 7 demo_d5 \<or>
   find_job 7 (snd (CancelJob demo_lib no_faults 2000 7 demo_d5)) = None"
proof -
  have f: "find_job 7 demo_d5 = Some (hd (jobs_tbl demo_d5))" by code_simp
  have s: "Status (hd (jobs_tbl demo_d5)) = JobCompleted" by code_simp
  have "store_steps demo_lib (demo_d5, {12, 11}) (snd (CancelJob demo_lib no_faults 2000 7 demo_d5), {12, 11})"
    unfolding store_steps_def by (rule r_into_rtranclp) (rule store_step.cancel)
  from terminal_forever [OF demo_reachable(5) f _ this] show ?thesis
    by (simp add: f s terminal_def)
qed

text \<open>A job keeps its identity: whatever operations run, its type, payload, queue,
  priority, retry budget, owner, keys, schedule and creation instant never change, its status
  moves only along the status graph, and an identifier whose job was deleted is not reused.\<close>

theorem job_identity_stable:
  assumes "reachable lib (d, U)" and "store_steps lib (d, U) (d', U')"
  shows "find_job j d' = Some r' \<Longrightarrow>
    (case find_job j d of
       Some r \<Rightarrow> same_job r r' \<and> status_reach (Status r) (Status r')
     | None \<Rightarrow> history j d = [])"
proof -
  assume r': "find_job j d' = Some r'"
  have "store_inv d" by (rule reachable_facts(1) [OF assms(1)])
  then have "evolves (U' - U) d d'" using store_steps_evolves [OF assms(2)] by simp
  from evolvesD [OF this r'] show ?thesis by (auto simp: row_evolves_def split: option.splits)
qed

lemma job_identity_stable_witness:
  "same_job (hd (jobs_tbl demo_d2)) (hd (jobs_tbl demo_d4)) \<and> demo_d2 \<noteq> demo_d4"
proof -
  have f: "find_job 7 demo_d2 = Some (hd (jobs_tbl demo_d2))" by code_simp
  have f': "find_job 7 demo_d4 = Some (hd (jobs_tbl demo_d4))" by code_simp
  have n: "demo_d2 \<noteq> demo_d4" by code_simp
  show ?thesis using job_identity_stable [OF demo_reachable(2,7) f'] n by (simp add: f)
qed


subsection \<open>Claim tokens\<close>

lemma ClaimRunning_succeeds:
  assumes "ClaimRunning lib flt now dbnow token j w d = (Inr x, d')"
  obtains job where "find_job j d = Some job" and "claimable (Status job)" and "\<not> gated job now"
    and "is_int16 (AttemptCount job + 1)"
    and "x = (fetched lib (set_running w token dbnow job), token)"
    and "d' = insertEvent j (Status job) JobRunning dbnow
                (upd_job j any_row (set_running w token dbnow) d)"
  using assms that
  by (auto simp: ClaimRunning_def commit_tx_def Let_def split: if_splits option.splits)

lemma ClaimRunning_ok:
  assumes "find_job j d = Some job" and "claimable (Status job)" and "\<not> gated job now"
    and "is_int16 (AttemptCount job + 1)"
  shows "ClaimRunning lib no_faults now dbnow token j w d =
    (Inr (fetched lib (set_running w token dbnow job), token),
     insertEvent j (Status job) JobRunning dbnow (upd_job j any_row (set_running w token dbnow) d))"
  using assms by (simp add: ClaimRunning_def commit_tx_def no_faults_def)

lemma ClaimRunning_row:
  assumes "ClaimRunning lib flt now dbnow token j w d = (Inr x, d')" and "find_job j d = Some job"
  shows "find_job j d' = Some (set_running w token dbnow job)"
  using assms(1) by (rule ClaimRunning_succeeds) (use assms(2) in \<open>auto simp: find_job_upd\<close>)

text \<open>C17. Fencing: once a worker has claimed a job with a fresh token, every holder of an
  earlier token is locked out for ever. After any further operations, \<open>Complete\<close>,
  \<open>FailOrRetry\<close> and \<open>Heartbeat\<close> with the earlier token answer \<open>ErrNotClaimable\<close> and change
  nothing, so a worker that was reclaimed as dead and wakes up cannot overwrite the result.\<close>

theorem claim_fences_others:
  assumes "reachable lib (d, U)" and "t2 \<notin> U" and "t1 \<in> U"
    and "ClaimRunning lib flt now dbnow t2 j w d = (Inr x, d1)"
    and "store_steps lib (d1, insert t2 U) (d', U')"
  shows "Complete no_faults n j t1 d' = (Inl ErrNotClaimable, d') \<and>
    FailOrRetry lib no_faults m n j t1 e d' = (Inl ErrNotClaimable, d') \<and>
    Heartbeat no_faults n j t1 d' = (Inl ErrNotClaimable, d')"
proof -
  have inv: "store_inv d" by (rule reachable_facts(1) [OF assms(1)])
  have inv1: "store_inv d1"
    using ClaimRunning_inv [OF inv, of lib flt now dbnow t2 j w] assms(4) by simp
  then have inv': "store_inv d'" using store_steps_evolves [OF assms(5)] by simp
  from assms(4) obtain job where job: "find_job j d = Some job" by (rule ClaimRunning_succeeds)
  note r1 = ClaimRunning_row [OF assms(4) job]
  have "\<not> owned_running t1 r" if "find_job j d' = Some r" for r
  proof -
    have "row_evolves (U' - insert t2 U) (set_running w t2 dbnow job) r"
      by (rule steps_row [OF inv1 assms(5) r1 that])
    moreover have "\<not> owned_running t1 (set_running w t2 dbnow job)"
      using assms(2,3) by (auto simp: owned_running_def)
    ultimately show ?thesis using row_evolves_disown [OF _ store_inv_row [OF inv1 r1]] assms(3) by auto
  qed
  then show ?thesis using disowned_ops [OF inv'] by simp
qed

lemma claim_fences_others_witness:
  "Complete no_faults 1100 7 11 demo_d4 = (Inl ErrNotClaimable, demo_d4) \<and>
   owned_running 12 (hd (jobs_tbl demo_d4))"
proof -
  have c: "\<exists>x. ClaimRunning demo_lib no_faults 1000 1000 12 7 ''w2'' demo_d3 = (Inr x, demo_d4)"
  proof -
    have f: "find_job 7 demo_d3 = Some (hd (jobs_tbl demo_d3))" by code_simp
    have "claimable (Status (hd (jobs_tbl demo_d3)))" "\<not> gated (hd (jobs_tbl demo_d3)) 1000"
      "is_int16 (AttemptCount (hd (jobs_tbl demo_d3)) + 1)" by code_simp+
    from ClaimRunning_ok [OF f this] show ?thesis by (simp add: demo_d4_def)
  qed
  then obtain x where "ClaimRunning demo_lib no_faults 1000 1000 12 7 ''w2'' demo_d3 = (Inr x, demo_d4)" ..
  moreover have "store_steps demo_lib (demo_d4, insert 12 {11}) (demo_d4, {12, 11})"
    by (simp add: store_steps_def)
  moreover have "owned_running 12 (hd (jobs_tbl demo_d4))" by code_simp
  ultimately show ?thesis
    using claim_fences_others [OF demo_reachable(3), of 12 11] by simp
qed

text \<open>Several workers that read the same stream message (a redelivery, or a reaper's duplicate
  of the reference) each try to claim the job.\<close>

fun claim_race ::
  "golib \<Rightarrow> uuid \<Rightarrow> (instant \<times> instant \<times> uuid \<times> string) list \<Rightarrow> db \<Rightarrow> (Job \<times> uuid) result list"
where
  "claim_race lib j [] d = []"
| "claim_race lib j ((now, dbnow, token, w) # cs) d =
     (case ClaimRunning lib no_faults now dbnow token j w d of
        (res, d1) \<Rightarrow> res # claim_race lib j cs d1)"

lemma claim_race_lost:
  "find_job j d = Some r \<Longrightarrow> Status r = JobRunning \<Longrightarrow>
     claim_race lib j cs d = replicate (length cs) (Inl ErrNotClaimable)"
  by (induction lib j cs d rule: claim_race.induct)
    (auto simp: ClaimRunning_def claimable_def no_faults_def)

text \<open>At most one worker runs a job: when any number of workers race to claim a claimable
  job whose gate is over, the first one to reach the database gets it, marked running with its
  token and one more attempt, and every other one gets \<open>ErrNotClaimable\<close>.\<close>

theorem claim_race_one_winner:
  assumes "find_job j d = Some r" and "claimable (Status r)" and "\<not> gated r now"
    and "is_int16 (AttemptCount r + 1)"
  shows "claim_race lib j ((now, dbnow, token, w) # cs) d =
    Inr (fetched lib (set_running w token dbnow r), token) #
      replicate (length cs) (Inl ErrNotClaimable)"
proof -
  note c = ClaimRunning_ok [OF assms, of lib dbnow token w]
  have "find_job j (insertEvent j (Status r) JobRunning dbnow
      (upd_job j any_row (set_running w token dbnow) d)) = Some (set_running w token dbnow r)"
    using assms(1) by (simp add: find_job_upd)
  from claim_race_lost [OF this] c show ?thesis by simp
qed

lemma claim_race_one_winner_witness:
  "tl (claim_race demo_lib 7 [(200, 200, 11, ''w1''), (201, 201, 12, ''w2'')] demo_d1) =
     [Inl ErrNotClaimable]"
proof -
  have f: "find_job 7 demo_d1 = Some (hd (jobs_tbl demo_d1))" by code_simp
  have "claimable (Status (hd (jobs_tbl demo_d1)))" "\<not> gated (hd (jobs_tbl demo_d1)) 200"
    "is_int16 (AttemptCount (hd (jobs_tbl demo_d1)) + 1)" by code_simp+
  from claim_race_one_winner [OF f this] show ?thesis by (simp del: claim_race.simps)
qed

subsection \<open>Failure and retry\<close>

text \<open>The back-off is exponential with a floor and a cap: 10 seconds doubled per attempt,
  at most 5 minutes, never less than 10 seconds, and monotone, for every attempt number
  including negative ones.\<close>

theorem RetryBackoff_spec:
  "RetryBackoff a = min (5 * minute) (10 * second * 2 ^ nat a) \<and>
   10 * second \<le> RetryBackoff a \<and> mono RetryBackoff"
proof -
  have eq: "RetryBackoff a = min (5 * minute) (10 * second * 2 ^ nat a)" for a
  proof (cases "a \<le> 5")
    case True
    then have "nat a \<in> {0, 1, 2, 3, 4, 5}" by auto
    then show ?thesis using True
      by (auto simp: RetryBackoff_def minAttemptShift_def Let_def push_bit_eq_mult minute_def
          second_def min_def)
  next
    case False
    then have "(2::int) ^ 5 \<le> 2 ^ nat a" by (intro power_increasing) auto
    then show ?thesis using False
      by (simp add: RetryBackoff_def minAttemptShift_def Let_def push_bit_eq_mult minute_def
          second_def min_def)
  qed
  have "mono RetryBackoff"
  proof (rule monoI)
    fix a b :: int
    assume "a \<le> b"
    then have "(2::int) ^ nat a \<le> 2 ^ nat b" by (intro power_increasing) auto
    then show "RetryBackoff a \<le> RetryBackoff b"
      unfolding eq by (intro min.mono mult_left_mono) (auto simp: second_def)
  qed
  moreover have "(1::int) \<le> 2 ^ nat a" by simp
  ultimately show ?thesis by (simp add: eq minute_def second_def)
qed


lemma RetryBackoff_le: "RetryBackoff a \<le> 5 * minute"
  by (simp add: RetryBackoff_def Let_def)

definition after_failure :: "string \<Rightarrow> instant \<Rightarrow> instant \<Rightarrow> job_row \<Rightarrow> job_row" where
  \<comment> \<open>the row \<open>FailOrRetry\<close> leaves\<close>
  "after_failure err now dbnow r =
     set_failed (fail_next r) err
       (if fail_next r = JobPending then Some (now + RetryBackoff (AttemptCount r)) else None) dbnow r"

lemma FailOrRetry_ok:
  assumes "find_job j d = Some r" and "owned_running t r"
  shows "\<exists>d'. FailOrRetry lib no_faults now dbnow j t err d =
      (Inr (fetched lib (after_failure err now dbnow r)), d') \<and>
    find_job j d' = Some (after_failure err now dbnow r)"
  using assms
  by (simp add: FailOrRetry_def no_faults_def owned_running_def commit_tx_def Let_def
      after_failure_def find_job_upd)

text \<open>What a failed attempt does: the job's owner gets the row back; when the attempts used
  reach the budget the job is failed with a completion instant and no gate, otherwise it is
  pending and gated, and until exactly \<open>now + RetryBackoff attempts\<close> every claim, by any
  worker, is refused with \<open>ErrNotClaimable\<close>.\<close>

theorem failed_attempt_gated:
  assumes "find_job j d = Some r" and "owned_running t r"
  shows "\<exists>d' r'. FailOrRetry lib no_faults now dbnow j t err d = (Inr (fetched lib r'), d') \<and>
    find_job j d' = Some r' \<and> ClaimToken r' = None \<and>
    (if MaxRetry r \<le> AttemptCount r
     then Status r' = JobFailed \<and> CompletedAt r' = Some dbnow \<and> NotBefore r' = None
     else Status r' = JobPending \<and>
       (\<forall>now2 dbnow2 t2 w. fst (ClaimRunning lib no_faults now2 dbnow2 t2 j w d') = Inl ErrNotClaimable
          \<longleftrightarrow> now2 < now + RetryBackoff (AttemptCount r)))"
proof -
  let ?r = "after_failure err now dbnow r"
  obtain d' where d': "FailOrRetry lib no_faults now dbnow j t err d = (Inr (fetched lib ?r), d')"
      "find_job j d' = Some ?r" using FailOrRetry_ok [OF assms] by blast
  show ?thesis
    by (rule exI [of _ d'], rule exI [of _ ?r])
      (use d' in \<open>auto simp: after_failure_def fail_next_def ClaimRunning_def no_faults_def
        claimable_def gated_def commit_tx_def Let_def\<close>)
qed

lemma failed_attempt_gated_witness:
  "\<exists>d' r'. FailOrRetry demo_lib no_faults 1000 1000 7 12 ''boom'' demo_d4 = (Inr (fetched demo_lib r'), d') \<and>
     Status r' = JobPending \<and>
     fst (ClaimRunning demo_lib no_faults (1000 + 20 * second) 0 13 7 ''w'' d') = Inl ErrNotClaimable"
proof -
  let ?r = "hd (jobs_tbl demo_d4)"
  have f: "find_job 7 demo_d4 = Some ?r" "owned_running 12 ?r" by code_simp+
  have a: "MaxRetry ?r = 3" "AttemptCount ?r = 2" "1000 + 20 * second < 1000 + RetryBackoff 2"
    by code_simp+
  from failed_attempt_gated [OF f, of demo_lib 1000 1000 "''boom''"] a show ?thesis by auto
qed

fun attempts :: "golib \<Rightarrow> uuid \<Rightarrow> (instant \<times> uuid \<times> string \<times> string) list \<Rightarrow> db \<Rightarrow> db" where
  \<comment> \<open>attempts that all fail: at each instant a worker claims the job and reports an error\<close>
  "attempts lib j [] d = d"
| "attempts lib j ((now, token, w, err) # cs) d =
     (case ClaimRunning lib no_faults now now token j w d of
        (Inl _, d1) \<Rightarrow> attempts lib j cs d1
      | (Inr (_, t), d1) \<Rightarrow> attempts lib j cs (snd (FailOrRetry lib no_faults now now j t err d1)))"

fun spaced :: "instant \<Rightarrow> (instant \<times> 'b) list \<Rightarrow> bool" where
  "spaced g [] = True"
| "spaced g ((t, _) # cs) = (g \<le> t \<and> spaced (t + 5 * minute) cs)"

lemma attempts_row:
  "find_job j d = Some r \<Longrightarrow> Status r = JobPending \<Longrightarrow> 0 \<le> AttemptCount r \<Longrightarrow>
   AttemptCount r + int (length cs) \<le> MaxRetry r \<Longrightarrow> MaxRetry r \<le> 32767 \<Longrightarrow>
   NotBefore r = None \<or> the (NotBefore r) \<le> g \<Longrightarrow> spaced g cs \<Longrightarrow>
     \<exists>r'. find_job j (attempts lib j cs d) = Some r' \<and>
       AttemptCount r' = AttemptCount r + int (length cs) \<and>
       Status r' = (if cs \<noteq> [] \<and> AttemptCount r + int (length cs) = MaxRetry r
                    then JobFailed else JobPending)"
proof (induction cs arbitrary: d r g)
  case Nil
  then show ?case by simp
next
  case (Cons c cs)
  obtain now token w err where c: "c = (now, token, w, err)" by (cases c)
  have now: "g \<le> now" "spaced (now + 5 * minute) cs" using Cons.prems(7) by (simp_all add: c)
  have ok: "claimable (Status r)" "\<not> gated r now" "is_int16 (AttemptCount r + 1)"
    using Cons.prems(2-6) now(1) by (auto simp: claimable_def gated_def is_int16_def split: option.split)
  let ?r1 = "set_running w token now r"
  let ?d1 = "insertEvent j (Status r) JobRunning now (upd_job j any_row (set_running w token now) d)"
  have r1: "find_job j ?d1 = Some ?r1" using Cons.prems(1) by (simp add: find_job_upd)
  have o1: "owned_running token ?r1" by (simp add: owned_running_def)
  let ?r2 = "after_failure err now now ?r1"
  from FailOrRetry_ok [OF r1 o1, of lib now now err] obtain d2 where
      d2: "snd (FailOrRetry lib no_faults now now j token err ?d1) = d2" "find_job j d2 = Some ?r2"
    by (metis snd_conv)
  have run: "attempts lib j (c # cs) d = attempts lib j cs d2"
    using ClaimRunning_ok [OF Cons.prems(1) ok] d2(1) by (simp add: c)
  have r2: "AttemptCount ?r2 = AttemptCount r + 1" "MaxRetry ?r2 = MaxRetry r"
      "Status ?r2 = (if MaxRetry r \<le> AttemptCount r + 1 then JobFailed else JobPending)"
    by (simp_all add: after_failure_def fail_next_def)
  show ?case
  proof (cases "cs = []")
    case True
    then show ?thesis using run d2(2) r2 Cons.prems(4) by auto
  next
    case False
    then have lt: "AttemptCount r + 1 < MaxRetry r"
      using Cons.prems(4) by (cases cs) auto
    have "the (NotBefore ?r2) \<le> now + 5 * minute"
      using lt RetryBackoff_le by (simp add: after_failure_def fail_next_def)
    then show ?thesis
      using Cons.IH [OF d2(2), of "now + 5 * minute"] r2 lt Cons.prems(3-5) now(2) False
      by (auto simp: run algebra_simps)
  qed
qed

text \<open>C21. The retry budget is exact: a new pending job whose every attempt fails, the attempts
  being spaced by the maximal back-off, is pending after each of its first \<open>MaxRetry - 1\<close>
  attempts, and failed after the \<open>MaxRetry\<close>-th, so a failing job ends.\<close>

theorem retry_budget_exact:
  assumes "find_job j d = Some r" and "Status r = JobPending" and "AttemptCount r = 0"
    and "NotBefore r = None" and "0 < MaxRetry r" and "MaxRetry r \<le> 32767"
    and "int (length cs) \<le> MaxRetry r" and "spaced g cs"
  shows "\<exists>r'. find_job j (attempts lib j cs d) = Some r' \<and> AttemptCount r' = int (length cs) \<and>
    Status r' = (if int (length cs) = MaxRetry r then JobFailed else JobPending)"
  using attempts_row [OF assms(1,2), of cs g lib] assms(3-8) by auto

lemma retry_budget_exact_witness:
  "\<exists>r'. find_job 7 (attempts demo_lib 7
      [(1000, 11, ''w'', ''e''), (1000 + 5 * minute, 12, ''w'', ''e''),
       (1000 + 10 * minute, 13, ''w'', ''e'')] demo_d1) = Some r' \<and> Status r' = JobFailed"
proof -
  let ?r = "hd (jobs_tbl demo_d1)"
  let ?cs = "[(1000, 11, ''w'', ''e''), (1000 + 5 * minute, 12, ''w'', ''e''),
       (1000 + 10 * minute, 13, ''w'', ''e'')]"
  have f: "find_job 7 demo_d1 = Some ?r" "Status ?r = JobPending" "AttemptCount ?r = 0"
    "NotBefore ?r = None" "MaxRetry ?r = 3" by code_simp+
  have "spaced 1000 ?cs" by simp
  from retry_budget_exact [OF f(1-4) _ _ _ this, of demo_lib] f(5) show ?thesis
    by (auto simp del: attempts.simps)
qed

text \<open>The reclaim path does not look at the budget.\<close>

fun crashes :: "golib \<Rightarrow> uuid \<Rightarrow> (instant \<times> uuid \<times> string) list \<Rightarrow> db \<Rightarrow> db" where
  \<comment> \<open>attempts that kill their worker: a claim, then the reaper's reclaim of the stale row\<close>
  "crashes lib j [] d = d"
| "crashes lib j ((now, token, w) # cs) d =
     crashes lib j cs (snd (ClaimStaleRunning lib no_faults (\<lambda>_. False) (now + 1) (now + 1) 100
       (snd (ClaimRunning lib no_faults now now token j w d))))"

lemma upd_single:
  "jobs_tbl d = [r] \<Longrightarrow> JobID r = j \<Longrightarrow> p r \<Longrightarrow> jobs_tbl (upd_job j p f d) = [f r]"
  by (simp add: upd_job_def update_where_def)

lemma reclaim_single:
  assumes "jobs_tbl d = [r]" and "stale_running b r"
  shows "jobs_tbl (snd (ClaimStaleRunning lib no_faults (\<lambda>_. False) n b 100 d)) = [set_reclaimed r]"
proof -
  have s: "Status r = JobRunning" using assms(2) by (simp add: stale_running_def)
  have "stale_ids (\<lambda>_. False) b 100 d = [JobID r]"
    using assms by (simp add: stale_ids_def clamp_limit_def order_by_def limit_to_def)
  then show ?thesis using assms(1) s
    by (simp add: ClaimStaleRunning_def batch_tx_def reclaim_one_def update_returning_def
        no_faults_def commit_tx_def upd_single)
qed

text \<open>The retry budget does not bound crashes: a job whose handler takes the worker down
  each time is put back to pending by every reclaim, whatever its \<open>MaxRetry\<close>; its attempt
  count grows past the budget, and the job never becomes failed.\<close>

theorem crash_loop_never_fails:
  assumes "jobs_tbl d = [r]" and "JobID r = j" and "Status r = JobPending" and "NotBefore r = None"
    and "0 \<le> AttemptCount r" and "AttemptCount r + int (length cs) \<le> 32767"
  shows "\<exists>r'. jobs_tbl (crashes lib j cs d) = [r'] \<and> Status r' = JobPending \<and>
    AttemptCount r' = AttemptCount r + int (length cs) \<and> MaxRetry r' = MaxRetry r"
  using assms
proof (induction cs arbitrary: d r)
  case Nil
  then show ?case by simp
next
  case (Cons c cs)
  obtain now token w where c: "c = (now, token, w)" by (cases c)
  have f: "find_job j d = Some r" using Cons.prems(1,2) by (simp add: find_job_def)
  have "claimable (Status r)" "\<not> gated r now" "is_int16 (AttemptCount r + 1)"
    using Cons.prems by (simp_all add: claimable_def gated_def is_int16_def)
  note cl = ClaimRunning_ok [OF f this, of lib now token w]
  let ?r1 = "set_running w token now r"
  have "jobs_tbl (snd (ClaimRunning lib no_faults now now token j w d)) = [?r1]"
    using cl Cons.prems(1,2) by (simp add: upd_single)
  moreover have "stale_running (now + 1) ?r1" by (simp add: stale_running_def)
  ultimately have "jobs_tbl (snd (ClaimStaleRunning lib no_faults (\<lambda>_. False) (now + 1) (now + 1) 100
       (snd (ClaimRunning lib no_faults now now token j w d)))) = [set_reclaimed ?r1]"
    by (rule reclaim_single)
  from Cons.IH [OF this] Cons.prems show ?case
    by (auto simp: c set_reclaimed_def algebra_simps)
qed

lemma crash_loop_never_fails_witness:
  "\<exists>r'. jobs_tbl (crashes demo_lib 7 (replicate 50 (1000, 11, ''w'')) demo_d1) = [r'] \<and>
     Status r' = JobPending \<and> AttemptCount r' = 50 \<and> MaxRetry r' = 3"
proof -
  let ?r = "hd (jobs_tbl demo_d1)"
  have f: "jobs_tbl demo_d1 = [?r]" "JobID ?r = 7" "Status ?r = JobPending" "NotBefore ?r = None"
    "AttemptCount ?r = 0" "MaxRetry ?r = 3" by code_simp+
  show ?thesis
    using crash_loop_never_fails [OF f(1-4), of "replicate 50 (1000, 11, ''w'')" demo_lib] f(5,6)
    by simp
qed

end
