(* ===== verification/Reaper.thy ===== *)
theory Reaper
  imports Scheduler Jobs_Props
begin

text \<open>
  The reaper process, \<open>internal/reaper/reaper.go\<close>: reclaim of the jobs of crashed workers
  and the sweep of stale pending jobs. It dispatches through the same \<open>StreamPusher\<close>
  interface as the scheduler. The sweep reads the read pool: \<open>e_replica\<close> gives the state the
  replica answers from.
\<close>

definition Reap_DefaultPollInterval :: duration where "Reap_DefaultPollInterval = 30 * second"
definition Reap_DefaultBatchSize :: int where "Reap_DefaultBatchSize = 100"
definition DefaultStaleAfter :: duration where "DefaultStaleAfter = 90 * second"
definition DefaultSweepAfter :: duration where "DefaultSweepAfter = 60 * second"

record TickStats =
  Reclaimed :: int
  Reenqueued :: int
  Swept :: int

record Reaper =
  rp_redis :: "push option"
  rp_pollInterval :: duration
  rp_batchSize :: int
  rp_staleAfter :: duration
  rp_sweepAfter :: duration

definition Reaper_New ::
  "push option \<Rightarrow> duration \<Rightarrow> int \<Rightarrow> duration \<Rightarrow> duration \<Rightarrow> Reaper" where
  "Reaper_New r pollInterval batchSize staleAfter sweepAfter =
     \<lparr>rp_redis = r,
      rp_pollInterval = (if pollInterval \<le> 0 then Reap_DefaultPollInterval else pollInterval),
      rp_batchSize = (if batchSize \<le> 0 then Reap_DefaultBatchSize else batchSize),
      rp_staleAfter = (if staleAfter \<le> 0 then DefaultStaleAfter else staleAfter),
      rp_sweepAfter = (if sweepAfter \<le> 0 then DefaultSweepAfter else sweepAfter)\<rparr>"

definition Reaper_dispatch :: "Reaper \<Rightarrow> Job \<Rightarrow> world \<Rightarrow> bool \<times> world" where
  "Reaper_dispatch r job w = push_one (rp_redis r) job w"

definition pg_ClaimStaleRunning :: "env \<Rightarrow> instant \<Rightarrow> int \<Rightarrow> world \<Rightarrow> Job list result \<times> world" where
  "pg_ClaimStaleRunning env staleBefore limit w =
     (let t = w_trace w in
      db_do OpReclaim
        (ClaimStaleRunning (e_lib env) (e_flt env t) (e_locked env t) (e_dbnow env t) staleBefore limit) w)"

definition pg_ListStalePending :: "env \<Rightarrow> instant \<Rightarrow> int \<Rightarrow> world \<Rightarrow> Job list result \<times> world" where
  "pg_ListStalePending env olderThan limit w =
     (let t = w_trace w in
      db_do OpStale
        (\<lambda>d. (ListStalePending (e_lib env) (e_flt env t) (e_dbnow env t) olderThan limit
               (e_replica env t d), d)) w)"

fun reclaim_all :: "Reaper \<Rightarrow> Job list \<Rightarrow> int \<Rightarrow> world \<Rightarrow> int \<times> world" where
  "reclaim_all r [] n w = (n, w)"
| "reclaim_all r (job # jobs) n w =
     (case Reaper_dispatch r job w of
        (True, w1) \<Rightarrow> reclaim_all r jobs (n + 1) w1
      | (False, w1) \<Rightarrow> reclaim_all r jobs n w1)"

fun sweep_all :: "Reaper \<Rightarrow> golib \<Rightarrow> string set \<Rightarrow> Job list \<Rightarrow> int \<Rightarrow> world \<Rightarrow> int \<times> world" where
  \<comment> \<open>skipping what this tick reclaimed\<close>
  "sweep_all r lib reclaimed [] n w = (n, w)"
| "sweep_all r lib reclaimed (job # jobs) n w =
     (if uuid_String lib (JobID job) \<in> reclaimed then sweep_all r lib reclaimed jobs n w
      else case Reaper_dispatch r job w of
        (True, w1) \<Rightarrow> sweep_all r lib reclaimed jobs (n + 1) w1
      | (False, w1) \<Rightarrow> sweep_all r lib reclaimed jobs n w1)"

definition Reaper_Tick :: "env \<Rightarrow> Reaper \<Rightarrow> world \<Rightarrow> (store_err option \<times> TickStats) \<times> world" where
  "Reaper_Tick env r w =
     (let now = e_now env (w_trace w) in
      case pg_ClaimStaleRunning env (now - rp_staleAfter r) (rp_batchSize r) w of
        (Inl e, w1) \<Rightarrow> ((Some e, \<lparr>Reclaimed = 0, Reenqueued = 0, Swept = 0\<rparr>), w1)
      | (Inr stale, w1) \<Rightarrow>
          (case reclaim_all r stale 0 w1 of (re, w2) \<Rightarrow>
            (let st = \<lparr>Reclaimed = int (length stale), Reenqueued = re, Swept = 0\<rparr>;
                 reclaimed = (\<lambda>job. uuid_String (e_lib env) (JobID job)) ` set stale in
             case pg_ListStalePending env (now - rp_sweepAfter r) (rp_batchSize r) w2 of
               (Inl e, w3) \<Rightarrow> ((Some e, st), w3)
             | (Inr pending, w3) \<Rightarrow>
                 (case sweep_all r (e_lib env) reclaimed pending 0 w3 of
                    (n, w4) \<Rightarrow> ((None, st\<lparr>Swept := n\<rparr>), w4)))))"

fun Reaper_Run :: "env \<Rightarrow> Reaper \<Rightarrow> nat \<Rightarrow> world \<Rightarrow> bool \<times> world" where
  \<comment> \<open>at most \<open>n\<close> rounds; a tick's error does not stop the loop\<close>
  "Reaper_Run env r 0 w = (False, w)"
| "Reaper_Run env r (Suc n) w =
     (if e_done env (w_trace w) then (True, w)
      else Reaper_Run env r n (snd (Reaper_Tick env r (emit (EWait (rp_pollInterval r)) w))))"

subsection \<open>Lemmas\<close>

lemma reclaim_all_push: "reclaim_all r jobs n w = push_all (rp_redis r) jobs n w"
  by (induction jobs arbitrary: n w) (simp_all add: Reaper_dispatch_def split: prod.split bool.split)

lemma sweep_all_push:
  "sweep_all r lib seen jobs n w =
     push_all (rp_redis r) (filter (\<lambda>job. uuid_String lib (JobID job) \<notin> seen) jobs) n w"
  by (induction jobs arbitrary: n w) (simp_all add: Reaper_dispatch_def split: prod.split bool.split)

lemma ListStalePending_distinct:
  "store_inv d \<Longrightarrow> ListStalePending lib flt n b l d = Inr out \<Longrightarrow> distinct (map JobID out)"
  using distinct_ids [of d l CreatedAt "stale_pending b n"]
  by (auto simp: ListStalePending_def comp_def split: if_splits)

lemma ClaimStaleRunning_out:
  assumes "store_inv d" and "ClaimStaleRunning lib flt locked n b l d = (Inr out, d')"
  shows "map JobID out = stale_ids locked b l d" and "distinct (map JobID out)"
    and "find_job j d = Some r \<Longrightarrow> find_job j d' = Some (if j \<in> JobID ` set out then set_reclaimed r else r)"
    and "job \<in> set out \<Longrightarrow> find_job (JobID job) d = Some r \<Longrightarrow> job = fetched lib (set_reclaimed r)"
proof -
  note sel = stale_ids_selected [OF assms(1), of locked b l]
  note rows = reclaim.tx_rows [OF assms(1) sel TrueI assms(2) [unfolded ClaimStaleRunning_def]]
  then show ids: "map JobID out = stale_ids locked b l d" by (rule conjunct1)
  show "distinct (map JobID out)" using ids sel by (simp add: reclaim.selected_def)
  have "set (stale_ids locked b l d) = JobID ` set out" using ids by (metis list.set_map)
  then show "find_job j d' = Some (if j \<in> JobID ` set out then set_reclaimed r else r)"
    if "find_job j d = Some r" using rows that by auto
  have out: "out = map (\<lambda>i. fetched lib (set_reclaimed (the (find_job i d)))) (stale_ids locked b l d)"
    by (rule reclaim.tx_out [OF assms(1) sel TrueI assms(2) [unfolded ClaimStaleRunning_def]])
  show "job = fetched lib (set_reclaimed r)" if job: "job \<in> set out" "find_job (JobID job) d = Some r"
  proof -
    from job(1) obtain i where i: "i \<in> set (stale_ids locked b l d)"
        "job = fetched lib (set_reclaimed (the (find_job i d)))" unfolding out by auto
    obtain x where x: "find_job i d = Some x" using reclaim.selectedD [OF sel i(1)] by blast
    then have "JobID job = i" using i(2) find_jobD [OF x] by simp
    then show ?thesis using i(2) job(2) by simp
  qed
qed

lemma ClaimStaleRunning_keeps: "store_inv d \<Longrightarrow> ClaimStaleRunning lib flt locked n b l d = (res, d') \<Longrightarrow> store_inv d'"
  using ClaimStaleRunning_inv [of d lib flt locked n b l] by simp

lemma Reaper_Tick_parts:
  assumes "Reaper_Tick env (Reaper_New (Some (AddJobRefToStream env rds)) p b sa sw) w = ((None, st), w')"
    and "store_inv (w_db w)"
  obtains stale pending es1 es2 w1 t d2 where
    "pg_ClaimStaleRunning env (e_now env (w_trace w) - (if sa \<le> 0 then DefaultStaleAfter else sa))
       (if b \<le> 0 then Reap_DefaultBatchSize else b) w = (Inr stale, w1)"
    and "ListStalePending (e_lib env) (e_flt env t) (e_dbnow env t)
       (e_now env (w_trace w) - (if sw \<le> 0 then DefaultSweepAfter else sw))
       (if b \<le> 0 then Reap_DefaultBatchSize else b) (e_replica env t d2) = Inr pending"
    and "d2 = w_db w1" and "w_db w' = w_db w1"
    and "w_trace w' = w_trace w @ [EDb OpReclaim None] @ es1 @ [EDb OpStale None] @ es2"
    and "redis_cmds es1 = pushes (e_lib env) (EffectiveMaxLen rds) (routed stale)"
    and "redis_cmds es2 = pushes (e_lib env) (EffectiveMaxLen rds)
       (routed (filter (\<lambda>job. uuid_String (e_lib env) (JobID job) \<notin>
          (\<lambda>job. uuid_String (e_lib env) (JobID job)) ` set stale) pending))"
    and "st = \<lparr>Reclaimed = int (length stale), Reenqueued = int (length (filter added es1)),
       Swept = int (length (filter added es2))\<rparr>"
proof -
  let ?r = "Reaper_New (Some (AddJobRefToStream env rds)) p b sa sw"
  let ?now = "e_now env (w_trace w)"
  let ?b = "if b \<le> 0 then Reap_DefaultBatchSize else b"
  have red: "rp_redis ?r = Some (AddJobRefToStream env rds)" by (simp add: Reaper_New_def)
  obtain res w1 where c: "pg_ClaimStaleRunning env (?now - (if sa \<le> 0 then DefaultStaleAfter else sa)) ?b w = (res, w1)"
    by (rule prod.exhaust)
  obtain stale where stale: "res = Inr stale"
    using assms(1) c by (cases res) (auto simp: Reaper_Tick_def Reaper_New_def)
  obtain re w2 where p2: "push_all (Some (AddJobRefToStream env rds)) stale 0 w1 = (re, w2)"
    by (rule prod.exhaust)
  obtain res2 w3 where l: "pg_ListStalePending env (?now - (if sw \<le> 0 then DefaultSweepAfter else sw)) ?b w2 = (res2, w3)"
    by (rule prod.exhaust)
  obtain pending where pending: "res2 = Inr pending"
    using assms(1) c stale p2 l
    by (cases res2) (auto simp: Reaper_Tick_def Reaper_New_def reclaim_all_push)
  let ?fresh = "filter (\<lambda>job. uuid_String (e_lib env) (JobID job) \<notin>
          (\<lambda>job. uuid_String (e_lib env) (JobID job)) ` set stale) pending"
  obtain n w4 where p4: "push_all (Some (AddJobRefToStream env rds)) ?fresh 0 w3 = (n, w4)"
    by (rule prod.exhaust)
  have fin: "w' = w4" "st = \<lparr>Reclaimed = int (length stale), Reenqueued = re, Swept = n\<rparr>"
    using assms(1) c stale p2 l pending p4
    by (auto simp: Reaper_Tick_def Reaper_New_def reclaim_all_push sweep_all_push)
  from broker.push_all_steps [of env rds stale 0 w1] obtain es1 where e1:
    "w_trace w2 = w_trace w1 @ es1" "w_db w2 = w_db w1"
    "redis_cmds es1 = pushes (e_lib env) (EffectiveMaxLen rds) (routed stale)"
    "re = int (length (filter added es1))" by (auto simp: p2)
  from broker.push_all_steps [of env rds ?fresh 0 w3] obtain es2 where e2:
    "w_trace w4 = w_trace w3 @ es2" "w_db w4 = w_db w3"
    "redis_cmds es2 = pushes (e_lib env) (EffectiveMaxLen rds) (routed ?fresh)"
    "n = int (length (filter added es2))" by (auto simp: p4)
  have t1: "w_trace w1 = w_trace w @ [EDb OpReclaim None]"
    using c stale by (auto simp: pg_ClaimStaleRunning_def Let_def dest!: db_do_trace)
  have t3: "w_trace w3 = w_trace w2 @ [EDb OpStale None]" "w_db w3 = w_db w2"
    "ListStalePending (e_lib env) (e_flt env (w_trace w2)) (e_dbnow env (w_trace w2))
       (?now - (if sw \<le> 0 then DefaultSweepAfter else sw)) ?b (e_replica env (w_trace w2) (w_db w2)) = Inr pending"
    using l pending by (auto simp: pg_ListStalePending_def Let_def db_do_def)
  show ?thesis
    by (rule that [OF c [unfolded stale] t3(3) _ _ _ e1(3) e2(3)])
      (simp_all add: e1 e2 t1 t3 fin)
qed

lemma pg_ClaimStaleRunning_returns:
  assumes "store_inv (w_db w)" and "e_flt env (w_trace w) = no_faults"
  shows "\<exists>stale w1. pg_ClaimStaleRunning env sb l w = (Inr stale, w1)"
proof -
  from reclaim0.tx_returns [OF assms(1) stale_ids_selected [OF assms(1)] TrueI,
      of "e_lib env" "e_dbnow env (w_trace w)" "e_locked env (w_trace w)" sb l]
  show ?thesis
    by (auto simp: pg_ClaimStaleRunning_def db_do_def ClaimStaleRunning_def assms(2) Let_def)
qed

lemma Reaper_Tick_returns:
  assumes "store_inv (w_db w)" and "\<And>t. e_flt env t = no_faults"
  shows "\<exists>st w'. Reaper_Tick env (Reaper_New r p b sa sw) w = ((None, st), w')"
proof -
  let ?r = "Reaper_New r p b sa sw"
  obtain stale w1 where c:
    "pg_ClaimStaleRunning env (e_now env (w_trace w) - rp_staleAfter ?r) (rp_batchSize ?r) w = (Inr stale, w1)"
    using pg_ClaimStaleRunning_returns [OF assms(1) assms(2)] by blast
  obtain re w2 where p: "reclaim_all ?r stale 0 w1 = (re, w2)" by (rule prod.exhaust)
  have "0 \<le> rp_batchSize ?r" by (simp add: Reaper_New_def Reap_DefaultBatchSize_def)
  then obtain pending w3 where l:
    "pg_ListStalePending env (e_now env (w_trace w) - rp_sweepAfter ?r) (rp_batchSize ?r) w2 = (Inr pending, w3)"
    by (simp add: pg_ListStalePending_def db_do_def ListStalePending_def assms(2) no_faults_def Let_def)
  obtain n w4 where "sweep_all ?r (e_lib env) ((\<lambda>job. uuid_String (e_lib env) (JobID job)) ` set stale)
      pending 0 w3 = (n, w4)" by (rule prod.exhaust)
  with c p l show ?thesis by (simp add: Reaper_Tick_def Let_def)
qed

definition late_env :: env where
  \<comment> \<open>the environment of \<open>live_env\<close>, 1000 seconds later\<close>
  "late_env = live_env\<lparr>e_now := (\<lambda>_. 1000 * second)\<rparr>"

lemma late_env_simps [simp]:
  "e_flt late_env t = no_faults" "e_now late_env t = 1000 * second" "e_replica late_env t d = d"
  "e_locked late_env t i = False"
  by (simp_all add: late_env_def live_env_def dead_env_def)

definition crashed_world :: world where
  "crashed_world = \<lparr>w_db = demo_d2, w_trace = []\<rparr>"

subsection \<open>Properties\<close>

lemma distinct_routed: "distinct (map JobID js) \<Longrightarrow> distinct (map (\<lambda>(s, j). JobID j) (routed js))"
proof -
  assume "distinct (map JobID js)"
  then have "distinct (map JobID (filter (\<lambda>j. StreamFor (QueueName j) (Priority j) \<noteq> None) js))"
    by (rule distinct_map_filter)
  moreover have "map (\<lambda>(s, j). JobID j) (routed js) =
      map JobID (filter (\<lambda>j. StreamFor (QueueName j) (Priority j) \<noteq> None) js)"
    by (auto simp: routed_def List.map_filter_def)
  ultimately show ?thesis by simp
qed

text \<open>A reaper tick never dispatches a job twice: the Redis commands of a successful tick are
  XADDs of pairwise different jobs, first the reclaimed ones and then the swept ones, even
  though the sweep reads a lagging replica in which a reclaimed job may already be pending;
  and the statistics count the reclaimed rows and the XADDs that succeeded.\<close>

theorem Reaper_Tick_no_duplicates:
  assumes "Reaper_Tick env (Reaper_New (Some (AddJobRefToStream env rds)) p b sa sw) w = ((None, st), w')"
    and "store_inv (w_db w)"
    and "\<And>t d. store_inv d \<Longrightarrow> store_inv (e_replica env t d)"
  shows "\<exists>sjs es. w_trace w' = w_trace w @ es \<and>
    redis_cmds es = pushes (e_lib env) (EffectiveMaxLen rds) sjs \<and>
    distinct (map (\<lambda>(s, j). JobID j) sjs) \<and>
    Reenqueued st + Swept st = int (length (filter added es)) \<and> Reenqueued st \<le> Reclaimed st"
proof -
  from Reaper_Tick_parts [OF assms(1,2)] obtain stale pending es1 es2 w1 t sb ob l where q:
    "pg_ClaimStaleRunning env sb l w = (Inr stale, w1)"
    "ListStalePending (e_lib env) (e_flt env t) (e_dbnow env t) ob l (e_replica env t (w_db w1)) = Inr pending"
    "w_trace w' = w_trace w @ [EDb OpReclaim None] @ es1 @ [EDb OpStale None] @ es2"
    "redis_cmds es1 = pushes (e_lib env) (EffectiveMaxLen rds) (routed stale)"
    "redis_cmds es2 = pushes (e_lib env) (EffectiveMaxLen rds)
       (routed (filter (\<lambda>job. uuid_String (e_lib env) (JobID job) \<notin>
          (\<lambda>job. uuid_String (e_lib env) (JobID job)) ` set stale) pending))"
    "st = \<lparr>Reclaimed = int (length stale), Reenqueued = int (length (filter added es1)),
       Swept = int (length (filter added es2))\<rparr>"
    by metis
  let ?fresh = "filter (\<lambda>job. uuid_String (e_lib env) (JobID job) \<notin>
          (\<lambda>job. uuid_String (e_lib env) (JobID job)) ` set stale) pending"
  have c: "ClaimStaleRunning (e_lib env) (e_flt env (w_trace w)) (e_locked env (w_trace w))
      (e_dbnow env (w_trace w)) sb l (w_db w) = (Inr stale, w_db w1)"
    using q(1) by (auto simp: pg_ClaimStaleRunning_def Let_def dest!: db_do_result)
  have d1: "distinct (map JobID stale)" by (rule ClaimStaleRunning_out(2) [OF assms(2) c])
  have "store_inv (e_replica env t (w_db w1))"
    using assms(3) ClaimStaleRunning_keeps [OF assms(2) c] by blast
  from ListStalePending_distinct [OF this q(2)] have d2: "distinct (map JobID ?fresh)"
    by (rule distinct_map_filter)
  have "JobID ` set stale \<inter> JobID ` set ?fresh = {}" by (auto simp: rev_image_eqI)
  with d1 d2 have "distinct (map JobID (stale @ ?fresh))" by simp
  from distinct_routed [OF this] have dd: "distinct (map (\<lambda>(s, j). JobID j) (routed (stale @ ?fresh)))" .
  have app: "routed (stale @ ?fresh) = routed stale @ routed ?fresh"
    by (simp add: routed_def List.map_filter_def)
  have "length (filter added es1) \<le> length (redis_cmds es1)"
    by (induction es1 rule: redis_cmds.induct) (simp_all add: added_def)
  then have le: "length (filter added es1) \<le> length stale"
    using length_routed [of stale] by (simp add: q(4) pushes_def)
  show ?thesis
    by (rule exI [of _ "routed (stale @ ?fresh)"],
        rule exI [of _ "[EDb OpReclaim None] @ es1 @ [EDb OpStale None] @ es2"])
      (use q(3-6) dd le in \<open>simp add: app pushes_def added_def\<close>)
qed


lemma Reaper_Tick_no_duplicates_witness:
  "\<exists>st w' sjs es. Reaper_Tick late_env (Reaper_New (Some (AddJobRefToStream late_env \<lparr>MaxLen = 0, HasJobs = True\<rparr>)) 0 0 0 0)
     crashed_world = ((None, st), w') \<and> w_trace w' = es \<and>
     redis_cmds es = pushes (e_lib late_env) 50000 sjs \<and> distinct (map (\<lambda>(s, j). JobID j) sjs)"
proof -
  let ?rds = "\<lparr>MaxLen = 0, HasJobs = True\<rparr>"
  have i: "store_inv (w_db crashed_world)" "w_trace crashed_world = []"
    using demo_inv(2) by (simp_all add: crashed_world_def)
  from Reaper_Tick_returns [OF i(1), of late_env] obtain st w' where
    t: "Reaper_Tick late_env (Reaper_New (Some (AddJobRefToStream late_env ?rds)) 0 0 0 0) crashed_world = ((None, st), w')"
    by (metis late_env_simps(1))
  have "EffectiveMaxLen ?rds = 50000" by (simp add: EffectiveMaxLen_def DefaultStreamMaxLen_def)
  with Reaper_Tick_no_duplicates [OF t i(1)] t i(2) show ?thesis
    by (intro exI [of _ st] exI [of _ w']) (auto simp: late_env_simps)
qed

lemma redis_cmds_mem: "c \<in> set (redis_cmds es) \<Longrightarrow> \<exists>rep. ERedis c rep \<in> set es"
  by (induction es rule: redis_cmds.induct) auto

lemma added_le: "length (filter added es) \<le> length (redis_cmds es)"
  by (induction es rule: redis_cmds.induct) (simp_all add: added_def)

lemma all_added: "length (redis_cmds es) \<le> length (filter added es) \<Longrightarrow> ERedis c rep \<in> set es \<Longrightarrow> added (ERedis c rep)"
proof (induction es rule: redis_cmds.induct)
  case (2 c2 r es)
  then show ?case using added_le [of es] by (auto split: if_splits)
qed (auto simp: added_def split: if_splits)

lemma length_filter_filter: "length (filter P (filter Q xs)) \<le> length (filter P xs)"
  by (induction xs) auto

text \<open>A stale job is in the batch unless as many others were silent at least as long.\<close>

lemma stale_ids_reach:
  assumes "find_job j d = Some r" and "Status r = JobRunning" and "HeartbeatAt r = Some t" and "t < before" and "\<not> locked j"
    and "int (length (filter (\<lambda>x. Status x = JobRunning \<and> (\<exists>u. HeartbeatAt x = Some u \<and> u \<le> t)) (jobs_tbl d))) \<le>
      clamp_limit 100 1000 limit"
  shows "j \<in> set (stale_ids locked before limit d)"
proof (rule ccontr)
  let ?k = "\<lambda>x. the (HeartbeatAt x)" and ?n = "nat (clamp_limit 100 1000 limit)"
  let ?xs = "filter (\<lambda>x. stale_running before x \<and> \<not> locked (JobID x)) (jobs_tbl d)"
  let ?ys = "order_by ?k ?xs"
  let ?P = "\<lambda>x. Status x = JobRunning \<and> (\<exists>u. HeartbeatAt x = Some u \<and> u \<le> t)"
  assume "j \<notin> set (stale_ids locked before limit d)"
  then have out: "r \<notin> set (take ?n ?ys)" using find_jobD [OF assms(1)] by (auto simp: stale_ids_def limit_to_def)
  have "r \<in> set ?ys" using find_jobD [OF assms(1)] assms(2-5) by (simp add: stale_running_def)
  then obtain i where i: "i < length ?ys" "?ys ! i = r" unfolding in_set_conv_nth by blast
  have n: "?n \<le> i"
  proof (rule ccontr)
    assume "\<not> ?n \<le> i"
    then have "r \<in> set (take ?n ?ys)" using i by (auto simp: in_set_conv_nth)
    with out show False by simp
  qed
  have "?P y" if y: "y \<in> set (take (Suc i) ?ys)" for y
  proof -
    obtain m where "m < length (take (Suc i) ?ys)" "take (Suc i) ?ys ! m = y"
      using y unfolding in_set_conv_nth by blast
    then have m: "m \<le> i" "y = ?ys ! m" by auto
    have "sorted (map ?k ?ys)" by (simp add: order_by_def)
    then have "map ?k ?ys ! m \<le> map ?k ?ys ! i" using m(1) i(1) by (intro sorted_nth_mono) simp_all
    then have "?k y \<le> t" using m i assms(3) by simp
    moreover have "y \<in> set ?xs" using y by (metis in_set_takeD set_order_by)
    ultimately show ?thesis by (auto simp: stale_running_def split: option.splits)
  qed
  then have "filter ?P (take (Suc i) ?ys) = take (Suc i) ?ys" unfolding filter_id_conv by blast
  then have "Suc i = length (filter ?P (take (Suc i) ?ys))" using i(1) by (simp only: length_take)
  also have "\<dots> \<le> length (filter ?P (take (Suc i) ?ys @ drop (Suc i) ?ys))" unfolding filter_append length_append by (rule le_add1)
  also have "\<dots> = size (filter_mset ?P (mset ?ys))" unfolding append_take_drop_id by (simp only: mset_filter [symmetric] size_mset)
  also have "\<dots> = length (filter ?P ?xs)" unfolding order_by_def mset_sort by (simp only: mset_filter [symmetric] size_mset)
  also have "\<dots> \<le> length (filter ?P (jobs_tbl d))"
    by (rule length_filter_filter)
  finally have "i < clamp_limit 100 1000 limit" using assms(6) by linarith
  with n show False by linarith
qed

text \<open>C29. Crash recovery: a successful reaper tick makes pending every running job whose heartbeat is
  older than the cut-off (90 seconds when none is configured) and which no other reaper holds, unless a whole batch of
  jobs was silent for at least as long: its worker and token are gone and its other columns, with no retry gate among them,
  are as before. When its queue is known the tick has sent one XADD with the reference of this row to the stream of its
  queue, and it succeeded when the tick reports as many jobs re-enqueued as reclaimed; after a
  failed one the row is still pending, for the sweep of a later tick.\<close>

theorem Reaper_Tick_recovers:
  assumes "Reaper_Tick env (Reaper_New (Some (AddJobRefToStream env rds)) p b sa sw) w = ((None, st), w')"
    and "store_inv (w_db w)" and "find_job j (w_db w) = Some r"
    and "Status r = JobRunning" and "HeartbeatAt r = Some t"
    and "t < e_now env (w_trace w) - (if sa \<le> 0 then 90 * second else sa)" and "\<not> e_locked env (w_trace w) j"
    and "int (length (filter (\<lambda>x. Status x = JobRunning \<and> (\<exists>u. HeartbeatAt x = Some u \<and> u \<le> t)) (jobs_tbl (w_db w)))) \<le>
      (if b \<le> 0 then 100 else min b 1000)"
    and "r' = r\<lparr>Status := JobPending, WorkerID := None, ClaimToken := None\<rparr>"
  shows "find_job j (w_db w') = Some r' \<and> NotBefore r' = None \<and>
    (\<forall>s g. StreamFor (QueueName r) (Priority r) = Some (s, g) \<longrightarrow>
       (\<exists>rep es. w_trace w' = w_trace w @ es \<and>
         ERedis (XAdd s (ToJobFields (e_lib env) (fetched (e_lib env) r')) (EffectiveMaxLen rds)) rep \<in> set es \<and>
         (Reenqueued st = Reclaimed st \<longrightarrow> rp_err rep = None)))"
proof -
  from Reaper_Tick_parts [OF assms(1,2)] obtain stale es1 es2 w1 where q:
    "pg_ClaimStaleRunning env (e_now env (w_trace w) - (if sa \<le> 0 then DefaultStaleAfter else sa))
       (if b \<le> 0 then Reap_DefaultBatchSize else b) w = (Inr stale, w1)"
    "w_db w' = w_db w1"
    "w_trace w' = w_trace w @ [EDb OpReclaim None] @ es1 @ [EDb OpStale None] @ es2"
    "redis_cmds es1 = pushes (e_lib env) (EffectiveMaxLen rds) (routed stale)"
    "Reclaimed st = int (length stale)" "Reenqueued st = int (length (filter added es1))"
    by (metis TickStats.select_convs(1,2))
  have c: "ClaimStaleRunning (e_lib env) (e_flt env (w_trace w)) (e_locked env (w_trace w))
      (e_dbnow env (w_trace w)) (e_now env (w_trace w) - (if sa \<le> 0 then DefaultStaleAfter else sa))
      (if b \<le> 0 then Reap_DefaultBatchSize else b) (w_db w) = (Inr stale, w_db w1)"
    using q(1) by (auto simp: pg_ClaimStaleRunning_def Let_def dest!: db_do_result)
  note out = ClaimStaleRunning_out [OF assms(2) c]
  have r': "r' = set_reclaimed r" by (simp add: assms(9) set_reclaimed_def)
  have "int (length (filter (\<lambda>x. Status x = JobRunning \<and> (\<exists>u. HeartbeatAt x = Some u \<and> u \<le> t)) (jobs_tbl (w_db w)))) \<le>
      clamp_limit 100 1000 (if b \<le> 0 then Reap_DefaultBatchSize else b)"
    using assms(8) by (auto simp: clamp_limit_def Reap_DefaultBatchSize_def)
  moreover have "t < e_now env (w_trace w) - (if sa \<le> 0 then DefaultStaleAfter else sa)"
    using assms(6) unfolding DefaultStaleAfter_def .
  ultimately have "j \<in> set (map JobID stale)"
    unfolding out(1) by (intro stale_ids_reach [where locked = "e_locked env (w_trace w)", OF assms(3,4,5) _ assms(7)])
  then have jm: "j \<in> JobID ` set stale" by (simp only: set_map)
  then obtain job where job: "job \<in> set stale" "JobID job = j" by auto
  have row: "find_job j (w_db w') = Some r'" using out(3) [OF assms(3)] jm by (simp add: q(2) r')
  have gate: "NotBefore r' = None"
    using store_inv_row [OF assms(2,3)] assms(4) by (auto simp: row_inv_def r' set_reclaimed_def)
  have jb: "job = fetched (e_lib env) r'" using out(4) [OF job(1)] assms(3) job(2) by (simp add: r')
  have "\<exists>rep. ERedis (XAdd s (ToJobFields (e_lib env) job) (EffectiveMaxLen rds)) rep \<in> set es1 \<and>
      (Reenqueued st = Reclaimed st \<longrightarrow> rp_err rep = None)"
    if "StreamFor (QueueName r) (Priority r) = Some (s, g)" for s g
  proof -
    have "(s, job) \<in> set (routed stale)"
      using job(1) that by (force simp: jb r' set_reclaimed_def routed_def List.map_filter_def)
    then have "XAdd s (ToJobFields (e_lib env) job) (EffectiveMaxLen rds) \<in> set (redis_cmds es1)"
      by (force simp: q(4) pushes_def)
    then obtain rep where rep: "ERedis (XAdd s (ToJobFields (e_lib env) job) (EffectiveMaxLen rds)) rep \<in> set es1"
      using redis_cmds_mem by blast
    moreover have "rp_err rep = None" if "Reenqueued st = Reclaimed st"
    proof -
      have "length (redis_cmds es1) \<le> length stale" using length_routed [of stale] by (simp add: q(4) pushes_def)
      then show ?thesis using all_added [OF _ rep] that q(5,6) by (simp add: added_def)
    qed
    ultimately show ?thesis by blast
  qed
  then show ?thesis using row gate q(3) by (fastforce simp: jb)
qed

lemma Reaper_Tick_recovers_witness:
  "\<exists>st w'. Reaper_Tick late_env (Reaper_New (Some (AddJobRefToStream late_env \<lparr>MaxLen = 0, HasJobs = True\<rparr>)) 0 0 0 0)
     crashed_world = ((None, st), w') \<and>
     find_job 7 (w_db w') = Some ((hd (jobs_tbl demo_d2))\<lparr>Status := JobPending, WorkerID := None, ClaimToken := None\<rparr>)"
proof -
  let ?rds = "\<lparr>MaxLen = 0, HasJobs = True\<rparr>" and ?r = "hd (jobs_tbl demo_d2)"
  have i: "store_inv (w_db crashed_world)" "w_db crashed_world = demo_d2" "w_trace crashed_world = []"
    using demo_inv(2) by (simp_all add: crashed_world_def)
  from Reaper_Tick_returns [OF i(1), of late_env] obtain st w' where
    t: "Reaper_Tick late_env (Reaper_New (Some (AddJobRefToStream late_env ?rds)) 0 0 0 0) crashed_world = ((None, st), w')"
    by (metis late_env_simps(1))
  have f: "find_job 7 (w_db crashed_world) = Some ?r" unfolding crashed_world_def by code_simp
  have s: "Status ?r = JobRunning" "HeartbeatAt ?r \<noteq> None" "the (HeartbeatAt ?r) < 1000 * second - 90 * second" by code_simp+
  then obtain h where h: "HeartbeatAt ?r = Some h" by blast
  have "length (jobs_tbl demo_d2) = 1" by code_simp
  then have n: "int (length (filter P (jobs_tbl (w_db crashed_world)))) \<le> (if (0::int) \<le> 0 then 100 else min 0 1000)" for P
    using length_filter_le [of P "jobs_tbl demo_d2"] by (simp add: i(2))
  have l: "h < e_now late_env (w_trace crashed_world) - (if (0::int) \<le> 0 then 90 * second else 0)"
    "\<not> e_locked late_env (w_trace crashed_world) 7" using s(3) h by simp_all
  from Reaper_Tick_recovers [OF t i(1) f s(1) h l n refl] t show ?thesis by blast
qed

end
