(* ===== verification/Pipeline.thy ===== *)
theory Pipeline
  imports Worker Worker_Pool Reaper
begin

text \<open>
  A message's way through the processes: the consumer claims the job and queues it, a worker
  runs it, completes it and acks the message; a redelivery is absorbed.
\<close>

lemma claimed_job_fields [simp]:
  "JobID (claimed_job job c t) = JobID job" "ClaimToken (claimed_job job c t) = Some t"
  "Stream (claimed_job job c t) = Stream job" "Group (claimed_job job c t) = Group job"
  "MsgID (claimed_job job c t) = MsgID job" "Type (claimed_job job c t) = Type job"
  by (simp_all add: claimed_job_def)

lemma ref_job_fields [simp]:
  "JobID (ref_job m ref s g) = JobID ref" "Stream (ref_job m ref s g) = s"
  "Group (ref_job m ref s g) = g" "MsgID (ref_job m ref s g) = xm_id m"
  by (simp_all add: ref_job_def)

lemma pg_ClaimRunning_ok:
  assumes "find_job j (w_db w) = Some r" and "claimable (Status r)"
    and "\<not> gated r (e_now env (w_trace w))" and "is_int16 (AttemptCount r + 1)"
    and "e_flt env (w_trace w) = no_faults"
  shows "\<exists>w1. pg_ClaimRunning env j wid w =
      (Inr (fetched (e_lib env) (set_running wid (e_uuid env (w_trace w)) (e_dbnow env (w_trace w)) r),
        e_uuid env (w_trace w)), w1) \<and>
    w_trace w1 = w_trace w @ [EDb (OpClaim j wid) None] \<and>
    find_job j (w_db w1) =
      Some (set_running wid (e_uuid env (w_trace w)) (e_dbnow env (w_trace w)) r)"
  using ClaimRunning_ok [OF assms(1-4), of "e_lib env" "e_dbnow env (w_trace w)" "e_uuid env (w_trace w)" wid]
    assms(1)
  by (simp add: pg_ClaimRunning_def db_do_def Let_def assms(5) find_job_upd)

lemma pg_Complete_ok:
  assumes "find_job j (w_db w) = Some r" and "owned_running t r" and "e_flt env (w_trace w) = no_faults"
  shows "\<exists>w1. pg_Complete env j t w = (Inr (), w1) \<and>
    w_trace w1 = w_trace w @ [EDb (OpComplete j t) None] \<and>
    find_job j (w_db w1) = Some (set_completed (e_dbnow env (w_trace w)) r)"
  using assms
  by (simp add: pg_Complete_def db_do_def Complete_def commit_tx_def Let_def no_faults_def
      owned_running_def find_job_upd)

lemma AckJob_ok:
  assumes "i \<noteq> []"
  shows "\<exists>r. w_trace (snd (AckJob env s g i w)) = w_trace w @ [ERedis (XAck s g i) r] \<and>
    w_db (snd (AckJob env s g i w)) = w_db w"
  using assms by (auto simp: AckJob_def redis_do_def Let_def split: option.split)

lemma processRef_not_claimable:
  assumes "HasJobs rds" and "find_job (JobID ref) (w_db w) = Some r" and "\<not> claimable (Status r)"
    and "e_flt env (w_trace w) = no_faults" and "xm_id msg \<noteq> []"
  shows "\<exists>rep. w_trace (processRef env rds msg ref s g wid w) = w_trace w @
      [EDb (OpClaim (JobID ref) wid) (Some ErrNotClaimable), ERedis (XAck s g (xm_id msg)) rep] \<and>
    w_db (processRef env rds msg ref s g wid w) = w_db w"
proof -
  have c: "pg_ClaimRunning env (JobID ref) wid w =
      (Inl ErrNotClaimable, emit (EDb (OpClaim (JobID ref) wid) (Some ErrNotClaimable)) w)"
    using assms(2-4) by (simp add: pg_ClaimRunning_def db_do_def ClaimRunning_def Let_def no_faults_def)
  then show ?thesis
    using AckJob_ok [OF assms(5), of env s g "emit (EDb (OpClaim (JobID ref) wid) (Some ErrNotClaimable)) w"]
      assms(1)
    by (auto simp: processRef_def Let_def)
qed

text \<open>
  The way of one message, with the job the worker sees and the row it leaves behind.
\<close>

lemma message_processed:
  assumes "find_job j (w_db w) = Some r" and "claimable (Status r)" and "\<And>t. \<not> gated r (e_now env t)"
    and "is_int16 (AttemptCount r + 1)" and "\<And>t. e_flt env t = no_faults" and "\<And>t. \<not> e_done env t"
    and "JobFromFields (e_lib env) (xm_values msg) = Inr ref" and "JobID ref = j" and "j \<noteq> uuid_Nil"
    and "HasJobs rds" and "xm_id msg \<noteq> []" and "s \<noteq> []" and "g \<noteq> []"
    and "w1 = process_msg env rds s g wid msg w"
  shows "\<exists>tok t1 t2 job w2 rep rep2.
    job = claimed_job (ref_job msg ref s g) (fetched (e_lib env) (set_running wid tok t1 r)) tok \<and>
    w_trace w1 = w_trace w @ [EDb (OpClaim j wid) None, EDispatch job True] \<and>
    worker_round env rds job (HandlerDone (Inr res)) w1 = (True, w2) \<and>
    w_trace w2 = w_trace w1 @ [ERun (Type job) (payload_text env (Payload job)),
      EDb (OpComplete j (the (ClaimToken job))) None, ERedis (XAck s g (xm_id msg)) rep] \<and>
    find_job j (w_db w2) = Some (set_completed t2 (set_running wid tok t1 r)) \<and>
    w_trace (process_msg env rds s g wid msg w2) = w_trace w2 @
      [EDb (OpClaim j wid) (Some ErrNotClaimable), ERedis (XAck s g (xm_id msg)) rep2] \<and>
    w_db (process_msg env rds s g wid msg w2) = w_db w2"
proof -
  let ?tok = "e_uuid env (w_trace w)"
  let ?r1 = "set_running wid ?tok (e_dbnow env (w_trace w)) r"
  let ?claimed = "fetched (e_lib env) ?r1"
  obtain wc where c: "pg_ClaimRunning env j wid w = (Inr (?claimed, ?tok), wc)"
      "w_trace wc = w_trace w @ [EDb (OpClaim j wid) None]" "find_job j (w_db wc) = Some ?r1"
    using pg_ClaimRunning_ok [where wid = wid, OF assms(1,2) assms(3) assms(4) assms(5)] by blast
  let ?job = "claimed_job (ref_job msg ref s g) ?claimed ?tok"
  have d: "DispatchTask env ?job wc = (True, emit (EDispatch ?job True) wc)"
    using assms(6) by (simp add: DispatchTask_def)
  have w1: "w1 = emit (EDispatch ?job True) wc"
    using assms(7,8,10,14) c(1) d by (simp add: process_msg_def processRef_def dispatch_ref_def)
  let ?we = "emit (ERun (Type ?job) (payload_text env (Payload ?job))) w1"
  have f: "find_job j (w_db ?we) = Some ?r1" using c(3) by (simp add: w1)
  have o: "owned_running ?tok ?r1" by (simp add: owned_running_def)
  obtain wd where k: "pg_Complete env j ?tok ?we = (Inr (), wd)"
      "w_trace wd = w_trace ?we @ [EDb (OpComplete j ?tok) None]"
      "find_job j (w_db wd) = Some (set_completed (e_dbnow env (w_trace ?we)) ?r1)"
    using pg_Complete_ok [OF f o assms(5)] by blast
  obtain rep where a: "w_trace (ack_job env ?job wd) = w_trace wd @ [ERedis (XAck s g (xm_id msg)) rep]"
      "w_db (ack_job env ?job wd) = w_db wd"
    using ack_job_trace [of ?job env wd] assms(11-13) by auto
  let ?w2 = "ack_job env ?job wd"
  have claim: "hasClaim rds ?job" using assms(8-10) by (simp add: hasClaim_def)
  have round: "worker_round env rds ?job (HandlerDone (Inr res)) w1 = (True, ?w2)"
    using claim k(1) assms(8) by (simp add: worker_round_def runWithTimeout_def)
  have f2: "find_job (JobID ref) (w_db ?w2) = Some (set_completed (e_dbnow env (w_trace ?we)) ?r1)"
    using k(3) assms(8) a(2) by simp
  have "\<not> claimable (Status (set_completed (e_dbnow env (w_trace ?we)) ?r1))" by (simp add: claimable_def)
  from processRef_not_claimable [OF assms(10) f2 this assms(5,11)] obtain rep2 where
    p: "w_trace (processRef env rds msg ref s g wid ?w2) = w_trace ?w2 @
        [EDb (OpClaim j wid) (Some ErrNotClaimable), ERedis (XAck s g (xm_id msg)) rep2]"
      "w_db (processRef env rds msg ref s g wid ?w2) = w_db ?w2"
    using assms(8) by blast
  have pm: "process_msg env rds s g wid msg ?w2 = processRef env rds msg ref s g wid ?w2"
    using assms(7) by (simp add: process_msg_def)
  show ?thesis
    by (rule exI [of _ ?tok], rule exI [of _ "e_dbnow env (w_trace w)"], rule exI [of _ "e_dbnow env (w_trace ?we)"],
        rule exI [of _ ?job], rule exI [of _ ?w2], rule exI [of _ rep], rule exI [of _ rep2])
      (use c(2) round k(2) a f2 p pm assms(8) in \<open>simp add: w1\<close>)
qed

text \<open>A job is processed once: when a job reference of a claimable job is read,
  PostgreSQL answers and the handler succeeds, the consumer claims the row and queues the job
  with its token, the worker's round leaves the row completed and acks the message in its
  stream as the last effect, and a redelivery of the same message is acked without running
  the handler and without changing the database.\<close>

theorem message_processed_once:
  assumes "find_job j (w_db w) = Some r" and "claimable (Status r)" and "\<And>t. \<not> gated r (e_now env t)"
    and "is_int16 (AttemptCount r + 1)" and "\<And>t. e_flt env t = no_faults" and "\<And>t. \<not> e_done env t"
    and "JobFromFields (e_lib env) (xm_values msg) = Inr ref" and "JobID ref = j" and "j \<noteq> uuid_Nil"
    and "HasJobs rds" and "xm_id msg \<noteq> []" and "s \<noteq> []" and "g \<noteq> []"
    and "w1 = process_msg env rds s g wid msg w"
  shows "\<exists>job w2 rep rep2. w_trace w1 = w_trace w @ [EDb (OpClaim j wid) None, EDispatch job True] \<and>
    worker_round env rds job (HandlerDone (Inr res)) w1 = (True, w2) \<and>
    w_trace w2 = w_trace w1 @ [ERun (Type job) (payload_text env (Payload job)),
      EDb (OpComplete j (the (ClaimToken job))) None, ERedis (XAck s g (xm_id msg)) rep] \<and>
    (\<exists>r2. find_job j (w_db w2) = Some r2 \<and> Status r2 = JobCompleted \<and>
       AttemptCount r2 = AttemptCount r + 1) \<and>
    w_trace (process_msg env rds s g wid msg w2) = w_trace w2 @
      [EDb (OpClaim j wid) (Some ErrNotClaimable), ERedis (XAck s g (xm_id msg)) rep2] \<and>
    w_db (process_msg env rds s g wid msg w2) = w_db w2"
proof -
  have completed: "Status (set_completed t2 (set_running wid tok t1 r)) = JobCompleted"
    "AttemptCount (set_completed t2 (set_running wid tok t1 r)) = AttemptCount r + 1" for tok t1 t2
    by simp_all
  show ?thesis using message_processed [OF assms, of res] completed by blast
qed

definition demo_msg :: xmsg where
  "demo_msg = \<lparr>xm_id = ''1-0'', xm_values = [(''job_id'', FStr ''7''), (''job_type'', FStr ''email'')]\<rparr>"

lemma message_processed_once_witness:
  "\<exists>job w2. worker_round live_env \<lparr>MaxLen = 0, HasJobs = True\<rparr> job (HandlerDone (Inr ''ok''))
     (process_msg live_env \<lparr>MaxLen = 0, HasJobs = True\<rparr> EmailLowStream EmailGroupLow ''c'' demo_msg
       \<lparr>w_db = demo_d1, w_trace = []\<rparr>) = (True, w2) \<and>
     (\<exists>r2. find_job 7 (w_db w2) = Some r2 \<and> Status r2 = JobCompleted)"
proof -
  let ?r = "hd (jobs_tbl demo_d1)"
  let ?w = "\<lparr>w_db = demo_d1, w_trace = []\<rparr>"
  have f: "find_job 7 (w_db ?w) = Some ?r" by code_simp
  have g: "claimable (Status ?r)" "is_int16 (AttemptCount ?r + 1)" "NotBefore ?r = None" by code_simp+
  have ref: "\<exists>ref. JobFromFields (e_lib live_env) (xm_values demo_msg) = Inr ref \<and> JobID ref = 7"
  proof -
    have p: "uuid_Parse demo_lib ''7'' = Some 7" by code_simp
    show ?thesis
      by (simp add: live_env_def dead_env_def demo_msg_def JobFromFields_def get_str_def
          job_type_field_def p)
  qed
  then obtain ref where ref: "JobFromFields (e_lib live_env) (xm_values demo_msg) = Inr ref" "JobID ref = 7"
    by blast
  have e: "e_flt live_env t = no_faults" "\<not> e_done live_env t" "\<not> gated ?r (e_now live_env t)" for t
    using g(3) by (simp_all add: live_env_def dead_env_def gated_def)
  from message_processed_once [OF f g(1) e(3) g(2) e(1,2) ref, of "\<lparr>MaxLen = 0, HasJobs = True\<rparr>"
      EmailLowStream EmailGroupLow _ "''c''" "''ok''"]
  show ?thesis by (auto simp: demo_msg_def stream_consts)
qed

end
