(* ===== verification/Jobs_Atomic.thy ===== *)
theory Jobs_Atomic
  imports Jobs_Props
begin

text \<open>
  What a transaction of \<open>internal/storage/jobs\<close> does as a whole: for every operation the database it
  leaves when it is applied, written without reference to faults. An operation is all or nothing
  when a success, or a commit whose acknowledgement was lost, leaves exactly that database and
  every other error the one before. For the batches this is the exact content of the
  tables after the loop (locale \<open>exact_batch\<close>).
\<close>

definition all_or_nothing :: "'a result \<times> db \<Rightarrow> db \<Rightarrow> db \<Rightarrow> bool" where
  \<comment> \<open>of an operation on \<open>d\<close> that is to leave \<open>full\<close>\<close>
  "all_or_nothing out d full \<longleftrightarrow>
     (case fst out of
        Inr _ \<Rightarrow> snd out = full
      | Inl e \<Rightarrow> snd out = (if e = DbErr CommitAck then full else d))"

subsection \<open>Batches\<close>

definition followup_zone :: "job_row \<Rightarrow> string" where
  "followup_zone r = (case CronTZ r of Some (c # cs) \<Rightarrow> c # cs | _ \<Rightarrow> ''UTC'')"

definition followup_at :: "golib \<Rightarrow> instant \<Rightarrow> job_row \<Rightarrow> instant option" where
  \<comment> \<open>the next instant of a member of a series whose expression and time zone still parse\<close>
  "followup_at lib now r =
     (case (IsRecurring r, SeriesID r, CronExpr r) of
        (True, Some s, Some (c # cs)) \<Rightarrow>
          (case NextAfter lib (c # cs) (followup_zone r) now of Inl _ \<Rightarrow> None | Inr nxt \<Rightarrow> Some nxt)
      | _ \<Rightarrow> None)"

definition child_of :: "uuid \<Rightarrow> job_row \<Rightarrow> instant \<Rightarrow> instant \<Rightarrow> job_row" where
  \<comment> \<open>the next member: a copy of this one that has not run\<close>
  "child_of i r nxt now =
     r\<lparr>JobID := i, Status := JobScheduled, AttemptCount := 0, WorkerID := None, ClaimToken := None,
       IdempotencyKey := None, CronTZ := Some (followup_zone r), IsRecurring := True, ScheduledAt := Some nxt,
       NotBefore := None, CreatedAt := now, StartedAt := None, CompletedAt := None, HeartbeatAt := None,
       LastError := None\<rparr>"

lemma followup_zone_eq: "followup_tz r = followup_zone r"
  by (auto simp: followup_tz_def followup_zone_def nonempty_def split: option.split list.split)

lemma followup_at_eq:
  "followup_at lib now r =
     (if recurring r
      then (case NextAfter lib (the (CronExpr r)) (followup_tz r) now of Inl _ \<Rightarrow> None | Inr nxt \<Rightarrow> Some nxt)
      else None)"
  by (auto simp: followup_at_def recurring_def nonempty_def followup_zone_eq split: option.split list.split bool.split)

lemma child_of_eq: "followup_row i (scanJobRow r) (followup_tz r) nxt now = child_of i r nxt now"
  by (cases r) (simp add: followup_row_def child_of_def zero_row_def followup_zone_eq)

definition batch_result ::
  "(job_row \<Rightarrow> job_row) \<Rightarrow> (uuid \<Rightarrow> job_row \<Rightarrow> JobEvent list) \<Rightarrow> (uuid \<Rightarrow> job_row \<Rightarrow> job_row list) \<Rightarrow>
     uuid list \<Rightarrow> db \<Rightarrow> db" where
  \<comment> \<open>the rows of \<open>ids\<close> rewritten, with the events and the new rows of each, in the order of \<open>ids\<close>\<close>
  "batch_result eff evs born ids d =
     d\<lparr>jobs_tbl := update_where (\<lambda>r. JobID r \<in> set ids) eff (jobs_tbl d) @
         concat (map (\<lambda>i. born i (the (find_job i d))) ids),
       events_tbl := events_tbl d @ concat (map (\<lambda>i. evs i (the (find_job i d))) ids)\<rparr>"

lemma batch_result_Nil: "batch_result eff evs born [] d = d"
  by (simp add: batch_result_def update_where_def)

lemma update_where_two:
  assumes "\<And>r. JobID (eff r) = JobID r" and "i \<notin> set ids" and "\<And>r. r \<in> set ns \<Longrightarrow> JobID r \<notin> set ids"
  shows "update_where (\<lambda>r. JobID r \<in> set ids) eff (update_where (\<lambda>r. JobID r = i) eff rs @ ns) =
    update_where (\<lambda>r. JobID r \<in> set (i # ids)) eff rs @ ns"
proof -
  have "update_where (\<lambda>r. JobID r \<in> set ids) eff ns = ns"
    using assms(3) by (auto simp: update_where_def intro!: map_idI)
  moreover have "update_where (\<lambda>r. JobID r \<in> set ids) eff (update_where (\<lambda>r. JobID r = i) eff rs) =
      update_where (\<lambda>r. JobID r \<in> set (i # ids)) eff rs"
    using assms(1,2) by (auto simp: update_where_def)
  ultimately show ?thesis by (simp add: update_where_def)
qed

text \<open>A loop body whose effect on all tables is known.\<close>

locale exact_batch = batch_step +
  fixes evs :: "uuid \<Rightarrow> job_row \<Rightarrow> JobEvent list" and born :: "uuid \<Rightarrow> job_row \<Rightarrow> job_row list"
  assumes eff_id: "JobID (eff r) = JobID r"
    and exact: "store_inv d \<Longrightarrow> find_job i d = Some r \<Longrightarrow> sel r \<Longrightarrow> ok (i # ids) d \<Longrightarrow> body i d = Inr (res, d1) \<Longrightarrow>
      d1 = batch_result eff evs born [i] d"
    and apart: "ok (i # ids) d \<Longrightarrow> x \<in> set (born i r) \<Longrightarrow> find_job (JobID x) d = None"
    and own_error: "body i d = Inl e \<Longrightarrow> e \<noteq> DbErr CommitAck"
begin

lemma loop_error: "batch_loop body ids d out = Inl e \<Longrightarrow> e \<noteq> DbErr CommitAck"
  using own_error by (induction ids arbitrary: d out) (auto split: sum.splits option.splits)

lemma loop_exact:
  "store_inv d \<Longrightarrow> selected ids d \<Longrightarrow> ok ids d \<Longrightarrow> batch_loop body ids d out = Inr (out', d') \<Longrightarrow>
     d' = batch_result eff evs born ids d"
proof (induction ids arbitrary: d out)
  case Nil
  then show ?case by (simp add: batch_result_Nil)
next
  case (Cons i ids)
  then obtain res d1 where b: "body i d = Inr (res, d1)" by (auto split: sum.splits)
  from loop_step [OF Cons.prems(1-3) b] obtain job r where s: "res = Some job" "store_inv d1" "selected ids d1"
      "ok ids d1" "find_job i d = Some r" "sel r"
      "\<And>j x. j \<noteq> i \<Longrightarrow> find_job j d = Some x \<Longrightarrow> find_job j d1 = Some x"
    by metis
  have d1: "d1 = batch_result eff evs born [i] d" by (rule exact [OF Cons.prems(1) s(5,6) Cons.prems(3) b])
  have d': "d' = batch_result eff evs born ids d1"
    using Cons.IH [OF s(2-4)] Cons.prems(4) b s(1) by simp
  have i: "i \<notin> set ids" using Cons.prems(2) by (simp add: selected_def)
  have same: "find_job j d1 = find_job j d" if "j \<in> set ids" for j
  proof -
    have "j \<noteq> i" "\<exists>x. find_job j d = Some x" using that i Cons.prems(2) by (auto simp: selected_def)
    then show ?thesis using s(7) by force
  qed
  then have maps: "map (\<lambda>j. f j (the (find_job j d1))) ids = map (\<lambda>j. f j (the (find_job j d))) ids" for f :: "uuid \<Rightarrow> job_row \<Rightarrow> 'x"
    by simp
  have new: "JobID x \<notin> set ids" if "x \<in> set (born i r)" for x
    using apart [OF Cons.prems(3) that] Cons.prems(2) by (auto simp: selected_def)
  have rows: "update_where (\<lambda>r. JobID r \<in> set ids) eff (update_where (\<lambda>r. JobID r = i) eff (jobs_tbl d) @ born i r) =
      update_where (\<lambda>r. JobID r \<in> set (i # ids)) eff (jobs_tbl d) @ born i r"
    by (rule update_where_two [OF eff_id i new])
  show ?case
    unfolding d' using rows s(5)
    by (simp add: batch_result_def maps) (simp add: d1 batch_result_def)
qed

lemma tx_exact:
  assumes "store_inv d" and "selected ids d" and "ok ids d"
  shows "all_or_nothing (batch_tx flt body ids d) d (batch_result eff evs born ids d)"
  using loop_exact [OF assms, of "[]"] loop_error [of ids d "[]"]
  by (auto simp: all_or_nothing_def batch_tx_def commit_tx_def split: sum.splits)

end

subsection \<open>The three bodies\<close>

definition promoted_evs ::
  "golib \<Rightarrow> (uuid \<Rightarrow> uuid) \<Rightarrow> instant \<Rightarrow> instant \<Rightarrow> uuid \<Rightarrow> job_row \<Rightarrow> JobEvent list" where
  "promoted_evs lib gen now dbnow i r =
     [\<lparr>EvJobID = i, OldStatus = Some JobScheduled, NewStatus = JobPending, EvWorkerID = None, EvReason = None,
       Occurred = dbnow\<rparr>] @
     (if followup_at lib now r = None then []
      else [\<lparr>EvJobID = gen i, OldStatus = None, NewStatus = JobScheduled, EvWorkerID = None, EvReason = None,
        Occurred = dbnow\<rparr>])"

definition promoted_born ::
  "golib \<Rightarrow> (uuid \<Rightarrow> uuid) \<Rightarrow> instant \<Rightarrow> uuid \<Rightarrow> job_row \<Rightarrow> job_row list" where
  "promoted_born lib gen now i r =
     (case followup_at lib now r of
        None \<Rightarrow> [] | Some nxt \<Rightarrow> [child_of (gen i) r nxt now])"

definition reclaimed_evs :: "instant \<Rightarrow> uuid \<Rightarrow> job_row \<Rightarrow> JobEvent list" where
  "reclaimed_evs dbnow i r =
     [\<lparr>EvJobID = i, OldStatus = Some JobRunning, NewStatus = JobPending, EvWorkerID = None, EvReason = None,
       Occurred = dbnow\<rparr>]"

lemma upd_found:
  assumes "store_inv d" and "find_job i d = Some r" and "p r"
  shows "jobs_tbl (upd_job i p f d) = update_where (\<lambda>x. JobID x = i) f (jobs_tbl d)"
  using find_job_unique [OF assms(1,2)] assms(3) by (auto simp: upd_job_def update_where_def)

lemma db_eqI:
  "jobs_tbl (d :: db) = jobs_tbl e \<Longrightarrow> events_tbl d = events_tbl e \<Longrightarrow> idem_tbl d = idem_tbl e \<Longrightarrow>
     retry_tbl d = retry_tbl e \<Longrightarrow> d = e"
  by (cases d; cases e) simp

lemma batch_result_one:
  "find_job i d = Some r \<Longrightarrow>
     jobs_tbl (batch_result eff evs born [i] d) = update_where (\<lambda>x. JobID x = i) eff (jobs_tbl d) @ born i r"
  "find_job i d = Some r \<Longrightarrow> events_tbl (batch_result eff evs born [i] d) = events_tbl d @ evs i r"
  "idem_tbl (batch_result eff evs born ids d) = idem_tbl d" "retry_tbl (batch_result eff evs born ids d) = retry_tbl d"
  by (simp_all add: batch_result_def)

lemma promoted_db_exact:
  assumes "store_inv d" and "find_job i d = Some r" and "Status r = JobScheduled"
  shows "promoted_db gen now dbnow lib i r d =
    batch_result set_pending (promoted_evs lib gen now dbnow) (promoted_born lib gen now) [i] d"
  by (rule db_eqI)
    (auto simp: promoted_db_def Let_def batch_result_one(1,2) [OF assms(2)] batch_result_one(3,4) promoted_evs_def
      promoted_born_def followup_at_eq child_of_eq upd_found [where p = "\<lambda>r. Status r = JobScheduled", OF assms] split: sum.split)

interpretation promote: exact_batch "promote_one lib flt gen now dbnow"
  "\<lambda>r. Status r = JobScheduled" set_pending "fetched lib" "fresh_children gen"
  "promoted_evs lib gen now dbnow" "promoted_born lib gen now" for lib flt gen now dbnow
proof
  show "promote_one lib flt gen now dbnow i d = Inl e \<Longrightarrow> e \<noteq> DbErr CommitAck" for i d e
    by (auto simp: promote_one_def scheduleFollowup_def split: if_splits prod.splits option.splits sum.splits)
  show "find_job (JobID x) d = None"
    if "fresh_children gen (i # ids) d" "x \<in> set (promoted_born lib gen now i r)" for i ids d x r
  proof -
    have "JobID x = gen i"
      using that(2) by (auto simp: promoted_born_def child_of_def split: option.splits)
    then show ?thesis using that(1) by (auto simp: fresh_children_def fresh_id_def find_job_def find_None_iff)
  qed
qed (use promote_one_eq(1) promoted_db_exact in auto)

interpretation ungate: exact_batch "ungate_one lib flt"
  "\<lambda>r. Status r \<in> {JobPending, JobQueued}" set_ungated "fetched lib" "\<lambda>_ _. True" "\<lambda>_ _. []" "\<lambda>_ _. []" for lib flt
proof
  fix d i r res d1
  assume a: "store_inv d" "find_job i d = Some r" "Status r \<in> {JobPending, JobQueued}" "ungate_one lib flt i d = Inr (res, d1)"
  have "d1 = upd_job i (\<lambda>r. Status r \<in> {JobPending, JobQueued}) set_ungated d"
    using a(4) batch_update [where p = "\<lambda>r. Status r \<in> {JobPending, JobQueued}" and f = set_ungated, OF a(1-3)]
    by (auto simp: ungate_one_def split: if_splits)
  then show "d1 = batch_result set_ungated (\<lambda>_ _. []) (\<lambda>_ _. []) [i] d"
    using upd_found [where p = "\<lambda>r. Status r \<in> {JobPending, JobQueued}" and f = set_ungated, OF a(1-3)]
    by (intro db_eqI) (simp_all add: batch_result_one(1,2) [OF a(2)] batch_result_one(3,4))
qed (auto simp: ungate_one_def split: if_splits prod.splits option.splits)

interpretation reclaim: exact_batch "reclaim_one lib flt dbnow"
  "\<lambda>r. Status r = JobRunning" set_reclaimed "fetched lib" "\<lambda>_ _. True" "reclaimed_evs dbnow" "\<lambda>_ _. []" for lib flt dbnow
proof
  fix d i r res d1
  assume a: "store_inv d" "find_job i d = Some r" "Status r = JobRunning" "reclaim_one lib flt dbnow i d = Inr (res, d1)"
  have "d1 = insertEvent i JobRunning JobPending dbnow (upd_job i (\<lambda>r. Status r = JobRunning) set_reclaimed d)"
    using a(4) batch_update [where p = "\<lambda>r. Status r = JobRunning" and f = set_reclaimed, OF a(1-3)]
    by (auto simp: reclaim_one_def split: if_splits)
  then show "d1 = batch_result set_reclaimed (reclaimed_evs dbnow) (\<lambda>_ _. []) [i] d"
    by (intro db_eqI) (simp_all add: batch_result_one(1,2) [OF a(2)] batch_result_one(3,4) reclaimed_evs_def
        upd_found [where p = "\<lambda>r. Status r = JobRunning", OF a(1-3)])
qed (auto simp: reclaim_one_def split: if_splits prod.splits option.splits)

subsection \<open>The transactions as wholes\<close>

definition created_db :: "golib \<Rightarrow> instant \<Rightarrow> Job \<Rightarrow> db \<Rightarrow> db" where
  \<comment> \<open>the row, its key when it has one, and its first event\<close>
  "created_db lib dbnow inp d =
     (let r = created_row lib inp; d1 = insert_job r d in
      insertInitialEvent (JobID r) (Status r) dbnow
        (case nonempty (IdempotencyKey inp) of None \<Rightarrow> d1 | Some key \<Rightarrow> claim_key key (JobID r) d1))"

definition moved_db :: "uuid \<Rightarrow> (job_row \<Rightarrow> job_row) \<Rightarrow> instant \<Rightarrow> db \<Rightarrow> db" where
  \<comment> \<open>the row rewritten with \<open>f\<close> and the event of its change of status\<close>
  "moved_db j f dbnow d =
     insertEvent j (Status (the (find_job j d))) (Status (f (the (find_job j d)))) dbnow (upd_job j any_row f d)"

definition failed_row :: "instant \<Rightarrow> instant \<Rightarrow> string \<Rightarrow> job_row \<Rightarrow> job_row \<Rightarrow> job_row" where
  \<comment> \<open>the SET clause of a failure, from the row that was read\<close>
  "failed_row now dbnow err r =
     set_failed (fail_next r) err (if fail_next r = JobPending then Some (now + RetryBackoff (AttemptCount r)) else None) dbnow"

definition series_cancelled_db :: "(uuid \<Rightarrow> bool) \<Rightarrow> instant \<Rightarrow> uuid \<Rightarrow> uuid list \<Rightarrow> db \<Rightarrow> db" where
  "series_cancelled_db locked dbnow series owner d =
     fold (\<lambda>r. moved_db (JobID r) (set_cancelled dbnow) dbnow) (series_targets locked series (nullableOwner owner) d) d"

definition purged_db :: "instant \<Rightarrow> int \<Rightarrow> db \<Rightarrow> db" where
  "purged_db before limit0 d =
     (let limit = clamp_limit 1000 10000 limit0; d1 = delete_jobs (doomed before limit d) d
      in delete_keys (orphan_keys limit d1) d1)"

lemma all_or_nothing_simps [simp]:
  "all_or_nothing (commit_tx flt d full x) d full"
  "all_or_nothing (Inl e, d) d full \<longleftrightarrow> (e = DbErr CommitAck \<longrightarrow> full = d)"
  by (auto simp: all_or_nothing_def commit_tx_def)

lemma cancel_moved:
  assumes "store_inv d" and "find_job i d = Some r" and "cancellable (Status r)"
  shows "insertEvent i (Status r) JobCancelled dbnow (upd_job i (\<lambda>r. cancellable (Status r)) (set_cancelled dbnow) d) =
    moved_db i (set_cancelled dbnow) dbnow d"
proof -
  have "(if JobID x = i \<and> cancellable (Status x) then set_cancelled dbnow x else x) =
      (if JobID x = i then set_cancelled dbnow x else x)" if "x \<in> set (jobs_tbl d)" for x
    using find_job_unique [OF assms(1,2) that] assms(3) by auto
  then have "upd_job i (\<lambda>r. cancellable (Status r)) (set_cancelled dbnow) d = upd_job i any_row (set_cancelled dbnow) d"
    by (simp add: upd_job_def update_where_def cong: map_cong)
  then show ?thesis using assms(2) by (simp add: moved_db_def set_cancelled_def)
qed

lemma cancel_loop_exact:
  "store_inv d \<Longrightarrow> live_targets (map (\<lambda>r. (JobID r, Status r)) rs) d \<Longrightarrow>
     cancel_loop flt dbnow (map (\<lambda>r. (JobID r, Status r)) rs) d n = Inr (m, d') \<Longrightarrow>
     d' = fold (\<lambda>r. moved_db (JobID r) (set_cancelled dbnow) dbnow) rs d"
proof (induction rs arbitrary: d n)
  case (Cons c rs)
  let ?d1 = "insertEvent (JobID c) (Status c) JobCancelled dbnow
      (upd_job (JobID c) (\<lambda>r. cancellable (Status r)) (set_cancelled dbnow) d)"
  note live = Cons.prems(2) [unfolded list.map]
  obtain r where r: "find_job (JobID c) d = Some r" "Status r = Status c" "cancellable (Status c)"
      "\<exists>r \<in> set (jobs_tbl d). JobID r = JobID c \<and> cancellable (Status r)"
    by (rule live_target_hd [OF live])
  have one: "?d1 = moved_db (JobID c) (set_cancelled dbnow) dbnow d"
    using cancel_moved [OF Cons.prems(1) r(1), of dbnow] r(2,3) by simp
  have "cancel_loop flt dbnow [(JobID c, Status c)] d 0 = Inr (1, ?d1)"
    using Cons.prems(3) r(4) by (simp add: Let_def split: if_splits)
  then have "store_inv ?d1"
    using cancel_loop_inv [OF Cons.prems(1), of "[(JobID c, Status c)]" flt dbnow 0 1 ?d1] r
    by (simp add: live_targets_def)
  moreover have "live_targets (map (\<lambda>r. (JobID r, Status r)) rs) ?d1"
    using Cons.prems(2) by (auto intro: live_targets_step)
  moreover have "cancel_loop flt dbnow (map (\<lambda>r. (JobID r, Status r)) rs) ?d1 (n + 1) = Inr (m, d')"
    using Cons.prems(3) r(4) by (simp add: Let_def split: if_splits)
  ultimately show ?case using Cons.IH [of ?d1 "n + 1"] one by simp
qed simp

lemma cancel_loop_error: "cancel_loop flt dbnow cs d n = Inl e \<Longrightarrow> e \<noteq> DbErr CommitAck"
  by (induction flt dbnow cs d n rule: cancel_loop.induct) (auto simp: Let_def split: if_splits)

lemma single_ops_atomic:
  "all_or_nothing (CreateJob lib flt newid now dbnow inp d) d (created_db lib dbnow (create_defaults newid now inp) d)"
  "all_or_nothing (ClaimRunning lib flt now dbnow token j w d) d (moved_db j (set_running w token dbnow) dbnow d)"
  "all_or_nothing (Complete flt dbnow j token d) d (moved_db j (set_completed dbnow) dbnow d)"
  "all_or_nothing (FailOrRetry lib flt now dbnow j token err d) d (moved_db j (failed_row now dbnow err (the (find_job j d))) dbnow d)"
  "all_or_nothing (RetryJob lib flt dbnow j d) d (moved_db j set_retried dbnow d)"
  "all_or_nothing (CancelJob lib flt dbnow j d) d (moved_db j (set_cancelled dbnow) dbnow d)"
  "all_or_nothing (DeleteOldJobs flt b limit d) d (purged_db b limit d)"
proof -
  show "all_or_nothing (CreateJob lib flt newid now dbnow inp d) d (created_db lib dbnow (create_defaults newid now inp) d)"
    by (simp add: CreateJob_def created_db_def Let_def split: option.split)
  show "all_or_nothing (ClaimRunning lib flt now dbnow token j w d) d (moved_db j (set_running w token dbnow) dbnow d)"
    by (simp add: ClaimRunning_def moved_db_def Let_def split: option.split)
  show "all_or_nothing (Complete flt dbnow j token d) d (moved_db j (set_completed dbnow) dbnow d)"
    by (simp add: Complete_def moved_db_def Let_def split: option.split)
  show "all_or_nothing (RetryJob lib flt dbnow j d) d (moved_db j set_retried dbnow d)"
    by (simp add: RetryJob_def moved_db_def split: option.split)
  show "all_or_nothing (CancelJob lib flt dbnow j d) d (moved_db j (set_cancelled dbnow) dbnow d)"
    by (simp add: CancelJob_def moved_db_def set_cancelled_def split: option.split)
  show "all_or_nothing (DeleteOldJobs flt b limit d) d (purged_db b limit d)"
    by (simp add: DeleteOldJobs_def purged_db_def Let_def)
  show "all_or_nothing (FailOrRetry lib flt now dbnow j token err d) d (moved_db j (failed_row now dbnow err (the (find_job j d))) dbnow d)"
    by (simp add: FailOrRetry_def moved_db_def failed_row_def Let_def split: option.split)
qed

text \<open>C22. Every transactional operation of the store is all or nothing, and its whole is written out:
  a success leaves exactly the database in which the row, its event and its keys have changed
  together (for a batch, those of all the selected rows, with the follow-ups of recurring jobs and
  nothing else), and so does a commit whose acknowledgement was lost, which is reported as an
  error; every other error, whichever database call fails, leaves all tables as they were.\<close>

theorem store_ops_atomic:
  assumes "store_inv d" and "fresh_children gen (due_ids locked now limit d) d"
  shows "all_or_nothing (CreateJob lib flt newid now dbnow inp d) d (created_db lib dbnow (create_defaults newid now inp) d) \<and>
    all_or_nothing (ClaimRunning lib flt now dbnow token j w d) d (moved_db j (set_running w token dbnow) dbnow d) \<and>
    all_or_nothing (Complete flt dbnow j token d) d (moved_db j (set_completed dbnow) dbnow d) \<and>
    all_or_nothing (FailOrRetry lib flt now dbnow j token err d) d
      (moved_db j (failed_row now dbnow err (the (find_job j d))) dbnow d) \<and>
    all_or_nothing (RetryJob lib flt dbnow j d) d (moved_db j set_retried dbnow d) \<and>
    all_or_nothing (CancelJob lib flt dbnow j d) d (moved_db j (set_cancelled dbnow) dbnow d) \<and>
    all_or_nothing (CancelSeries flt locked dbnow series owner d) d (series_cancelled_db locked dbnow series owner d) \<and>
    all_or_nothing (ClaimDueScheduled lib flt locked gen dbnow now limit d) d
      (batch_result set_pending (promoted_evs lib gen now dbnow) (promoted_born lib gen now) (due_ids locked now limit d) d) \<and>
    all_or_nothing (ClaimDueRetries lib flt locked now limit d) d
      (batch_result set_ungated (\<lambda>_ _. []) (\<lambda>_ _. []) (retry_ids locked now limit d) d) \<and>
    all_or_nothing (ClaimStaleRunning lib flt locked dbnow b limit d) d
      (batch_result set_reclaimed (reclaimed_evs dbnow) (\<lambda>_ _. []) (stale_ids locked b limit d) d) \<and>
    all_or_nothing (DeleteOldJobs flt b limit d) d (purged_db b limit d)"
proof -
  have series: "all_or_nothing (CancelSeries flt locked dbnow series owner d) d (series_cancelled_db locked dbnow series owner d)"
  proof (cases "cancel_loop flt dbnow (map (\<lambda>r. (JobID r, Status r)) (series_targets locked series (nullableOwner owner) d)) d 0")
    case (Inl e)
    then show ?thesis using cancel_loop_error [OF Inl] by (simp add: CancelSeries_def Let_def)
  next
    case (Inr p)
    obtain n d' where p: "p = (n, d')" by (cases p)
    have "d' = series_cancelled_db locked dbnow series owner d"
      unfolding series_cancelled_db_def
      by (rule cancel_loop_exact [OF assms(1) CancelSeries_targets_live [OF assms(1)] Inr [unfolded p]])
    then show ?thesis using Inr p by (simp add: CancelSeries_def Let_def)
  qed
  show ?thesis
    unfolding ClaimDueScheduled_def ClaimDueRetries_def ClaimStaleRunning_def
    by (intro conjI single_ops_atomic series promote.tx_exact ungate.tx_exact reclaim.tx_exact assms TrueI
        due_ids_selected retry_ids_selected stale_ids_selected)
qed

lemma store_ops_atomic_witness:
  "snd (CancelJob demo_lib no_faults 500 7 demo_d1) = moved_db 7 (set_cancelled 500) 500 demo_d1 \<and>
   snd (CancelJob demo_lib (\<lambda>c. c = InsertEv 7) 500 7 demo_d1) = demo_d1"
proof -
  have "due_ids (\<lambda>_. False) 0 10 demo_d1 = []" by code_simp
  then have f: "fresh_children (\<lambda>i. i) (due_ids (\<lambda>_. False) 0 10 demo_d1) demo_d1" by (simp add: fresh_children_def)
  have "all_or_nothing (CancelJob demo_lib flt 500 7 demo_d1) demo_d1 (moved_db 7 (set_cancelled 500) 500 demo_d1)" for flt
    using store_ops_atomic [OF demo_inv(1) f, where lib = demo_lib and flt = flt and dbnow = 500 and j = 7] by blast
  moreover have "\<exists>job. fst (CancelJob demo_lib no_faults 500 7 demo_d1) = Inr job"
    "fst (CancelJob demo_lib (\<lambda>c. c = InsertEv 7) 500 7 demo_d1) = Inl (DbErr (InsertEv 7))"
  proof -
    have "find_job 7 demo_d1 = Some (hd (jobs_tbl demo_d1))" "cancellable (Status (hd (jobs_tbl demo_d1)))" by code_simp+
    then show "\<exists>job. fst (CancelJob demo_lib no_faults 500 7 demo_d1) = Inr job"
      "fst (CancelJob demo_lib (\<lambda>c. c = InsertEv 7) 500 7 demo_d1) = Inl (DbErr (InsertEv 7))"
      by (simp_all add: CancelJob_def commit_tx_def no_faults_def)
  qed
  ultimately show ?thesis by (fastforce simp: all_or_nothing_def split: sum.splits)
qed

end
