(* ===== verification/Jobs_Batch_Props.thy ===== *)
theory Jobs_Batch_Props
  imports Jobs_Atomic
begin

text \<open>
  The properties of the batch operations: what the scheduler's and the reaper's claims
  promote, the follow-ups of recurring jobs, retention and the monthly partitions. The
  databases of the witnesses are \<open>demo_s1\<close> (a recurring job waiting for its instant) and
  those of \<open>Jobs_Props\<close>.
\<close>

definition demo_sched :: Job where
  "demo_sched = zero_job\<lparr>Type := ''email'', QueueName := ''email'', Status := JobScheduled,
     ScheduledAt := Some 500, CronExpr := Some ''@hourly'', CronTZ := Some ''UTC'',
     SeriesID := Some 3, IsRecurring := True\<rparr>"

definition demo_s1 :: db where
  "demo_s1 = snd (CreateJob demo_lib no_faults 9 100 100 demo_sched empty_db)"

lemma demo_s1_inv: "store_inv demo_s1"
  unfolding demo_s1_def
  by (rule CreateJob_inv [OF store_inv_empty]) (simp_all add: initial_job_def demo_sched_def zero_job_def zero_row_def
      zero_runtime_def job_row.defs Job.defs is_int16_def fresh_id_def empty_db_def)

lemma demo_s1_fresh: "fresh_children (\<lambda>i. i + 100) (due_ids (\<lambda>_. False) 600 10 demo_s1) demo_s1"
proof -
  have "due_ids (\<lambda>_. False) 600 10 demo_s1 = [9]" by code_simp
  moreover have "fresh_id 109 demo_s1" unfolding fresh_id_def by code_simp
  ultimately show ?thesis by (simp add: fresh_children_def)
qed

subsection \<open>Promotion of scheduled jobs\<close>

lemma ClaimDueScheduled_whole:
  "store_inv d \<Longrightarrow> fresh_children gen (due_ids locked now limit d) d \<Longrightarrow>
     all_or_nothing (ClaimDueScheduled lib flt locked gen dbnow now limit d) d
       (batch_result set_pending (promoted_evs lib gen now dbnow) (promoted_born lib gen now) (due_ids locked now limit d) d)"
  unfolding ClaimDueScheduled_def by (intro promote.tx_exact due_ids_selected)

lemma ClaimDueScheduled_result:
  assumes "store_inv d" and "fresh_children gen (due_ids locked now limit d) d"
    and "ClaimDueScheduled lib flt locked gen dbnow now limit d = (Inr out, d')"
  shows "map JobID out = due_ids locked now limit d"
    and "find_job j d = Some r \<Longrightarrow>
      find_job j d' = Some (if j \<in> set (due_ids locked now limit d) then set_pending r else r)"
    and "j \<in> set (due_ids locked now limit d) \<Longrightarrow> find_job j d = Some r \<Longrightarrow>
      followup_at lib now r = Some nxt \<Longrightarrow> find_job (gen j) d' = Some (child_of (gen j) r nxt now)"
proof -
  note sel = due_ids_selected [OF assms(1), of locked now limit]
  note rows = promote.tx_rows [OF assms(1) sel assms(2) assms(3) [unfolded ClaimDueScheduled_def]]
  show "map JobID out = due_ids locked now limit d" using rows by simp
  show "find_job j d' = Some (if j \<in> set (due_ids locked now limit d) then set_pending r else r)"
    if "find_job j d = Some r"
    using rows that by auto
  have d': "d' = batch_result set_pending (promoted_evs lib gen now dbnow) (promoted_born lib gen now) (due_ids locked now limit d) d"
    using ClaimDueScheduled_whole [OF assms(1,2), of lib flt dbnow] assms(3) by (simp add: all_or_nothing_def)
  have inv: "store_inv d'"
    using ClaimDueScheduled_inv [OF assms(1,2), of lib flt dbnow] assms(3) by simp
  show "find_job (gen j) d' = Some (child_of (gen j) r nxt now)"
    if "j \<in> set (due_ids locked now limit d)" "find_job j d = Some r" "followup_at lib now r = Some nxt"
  proof -
    have "child_of (gen j) r nxt now \<in> set (jobs_tbl d')"
      using that by (force simp: d' batch_result_def promoted_born_def)
    from find_job_mem [OF inv this] show ?thesis by (simp add: child_of_def)
  qed
qed

lemma due_ids_due:
  assumes "store_inv d" and "find_job j d = Some r" and "j \<in> set (due_ids locked now limit d)"
  shows "due_scheduled now r \<and> \<not> locked j"
proof -
  from assms(3) obtain x where "x \<in> set (jobs_tbl d)" "JobID x = j" "due_scheduled now x" "\<not> locked j"
    by (auto simp: due_ids_def dest!: set_limit_to)
  then show ?thesis using find_job_unique [OF assms(1,2)] by blast
qed

lemma due_ids_complete:
  assumes "r \<in> set (jobs_tbl d)" and "due_scheduled now r" and "\<not> locked (JobID r)"
    and "JobID r \<notin> set (due_ids locked now limit d)" and "store_inv d"
  shows "int (length (due_ids locked now limit d)) = clamp_limit 100 1000 limit"
    and "i \<in> set (due_ids locked now limit d) \<Longrightarrow> find_job i d = Some x \<Longrightarrow> the (ScheduledAt x) \<le> the (ScheduledAt r)"
proof -
  let ?xs = "filter (\<lambda>r. due_scheduled now r \<and> \<not> locked (JobID r)) (jobs_tbl d)"
  let ?ys = "order_by (\<lambda>r. the (ScheduledAt r)) ?xs"
  let ?n = "nat (clamp_limit 100 1000 limit)"
  have pos: "0 \<le> clamp_limit 100 1000 limit" using clamp_limit_bounds [of 100 1000 limit] by simp
  have r: "r \<in> set ?ys" using assms(1-3) by (simp add: order_by_def)
  have notin: "r \<notin> set (take ?n ?ys)" using assms(4) by (auto simp: due_ids_def limit_to_def)
  then have drop: "r \<in> set (drop ?n ?ys)" using r by (metis UnE append_take_drop_id set_append)
  then have "drop ?n ?ys \<noteq> []" by (intro notI) (simp only: list.set empty_iff)
  then have "?n < length ?ys" unfolding drop_eq_Nil not_le .
  then show "int (length (due_ids locked now limit d)) = clamp_limit 100 1000 limit"
    unfolding due_ids_def limit_to_def length_map length_take using pos by simp
  have le: "the (ScheduledAt y) \<le> the (ScheduledAt r)" if "y \<in> set (take ?n ?ys)" for y
  proof -
    have "sorted (map (\<lambda>r. the (ScheduledAt r)) (take ?n ?ys @ drop ?n ?ys))" by (simp add: order_by_def)
    then have "\<forall>k \<in> (\<lambda>r. the (ScheduledAt r)) ` set (take ?n ?ys). \<forall>k2 \<in> (\<lambda>r. the (ScheduledAt r)) ` set (drop ?n ?ys). k \<le> k2"
      unfolding map_append sorted_append set_map by blast
    then show ?thesis using that drop by blast
  qed
  show "the (ScheduledAt x) \<le> the (ScheduledAt r)" if i: "i \<in> set (due_ids locked now limit d)" "find_job i d = Some x"
  proof -
    obtain y where y: "y \<in> set (take ?n ?ys)" "JobID y = i" using i(1) by (auto simp: due_ids_def limit_to_def)
    then have "y \<in> set (jobs_tbl d)" by (auto simp: order_by_def dest: in_set_takeD)
    then have "y = x" using find_job_unique [OF assms(5) i(2)] y(2) by blast
    with le [OF y(1)] show ?thesis by simp
  qed
qed

text \<open>C23. A scheduler tick promotes exactly what is due. With no database fault it selects scheduled
  jobs whose instant has come and which no other scheduler holds: all of them, or the
  earliest when there are more than the limit (100 when none is given, 1000 at most). Then each
  selected row is pending with its other fields as they were, each selected member of a series whose
  expression and time zone still parse has one new row, its follow-up at the next
  instant, the events of these changes are appended, and nothing else in the database is
  different: no other row changes, and no other row is added. The jobs returned are the selected ones, pending.\<close>

theorem ClaimDueScheduled_exact:
  assumes "store_inv d" and "ids = due_ids locked now limit d" and "fresh_children gen ids d"
    and "d' = batch_result (\<lambda>r. r\<lparr>Status := JobPending\<rparr>) (promoted_evs lib gen now dbnow) (promoted_born lib gen now) ids d"
  shows "ClaimDueScheduled lib no_faults locked gen dbnow now limit d =
      (Inr (map (\<lambda>j. fetched lib ((the (find_job j d))\<lparr>Status := JobPending\<rparr>)) ids), d') \<and>
    distinct ids \<and> int (length ids) \<le> (if limit \<le> 0 then 100 else min limit 1000) \<and>
    (\<forall>j \<in> set ids. \<exists>r t. find_job j d = Some r \<and> Status r = JobScheduled \<and> ScheduledAt r = Some t \<and> t \<le> now \<and> \<not> locked j) \<and>
    (\<forall>j r t. find_job j d = Some r \<and> Status r = JobScheduled \<and> ScheduledAt r = Some t \<and> t \<le> now \<and> \<not> locked j \<and> j \<notin> set ids \<longrightarrow>
       int (length ids) = (if limit \<le> 0 then 100 else min limit 1000) \<and>
       (\<forall>i \<in> set ids. the (ScheduledAt (the (find_job i d))) \<le> t)) \<and>
    (\<forall>j \<in> set ids. \<forall>nxt. followup_at lib now (the (find_job j d)) = Some nxt \<longrightarrow>
       find_job (gen j) d' = Some (child_of (gen j) (the (find_job j d)) nxt now)) \<and>
    JobID ` set (jobs_tbl d') = JobID ` set (jobs_tbl d) \<union> gen ` {j \<in> set ids. followup_at lib now (the (find_job j d)) \<noteq> None}"
proof -
  note sel = due_ids_selected [OF assms(1), of locked now limit]
  note fr = assms(3) [unfolded assms(2)]
  have eff: "(\<lambda>r. r\<lparr>Status := JobPending\<rparr>) = set_pending" by (simp add: fun_eq_iff set_pending_def)
  from promote0.tx_returns [OF assms(1) sel fr] obtain out e where
    c: "ClaimDueScheduled lib no_faults locked gen dbnow now limit d = (Inr out, e)"
    unfolding ClaimDueScheduled_def by blast
  have e: "e = d'"
    using ClaimDueScheduled_whole [OF assms(1) fr, of lib no_faults dbnow] c
    by (simp add: all_or_nothing_def assms(2,4) eff)
  have out: "out = map (\<lambda>j. fetched lib (set_pending (the (find_job j d)))) ids"
    using promote.tx_out [OF assms(1) sel fr c [unfolded ClaimDueScheduled_def]] assms(2) by simp
  note res = ClaimDueScheduled_result [OF assms(1) fr c]
  have lim: "clamp_limit 100 1000 limit = (if limit \<le> 0 then 100 else min limit 1000)"
    by (auto simp: clamp_limit_def)
  have dist: "distinct ids" using sel by (simp add: assms(2) promote.selected_def)
  have found: "\<exists>r. find_job j d = Some r" if "j \<in> set ids" for j
    using sel that by (auto simp: assms(2) promote.selected_def)
  have len: "int (length ids) \<le> clamp_limit 100 1000 limit"
    using clamp_limit_bounds [of 100 1000 limit]
    by (simp add: assms(2) due_ids_def limit_to_def min_def le_nat_iff nat_le_iff del: length_filter_le)
  have due: "\<exists>r t. find_job j d = Some r \<and> Status r = JobScheduled \<and> ScheduledAt r = Some t \<and> t \<le> now \<and> \<not> locked j" if "j \<in> set ids" for j
    using found [OF that] due_ids_due [OF assms(1), of j] that
    by (fastforce simp: assms(2) due_scheduled_def split: option.splits)
  have rest: "int (length ids) = clamp_limit 100 1000 limit \<and> (\<forall>i \<in> set ids. the (ScheduledAt (the (find_job i d))) \<le> t)"
    if "find_job j d = Some r \<and> Status r = JobScheduled \<and> ScheduledAt r = Some t \<and> t \<le> now \<and> \<not> locked j \<and> j \<notin> set ids" for j r t
  proof -
    have r: "r \<in> set (jobs_tbl d)" "due_scheduled now r" "\<not> locked (JobID r)" "JobID r \<notin> set (due_ids locked now limit d)"
      using that find_jobD [of j d r] by (auto simp: due_scheduled_def assms(2))
    show ?thesis
      using due_ids_complete [OF r assms(1)] found that by (fastforce simp: assms(2))
  qed
  have kids: "find_job (gen j) d' = Some (child_of (gen j) (the (find_job j d)) nxt now)"
    if "j \<in> set ids" "followup_at lib now (the (find_job j d)) = Some nxt" for j nxt
    using res(3) [of j _ nxt] found [OF that(1)] that by (auto simp: e assms(2))
  have rows: "JobID ` set (jobs_tbl d') = JobID ` set (jobs_tbl d) \<union> gen ` {j \<in> set ids. followup_at lib now (the (find_job j d)) \<noteq> None}"
  proof -
    have "JobID ` set (promoted_born lib gen now i r) = (if followup_at lib now r = None then {} else {gen i})" for i r
      by (cases "followup_at lib now r") (simp_all add: promoted_born_def child_of_def)
    then have "(\<Union>i \<in> set ids. JobID ` set (promoted_born lib gen now i (the (find_job i d)))) =
        gen ` {j \<in> set ids. followup_at lib now (the (find_job j d)) \<noteq> None}"
      by auto
    moreover have "JobID ` set (update_where p (\<lambda>r. r\<lparr>Status := JobPending\<rparr>) rs) = JobID ` set rs" for p and rs :: "job_row list"
      by (induction rs) (auto simp: update_where_def)
    ultimately show ?thesis by (simp add: assms(4) batch_result_def image_Un image_UN)
  qed
  have run: "ClaimDueScheduled lib no_faults locked gen dbnow now limit d =
      (Inr (map (\<lambda>j. fetched lib ((the (find_job j d))\<lparr>Status := JobPending\<rparr>)) ids), d')"
    by (simp add: c e out set_pending_def)
  show ?thesis
    unfolding lim [symmetric]
    by (intro conjI ballI due run dist len rows allI impI; (erule rest [THEN conjunct1] | (drule rest, blast) | simp add: kids)?)
qed

lemma ClaimDueScheduled_exact_witness:
  "\<exists>out d'. ClaimDueScheduled demo_lib no_faults (\<lambda>_. False) (\<lambda>i. i + 100) 600 600 10 demo_s1 = (Inr out, d') \<and>
     map Status out = [JobPending] \<and> JobID ` set (jobs_tbl d') = {9, 109} \<and>
     find_job 109 d' = Some (child_of 109 (hd (jobs_tbl demo_s1)) (60 * minute) 600)"
proof -
  let ?r = "hd (jobs_tbl demo_s1)"
  have f: "find_job 9 demo_s1 = Some ?r" by code_simp
  have ids: "[9] = due_ids (\<lambda>_. False) 600 10 demo_s1" by code_simp
  have at: "followup_at demo_lib 600 ?r = Some (60 * minute)" by code_simp
  have keys: "JobID ` set (jobs_tbl demo_s1) = {9}" by code_simp
  define d' where "d' = batch_result (\<lambda>r. r\<lparr>Status := JobPending\<rparr>)
    (promoted_evs demo_lib (\<lambda>i. i + 100) 600 600) (promoted_born demo_lib (\<lambda>i. i + 100) 600) [9] demo_s1"
  note x = ClaimDueScheduled_exact [OF demo_s1_inv ids demo_s1_fresh [folded ids] d'_def]
  note run = x [THEN conjunct1] and kids = x [THEN conjunct2, THEN conjunct2, THEN conjunct2, THEN conjunct2, THEN conjunct2]
  have "find_job 109 d' = Some (child_of 109 ?r (60 * minute) 600)"
    using kids [THEN conjunct1, rule_format, of 9 "60 * minute"] f at by simp
  moreover have "JobID ` set (jobs_tbl d') = {9, 109}"
  proof -
    have "{j \<in> set [9]. followup_at demo_lib 600 (the (find_job j demo_s1)) \<noteq> None} = {9}" using f at by auto
    then show ?thesis using kids [THEN conjunct2] keys by (simp only:) auto
  qed
  ultimately show ?thesis using run
    by (intro exI [of _ "map (\<lambda>j. fetched demo_lib ((the (find_job j demo_s1))\<lparr>Status := JobPending\<rparr>)) [9]"] exI [of _ d'] conjI)
      (simp_all add: f)
qed

text \<open>No job is promoted twice: after a tick's transaction, a second tick (of another
  scheduler, at any instant, with any limit) selects none of the jobs the first one promoted.\<close>

theorem promotion_once:
  assumes "store_inv d" and "fresh_children gen (due_ids locked now limit d) d"
    and "ClaimDueScheduled lib flt locked gen dbnow now limit d = (Inr out, d')"
  shows "set (due_ids locked2 now2 limit2 d') \<inter> JobID ` set out = {}"
proof -
  have inv': "store_inv d'"
    using ClaimDueScheduled_inv [OF assms(1,2), of lib flt dbnow] assms(3) by simp
  have False if j: "j \<in> set (due_ids locked2 now2 limit2 d')" "j \<in> JobID ` set out" for j
  proof -
    have jm: "j \<in> set (due_ids locked now limit d)"
      using j(2) ClaimDueScheduled_result(1) [OF assms] by (metis list.set_map)
    then obtain r where r: "find_job j d = Some r"
      using due_ids_selected [OF assms(1), of locked now limit] by (auto simp: promote.selected_def)
    have "find_job j d' = Some (set_pending r)" using ClaimDueScheduled_result(2) [OF assms r] jm by simp
    from due_ids_due [OF inv' this j(1)] show False by (simp add: due_scheduled_def)
  qed
  then show ?thesis by blast
qed

lemma promotion_once_witness:
  "\<exists>out d'. ClaimDueScheduled demo_lib no_faults (\<lambda>_. False) (\<lambda>i. i + 100) 600 600 10 demo_s1 = (Inr out, d') \<and>
     out \<noteq> [] \<and> set (due_ids (\<lambda>_. False) 700 10 d') \<inter> JobID ` set out = {}"
proof -
  let ?c = "ClaimDueScheduled demo_lib no_faults (\<lambda>_. False) (\<lambda>i. i + 100) 600 600 10 demo_s1"
  have "isl (fst ?c) = False" by code_simp
  then obtain out where c: "?c = (Inr out, snd ?c)" by (cases "fst ?c") (auto simp: prod_eq_iff)
  have "due_ids (\<lambda>_. False) 600 10 demo_s1 = [9]" by code_simp
  then have "out \<noteq> []" using ClaimDueScheduled_result(1) [OF demo_s1_inv demo_s1_fresh c] by auto
  then show ?thesis using promotion_once [OF demo_s1_inv demo_s1_fresh c] c by blast
qed

text \<open>An expression that never matches keeps its series spinning: when the cron library
  answers with the zero instant (its answer for an expression such as 30 February), the
  follow-up created by a tick is itself due at once and again recurring, so every tick
  promotes and dispatches one more job of the series, for ever.\<close>

theorem unsatisfiable_cron_never_drains:
  assumes "store_inv d" and "fresh_children gen (due_ids locked now limit d) d"
    and "ClaimDueScheduled lib flt locked gen dbnow now limit d = (Inr out, d')"
    and "j \<in> set (due_ids locked now limit d)" and "find_job j d = Some r" and "recurring r"
    and "NextAfter lib (the (CronExpr r)) (followup_tz r) now = Inr zero_time"
    and "zero_time \<le> now2"
  shows "\<exists>c. find_job (gen j) d' = Some c \<and> due_scheduled now2 c \<and> recurring c \<and>
    CronExpr c = CronExpr r \<and> SeriesID c = SeriesID r"
proof -
  let ?c = "child_of (gen j) r zero_time now"
  have "due_scheduled now2 ?c" "recurring ?c" "CronExpr ?c = CronExpr r" "SeriesID ?c = SeriesID r"
    using assms(6,8) by (simp_all add: due_scheduled_def child_of_def recurring_def)
  moreover have "followup_at lib now r = Some zero_time" using assms(6,7) by (simp add: followup_at_eq)
  ultimately show ?thesis using ClaimDueScheduled_result(3) [OF assms(1-5)] by blast
qed

definition feb30_lib :: golib where
  \<comment> \<open>a library whose schedules have no next instant\<close>
  "feb30_lib = demo_lib\<lparr>cron_ParseStandard := (\<lambda>e. Some (\<lambda>tz t. zero_time))\<rparr>"

lemma unsatisfiable_cron_never_drains_witness:
  "\<exists>d' c. find_job 109 d' = Some c \<and> due_scheduled 600 c \<and> recurring c"
proof -
  let ?r = "hd (jobs_tbl demo_s1)"
  let ?c = "ClaimDueScheduled feb30_lib no_faults (\<lambda>_. False) (\<lambda>i. i + 100) 600 600 10 demo_s1"
  have f: "find_job 9 demo_s1 = Some ?r" by code_simp
  have ids: "due_ids (\<lambda>_. False) 600 10 demo_s1 = [9]" by code_simp
  have rc: "recurring ?r" by code_simp
  have nx: "NextAfter feb30_lib (the (CronExpr ?r)) (followup_tz ?r) 600 = Inr zero_time" by code_simp
  have "isl (fst ?c) = False" by code_simp
  then obtain out where c: "?c = (Inr out, snd ?c)" by (cases "fst ?c") (auto simp: prod_eq_iff)
  have z: "zero_time \<le> 600" by (simp add: zero_time_def second_def)
  from unsatisfiable_cron_never_drains [OF demo_s1_inv demo_s1_fresh c _ f rc nx z]
  show ?thesis by (auto simp: ids)
qed


subsection \<open>Matured retries and reclaim\<close>

lemma selection_mem:
  assumes "store_inv d" and "find_job j d = Some r"
    and "j \<in> set (map JobID (limit_to n (order_by k (filter P (jobs_tbl d)))))"
  shows "P r"
  using assms(3)
proof (rule selected_rows [OF assms(1)])
  fix x assume "find_job j d = Some x" "P x"
  then show "P r" using assms(2) by simp
qed

text \<open>Matured retries are released exactly once: without a database fault the tick returns
  the pending jobs it selected, whose gate is over, at most 1000; their gate is removed, so
  any worker may claim them at once and no later tick selects them again; other jobs keep
  their row.\<close>

theorem ClaimDueRetries_exact:
  assumes "store_inv d" and "ids = retry_ids locked now limit d"
  shows "\<exists>out d'. ClaimDueRetries lib no_faults locked now limit d = (Inr out, d') \<and>
    map JobID out = ids \<and> length ids \<le> 1000 \<and>
    set (retry_ids lockedB nowB limitB d') \<inter> set ids = {} \<and>
    (\<forall>j r. find_job j d = Some r \<longrightarrow>
       find_job j d' = Some (if j \<in> set ids then set_ungated r else r) \<and>
       (j \<in> set ids \<longrightarrow> due_retry now r \<and> \<not> gated (set_ungated r) nowB))"
proof -
  note sel = retry_ids_selected [OF assms(1), of locked now limit]
  from ungate0.tx_returns [OF assms(1) sel TrueI] obtain out d' where
    c: "batch_tx no_faults (ungate_one lib no_faults) (retry_ids locked now limit d) d = (Inr out, d')"
    by blast
  note rows = ungate.tx_rows [OF assms(1) sel TrueI c, folded assms(2)]
  have "clamp_limit 100 1000 limit \<le> 1000" using clamp_limit_bounds [of 100 1000 limit] by simp
  then have len: "length ids \<le> 1000" by (simp add: assms(2) retry_ids_def)
  have inv': "store_inv d'" using ungate.tx_inv [OF assms(1) sel TrueI] c by (metis snd_conv)
  have again: "j \<notin> set ids" if j: "j \<in> set (retry_ids lockedB nowB limitB d')" for j
  proof
    assume jm: "j \<in> set ids"
    then obtain r where r: "find_job j d = Some r"
      using ungate.selectedD [OF sel] unfolding assms(2) by blast
    then have "find_job j d' = Some (set_ungated r)" using rows jm by simp
    from selection_mem [OF inv' this j [unfolded retry_ids_def]] show False
      by (simp add: due_retry_def)
  qed
  have "find_job j d' = Some (if j \<in> set ids then set_ungated r else r) \<and>
       (j \<in> set ids \<longrightarrow> due_retry now r \<and> \<not> gated (set_ungated r) nowB)"
    if r: "find_job j d = Some r" for j r
    using rows r selection_mem [OF assms(1) r, of "clamp_limit 100 1000 limit" "\<lambda>r. the (NotBefore r)"
        "\<lambda>r. due_retry now r \<and> \<not> locked (JobID r)"]
    by (auto simp: gated_def assms(2) retry_ids_def)
  with c rows len again show ?thesis unfolding ClaimDueRetries_def assms(2) by auto
qed

definition demo_r1 :: db where
  \<comment> \<open>a job gated by its first failure\<close>
  "demo_r1 = snd (FailOrRetry demo_lib no_faults 1000 1000 7 12 ''boom'' demo_d4)"

lemma ClaimDueRetries_exact_witness:
  "\<exists>out d'. ClaimDueRetries demo_lib no_faults (\<lambda>_. False) (1000 + minute) 10 demo_r1 = (Inr out, d') \<and>
     map JobID out = [7] \<and> retry_ids (\<lambda>_. False) (1000 + 2 * minute) 10 d' \<noteq> [7]"
proof -
  have inv: "store_inv demo_r1" unfolding demo_r1_def by (rule FailOrRetry_inv [OF demo_inv(4)])
  have ids: "retry_ids (\<lambda>_. False) (1000 + minute) 10 demo_r1 = [7]" by code_simp
  from ClaimDueRetries_exact [OF inv refl, of demo_lib "\<lambda>_. False" "1000 + minute" 10
      "\<lambda>_. False" "1000 + 2 * minute" 10]
  show ?thesis
  proof (elim exE conjE, goal_cases)
    case (1 out d')
    have "retry_ids (\<lambda>_. False) (1000 + 2 * minute) 10 d' \<noteq> [7]"
      using 1(4) unfolding ids by force
    then show ?case using 1(1,2) ids by (intro exI [of _ out] exI [of _ d']) simp
  qed
qed

text \<open>Reclaiming dead workers' jobs: without a database fault the reaper's claim returns the
  running jobs it selected, all with a heartbeat older than the cut-off; each is pending
  again without worker and token, other jobs keep their row, and the dead worker's token no
  longer completes, fails or keeps alive the job.\<close>

theorem ClaimStaleRunning_exact:
  assumes "store_inv d" and "ids = stale_ids locked b limit d"
  shows "\<exists>out d'. ClaimStaleRunning lib no_faults locked dbnow b limit d = (Inr out, d') \<and>
    map JobID out = ids \<and>
    (\<forall>j r. find_job j d = Some r \<longrightarrow>
       find_job j d' = Some (if j \<in> set ids then set_reclaimed r else r) \<and>
       (j \<in> set ids \<longrightarrow> stale_running b r)) \<and>
    (\<forall>j t. j \<in> set ids \<longrightarrow>
       Complete no_faults n j t d' = (Inl ErrNotClaimable, d') \<and>
       FailOrRetry lib no_faults m n j t e d' = (Inl ErrNotClaimable, d') \<and>
       Heartbeat no_faults n j t d' = (Inl ErrNotClaimable, d'))"
proof -
  note sel = stale_ids_selected [OF assms(1), of locked b limit]
  from reclaim0.tx_returns [OF assms(1) sel TrueI] obtain out d' where
    c: "batch_tx no_faults (reclaim_one lib no_faults dbnow) (stale_ids locked b limit d) d = (Inr out, d')"
    by blast
  note rows = reclaim.tx_rows [OF assms(1) sel TrueI c, folded assms(2)]
  have inv': "store_inv d'" using reclaim.tx_inv [OF assms(1) sel TrueI] c by (metis snd_conv)
  have mem: "find_job j d' = Some (if j \<in> set ids then set_reclaimed r else r) \<and>
       (j \<in> set ids \<longrightarrow> stale_running b r)" if r: "find_job j d = Some r" for j r
    using rows r selection_mem [OF assms(1) r, of "clamp_limit 100 1000 limit" "\<lambda>r. the (HeartbeatAt r)"
        "\<lambda>r. stale_running b r \<and> \<not> locked (JobID r)"]
    by (auto simp: assms(2) stale_ids_def)
  have dis: "\<not> owned_running t r" if "j \<in> set ids" "find_job j d' = Some r" for j t r
  proof -
    have "\<exists>x. find_job j d = Some x"
      using reclaim.selectedD [OF sel that(1) [unfolded assms(2)]] by blast
    then obtain x where "find_job j d = Some x" ..
    with rows that have "r = set_reclaimed x" by auto
    then show ?thesis by (simp add: owned_running_def)
  qed
  have fence: "Complete no_faults n j t d' = (Inl ErrNotClaimable, d') \<and>
       FailOrRetry lib no_faults m n j t e d' = (Inl ErrNotClaimable, d') \<and>
       Heartbeat no_faults n j t d' = (Inl ErrNotClaimable, d')" if "j \<in> set ids" for j t
    using disowned_ops [OF inv' dis [OF that]] by simp
  show ?thesis
    by (rule exI [of _ out], rule exI [of _ d'], intro conjI allI impI)
      (use c mem fence rows in \<open>simp_all add: ClaimStaleRunning_def assms(2)\<close>)
qed

lemma ClaimStaleRunning_exact_witness:
  "\<exists>out d'. ClaimStaleRunning demo_lib no_faults (\<lambda>_. False) 900 800 10 demo_d2 = (Inr out, d') \<and>
     map JobID out = [7] \<and> Complete no_faults 950 7 11 d' = (Inl ErrNotClaimable, d')"
proof -
  have ids: "stale_ids (\<lambda>_. False) 800 10 demo_d2 = [7]" by code_simp
  from ClaimStaleRunning_exact [OF demo_inv(2) refl, of demo_lib "\<lambda>_. False" 900 800 10 950 0 "[]"]
  show ?thesis
  proof (elim exE conjE, goal_cases)
    case (1 out d')
    have "Complete no_faults 950 7 11 d' = (Inl ErrNotClaimable, d')"
      using 1(4) [rule_format, of 7 11] unfolding ids by simp
    then show ?case using 1(1,2) ids by (intro exI [of _ out] exI [of _ d']) simp
  qed
qed

subsection \<open>Retention\<close>

lemma length_filter_keys:
  assumes "distinct (map f rs)"
  shows "length (filter (\<lambda>r. f r \<in> set ks) rs) \<le> length ks"
proof -
  have "distinct (map f (filter (\<lambda>r. f r \<in> set ks) rs))" using assms by (simp add: distinct_map_filter)
  then have "length (filter (\<lambda>r. f r \<in> set ks) rs) = card (set (map f (filter (\<lambda>r. f r \<in> set ks) rs)))"
    by (metis distinct_card length_map)
  also have "\<dots> \<le> card (set ks)" by (rule card_mono) auto
  also have "\<dots> \<le> length ks" by (rule card_length)
  finally show ?thesis .
qed

lemma doomed_old: "x \<in> set (doomed b n d) \<Longrightarrow> \<exists>r \<in> set (jobs_tbl d). old_terminal b r \<and> x = (JobID r, CreatedAt r)"
  by (auto simp: doomed_def dest!: set_limit_to)



subsection \<open>Monthly partitions\<close>

lemma create_partition_mono: "set ps \<subseteq> set (create_partition p ps)"
  by (auto simp: create_partition_def)

lemma create_partition_has: "part_name p \<in> part_name ` set (create_partition p ps)"
  by (auto simp: create_partition_def)

lemma partition_loop_ok:
  "\<exists>ps'. partition_loop (\<lambda>_. False) m n ps = (True, ps') \<and> set ps \<subseteq> set ps' \<and>
    (\<forall>k < n. \<forall>t \<in> {''jobs'', ''job_events''}. part_name (month_part t (m + int k)) \<in> part_name ` set ps')"
proof (induction n arbitrary: m ps)
  case 0
  then show ?case by simp
next
  case (Suc n)
  let ?pj = "month_part ''jobs'' m"
  let ?pe = "month_part ''job_events'' m"
  let ?ps1 = "create_partition ?pe (create_partition ?pj ps)"
  from Suc [of "m + 1" ?ps1] obtain ps' where ps': "partition_loop (\<lambda>_. False) (m + 1) n ?ps1 = (True, ps')"
      "set ?ps1 \<subseteq> set ps'"
      "\<forall>k < n. \<forall>t \<in> {''jobs'', ''job_events''}. part_name (month_part t (m + 1 + int k)) \<in> part_name ` set ps'"
    by blast
  have sub: "set ps \<subseteq> set ?ps1" "set (create_partition ?pj ps) \<subseteq> set ?ps1"
    using create_partition_mono by blast+
  have now: "part_name (month_part t m) \<in> part_name ` set ps'" if "t \<in> {''jobs'', ''job_events''}" for t
    using that create_partition_has [of ?pj ps] create_partition_has [of ?pe "create_partition ?pj ps"]
      sub(2) ps'(2) by blast
  have "part_name (month_part t (m + int k)) \<in> part_name ` set ps'"
    if "k < Suc n" "t \<in> {''jobs'', ''job_events''}" for k t
  proof (cases k)
    case 0
    then show ?thesis using now [OF that(2)] by simp
  next
    case (Suc k')
    then show ?thesis using ps'(3) that by (auto simp: algebra_simps)
  qed
  then show ?case using ps'(1,2) sub(1) by (auto simp: Let_def)
qed

lemma partition_loop_again:
  "(\<forall>k < n. \<forall>t \<in> {''jobs'', ''job_events''}. part_name (month_part t (m + int k)) \<in> part_name ` set ps) \<Longrightarrow>
     partition_loop (\<lambda>_. False) m n ps = (True, ps)"
proof (induction n arbitrary: m)
  case (Suc n)
  have "part_name (month_part t m) \<in> part_name ` set ps" if "t \<in> {''jobs'', ''job_events''}" for t
    using Suc.prems that by force
  moreover have "part_name (month_part t (m + 1 + int k)) \<in> part_name ` set ps"
    if "k < n" "t \<in> {''jobs'', ''job_events''}" for k t
    using Suc.prems [rule_format, of "Suc k" t] that by (simp add: algebra_simps)
  ultimately show ?case using Suc.IH [of "m + 1"] by (simp add: Let_def create_partition_def)
qed simp

text \<open>Partitions are there before they are needed: when no statement fails,
  \<open>EnsureMonthlyPartitions\<close> leaves partitions of both tables for the current month and the
  requested number of months ahead (clamped to 0 to 12), keeps the existing ones, changes
  nothing when run again, and each partition's upper bound is the next one's lower bound.\<close>

theorem EnsureMonthlyPartitions_covers:
  "\<exists>ps'. EnsureMonthlyPartitions (\<lambda>_. False) now ahead ps = (True, ps') \<and> set ps \<subseteq> set ps' \<and>
    (\<forall>k \<in> {0..max 0 (min 12 ahead)}. \<forall>t \<in> {''jobs'', ''job_events''}.
       part_name (month_part t (month_index (civil_year_month now) + k)) \<in> part_name ` set ps' \<and>
       part_to (month_part t (month_index (civil_year_month now) + k)) =
         part_from (month_part t (month_index (civil_year_month now) + k + 1))) \<and>
    EnsureMonthlyPartitions (\<lambda>_. False) now ahead ps' = (True, ps')"
proof -
  let ?m = "month_index (civil_year_month now)"
  let ?a = "max 0 (min 12 ahead)"
  have a: "(if ahead < 0 then 0 else if 12 < ahead then 12 else ahead) = ?a" by auto
  from partition_loop_ok [of ?m "nat ?a + 1" ps] obtain ps' where
    ps': "partition_loop (\<lambda>_. False) ?m (nat ?a + 1) ps = (True, ps')" "set ps \<subseteq> set ps'"
      "\<forall>k < nat ?a + 1. \<forall>t \<in> {''jobs'', ''job_events''}. part_name (month_part t (?m + int k)) \<in> part_name ` set ps'"
    by blast
  have "part_name (month_part t (?m + k)) \<in> part_name ` set ps'"
    if "k \<in> {0..?a}" "t \<in> {''jobs'', ''job_events''}" for k t
    using ps'(3) [rule_format, of "nat k" t] that by (simp add: nat_less_iff)
  then show ?thesis
    using ps'(1,2) partition_loop_again [OF ps'(3)]
    by (intro exI [of _ ps']) (auto simp: EnsureMonthlyPartitions_def a Let_def month_part_def)
qed

lemma EnsureMonthlyPartitions_covers_witness:
  "\<exists>ps'. EnsureMonthlyPartitions (\<lambda>_. False) 0 2 [] = (True, ps') \<and>
     part_name (month_part ''jobs'' (month_index (civil_year_month 0) + 1)) = ''jobs_p1970_02'' \<and>
     ''jobs_p1970_02'' \<in> part_name ` set ps'"
proof -
  have n: "part_name (month_part ''jobs'' (month_index (civil_year_month 0) + 1)) = ''jobs_p1970_02''"
    by code_simp
  from EnsureMonthlyPartitions_covers [of 0 2 "[]"] obtain ps' where
    "EnsureMonthlyPartitions (\<lambda>_. False) 0 2 [] = (True, ps')"
    "part_name (month_part ''jobs'' (month_index (civil_year_month 0) + 1)) \<in> part_name ` set ps'"
    by auto
  with n show ?thesis by (metis (no_types, lifting))
qed

end
