(* ===== verification/Http.thy ===== *)
theory Http
  imports Broker
begin

text \<open>
  The HTTP side shared by the API handlers: requests and responses, the bounded JSON
  decoding of \<open>internal/api/handlers/json.go\<close>, and the job store and Redis calls the
  handlers make, as steps on the \<open>world\<close> of theory \<open>World\<close>. A request carries what a
  handler reads of it: \<open>rq_User\<close> is the identity in its context, \<open>rq_Header\<close> and
  \<open>rq_Query\<close> are the lookups \<open>Header.Get\<close> and \<open>Query().Get\<close> (empty when absent). A JSON
  text is the tree \<open>raw\<close>, in which a number keeps its literal and an object its keys in
  order with duplicates; the scanner that builds it is a parameter (\<open>json_Scan\<close>, whose flag
  says that the bytes end where the body ends).
\<close>

subsection \<open>Requests and responses\<close>

record request =
  rq_Method :: string
  rq_Path :: string
  rq_Header :: "string \<Rightarrow> string"
  rq_Query :: "string \<Rightarrow> string"
  rq_ContentLength :: int
  rq_Body :: string
  rq_RemoteAddr :: string
  rq_User :: "uuid option"

record response =
  rs_Code :: int
  rs_Headers :: "(string \<times> string) list"
  rs_Body :: json

definition writeJSON :: "int \<Rightarrow> (string \<times> json) list \<Rightarrow> response" where
  "writeJSON code v =
     \<lparr>rs_Code = code, rs_Headers = [(''Content-Type'', ''application/json'')], rs_Body = JObj v\<rparr>"

definition err_response :: "int \<Rightarrow> string \<Rightarrow> response" where
  "err_response code msg = writeJSON code [(''error'', JStr msg)]"

definition allow_header :: "string \<Rightarrow> response \<Rightarrow> response" where
  "allow_header methods r = r\<lparr>rs_Headers := (''Allow'', methods) # rs_Headers r\<rparr>"

definition method_not_allowed :: "string \<Rightarrow> response" where
  "method_not_allowed methods = allow_header methods (err_response 405 ''method not allowed'')"

definition JInt :: "int \<Rightarrow> json" where "JInt n = JNum (of_int n)"

lemma response_simps [simp]:
  "rs_Code (writeJSON c v) = c" "rs_Body (writeJSON c v) = JObj v"
  "rs_Code (err_response c m) = c" "rs_Code (method_not_allowed m) = 405"
  "rs_Code (allow_header m r) = rs_Code r"
  by (simp_all add: writeJSON_def err_response_def method_not_allowed_def allow_header_def)

subsection \<open>JSON bodies\<close>

datatype raw =
    RNull | RBool bool | RNum string | RStr string | RArr "raw list"
  | RObj "(string \<times> raw) list"

datatype scan = ScanValue raw | ScanSyntax | ScanMore

record apilib =
  json_Scan :: "string \<Rightarrow> bool \<Rightarrow> scan"
  ParseFloat :: "string \<Rightarrow> rat option"
  time_Format :: "instant \<Rightarrow> string"
  decode_text :: string \<comment> \<open>the JSON decoder's error text\<close>
  cron_text :: "cron_err \<Rightarrow> string" \<comment> \<open>error texts of \<open>internal/cronx\<close>\<close>
  redis_text :: "redis_err \<Rightarrow> string" \<comment> \<open>error texts of \<open>internal/broker\<close>\<close>

datatype decode_err = BodyTooLarge | BadJSON

definition MaxSmallBodyBytes :: int where "MaxSmallBodyBytes = 64 * 1024"

definition read_json :: "apilib \<Rightarrow> int \<Rightarrow> request \<Rightarrow> decode_err + raw" where
  \<comment> \<open>the size checks and \<open>Decode\<close> over \<open>http.MaxBytesReader\<close>: the reader fails past the cap\<close>
  "read_json al maxBytes rq =
     (let fits = (int (length (rq_Body rq)) \<le> maxBytes) in
      if maxBytes < rq_ContentLength rq then Inl BodyTooLarge
      else case json_Scan al (take (nat maxBytes) (rq_Body rq)) fits of
        ScanValue v \<Rightarrow> Inr v
      | ScanSyntax \<Rightarrow> Inl BadJSON
      | ScanMore \<Rightarrow> Inl (if fits then BadJSON else BodyTooLarge))"

definition char_is :: "char \<Rightarrow> nat \<Rightarrow> bool" where "char_is c n \<longleftrightarrow> of_char c = n"

fun fold_name :: "string \<Rightarrow> string" where
  \<comment> \<open>case folding of member names, with the two non-ASCII letters that fold to ASCII:
     U+017F to s and U+212A to k\<close>
  "fold_name [] = []"
| "fold_name (c # r) =
     (case r of
        [] \<Rightarrow> [lower_char c]
      | d # r1 \<Rightarrow>
          if char_is c 197 \<and> char_is d 191 then CHR ''s'' # fold_name r1
          else (case r1 of
                  e # r2 \<Rightarrow>
                    if char_is c 226 \<and> char_is d 132 \<and> char_is e 170 then CHR ''k'' # fold_name r2
                    else lower_char c # fold_name r
                | [] \<Rightarrow> lower_char c # fold_name r))"

definition same_name :: "string \<Rightarrow> string \<Rightarrow> bool" where
  "same_name key name \<longleftrightarrow> fold_name key = fold_name name"

fun struct_set :: "string list \<Rightarrow> (string \<times> raw) list \<Rightarrow> (string \<times> string) list \<Rightarrow>
    decode_err + (string \<times> string) list" where
  \<comment> \<open>members into a struct of string fields; unknown members are errors\<close>
  "struct_set names [] acc = Inr acc"
| "struct_set names ((k, v) # kvs) acc =
     (case List.find (same_name k) names of
        None \<Rightarrow> Inl BadJSON
      | Some f \<Rightarrow>
          (case v of
             RStr s \<Rightarrow> struct_set names kvs (AList.update f s acc)
           | RNull \<Rightarrow> struct_set names kvs acc
           | _ \<Rightarrow> Inl BadJSON))"

definition decodeBoundedJSON ::
  "apilib \<Rightarrow> int \<Rightarrow> string list \<Rightarrow> request \<Rightarrow> decode_err + (string \<times> string) list" where
  "decodeBoundedJSON al maxBytes names rq =
     (case read_json al maxBytes rq of
        Inl e \<Rightarrow> Inl e
      | Inr (RObj kvs) \<Rightarrow> struct_set names kvs (map (\<lambda>f. (f, [])) names)
      | Inr RNull \<Rightarrow> Inr (map (\<lambda>f. (f, [])) names)
      | Inr _ \<Rightarrow> Inl BadJSON)"

definition decodeJSON :: "apilib \<Rightarrow> string list \<Rightarrow> request \<Rightarrow> decode_err + (string \<times> string) list" where
  "decodeJSON al names rq = decodeBoundedJSON al MaxSmallBodyBytes names rq"

definition str_of :: "(string \<times> string) list \<Rightarrow> string \<Rightarrow> string" where
  "str_of fs k = (case map_of fs k of Some s \<Rightarrow> s | None \<Rightarrow> [])"

definition writeDecodeError :: "apilib \<Rightarrow> decode_err \<Rightarrow> response" where
  "writeDecodeError al e =
     (case e of
        BodyTooLarge \<Rightarrow> err_response 413 ''request body too large''
      | BadJSON \<Rightarrow> err_response 400 (''invalid request: '' @ decode_text al))"

lemma writeDecodeError_code [simp]: "rs_Code (writeDecodeError al e) = (if e = BodyTooLarge then 413 else 400)"
  by (simp add: writeDecodeError_def split: decode_err.split)

subsection \<open>Values of type \<open>any\<close>\<close>

definition put_member :: "(string \<times> json) \<Rightarrow> (string \<times> json) list \<Rightarrow> (string \<times> json) list" where
  "put_member kv m = AList.update (fst kv) (snd kv) m"

fun any_of :: "apilib \<Rightarrow> raw \<Rightarrow> json option" where
  \<comment> \<open>decoding into an empty interface; \<open>None\<close> when a number is out of range\<close>
  "any_of al RNull = Some JNull"
| "any_of al (RBool b) = Some (JBool b)"
| "any_of al (RNum lit) = map_option JNum (ParseFloat al lit)"
| "any_of al (RStr s) = Some (JStr s)"
| "any_of al (RArr vs) = map_option JArr (those (map (any_of al) vs))"
| "any_of al (RObj kvs) =
     map_option (\<lambda>ms. JObj (fold put_member ms []))
       (those (map (\<lambda>kv. map_option (Pair (fst kv)) (any_of al (snd kv))) kvs))"

subsection \<open>Calls of the handlers\<close>

definition pg_CreateJob :: "env \<Rightarrow> Job \<Rightarrow> world \<Rightarrow> Job result \<times> world" where
  "pg_CreateJob env inp w =
     (let t = w_trace w in
      db_do OpCreate
        (CreateJob (e_lib env) (e_flt env t) (e_uuid env t) (e_now env t) (e_dbnow env t) inp) w)"

definition pg_GetJobByID :: "env \<Rightarrow> uuid \<Rightarrow> uuid \<Rightarrow> world \<Rightarrow> Job result \<times> world" where
  "pg_GetJobByID env j user w =
     (let t = w_trace w in
      db_do (OpGet j) (\<lambda>d. (GetJobByID (e_lib env) (e_flt env t) j [user] d, d)) w)"

definition pg_GetJobEvents :: "env \<Rightarrow> uuid \<Rightarrow> world \<Rightarrow> JobEvent list result \<times> world" where
  "pg_GetJobEvents env j w =
     (let t = w_trace w in
      db_do (OpEvents j) (\<lambda>d. (GetJobEvents (e_flt env t) j (e_replica env t d), d)) w)"

definition pg_CancelJob :: "env \<Rightarrow> uuid \<Rightarrow> world \<Rightarrow> Job result \<times> world" where
  "pg_CancelJob env j w =
     (let t = w_trace w in
      db_do (OpCancel j) (CancelJob (e_lib env) (e_flt env t) (e_dbnow env t) j) w)"

definition pg_CancelSeries :: "env \<Rightarrow> uuid \<Rightarrow> uuid \<Rightarrow> world \<Rightarrow> int result \<times> world" where
  "pg_CancelSeries env s user w =
     (let t = w_trace w in
      db_do (OpCancelSeries s) (CancelSeries (e_flt env t) (e_locked env t) (e_dbnow env t) s [user]) w)"

definition pg_RecordRetryKey :: "env \<Rightarrow> string \<Rightarrow> uuid \<Rightarrow> world \<Rightarrow> bool result \<times> world" where
  "pg_RecordRetryKey env k j w =
     (let t = w_trace w in db_do (OpRetryKey k j) (RecordRetryKey (e_flt env t) k j) w)"

definition pg_RetryJob :: "env \<Rightarrow> uuid \<Rightarrow> world \<Rightarrow> Job result \<times> world" where
  "pg_RetryJob env j w =
     (let t = w_trace w in
      db_do (OpRetryJob j) (RetryJob (e_lib env) (e_flt env t) (e_dbnow env t) j) w)"

definition pg_ListJobs :: "env \<Rightarrow> string \<Rightarrow> int \<Rightarrow> int \<Rightarrow> uuid \<Rightarrow> world \<Rightarrow> Job list result \<times> world" where
  "pg_ListJobs env st limit offset user w =
     (let t = w_trace w in
      db_do OpList (\<lambda>d. (ListJobs (e_lib env) (e_flt env t) st limit offset [user] (e_replica env t d), d)) w)"

definition pg_ListSeriesJobs ::
  "env \<Rightarrow> uuid \<Rightarrow> string \<Rightarrow> int \<Rightarrow> int \<Rightarrow> uuid \<Rightarrow> world \<Rightarrow> Job list result \<times> world" where
  "pg_ListSeriesJobs env s st limit offset user w =
     (let t = w_trace w in
      db_do (OpListSeries s)
        (\<lambda>d. (ListSeriesJobs (e_lib env) (e_flt env t) s st limit offset [user] (e_replica env t d), d)) w)"

definition pg_JobStats :: "env \<Rightarrow> uuid \<Rightarrow> world \<Rightarrow> Stats result \<times> world" where
  "pg_JobStats env user w =
     (let t = w_trace w in db_do OpStats (\<lambda>d. (JobStats (e_flt env t) [user] (e_replica env t d), d)) w)"

definition pg_OldestPendingAgeSec :: "env \<Rightarrow> uuid \<Rightarrow> world \<Rightarrow> int result \<times> world" where
  "pg_OldestPendingAgeSec env user w =
     (let t = w_trace w in
      db_do OpAge
        (\<lambda>d. (OldestPendingAgeSec (e_flt env t) (e_dbnow env t) [user] (e_replica env t d), d)) w)"

lemmas pg_api_defs = pg_CreateJob_def pg_GetJobByID_def pg_GetJobEvents_def pg_CancelJob_def
  pg_CancelSeries_def pg_RecordRetryKey_def pg_RetryJob_def pg_ListJobs_def pg_ListSeriesJobs_def
  pg_JobStats_def pg_OldestPendingAgeSec_def

end
