(* ===== verification/Jobs_Contract.thy ===== *)
theory Jobs_Contract
  imports Jobs_Props
begin

text \<open>
  What the callers of the job store rely on: idempotent
  creation, retry keys, tenant isolation, series cancellation and the statistics.
\<close>

subsection \<open>Idempotent creation\<close>

lemma CreateJob_created:
  assumes "CreateJob lib flt newid now dbnow inp d = (Inr job, d1)" and "initial_job inp"
    and "fresh_id newid d"
  shows "JobID job = newid \<and>
    find_job newid d1 = Some (created_row lib (create_defaults newid now inp))"
proof -
  let ?inp = "create_defaults newid now inp"
  have id: "JobID ?inp = newid" using assms(2) by (simp add: create_defaults_def initial_job_def)
  have none: "find_job newid d = None"
    using assms(3) by (auto simp: fresh_id_def find_job_def find_None_iff)
  have "find_job i (claim_key k i' x) = find_job i x" for i k i' x
    by (simp add: claim_key_def find_job_def)
  then have "find_job newid d1 = Some (created_row lib ?inp) \<and> job = created_job lib ?inp"
    using assms(1) none id
    by (auto simp: CreateJob_def Let_def commit_tx_def find_job_insert split: if_splits option.splits)
  then show ?thesis using id by (simp add: created_job_def)
qed

text \<open>C19. Creation is idempotent per key: after a job was created under a non-empty idempotency
  key, and after any further operations, as long as that job is still stored a second
  \<open>CreateJob\<close> under the same key answers \<open>ErrJobExists\<close> and changes nothing, and the stored
  job is the only one with that key.\<close>

theorem create_idempotent:
  assumes "reachable lib (d, U)" and "initial_job inp" and "fresh_id i d"
    and "IdempotencyKey inp = Some k" and "k \<noteq> []"
    and "CreateJob lib flt i now dbnow inp d = (Inr job, d1)"
    and "store_steps lib (d1, U) (d', U')" and "find_job i d' = Some r"
    and "initial_job inp2" and "fresh_id i2 d'" and "IdempotencyKey inp2 = Some k"
  shows "CreateJob lib no_faults i2 now2 dbnow2 inp2 d' = (Inl ErrJobExists, d') \<and>
    (\<forall>r2 \<in> set (jobs_tbl d'). IdempotencyKey r2 = Some k \<longrightarrow> r2 = r)"
proof -
  have inv: "store_inv d" by (rule reachable_facts(1) [OF assms(1)])
  have inv1: "store_inv d1" using CreateJob_inv [OF inv assms(2,3), of lib flt now dbnow] assms(6) by simp
  then have inv': "store_inv d'" using store_steps_evolves [OF assms(7)] by simp
  have "row_evolves (U' - U) (created_row lib (create_defaults i now inp)) r"
    using steps_row [OF inv1 assms(7) _ assms(8)] CreateJob_created [OF assms(6,2,3)] by simp
  then have "IdempotencyKey r = Some k"
    using assms(4) by (simp add: row_evolves_def same_job_def create_defaults_def)
  then have key: "map_of (idem_tbl d') k = Some i"
    using inv' find_jobD [OF assms(8)] assms(5) by (auto simp: store_inv_def job_inv_def)
  have ne: "i2 \<noteq> i" using assms(10) find_jobD [OF assms(8)] by (auto simp: fresh_id_def)
  let ?inp = "create_defaults i2 now2 inp2"
  have new: "JobID ?inp = i2" "IdempotencyKey ?inp = Some k" "Status ?inp \<in> set db_statuses"
    using assms(9,11) by (auto simp: create_defaults_def initial_job_def db_statuses_def)
  have "\<not> pk_conflict (created_row lib ?inp) d'"
    using assms(10) new(1) by (auto simp: pk_conflict_def fresh_id_def)
  moreover have "idem_tbl (claim_key k i2 (insert_job x d')) = idem_tbl d'" for x
    using key by (simp add: claim_key_def)
  ultimately have "CreateJob lib no_faults i2 now2 dbnow2 inp2 d' = (Inl ErrJobExists, d')"
    using new key ne assms(5) by (simp add: CreateJob_def Let_def no_faults_def)
  moreover have "r2 = r" if "r2 \<in> set (jobs_tbl d')" "IdempotencyKey r2 = Some k" for r2
  proof -
    have "map_of (idem_tbl d') k = Some (JobID r2)"
      using inv' that assms(5) by (auto simp: store_inv_def job_inv_def)
    then have "JobID r2 = i" using key by simp
    then show ?thesis using find_job_unique [OF inv' assms(8) that(1)] by simp
  qed
  ultimately show ?thesis by blast
qed

lemma create_idempotent_witness:
  "CreateJob demo_lib no_faults 8 5000 5000 demo_inp demo_d1 = (Inl ErrJobExists, demo_d1)"
proof -
  have i: "initial_job demo_inp" "IdempotencyKey demo_inp = Some ''k1''"
    by (simp_all add: initial_job_def demo_inp_def zero_job_def zero_row_def zero_runtime_def
        job_row.defs Job.defs is_int16_def)
  have e: "reachable demo_lib (empty_db, {})" by (simp add: reachable_def store_steps_def)
  have fr: "fresh_id 7 empty_db" by (simp add: fresh_id_def empty_db_def)
  have "\<exists>job. CreateJob demo_lib no_faults 7 100 100 demo_inp empty_db = (Inr job, demo_d1)"
  proof -
    have "isl (fst (CreateJob demo_lib no_faults 7 100 100 demo_inp empty_db)) = False" by code_simp
    then show ?thesis
      by (cases "fst (CreateJob demo_lib no_faults 7 100 100 demo_inp empty_db)")
        (auto simp: demo_d1_def prod_eq_iff)
  qed
  then obtain job where c: "CreateJob demo_lib no_faults 7 100 100 demo_inp empty_db = (Inr job, demo_d1)" ..
  have f: "find_job 7 demo_d1 = Some (hd (jobs_tbl demo_d1))" by code_simp
  have fr2: "fresh_id 8 demo_d1" unfolding fresh_id_def by code_simp
  have "store_steps demo_lib (demo_d1, {}) (demo_d1, {})" by (simp add: store_steps_def)
  from create_idempotent [OF e i(1) fr i(2) _ c this f i(1) fr2 i(2)] show ?thesis by simp
qed

text \<open>Retry keys: the first use of a key is recorded for its job and reported as new, a
  replay for the same job is reported as a replay, the same key for another job is a
  conflict, the empty key is never recorded, and none of the replays changes the database.\<close>

theorem retry_key_semantics:
  assumes "k \<noteq> []" and "map_of (retry_tbl d) k = None"
  shows "\<exists>d1. RecordRetryKey no_faults k j d = (Inr False, d1) \<and>
    RecordRetryKey no_faults k j d1 = (Inr True, d1) \<and>
    (\<forall>j2. j2 \<noteq> j \<longrightarrow> RecordRetryKey no_faults k j2 d1 = (Inl ErrRetryKeyConflict, d1)) \<and>
    RecordRetryKey flt [] j d = (Inr False, d)"
  using assms by (simp add: RecordRetryKey_def no_faults_def)

lemma retry_key_semantics_witness:
  "\<exists>d1. RecordRetryKey no_faults ''r'' 7 demo_d1 = (Inr False, d1) \<and>
     RecordRetryKey no_faults ''r'' 7 d1 = (Inr True, d1)"
proof -
  have "map_of (retry_tbl demo_d1) ''r'' = None" by code_simp
  from retry_key_semantics [OF _ this, of 7] show ?thesis by blast
qed

subsection \<open>Series cancellation and tenants\<close>

lemma cancel_loop_rows:
  "live_targets cs d \<Longrightarrow> cancel_loop flt dbnow cs d n = Inr (m, d') \<Longrightarrow>
     find_job j d' = (if j \<in> fst ` set cs then map_option (set_cancelled dbnow) (find_job j d)
                      else find_job j d)"
proof (induction cs arbitrary: d n)
  case Nil
  then show ?case by simp
next
  case (Cons c cs)
  obtain i st where c: "c = (i, st)" by (cases c)
  let ?e = "insertEvent i st JobCancelled dbnow
              (upd_job i (\<lambda>r. cancellable (Status r)) (set_cancelled dbnow) d)"
  from Cons.prems(1) obtain r where r: "find_job i d = Some r" "Status r = st" "cancellable st"
      "\<exists>r \<in> set (jobs_tbl d). JobID r = i \<and> cancellable (Status r)"
    unfolding c by (rule live_target_hd)
  have "live_targets cs ?e" using Cons.prems(1) unfolding c by (rule live_targets_step)
  moreover have "cancel_loop flt dbnow cs ?e (n + 1) = Inr (m, d')"
    using Cons.prems(2) r(4) by (simp add: c Let_def split: if_splits)
  moreover have "i \<notin> fst ` set cs" using Cons.prems(1) by (auto simp: c live_targets_def)
  ultimately show ?case using Cons.IH r by (auto simp: c find_job_upd)
qed

lemma cancel_loop_returns:
  "live_targets cs d \<Longrightarrow> \<exists>m d'. cancel_loop no_faults dbnow cs d n = Inr (m, d')"
proof (induction cs arbitrary: d n)
  case Nil
  then show ?case by simp
next
  case (Cons c cs)
  obtain i st where c: "c = (i, st)" by (cases c)
  from Cons.prems obtain r where r: "find_job i d = Some r" "Status r = st" "cancellable st"
      "\<exists>r \<in> set (jobs_tbl d). JobID r = i \<and> cancellable (Status r)"
    unfolding c by (rule live_target_hd)
  have "live_targets cs (insertEvent i st JobCancelled dbnow
              (upd_job i (\<lambda>r. cancellable (Status r)) (set_cancelled dbnow) d))"
    using Cons.prems unfolding c by (rule live_targets_step)
  from Cons.IH [OF this, of "n + 1"] r(4) show ?case by (simp add: c no_faults_def Let_def)
qed

definition series_member :: "uuid \<Rightarrow> uuid option \<Rightarrow> job_row \<Rightarrow> bool" where
  "series_member s owner r \<longleftrightarrow>
     SeriesID r = Some s \<and> cancellable (Status r) \<and> owner_ok owner r"

lemma series_targets_mem:
  assumes "store_inv d" and "find_job j d = Some r"
  shows "j \<in> JobID ` set (series_targets locked s owner d) \<longleftrightarrow>
    series_member s owner r \<and> \<not> locked j"
proof -
  have r: "r \<in> set (jobs_tbl d)" "JobID r = j" using find_jobD [OF assms(2)] by simp_all
  have "x = r" if "x \<in> set (jobs_tbl d)" "JobID x = j" for x
    using find_job_unique [OF assms that] .
  with r have one: "{x \<in> set (jobs_tbl d). JobID x = j} = {r}" by blast
  have "JobID ` set (series_targets locked s owner d) =
      JobID ` {x \<in> set (jobs_tbl d). series_member s owner x \<and> \<not> locked (JobID x)}"
    by (simp add: series_targets_def series_member_def conj_assoc)
  moreover have "j \<in> JobID ` {x \<in> set (jobs_tbl d). series_member s owner x \<and> \<not> locked (JobID x)} \<longleftrightarrow>
      (\<exists>x \<in> {x \<in> set (jobs_tbl d). JobID x = j}. series_member s owner x \<and> \<not> locked j)"
    by blast
  ultimately show ?thesis by (simp only: one) simp
qed

lemma CancelSeries_rows:
  assumes "store_inv d" and "CancelSeries flt locked t s owner d = (Inr n, d')"
    and "find_job j d = Some r"
  shows "find_job j d' =
    Some (if series_member s (nullableOwner owner) r \<and> \<not> locked j then set_cancelled t r else r)"
proof -
  let ?ts = "series_targets locked s (nullableOwner owner) d"
  have "fst ` set (map (\<lambda>r. (JobID r, Status r)) ?ts) = JobID ` set ?ts" by force
  then show ?thesis
    using assms(2,3) series_targets_mem [OF assms(1,3), of locked s "nullableOwner owner"]
      cancel_loop_rows [OF CancelSeries_targets_live [OF assms(1)], of flt t locked s
        "nullableOwner owner" 0 n d' j]
    by (auto simp: CancelSeries_def commit_tx_def Let_def split: if_splits sum.splits)
qed

text \<open>Cancelling a series: with no database fault and no row locked by another session it
  returns the number of the series' jobs that were scheduled, pending or queued (and the
  caller's, when it is scoped to an owner), exactly these are cancelled, and every other job
  is left as it was, running ones included.\<close>

theorem CancelSeries_exact:
  assumes "store_inv d"
  shows "\<exists>d'. CancelSeries no_faults (\<lambda>_. False) t s owner d =
      (Inr (int (length (filter (series_member s (nullableOwner owner)) (jobs_tbl d)))), d') \<and>
    (\<forall>j r. find_job j d = Some r \<longrightarrow>
       find_job j d' = Some (if series_member s (nullableOwner owner) r then set_cancelled t r else r))"
proof -
  let ?ts = "map (\<lambda>r. (JobID r, Status r)) (series_targets (\<lambda>_. False) s (nullableOwner owner) d)"
  note live = CancelSeries_targets_live [OF assms, of "\<lambda>_. False" s "nullableOwner owner"]
  from cancel_loop_returns [OF live, of t 0] obtain m d' where
      run: "cancel_loop no_faults t ?ts d 0 = Inr (m, d')" by blast
  have "mset (series_targets (\<lambda>_. False) s (nullableOwner owner) d) =
      mset (filter (series_member s (nullableOwner owner)) (jobs_tbl d))"
    by (simp add: series_targets_def mset_order_by_null series_member_def [abs_def] mset_filter)
  then have "length ?ts = length (filter (series_member s (nullableOwner owner)) (jobs_tbl d))"
    by (simp add: mset_eq_length)
  with cancel_loop_inv [OF assms live run] run
  have "CancelSeries no_faults (\<lambda>_. False) t s owner d =
      (Inr (int (length (filter (series_member s (nullableOwner owner)) (jobs_tbl d)))), d')"
    by (simp add: CancelSeries_def commit_tx_def no_faults_def)
  with CancelSeries_rows [OF assms this] show ?thesis by auto
qed

lemma CancelSeries_exact_witness:
  "\<exists>d'. CancelSeries no_faults (\<lambda>_. False) 500 3 [] demo_d1 = (Inr 0, d')"
proof -
  have "filter (series_member 3 (nullableOwner [])) (jobs_tbl demo_d1) = []" by code_simp
  with CancelSeries_exact [OF demo_inv(1), of 500 3 "[]"] show ?thesis by auto
qed

lemma CancelSeries_foreign:
  assumes "store_inv d" and "u \<noteq> uuid_Nil" and "find_job i d = Some r" and "OwnerUserID r \<noteq> Some u"
  shows "find_job i (snd (CancelSeries flt locked t s [u] d)) = Some r"
proof -
  have own: "nullableOwner [u] = Some u" using assms(2) by (simp add: nullableOwner_def)
  have foreign: "\<not> series_member s (Some u) r" using assms(4) by (simp add: series_member_def owner_ok_def)
  let ?ts = "map (\<lambda>r. (JobID r, Status r)) (series_targets locked s (Some u) d)"
  have "i \<notin> JobID ` set (series_targets locked s (Some u) d)"
    using series_targets_mem [OF assms(1,3), of locked s "Some u"] foreign by simp
  then have "find_job i d1 = Some r" if "cancel_loop flt t ?ts d 0 = Inr (m, d1)" for m d1
    using cancel_loop_rows [OF CancelSeries_targets_live [OF assms(1)] that, of i] assms(3) by force
  then show ?thesis using assms(3)
    by (auto simp: CancelSeries_def own commit_tx_def Let_def split: sum.split)
qed

lemma page_mem: "x \<in> set (page n off xs) \<Longrightarrow> x \<in> set xs"
  by (auto simp: page_def dest!: set_limit_to in_set_dropD)

text \<open>C24. Tenant isolation of the store: an operation scoped to a user returns only that user's
  jobs, and a series cancelled by a user leaves every job of another user, or of none,
  unchanged, whatever faults and locks.\<close>

theorem tenant_isolation:
  assumes "store_inv d" and "u \<noteq> uuid_Nil"
  shows "(\<forall>job. GetJobByID lib flt j [u] d = Inr job \<longrightarrow> OwnerUserID job = Some u) \<and>
    (\<forall>jobs. ListJobs lib flt st n off [u] d = Inr jobs \<longrightarrow>
       (\<forall>job \<in> set jobs. OwnerUserID job = Some u)) \<and>
    (\<forall>jobs. ListSeriesJobs lib flt s st n off [u] d = Inr jobs \<longrightarrow>
       (\<forall>job \<in> set jobs. OwnerUserID job = Some u)) \<and>
    (\<forall>i r. find_job i d = Some r \<and> OwnerUserID r \<noteq> Some u \<longrightarrow>
       find_job i (snd (CancelSeries flt locked t s [u] d)) = Some r)"
proof -
  have own: "nullableOwner [u] = Some u" using assms(2) by (simp add: nullableOwner_def)
  show ?thesis
    using CancelSeries_foreign [OF assms]
    by (auto simp: GetJobByID_def ListJobs_def ListSeriesJobs_def own owner_ok_def
        split: if_splits option.splits dest!: find_SomeD page_mem)
qed

lemma tenant_isolation_witness:
  "\<exists>jobs. ListJobs demo_lib no_faults [] 10 0 [9] demo_d1 = Inr jobs \<and> OwnerUserID ` set jobs \<subseteq> {Some 9}"
proof -
  have "isl (ListJobs demo_lib no_faults [] 10 0 [9] demo_d1) = False"
    by (simp add: ListJobs_def no_faults_def bad_status_def)
  then obtain jobs where jobs: "ListJobs demo_lib no_faults [] 10 0 [9] demo_d1 = Inr jobs"
    by (cases "ListJobs demo_lib no_faults [] 10 0 [9] demo_d1") auto
  moreover have "\<forall>job \<in> set jobs. OwnerUserID job = Some 9"
    using tenant_isolation [OF demo_inv(1), of 9 demo_lib no_faults] jobs by auto
  ultimately show ?thesis by auto
qed

subsection \<open>Statistics\<close>

lemma fold_store_count:
  "fold store_count (map (\<lambda>s. (s, f s)) ss) z =
     \<lparr>n_scheduled = (if JobScheduled \<in> set ss then f JobScheduled else n_scheduled z),
      n_pending = (if JobPending \<in> set ss then f JobPending else n_pending z),
      n_queued = (if JobQueued \<in> set ss then f JobQueued else n_queued z),
      n_running = (if JobRunning \<in> set ss then f JobRunning else n_running z),
      n_completed = (if JobCompleted \<in> set ss then f JobCompleted else n_completed z),
      n_failed = (if JobFailed \<in> set ss then f JobFailed else n_failed z),
      n_cancelled = (if JobCancelled \<in> set ss then f JobCancelled else n_cancelled z)\<rparr>"
proof (induction ss arbitrary: z)
  case (Cons s ss)
  show ?case by (cases s) (simp_all add: Cons.IH)
qed simp

lemma count_status_present:
  "(if s \<in> Status ` set rs then count_status s rs else 0) = count_status s rs"
  by (auto simp: count_status_def filter_empty_conv)

definition stats_total :: "Stats \<Rightarrow> int" where
  "stats_total s = n_scheduled s + n_pending s + n_queued s + n_running s + n_completed s +
     n_failed s + n_cancelled s"

lemma count_status_total:
  "\<forall>r \<in> set rs. Status r \<in> set db_statuses \<Longrightarrow>
     count_status JobScheduled rs + count_status JobPending rs + count_status JobQueued rs +
     count_status JobRunning rs + count_status JobCompleted rs + count_status JobFailed rs +
     count_status JobCancelled rs = int (length rs)"
proof (induction rs)
  case (Cons r rs)
  then show ?case by (cases "Status r") (simp_all add: count_status_def db_statuses_def)
qed (simp add: count_status_def)

text \<open>The statistics are exact: each count of \<open>JobStats\<close> is the number of the caller's
  visible jobs in that status, zero included, and in a database that satisfies the invariant
  the seven counts add up to the number of visible jobs.\<close>

theorem JobStats_exact:
  assumes "store_inv d" and "vis = filter (owner_ok (nullableOwner owner)) (jobs_tbl d)"
  shows "\<exists>s. JobStats no_faults owner d = Inr s \<and>
    n_scheduled s = count_status JobScheduled vis \<and> n_pending s = count_status JobPending vis \<and>
    n_queued s = count_status JobQueued vis \<and> n_running s = count_status JobRunning vis \<and>
    n_completed s = count_status JobCompleted vis \<and> n_failed s = count_status JobFailed vis \<and>
    n_cancelled s = count_status JobCancelled vis \<and> stats_total s = int (length vis)"
proof -
  have "\<forall>r \<in> set vis. Status r \<in> set db_statuses"
    using assms by (auto simp: store_inv_def job_inv_def row_inv_def)
  note total = count_status_total [OF this]
  have "JobStats no_faults owner d = Inr (fold store_count (status_groups vis) zero_stats)"
    by (simp add: JobStats_def no_faults_def assms(2))
  also have "fold store_count (status_groups vis) zero_stats =
     \<lparr>n_scheduled = count_status JobScheduled vis, n_pending = count_status JobPending vis,
      n_queued = count_status JobQueued vis, n_running = count_status JobRunning vis,
      n_completed = count_status JobCompleted vis, n_failed = count_status JobFailed vis,
      n_cancelled = count_status JobCancelled vis\<rparr>"
    unfolding status_groups_def fold_store_count zero_stats_def Stats.simps set_remdups set_map
      count_status_present ..
  finally show ?thesis using total by (simp add: stats_total_def)
qed

lemma JobStats_exact_witness:
  "\<exists>s. JobStats no_faults [] demo_d4 = Inr s \<and> n_running s = 1 \<and> stats_total s = 1"
proof -
  let ?vis = "filter (owner_ok (nullableOwner [])) (jobs_tbl demo_d4)"
  have "count_status JobRunning ?vis = 1" "int (length ?vis) = 1" by code_simp+
  with JobStats_exact [OF demo_inv(4) refl, of "[]"] show ?thesis by auto
qed

end
