(* ===== verification/Api_Enqueue.thy ===== *)
theory Api_Enqueue
  imports Http Jobs_Contract
begin

text \<open>
  \<open>POST /v1/jobs\<close>, \<open>internal/api/handlers/enqueue.go\<close>: the tolerant decoding of the body,
  the validation of a request into the job that is stored, and the handler with its
  database-first dual write. \<open>rds\<close> is \<open>None\<close> when Redis is not configured.
\<close>

subsection \<open>Decoding\<close>

definition allowedTypes :: "string list" where
  "allowedTypes = [''email'', ''file'', ''file_processing'', ''exec'', ''exec_processing'']"

definition MaxPayloadBytes :: int where "MaxPayloadBytes = 15 * 1024"
definition MaxEnqueueBodyBytes :: int where "MaxEnqueueBodyBytes = 256 * 1024"

record enqueueRequest =
  er_Type :: string
  er_QueueName :: string
  er_Payload :: "(string \<times> json) list option"
  er_Priority :: int
  er_MaxRetry :: int
  er_IdempotencyKey :: string
  er_ScheduledAt :: string
  er_Cron :: string
  er_CronTZ :: string

definition zero_request :: enqueueRequest where
  "zero_request =
     \<lparr>er_Type = [], er_QueueName = [], er_Payload = None, er_Priority = 0, er_MaxRetry = 0,
      er_IdempotencyKey = [], er_ScheduledAt = [], er_Cron = [], er_CronTZ = []\<rparr>"

fun get_raw :: "(string \<times> raw) list \<Rightarrow> string list \<Rightarrow> raw option" where
  \<comment> \<open>the closure \<open>get\<close>: the first name that is present; of duplicate members the last\<close>
  "get_raw kvs [] = None"
| "get_raw kvs (k # ks) =
     (case map_of (rev kvs) k of Some v \<Rightarrow> Some v | None \<Rightarrow> get_raw kvs ks)"

definition um_string :: "raw \<Rightarrow> string \<Rightarrow> decode_err + string" where
  "um_string v old = (case v of RStr s \<Rightarrow> Inr s | RNull \<Rightarrow> Inr old | _ \<Rightarrow> Inl BadJSON)"

definition int16_literal :: "string \<Rightarrow> int option" where
  \<comment> \<open>\<open>strconv.ParseInt(lit, 10, 64)\<close> and the overflow check of a 16-bit field\<close>
  "int16_literal lit = (case Atoi lit of (n, ok) \<Rightarrow> if ok \<and> is_int16 n then Some n else None)"

definition um_int16 :: "raw \<Rightarrow> int \<Rightarrow> decode_err + int" where
  "um_int16 v old =
     (case v of
        RNum lit \<Rightarrow> (case int16_literal lit of Some n \<Rightarrow> Inr n | None \<Rightarrow> Inl BadJSON)
      | RNull \<Rightarrow> Inr old
      | _ \<Rightarrow> Inl BadJSON)"

definition um_map :: "apilib \<Rightarrow> raw \<Rightarrow> (string \<times> json) list option \<Rightarrow>
    decode_err + (string \<times> json) list option" where
  "um_map al v old =
     (case v of
        RObj _ \<Rightarrow> (case any_of al v of Some (JObj m) \<Rightarrow> Inr (Some m) | _ \<Rightarrow> Inl BadJSON)
      | RNull \<Rightarrow> Inr old
      | _ \<Rightarrow> Inl BadJSON)"

fun retry_members :: "(string \<times> raw) list \<Rightarrow> int option \<Rightarrow> decode_err + int option" where
  \<comment> \<open>the struct with the one field \<open>max_retries\<close>, a pointer\<close>
  "retry_members [] acc = Inr acc"
| "retry_members ((k, v) # kvs) acc =
     (if same_name k ''max_retries'' then
        (case v of
           RNum lit \<Rightarrow> (case int16_literal lit of
                          Some n \<Rightarrow> retry_members kvs (Some n) | None \<Rightarrow> Inl BadJSON)
         | RNull \<Rightarrow> retry_members kvs None
         | _ \<Rightarrow> Inl BadJSON)
      else retry_members kvs acc)"

definition retry_policy :: "raw \<Rightarrow> int option" where
  \<comment> \<open>errors of the nested policy are ignored\<close>
  "retry_policy v =
     (case v of RObj kvs \<Rightarrow> (case retry_members kvs None of Inr m \<Rightarrow> m | Inl _ \<Rightarrow> None) | _ \<Rightarrow> None)"

definition bind_dec :: "decode_err + 'a \<Rightarrow> ('a \<Rightarrow> decode_err + 'b) \<Rightarrow> decode_err + 'b" where
  "bind_dec m f = (case m of Inl e \<Rightarrow> Inl e | Inr x \<Rightarrow> f x)"

definition um_field ::
  "(string \<times> raw) list \<Rightarrow> string list \<Rightarrow> (raw \<Rightarrow> 'a \<Rightarrow> decode_err + 'a) \<Rightarrow> 'a \<Rightarrow> decode_err + 'a" where
  "um_field kvs keys um old = (case get_raw kvs keys of None \<Rightarrow> Inr old | Some v \<Rightarrow> um v old)"

definition um_max_retry :: "(string \<times> raw) list \<Rightarrow> decode_err + int" where
  "um_max_retry kvs =
     (case get_raw kvs [''max_retry''] of
        Some v \<Rightarrow> um_int16 v 0
      | None \<Rightarrow>
          (case get_raw kvs [''retry_policy''] of
             Some v \<Rightarrow> Inr (case retry_policy v of Some n \<Rightarrow> n | None \<Rightarrow> 0)
           | None \<Rightarrow> Inr 0))"

definition request_members :: "apilib \<Rightarrow> (string \<times> raw) list \<Rightarrow> decode_err + enqueueRequest" where
  "request_members al kvs =
     bind_dec (um_field kvs [''type''] um_string []) (\<lambda>ty.
     bind_dec (um_field kvs [''queue_name''] um_string []) (\<lambda>qn.
     bind_dec (um_field kvs [''payload''] (um_map al) None) (\<lambda>pl.
     bind_dec (um_field kvs [''priority''] um_int16 0) (\<lambda>pr.
     bind_dec (um_max_retry kvs) (\<lambda>mr.
     bind_dec (um_field kvs [''idempotency_key''] um_string []) (\<lambda>ik.
     bind_dec (um_field kvs [''scheduled_at'', ''schedule_at''] um_string []) (\<lambda>sa.
     bind_dec (um_field kvs [''cron'', ''cron_expr''] um_string []) (\<lambda>cr.
     bind_dec (um_field kvs [''cron_tz'', ''timezone''] um_string []) (\<lambda>tz.
       Inr \<lparr>er_Type = ty, er_QueueName = qn, er_Payload = pl, er_Priority = pr, er_MaxRetry = mr,
            er_IdempotencyKey = ik, er_ScheduledAt = sa, er_Cron = cr, er_CronTZ = tz\<rparr>)))))))))"

definition decodeEnqueueRequest :: "apilib \<Rightarrow> request \<Rightarrow> decode_err + enqueueRequest" where
  "decodeEnqueueRequest al rq =
     (case read_json al MaxEnqueueBodyBytes rq of
        Inl e \<Rightarrow> Inl e
      | Inr (RObj kvs) \<Rightarrow> request_members al kvs
      | Inr RNull \<Rightarrow> request_members al []
      | Inr _ \<Rightarrow> Inl BadJSON)"

subsection \<open>Validation\<close>

definition enqueue_job :: "enqueueRequest \<Rightarrow> (string \<times> json) list \<Rightarrow> uuid \<Rightarrow> Job" where
  \<comment> \<open>the \<open>task.Job\<close> before its schedule is set\<close>
  "enqueue_job req payload user =
     zero_job\<lparr>Type := er_Type req, QueueName := er_QueueName req, Payload := JObj payload,
       Priority := er_Priority req, MaxRetry := er_MaxRetry req, Status := JobPending,
       OwnerUserID := Some user,
       IdempotencyKey := (if er_IdempotencyKey req \<noteq> [] then Some (er_IdempotencyKey req) else None)\<rparr>"

definition enqueue_schedule ::
  "golib \<Rightarrow> apilib \<Rightarrow> instant \<Rightarrow> uuid \<Rightarrow> enqueueRequest \<Rightarrow> Job \<Rightarrow> string + Job" where
  \<comment> \<open>a recurring series, a one-shot instant, or neither; \<open>Inl\<close> is the 400 message\<close>
  "enqueue_schedule lib al now series req inp =
     (if TrimSpace (er_Cron req) \<noteq> [] then
        if TrimSpace (er_ScheduledAt req) \<noteq> [] then Inl ''cron and scheduled_at are mutually exclusive''
        else
          (let tz = (if TrimSpace (er_CronTZ req) = [] then DefaultTZ else TrimSpace (er_CronTZ req)) in
           case NextAfter lib (er_Cron req) tz now of
             Inl e \<Rightarrow> Inl (''invalid cron: '' @ cron_text al e)
           | Inr nxt \<Rightarrow>
               Inr (inp\<lparr>IsRecurring := True, CronExpr := Some (TrimSpace (er_Cron req)),
                        CronTZ := Some tz, SeriesID := Some series, ScheduledAt := Some nxt,
                        Status := JobScheduled\<rparr>))
      else if er_ScheduledAt req \<noteq> [] then
        (case time_ParseNano lib (er_ScheduledAt req) of
           None \<Rightarrow> Inl ''scheduled_at must be RFC3339''
         | Some ts \<Rightarrow>
             Inr (inp\<lparr>ScheduledAt := Some ts,
                      Status := (if now + minute < ts then JobScheduled else Status inp)\<rparr>))
      else Inr inp)"

definition enqueue_normal :: "request \<Rightarrow> enqueueRequest \<Rightarrow> enqueueRequest" where
  \<comment> \<open>the header wins over the body's key; type and queue are trimmed, the queue defaulted\<close>
  "enqueue_normal rq req =
     (let h = TrimSpace (rq_Header rq ''Idempotency-Key'');
          ty = TrimSpace (er_Type req); q = TrimSpace (er_QueueName req)
      in req\<lparr>er_IdempotencyKey := (if h \<noteq> [] then h else er_IdempotencyKey req),
             er_Type := ty, er_QueueName := (if q = [] then ty @ ''-high'' else q)\<rparr>)"

definition enqueue_check ::
  "env \<Rightarrow> apilib \<Rightarrow> trace \<Rightarrow> request \<Rightarrow> uuid \<Rightarrow> response + Job" where
  \<comment> \<open>everything before \<open>CreateJob\<close>: the job to store, or the refusal\<close>
  "enqueue_check env al t rq user =
     (case decodeEnqueueRequest al rq of
        Inl e \<Rightarrow> Inl (writeDecodeError al e)
      | Inr req0 \<Rightarrow>
          (let req = enqueue_normal rq req0 in
           if er_Type req \<notin> set allowedTypes
             then Inl (err_response 400 ''type must be one of email, file, exec'')
           else case er_Payload req of
             None \<Rightarrow> Inl (err_response 400 ''payload is required'')
           | Some payload \<Rightarrow>
               if (case json_Marshal (e_lib env) (JObj payload) of
                     None \<Rightarrow> True | Some b \<Rightarrow> MaxPayloadBytes < int (length b))
                 then Inl (err_response 413 ''payload exceeds 15KB'')
               else
                 (case enqueue_schedule (e_lib env) al (e_now env t) (e_series env t) req
                         (enqueue_job req payload user) of
                    Inl msg \<Rightarrow> Inl (err_response 400 msg)
                  | Inr inp \<Rightarrow> Inr inp)))"

subsection \<open>The handler\<close>

definition job_ref :: "golib \<Rightarrow> Job \<Rightarrow> (string \<times> json) list" where
  "job_ref lib job =
     [(''job_id'', JStr (uuid_String lib (JobID job))), (''status'', JStr (status_string (Status job)))]"

definition opt_str :: "string option \<Rightarrow> string" where
  \<comment> \<open>the \<open>String\<close> of a \<open>sql.NullString\<close>\<close>
  "opt_str v = (case v of Some s \<Rightarrow> s | None \<Rightarrow> [])"

definition scheduled_response :: "golib \<Rightarrow> apilib \<Rightarrow> Job \<Rightarrow> response" where
  "scheduled_response lib al job =
     writeJSON 201 (job_ref lib job @
       (if IsRecurring job then
          [(''series_id'', JStr (uuid_String lib (case SeriesID job of Some s \<Rightarrow> s | None \<Rightarrow> uuid_Nil))),
           (''cron'', JStr (opt_str (CronExpr job))), (''cron_tz'', JStr (opt_str (CronTZ job)))] @
          (case ScheduledAt job of
             Some t \<Rightarrow> [(''scheduled_at'', JStr (time_Format al t))] | None \<Rightarrow> [])
        else []))"

definition push_response ::
  "env \<Rightarrow> apilib \<Rightarrow> RedisStore option \<Rightarrow> int \<times> int \<times> string \<times> string \<Rightarrow> Job \<Rightarrow> world \<Rightarrow> response \<times> world" where
  \<comment> \<open>the XADD of a stored job: status codes for an unknown queue and for success, the warning
     texts for an unknown queue and for a job that was not dispatched\<close>
  "push_response env al rds texts job w =
     (case texts of (bad_queue, ok, queue_warning, redis_warning) \<Rightarrow>
       (let ref = job_ref (e_lib env) job;
            warn = (\<lambda>code msg. writeJSON code (ref @ [(''warning'', JStr msg)])) in
        case StreamFor (QueueName job) (Priority job) of
          None \<Rightarrow> (warn bad_queue queue_warning, w)
        | Some (stream, _) \<Rightarrow>
            (case rds of
               None \<Rightarrow> (warn 202 (redis_warning @ '': redis unavailable''), w)
             | Some r \<Rightarrow>
                 (case AddJobRefToStream env r stream job w of
                    (Inl e, w1) \<Rightarrow> (warn 202 (redis_warning @ '': '' @ redis_text al e), w1)
                  | (Inr msgID, w1) \<Rightarrow>
                      (writeJSON ok (ref @ [(''stream'', JStr stream), (''msg_id'', JStr msgID)]), w1)))))"

definition enqueue_texts :: "int \<times> int \<times> string \<times> string" where
  "enqueue_texts =
     (201, 201, ''job stored but queue is unknown; fix queue_name'', ''queued_in_db_not_dispatched'')"

definition EnqueueHandler ::
  "env \<Rightarrow> apilib \<Rightarrow> RedisStore option \<Rightarrow> request \<Rightarrow> world \<Rightarrow> response \<times> world" where
  "EnqueueHandler env al rds rq w =
     (if rq_Method rq \<noteq> ''POST'' then (method_not_allowed ''POST'', w)
      else case rq_User rq of
        None \<Rightarrow> (err_response 401 ''unauthenticated'', w)
      | Some user \<Rightarrow>
          (case enqueue_check env al (w_trace w) rq user of
             Inl resp \<Rightarrow> (resp, w)
           | Inr inp \<Rightarrow>
               (case pg_CreateJob env inp w of
                  (Inl ErrJobExists, w1) \<Rightarrow> (err_response 409 ''duplicate idempotency key'', w1)
                | (Inl _, w1) \<Rightarrow> (err_response 500 ''create job failed'', w1)
                | (Inr created, w1) \<Rightarrow>
                    if Status created = JobScheduled
                    then (scheduled_response (e_lib env) al created, w1)
                    else push_response env al rds enqueue_texts created w1)))"

subsection \<open>Lemmas\<close>

lemma enqueue_schedule_job:
  assumes "enqueue_schedule lib al now series req inp = Inr job" and "Status inp = JobPending"
  shows "JobID job = JobID inp \<and> OwnerUserID job = OwnerUserID inp \<and> AttemptCount job = AttemptCount inp \<and>
    IdempotencyKey job = IdempotencyKey inp \<and> Type job = Type inp \<and> CreatedAt job = CreatedAt inp \<and>
    QueueName job = QueueName inp \<and> Payload job = Payload inp \<and>
    (Status job = JobPending \<or> Status job = JobScheduled \<and> ScheduledAt job \<noteq> None)"
  using assms by (auto simp: enqueue_schedule_def Let_def split: if_splits option.splits sum.splits)

lemma enqueue_job_fields [simp]:
  "JobID (enqueue_job req p u) = uuid_Nil" "Status (enqueue_job req p u) = JobPending"
  "OwnerUserID (enqueue_job req p u) = Some u" "AttemptCount (enqueue_job req p u) = 0"
  "CreatedAt (enqueue_job req p u) = zero_time" "Payload (enqueue_job req p u) = JObj p"
  "IdempotencyKey (enqueue_job req p u) =
     (if er_IdempotencyKey req \<noteq> [] then Some (er_IdempotencyKey req) else None)"
  "Type (enqueue_job req p u) = er_Type req" "QueueName (enqueue_job req p u) = er_QueueName req"
  by (simp_all add: enqueue_job_def zero_job_def zero_row_def zero_runtime_def job_row.defs Job.defs)

text \<open>What the handler passes to \<open>CreateJob\<close> meets the store's contract.\<close>

lemma enqueue_check_job:
  assumes "enqueue_check env al t rq user = Inr inp"
  shows "initial_job inp" and "OwnerUserID inp = Some user" and "Type inp \<in> set allowedTypes"
    and "Status inp \<in> {JobPending, JobScheduled}" and "IdempotencyKey inp \<noteq> Some []"
proof -
  obtain req payload where r: "enqueue_schedule (e_lib env) al (e_now env t) (e_series env t) req
      (enqueue_job req payload user) = Inr inp" "er_Type req \<in> set allowedTypes"
    using assms by (auto simp: enqueue_check_def Let_def split: sum.splits option.splits if_splits)
  note j = enqueue_schedule_job [OF r(1) enqueue_job_fields(2), unfolded enqueue_job_fields]
  then show "initial_job inp" "OwnerUserID inp = Some user" "Type inp \<in> set allowedTypes"
    "Status inp \<in> {JobPending, JobScheduled}" "IdempotencyKey inp \<noteq> Some []"
    using r(2) by (auto simp: initial_job_def is_int16_def)
qed

lemma enqueue_check_fields:
  assumes "enqueue_check env al t rq u = Inr inp"
  shows "AttemptCount inp = 0" "NotBefore inp = None" "PayloadRef inp = None" "Type inp \<noteq> []"
    "\<exists>p b. Payload inp = JObj p \<and> json_Marshal (e_lib env) (Payload inp) = Some b"
proof -
  have s: "AttemptCount job = AttemptCount i \<and> NotBefore job = NotBefore i \<and> PayloadRef job = PayloadRef i \<and>
      Payload job = Payload i"
    if "enqueue_schedule lib al now series req i = Inr job" for lib now series req i job
    using that by (auto simp: enqueue_schedule_def Let_def split: if_splits option.splits sum.splits)
  have z: "NotBefore (enqueue_job req p u) = None" "PayloadRef (enqueue_job req p u) = None" for req p
    by (simp_all add: enqueue_job_def zero_job_def zero_row_def zero_runtime_def job_row.defs Job.defs)
  obtain req p b where i: "enqueue_schedule (e_lib env) al (e_now env t) (e_series env t) req (enqueue_job req p u) = Inr inp"
      "json_Marshal (e_lib env) (JObj p) = Some b"
    using assms by (auto simp: enqueue_check_def Let_def split: sum.splits option.splits if_splits)
  from s [OF i(1)] i(2) z show "AttemptCount inp = 0" "NotBefore inp = None" "PayloadRef inp = None"
    "\<exists>p b. Payload inp = JObj p \<and> json_Marshal (e_lib env) (Payload inp) = Some b" by simp_all
  show "Type inp \<noteq> []" using enqueue_check_job(3) [OF assms] by (auto simp: allowedTypes_def)
qed

definition pushed :: "env \<Rightarrow> RedisStore option \<Rightarrow> Job \<Rightarrow> bool \<Rightarrow> effect list \<Rightarrow> bool" where
  \<comment> \<open>nothing, or one XADD of the job to its stream; the flag claims that it succeeded\<close>
  "pushed env rds job ok es \<longleftrightarrow> es = [] \<or>
     (\<exists>st g rd rep. StreamFor (QueueName job) (Priority job) = Some (st, g) \<and> rds = Some rd \<and>
        es = [ERedis (XAdd st (ToJobFields (e_lib env) job) (EffectiveMaxLen rd)) rep] \<and>
        (ok \<longrightarrow> rp_err rep = None))"

lemma push_response_cases:
  assumes "push_response env al rds (a, b, m1, m2) job w = (resp, w')"
  shows "w_db w' = w_db w \<and> rs_Code resp \<in> {a, b, 202} \<and>
    (\<exists>vs. rs_Body resp = JObj (job_ref (e_lib env) job @ vs)) \<and>
    (\<exists>es. w_trace w' = w_trace w @ es \<and> pushed env rds job (rs_Code resp \<noteq> 202) es)"
proof (cases "StreamFor (QueueName job) (Priority job)")
  case None
  then show ?thesis using assms by (auto simp: push_response_def pushed_def Let_def)
next
  case (Some sg)
  obtain st g where sg: "sg = (st, g)" by (rule prod.exhaust)
  have ne: "st \<noteq> []" using StreamFor_nonempty Some sg by blast
  show ?thesis
  proof (cases rds)
    case None
    then show ?thesis using assms Some by (auto simp: push_response_def pushed_def Let_def sg)
  next
    case rds: (Some r)
    let ?cmd = "XAdd st (ToJobFields (e_lib env) job) (EffectiveMaxLen r)"
    let ?es = "[ERedis ?cmd (e_redis env (w_trace w) ?cmd)]"
    have "w_trace w' = w_trace w @ ?es \<and> pushed env rds job (rs_Code resp \<noteq> 202) ?es"
      using assms Some ne rds
      by (auto simp: push_response_def pushed_def Let_def sg AddJobRefToStream_def redis_do_def
          split: option.splits)
    moreover have "w_db w' = w_db w \<and> rs_Code resp \<in> {a, b, 202} \<and>
        (\<exists>vs. rs_Body resp = JObj (job_ref (e_lib env) job @ vs))"
      using assms Some ne rds
      by (auto simp: push_response_def Let_def sg AddJobRefToStream_def redis_do_def split: option.splits)
    ultimately show ?thesis by blast
  qed
qed

lemma CreateJob_result:
  "CreateJob lib flt newid now dbnow inp d = (Inr job, d1) \<Longrightarrow>
     job = created_job lib (create_defaults newid now inp)"
  by (auto simp: CreateJob_def Let_def commit_tx_def split: if_splits option.splits)

lemma created_job_fields [simp]:
  "JobID (created_job lib inp) = JobID inp" "Status (created_job lib inp) = Status inp"
  "QueueName (created_job lib inp) = QueueName inp" "Priority (created_job lib inp) = Priority inp"
  by (simp_all add: created_job_def)

lemma CreateJob_error:
  assumes "CreateJob lib flt newid now dbnow inp d = (Inl e, d1)" and "initial_job inp" and "fresh_id newid d"
  shows "if e = DbErr CommitAck then find_job newid d1 = Some (created_row lib (create_defaults newid now inp)) else d1 = d"
proof -
  let ?inp = "create_defaults newid now inp"
  have id: "JobID ?inp = newid" using assms(2) by (simp add: create_defaults_def initial_job_def)
  have none: "find_job newid d = None"
    using assms(3) by (auto simp: fresh_id_def find_job_def find_None_iff)
  have "find_job i (claim_key k i' x) = find_job i x" for i k i' x
    by (simp add: claim_key_def find_job_def)
  then show ?thesis
    using assms(1) none id
    by (auto simp: CreateJob_def Let_def commit_tx_def find_job_insert split: if_splits option.splits)
qed

lemma pg_CreateJob_cases:
  assumes "pg_CreateJob env inp w = (res, w1)" and "initial_job inp"
    and "fresh_id (e_uuid env (w_trace w)) (w_db w)"
  shows "w_trace w1 = w_trace w @ [EDb OpCreate (err_of res)] \<and>
    (case res of
       Inl e \<Rightarrow>
         if e = DbErr CommitAck
         then find_job (e_uuid env (w_trace w)) (w_db w1) =
           Some (created_row (e_lib env) (create_defaults (e_uuid env (w_trace w)) (e_now env (w_trace w)) inp))
         else w_db w1 = w_db w
     | Inr job \<Rightarrow>
         (let c = create_defaults (e_uuid env (w_trace w)) (e_now env (w_trace w)) inp in
          JobID c = e_uuid env (w_trace w) \<and> job = created_job (e_lib env) c \<and>
          find_job (JobID c) (w_db w1) = Some (created_row (e_lib env) c)))"
proof -
  let ?t = "w_trace w"
  obtain d1 where c: "CreateJob (e_lib env) (e_flt env ?t) (e_uuid env ?t) (e_now env ?t) (e_dbnow env ?t) inp
      (w_db w) = (res, d1)" and w1: "w_db w1 = d1" "w_trace w1 = ?t @ [EDb OpCreate (err_of res)]"
    using assms(1) by (auto simp: pg_CreateJob_def Let_def db_do_def split: prod.splits)
  have id: "JobID (create_defaults (e_uuid env ?t) (e_now env ?t) inp) = e_uuid env ?t"
    using assms(2) by (simp add: create_defaults_def initial_job_def)
  show ?thesis
  proof (cases res)
    case (Inl e)
    with CreateJob_error [OF c [unfolded Inl] assms(2,3)] w1 show ?thesis by (auto simp: err_of_def)
  next
    case (Inr job)
    with CreateJob_created [OF c [unfolded Inr] assms(2,3)] CreateJob_result [OF c [unfolded Inr]] w1 id
    show ?thesis by (simp add: Let_def)
  qed
qed

text \<open>A stored job and the answer that names it.\<close>

definition answers_job :: "golib \<Rightarrow> response \<Rightarrow> job_row \<Rightarrow> bool" where
  "answers_job lib resp r \<longleftrightarrow>
     (\<exists>vs. rs_Body resp = JObj ((''job_id'', JStr (uuid_String lib (JobID r))) #
        (''status'', JStr (status_string (Status r))) # vs))"

lemma enqueue_refused:
  assumes "EnqueueHandler env al rds rq w = (resp, w')"
    and "\<And>user inp. rq_User rq = Some user \<Longrightarrow> rq_Method rq = ''POST'' \<Longrightarrow>
      enqueue_check env al (w_trace w) rq user \<noteq> Inr inp"
  shows "w' = w \<and> 400 \<le> rs_Code resp"
proof (cases "rq_User rq")
  case None
  then show ?thesis using assms(1) by (auto simp: EnqueueHandler_def split: if_splits)
next
  case (Some user)
  show ?thesis
  proof (cases "enqueue_check env al (w_trace w) rq user")
    case (Inl r)
    then have "400 \<le> rs_Code r"
      by (auto simp: enqueue_check_def Let_def split: sum.splits option.splits if_splits)
    then show ?thesis using assms(1) Some Inl by (auto simp: EnqueueHandler_def split: if_splits)
  next
    case (Inr inp)
    then have "rq_Method rq \<noteq> ''POST''" using assms(2) [OF Some, of inp] by auto
    then show ?thesis using assms(1) by (auto simp: EnqueueHandler_def)
  qed
qed

lemma enqueue_created:
  assumes "EnqueueHandler env al rds rq w = (resp, w')" and "rq_Method rq = ''POST''"
    and "rq_User rq = Some u" and "enqueue_check env al (w_trace w) rq u = Inr inp"
    and "pg_CreateJob env inp w = (Inr job, w1)" and "Status job \<in> {JobPending, JobScheduled}"
  shows "rs_Code resp \<in> {201, 202} \<and> w_db w' = w_db w1 \<and>
    (\<exists>vs. rs_Body resp = JObj (job_ref (e_lib env) job @ vs)) \<and>
    (\<exists>es. w_trace w' = w_trace w1 @ es \<and> pushed env rds job (rs_Code resp \<noteq> 202) es \<and>
      (Status job = JobScheduled \<longrightarrow> es = []))"
proof (cases "Status job = JobScheduled")
  case True
  then have "resp = scheduled_response (e_lib env) al job" "w' = w1"
    using assms by (simp_all add: EnqueueHandler_def)
  then show ?thesis by (auto simp: scheduled_response_def pushed_def)
next
  case False
  then have "push_response env al rds enqueue_texts job w1 = (resp, w')"
    using assms by (simp add: EnqueueHandler_def)
  from push_response_cases [OF this [unfolded enqueue_texts_def]] False show ?thesis by auto
qed

subsection \<open>Properties\<close>

text \<open>C7. Enqueue is a database-first dual write: for every request, reply of Redis and database
  fault, an answer below 300 means that a job of the authenticated caller, of an allowed type
  and pending or scheduled, is stored under the identifier the response names; the only
  stream write is then at most one XADD of that job, with the columns of the stored row and the payload
  its text was made from, after the commit and never for a
  scheduled job, and when the answer is not 202 it succeeded. Any other answer comes with no
  stream write and with the database unchanged, but for one case: when the commit was done and only
  its acknowledgement lost, the caller gets an error although the job is stored (and is picked up by the
  reaper later).\<close>

theorem enqueue_dual_write:
  assumes "EnqueueHandler env al rds rq w = (resp, w')"
    and "fresh_id (e_uuid env (w_trace w)) (w_db w)"
  shows "if rs_Code resp < 300
    then \<exists>u r p job es. rq_User rq = Some u \<and> find_job (e_uuid env (w_trace w)) (w_db w') = Some r \<and>
      OwnerUserID r = Some u \<and> Type r \<in> set allowedTypes \<and> Status r \<in> {JobPending, JobScheduled} \<and>
      answers_job (e_lib env) resp r \<and>
      w_trace w' = w_trace w @ [EDb OpCreate None] @ es \<and>
      job = (job_row.extend r zero_runtime)\<lparr>Payload := p\<rparr> \<and> PayloadRef r = json_Marshal (e_lib env) p \<and>
      pushed env rds job (rs_Code resp \<noteq> 202) es \<and>
      (Status r = JobScheduled \<longrightarrow> es = [])
    else (w_trace w' = w_trace w \<and> w_db w' = w_db w) \<or>
      (\<exists>e. w_trace w' = w_trace w @ [EDb OpCreate (Some e)] \<and>
         (if e = DbErr CommitAck
          then \<exists>u r. rq_User rq = Some u \<and> find_job (e_uuid env (w_trace w)) (w_db w') = Some r \<and>
            OwnerUserID r = Some u \<and> Type r \<in> set allowedTypes \<and> Status r \<in> {JobPending, JobScheduled}
          else w_db w' = w_db w))"
proof (cases "\<exists>user inp. rq_User rq = Some user \<and> rq_Method rq = ''POST'' \<and>
    enqueue_check env al (w_trace w) rq user = Inr inp")
  case False
  then have "w' = w \<and> 400 \<le> rs_Code resp" using enqueue_refused [OF assms(1)] by blast
  then show ?thesis by simp
next
  case True
  then obtain user inp where u: "rq_User rq = Some user" "rq_Method rq = ''POST''"
      "enqueue_check env al (w_trace w) rq user = Inr inp" by blast
  note job = enqueue_check_job [OF u(3)]
  let ?c = "create_defaults (e_uuid env (w_trace w)) (e_now env (w_trace w)) inp"
  obtain res w1 where cr: "pg_CreateJob env inp w = (res, w1)" by (rule prod.exhaust)
  note k = pg_CreateJob_cases [OF cr job(1) assms(2)]
  have st: "Status ?c = Status inp" "OwnerUserID ?c = Some user" "Type ?c = Type inp"
    using job by (auto simp: create_defaults_def)
  show ?thesis
  proof (cases res)
    case (Inl e)
    then have "w' = w1 \<and> 400 \<le> rs_Code resp" using assms(1) u cr
      by (auto simp: EnqueueHandler_def split: store_err.splits)
    moreover have "\<not> rs_Code resp < 300" using calculation by simp
    moreover have "OwnerUserID (created_row (e_lib env) ?c) = Some user" "Type (created_row (e_lib env) ?c) \<in> set allowedTypes"
        "Status (created_row (e_lib env) ?c) \<in> {JobPending, JobScheduled}"
      using st job(3,4) by (simp_all add: created_row_def)
    ultimately show ?thesis using k Inl u(1) by (simp add: err_of_def split: if_splits)
  next
    case (Inr created)
    let ?r = "created_row (e_lib env) ?c"
    have c: "created = created_job (e_lib env) ?c" "find_job (e_uuid env (w_trace w)) (w_db w1) = Some ?r"
        "w_trace w1 = w_trace w @ [EDb OpCreate None]" "Type ?r = Type inp"
      using k Inr st by (auto simp: Let_def created_row_def)
    have "Status created \<in> {JobPending, JobScheduled}" using c(1) st(1) job(4) by simp
    from enqueue_created [OF assms(1) u(2,1,3) cr [unfolded Inr] this] obtain vs es where
      e: "rs_Code resp \<in> {201, 202}" "w_db w' = w_db w1" "rs_Body resp = JObj (job_ref (e_lib env) created @ vs)"
        "w_trace w' = w_trace w1 @ es" "pushed env rds created (rs_Code resp \<noteq> 202) es"
        "Status created = JobScheduled \<longrightarrow> es = []" by blast
    have "rs_Code resp < 300" using e(1) by auto
    moreover have "answers_job (e_lib env) resp ?r"
      using e(3) c(1) by (simp add: answers_job_def job_ref_def)
    moreover have "created = (job_row.extend ?r zero_runtime)\<lparr>Payload := Payload inp\<rparr>"
      using c(1) by (simp add: created_job_def scanJobRow_def create_defaults_def)
    moreover have "PayloadRef ?r = json_Marshal (e_lib env) (Payload inp)"
      using enqueue_check_fields(3,5) [OF u(3)] by (auto simp: created_row_def create_payload_ref_def create_defaults_def)
    moreover have "Status ?r = JobScheduled \<longrightarrow> es = []" using e(6) c(1) by simp
    moreover have "OwnerUserID ?r = Some user" "Type ?r \<in> set allowedTypes" "Status ?r \<in> {JobPending, JobScheduled}"
      using st job(3,4) c(4) by simp_all
    ultimately have "\<exists>u r p job es. rq_User rq = Some u \<and> find_job (e_uuid env (w_trace w)) (w_db w') = Some r \<and>
      OwnerUserID r = Some u \<and> Type r \<in> set allowedTypes \<and> Status r \<in> {JobPending, JobScheduled} \<and>
      answers_job (e_lib env) resp r \<and>
      w_trace w' = w_trace w @ [EDb OpCreate None] @ es \<and>
      job = (job_row.extend r zero_runtime)\<lparr>Payload := p\<rparr> \<and> PayloadRef r = json_Marshal (e_lib env) p \<and>
      pushed env rds job (rs_Code resp \<noteq> 202) es \<and> (Status r = JobScheduled \<longrightarrow> es = [])"
      using e(2,4,5) c(2,3) u(1)
      by (intro exI [of _ user] exI [of _ ?r] exI [of _ "Payload inp"] exI [of _ created] exI [of _ es] conjI)
        (simp_all only: append_assoc)
    then show ?thesis using \<open>rs_Code resp < 300\<close> by simp
  qed
qed

definition demo_al :: apilib where
  \<comment> \<open>a scanner that reads every body as a recurring e-mail job\<close>
  "demo_al = \<lparr>json_Scan = (\<lambda>_ _. ScanValue (RObj [(''type'', RStr ''email''), (''payload'', RObj []),
       (''cron'', RStr ''@hourly'')])),
     ParseFloat = (\<lambda>_. Some 0), time_Format = Itoa, decode_text = [], cron_text = (\<lambda>_. []),
     redis_text = (\<lambda>_. [])\<rparr>"

definition demo_post :: request where
  "demo_post = \<lparr>rq_Method = ''POST'', rq_Path = ''/v1/jobs'', rq_Header = (\<lambda>_. []), rq_Query = (\<lambda>_. []),
     rq_ContentLength = 2, rq_Body = ''{}'', rq_RemoteAddr = [], rq_User = Some 9\<rparr>"

lemma enqueue_dual_write_witness:
  "\<exists>resp w' r. EnqueueHandler live_env demo_al None demo_post \<lparr>w_db = empty_db, w_trace = []\<rparr> = (resp, w') \<and>
     rs_Code resp = 201 \<and> find_job 1 (w_db w') = Some r \<and> OwnerUserID r = Some 9"
proof -
  let ?w = "\<lparr>w_db = empty_db, w_trace = []\<rparr>"
  obtain resp w' where h: "EnqueueHandler live_env demo_al None demo_post ?w = (resp, w')" by (rule prod.exhaust)
  have env: "e_uuid live_env [] = 1" "e_flt live_env [] = no_faults" by (simp_all add: live_env_def dead_env_def)
  have fr: "fresh_id (e_uuid live_env (w_trace ?w)) (w_db ?w)" by (simp add: fresh_id_def empty_db_def)
  have "\<exists>inp. enqueue_check live_env demo_al [] demo_post 9 = Inr inp \<and> Status inp = JobScheduled \<and>
      IdempotencyKey inp = None"
    by (simp add: enqueue_check_def decodeEnqueueRequest_def read_json_def demo_al_def demo_post_def
        request_members_def bind_dec_def um_field_def um_string_def um_map_def um_max_retry_def
        enqueue_normal_def Let_def MaxEnqueueBodyBytes_def TrimSpace_def is_space_def allowedTypes_def
        live_env_def dead_env_def demo_lib_def MaxPayloadBytes_def enqueue_schedule_def NextAfter_def
        cron_Parse_def cron_Location_def DefaultTZ_def)
  then obtain inp where i: "enqueue_check live_env demo_al [] demo_post 9 = Inr inp"
      "Status inp = JobScheduled" "IdempotencyKey inp = None" by blast
  let ?c = "create_defaults 1 (e_now live_env []) inp"
  have c: "Status ?c = JobScheduled" "IdempotencyKey ?c = None" using i by (simp_all add: create_defaults_def)
  have "\<exists>job w1. pg_CreateJob live_env inp ?w = (Inr job, w1) \<and> Status job = JobScheduled"
    using c by (simp add: pg_CreateJob_def db_do_def CreateJob_def Let_def env no_faults_def commit_tx_def
        key_conflict_def pk_conflict_def empty_db_def db_statuses_def)
  then have "rs_Code resp = 201"
    using h i(1) by (auto simp: EnqueueHandler_def demo_post_def scheduled_response_def)
  with enqueue_dual_write [OF h fr] h show ?thesis by (auto simp: env demo_post_def)
qed

end
