(* ===== verification/Api_Jobs.thy ===== *)
theory Api_Jobs
  imports Api_Enqueue
begin

text \<open>
  The job endpoints of \<open>internal/api/handlers\<close>: \<open>jobs.go\<close> (read, events, cancel, retry),
  \<open>list.go\<close>, \<open>stats.go\<close> and \<open>health.go\<close>.
\<close>

subsection \<open>Rendering\<close>

definition opt_member :: "string \<Rightarrow> json option \<Rightarrow> (string \<times> json) list" where
  "opt_member k v = (case v of Some x \<Rightarrow> [(k, x)] | None \<Rightarrow> [])"

definition jobResponse :: "golib \<Rightarrow> apilib \<Rightarrow> Job \<Rightarrow> json" where
  "jobResponse lib al job =
     (let time = (\<lambda>t. JStr (time_Format al t)) in
      JObj (job_ref lib job @
        [(''type'', JStr (Type job)), (''queue_name'', JStr (QueueName job)),
         (''priority'', JInt (Priority job)), (''attempt_count'', JInt (AttemptCount job)),
         (''max_retry'', JInt (MaxRetry job)), (''created_at'', time (CreatedAt job))] @
        (if Payload job \<noteq> JNull then [(''payload'', Payload job)]
         else opt_member ''payload'' (map_option JStr (PayloadRef job))) @
        opt_member ''idempotency_key'' (map_option JStr (IdempotencyKey job)) @
        opt_member ''scheduled_at'' (map_option time (ScheduledAt job)) @
        opt_member ''started_at'' (map_option time (StartedAt job)) @
        opt_member ''completed_at'' (map_option time (CompletedAt job)) @
        opt_member ''last_error'' (map_option JStr (LastError job)) @
        [(''is_recurring'', JBool (IsRecurring job))] @
        opt_member ''cron'' (map_option JStr (CronExpr job)) @
        opt_member ''cron_tz'' (map_option JStr (CronTZ job)) @
        opt_member ''series_id'' (map_option (\<lambda>s. JStr (uuid_String lib s)) (SeriesID job))))"

definition event_json :: "golib \<Rightarrow> apilib \<Rightarrow> (JobEvent \<Rightarrow> uuid) \<Rightarrow> JobEvent \<Rightarrow> json" where
  \<comment> \<open>with the event's identifier, a column the store's model leaves out\<close>
  "event_json lib al eid e =
     JObj ([(''event_id'', JStr (uuid_String lib (eid e))),
            (''new_status'', JStr (status_string (NewStatus e))),
            (''occurred_at'', JStr (time_Format al (Occurred e)))] @
       opt_member ''old_status'' (map_option (\<lambda>s. JStr (status_string s)) (OldStatus e)) @
       opt_member ''worker_id'' (map_option JStr (EvWorkerID e)) @
       opt_member ''reason'' (map_option JStr (EvReason e)))"

subsection \<open>One job\<close>

definition own_job :: "env \<Rightarrow> uuid \<Rightarrow> uuid \<Rightarrow> world \<Rightarrow> (response + Job) \<times> world" where
  \<comment> \<open>the owner-scoped read at the head of every operation\<close>
  "own_job env j user w =
     (case pg_GetJobByID env j user w of
        (Inl ErrNoRows, w1) \<Rightarrow> (Inl (err_response 404 ''job not found''), w1)
      | (Inl _, w1) \<Rightarrow> (Inl (err_response 500 ''get job failed''), w1)
      | (Inr job, w1) \<Rightarrow> (Inr job, w1))"

definition getSingle :: "env \<Rightarrow> apilib \<Rightarrow> uuid \<Rightarrow> uuid \<Rightarrow> world \<Rightarrow> response \<times> world" where
  "getSingle env al j user w =
     (case own_job env j user w of
        (Inl resp, w1) \<Rightarrow> (resp, w1)
      | (Inr job, w1) \<Rightarrow>
          (\<lparr>rs_Code = 200, rs_Headers = [(''Content-Type'', ''application/json'')],
            rs_Body = jobResponse (e_lib env) al job\<rparr>, w1))"

definition getEvents ::
  "env \<Rightarrow> apilib \<Rightarrow> (JobEvent \<Rightarrow> uuid) \<Rightarrow> uuid \<Rightarrow> uuid \<Rightarrow> world \<Rightarrow> response \<times> world" where
  "getEvents env al eid j user w =
     (case own_job env j user w of
        (Inl resp, w1) \<Rightarrow> (resp, w1)
      | (Inr _, w1) \<Rightarrow>
          (case pg_GetJobEvents env j w1 of
             (Inl _, w2) \<Rightarrow> (err_response 500 ''list events failed'', w2)
           | (Inr events, w2) \<Rightarrow>
               (writeJSON 200 [(''job_id'', JStr (uuid_String (e_lib env) j)),
                  (''events'', JArr (map (event_json (e_lib env) al eid) events))], w2)))"

definition cancelJob :: "env \<Rightarrow> request \<Rightarrow> uuid \<Rightarrow> uuid \<Rightarrow> world \<Rightarrow> response \<times> world" where
  "cancelJob env rq j user w =
     (case own_job env j user w of
        (Inl resp, w1) \<Rightarrow> (resp, w1)
      | (Inr job, w1) \<Rightarrow>
          (case (if rq_Query rq ''series'' = ''true'' then SeriesID job else None) of
             Some s \<Rightarrow>
               (case pg_CancelSeries env s user w1 of
                  (Inl _, w2) \<Rightarrow> (err_response 500 ''cancel series failed'', w2)
                | (Inr n, w2) \<Rightarrow>
                    (writeJSON 200 [(''job_id'', JStr (uuid_String (e_lib env) j)),
                       (''status'', JStr (status_string JobCancelled)),
                       (''series_id'', JStr (uuid_String (e_lib env) s)), (''cancelled_count'', JInt n)], w2))
           | None \<Rightarrow>
               (case pg_CancelJob env j w1 of
                  (Inl ErrNotCancellable, w2) \<Rightarrow>
                    (err_response 409 ''job cannot be cancelled in its current status'', w2)
                | (Inl _, w2) \<Rightarrow> (err_response 500 ''cancel job failed'', w2)
                | (Inr out, w2) \<Rightarrow> (writeJSON 200 (job_ref (e_lib env) out), w2))))"

definition retry_texts :: "int \<times> int \<times> string \<times> string" where
  "retry_texts =
     (202, 200, ''job retried but queue is unknown; fix queue_name'', ''retried_in_db_not_dispatched'')"

definition retry_now ::
  "env \<Rightarrow> apilib \<Rightarrow> RedisStore option \<Rightarrow> uuid \<Rightarrow> world \<Rightarrow> response \<times> world" where
  \<comment> \<open>\<open>RetryJob\<close> and the dispatch of the returned job\<close>
  "retry_now env al rds j w =
     (case pg_RetryJob env j w of
        (Inl ErrNotRetryable, w1) \<Rightarrow> (err_response 409 ''only failed jobs can be retried'', w1)
      | (Inl _, w1) \<Rightarrow> (err_response 500 ''retry job failed'', w1)
      | (Inr out, w1) \<Rightarrow> push_response env al rds retry_texts out w1)"

definition retryJob ::
  "env \<Rightarrow> apilib \<Rightarrow> RedisStore option \<Rightarrow> request \<Rightarrow> uuid \<Rightarrow> uuid \<Rightarrow> world \<Rightarrow> response \<times> world" where
  "retryJob env al rds rq j user w =
     (case own_job env j user w of
        (Inl resp, w1) \<Rightarrow> (resp, w1)
      | (Inr _, w1) \<Rightarrow>
          (let key = TrimSpace (rq_Header rq ''Idempotency-Key'') in
           if key = [] then retry_now env al rds j w1
           else
             (case pg_RecordRetryKey env key j w1 of
                (Inl ErrRetryKeyConflict, w2) \<Rightarrow>
                  (err_response 409 ''idempotency key already used by another job'', w2)
              | (Inl _, w2) \<Rightarrow> (err_response 500 ''retry job failed'', w2)
              | (Inr False, w2) \<Rightarrow> retry_now env al rds j w2
              | (Inr True, w2) \<Rightarrow>
                  (case pg_GetJobByID env j user w2 of
                     (Inl _, w3) \<Rightarrow> (err_response 500 ''retry job failed'', w3)
                   | (Inr current, w3) \<Rightarrow>
                       (writeJSON 200 (job_ref (e_lib env) current @ [(''deduplicated'', JBool True)]), w3)))))"

subsection \<open>The subtree handler\<close>

definition allowedFor :: "string \<Rightarrow> string" where
  "allowedFor sub =
     (if sub = [] then ''GET, DELETE'' else if sub = ''events'' then ''GET''
      else if sub = ''retry'' then ''POST'' else [])"

definition jobs_rest :: "string \<Rightarrow> string" where
  \<comment> \<open>the path after the prefix of the subtree\<close>
  "jobs_rest path =
     (case CutPrefix path ''/v1/jobs/'' of
        Some r \<Rightarrow> r
      | None \<Rightarrow> (case CutPrefix path ''/jobs/'' of Some r \<Rightarrow> r | None \<Rightarrow> path))"

definition JobsHandler ::
  "env \<Rightarrow> apilib \<Rightarrow> (JobEvent \<Rightarrow> uuid) \<Rightarrow> RedisStore option \<Rightarrow> request \<Rightarrow> world \<Rightarrow> response \<times> world" where
  "JobsHandler env al eid rds rq w =
     (case rq_User rq of
        None \<Rightarrow> (err_response 401 ''unauthenticated'', w)
      | Some user \<Rightarrow>
          (let rest = jobs_rest (rq_Path rq) in
           if rest = [] \<or> Contains rest ''/../'' then (err_response 400 ''missing job id'', w)
           else case CutChar (CHR ''/'') rest of (idPart, sub, _) \<Rightarrow>
             (case uuid_Parse (e_lib env) idPart of
                None \<Rightarrow> (err_response 400 ''invalid job id'', w)
              | Some j \<Rightarrow>
                  if sub = [] \<and> rq_Method rq = ''GET'' then getSingle env al j user w
                  else if sub = [] \<and> rq_Method rq = ''DELETE'' then cancelJob env rq j user w
                  else if sub = ''events'' \<and> rq_Method rq = ''GET'' then getEvents env al eid j user w
                  else if sub = ''retry'' \<and> rq_Method rq = ''POST'' then retryJob env al rds rq j user w
                  else if sub = [] \<or> sub = ''events'' \<or> sub = ''retry''
                    then (method_not_allowed (allowedFor sub), w)
                  else (err_response 404 ''not found'', w))))"

subsection \<open>Lists\<close>

definition validListStatuses :: "string list" where
  "validListStatuses = [] # map status_string db_statuses"

definition paging :: "string \<Rightarrow> string \<Rightarrow> string + int \<times> int" where
  \<comment> \<open>\<open>limit\<close> (default 50, at most 100) and \<open>offset\<close>; \<open>Inl\<close> is the 400 message\<close>
  "paging rawLimit rawOffset =
     (let lim = (if rawLimit = [] then Inr 50
                 else case Atoi rawLimit of (n, ok) \<Rightarrow>
                   if \<not> ok \<or> n \<le> 0 then Inl ''limit must be a positive integer''
                   else Inr (if 100 < n then 100 else n));
          off = (if rawOffset = [] then Inr 0
                 else case Atoi rawOffset of (n, ok) \<Rightarrow>
                   if \<not> ok \<or> n < 0 then Inl ''offset must be a non-negative integer'' else Inr n)
      in case lim of
           Inl e \<Rightarrow> Inl e
         | Inr l \<Rightarrow> (case off of Inl e \<Rightarrow> Inl e | Inr off1 \<Rightarrow> Inr (l, off1)))"

definition JobsListHandler :: "env \<Rightarrow> apilib \<Rightarrow> request \<Rightarrow> world \<Rightarrow> response \<times> world" where
  "JobsListHandler env al rq w =
     (if rq_Method rq \<noteq> ''GET'' then (method_not_allowed ''GET'', w)
      else case rq_User rq of
        None \<Rightarrow> (err_response 401 ''unauthenticated'', w)
      | Some user \<Rightarrow>
          (let status = rq_Query rq ''status''; jobs = (\<lambda>js. (''jobs'', JArr (map (jobResponse (e_lib env) al) js))) in
           if status \<notin> set validListStatuses then (err_response 400 ''unknown status filter'', w)
           else case paging (rq_Query rq ''limit'') (rq_Query rq ''offset'') of
             Inl msg \<Rightarrow> (err_response 400 msg, w)
           | Inr (limit, offset) \<Rightarrow>
               if rq_Query rq ''series_id'' \<noteq> [] then
                 (case uuid_Parse (e_lib env) (rq_Query rq ''series_id'') of
                    None \<Rightarrow> (err_response 400 ''series_id must be a UUID'', w)
                  | Some s \<Rightarrow>
                      (case pg_ListSeriesJobs env s status limit offset user w of
                         (Inl _, w1) \<Rightarrow> (err_response 500 ''list jobs failed'', w1)
                       | (Inr js, w1) \<Rightarrow>
                           (writeJSON 200 [jobs js, (''series_id'', JStr (uuid_String (e_lib env) s))], w1)))
               else
                 (case pg_ListJobs env status limit offset user w of
                    (Inl _, w1) \<Rightarrow> (err_response 500 ''list jobs failed'', w1)
                  | (Inr js, w1) \<Rightarrow> (writeJSON 200 [jobs js], w1))))"

subsection \<open>Statistics and health\<close>

definition watchedStreams :: "string list" where
  "watchedStreams =
     [EmailHighStream, EmailLowStream, FileHighStream, FileLowStream, ExecHighStream, ExecLowStream]"

fun scan_workers :: "env \<Rightarrow> nat \<Rightarrow> int \<Rightarrow> int \<Rightarrow> world \<Rightarrow> int option option \<times> world" where
  \<comment> \<open>the SCAN loop, at most \<open>n\<close> rounds: \<open>None\<close> when they are used up, \<open>Some None\<close> on an error\<close>
  "scan_workers env 0 cursor workers w = (None, w)"
| "scan_workers env (Suc n) cursor workers w =
     (case redis_do env (Scan cursor) w of (r, w1) \<Rightarrow>
        if rp_err r \<noteq> None then (Some None, w1)
        else
          (let k = wrap64 (workers + int (length (rp_keys r))) in
           if rp_int r = 0 then (Some (Some k), w1) else scan_workers env n (rp_int r) k w1))"

fun sum_depths :: "env \<Rightarrow> string list \<Rightarrow> int \<Rightarrow> world \<Rightarrow> int \<times> world" where
  "sum_depths env [] depth w = (depth, w)"
| "sum_depths env (s # ss) depth w =
     (case redis_do env (XLen s) w of (r, w1) \<Rightarrow>
        sum_depths env ss (if rp_err r \<noteq> None then depth else wrap64 (depth + rp_int r)) w1)"

definition redisSignals :: "env \<Rightarrow> RedisStore option \<Rightarrow> nat \<Rightarrow> world \<Rightarrow> (int \<times> int) option \<times> world" where
  "redisSignals env rds n w =
     (if rds = None then (Some (0, 0), w)
      else case scan_workers env n 0 0 w of
        (None, w1) \<Rightarrow> (None, w1)
      | (Some None, w1) \<Rightarrow> (Some (0, 0), w1)
      | (Some (Some k), w1) \<Rightarrow>
          (case sum_depths env watchedStreams 0 w1 of (depth, w2) \<Rightarrow> (Some (k, depth), w2)))"

definition StatsHandler ::
  "env \<Rightarrow> RedisStore option \<Rightarrow> nat \<Rightarrow> request \<Rightarrow> world \<Rightarrow> response option \<times> world" where
  \<comment> \<open>\<open>None\<close> when \<open>n\<close> rounds of the SCAN loop were not enough\<close>
  "StatsHandler env rds n rq w =
     (if rq_Method rq \<noteq> ''GET'' then (Some (method_not_allowed ''GET''), w)
      else case rq_User rq of
        None \<Rightarrow> (Some (err_response 401 ''unauthenticated''), w)
      | Some user \<Rightarrow>
          (case pg_JobStats env user w of
             (Inl _, w1) \<Rightarrow> (Some (err_response 500 ''stats failed''), w1)
           | (Inr c, w1) \<Rightarrow>
               (case pg_OldestPendingAgeSec env user w1 of
                  (Inl _, w2) \<Rightarrow> (Some (err_response 500 ''stats failed''), w2)
                | (Inr age, w2) \<Rightarrow>
                    (case redisSignals env rds n w2 of
                       (None, w3) \<Rightarrow> (None, w3)
                     | (Some (k, depth), w3) \<Rightarrow>
                         (Some (writeJSON 200
                           [(''pending'', JInt (wrap64 (n_pending c + n_queued c))), (''queued'', JInt (n_queued c)),
                            (''processing'', JInt (n_running c)), (''completed'', JInt (n_completed c)),
                            (''failed'', JInt (n_failed c)), (''scheduled'', JInt (n_scheduled c)),
                            (''cancelled'', JInt (n_cancelled c)), (''pending_oldest_age_sec'', JInt age),
                            (''total_workers'', JInt k), (''queue_depth'', JInt depth)]), w3)))))"

datatype dependency = Missing | Up | Down string \<comment> \<open>nil handle, or what its ping answers\<close>

definition dep_text :: "dependency \<Rightarrow> string" where
  "dep_text d = (case d of Missing \<Rightarrow> ''missing'' | Up \<Rightarrow> ''up'' | Down e \<Rightarrow> ''down: '' @ e)"

definition HealthHandler :: "dependency \<Rightarrow> dependency \<Rightarrow> dependency \<Rightarrow> request \<Rightarrow> response" where
  \<comment> \<open>Redis, the write pool and the read pool; the body of \<open>http.Error\<close> is plain text\<close>
  "HealthHandler redis dbw dbr rq =
     (if rq_Method rq \<noteq> ''GET''
      then \<lparr>rs_Code = 405, rs_Headers = [(''Allow'', ''GET''), (''Content-Type'', ''text/plain; charset=utf-8'')],
            rs_Body = JStr ''method not allowed''\<rparr>
      else
        (let ok = (redis = Up \<and> dbw = Up \<and> dbr = Up) in
         writeJSON (if ok then 200 else 503)
           [(''status'', JStr (if ok then ''ok'' else ''unavailable'')), (''redis'', JStr (dep_text redis)),
            (''db_write'', JStr (dep_text dbw)), (''db_read'', JStr (dep_text dbr))]))"

end
