(* ===== verification/Api_Jobs_Props.thy ===== *)
theory Api_Jobs_Props
  imports Api_Jobs
begin

text \<open>
  What the job endpoints promise: a caller reaches only the jobs that are theirs, and a
  manual retry can be resent.
\<close>

subsection \<open>Lemmas\<close>

definition owned_by :: "uuid \<Rightarrow> uuid \<Rightarrow> db \<Rightarrow> bool" where
  "owned_by u j d \<longleftrightarrow> (\<exists>r \<in> set (jobs_tbl d). JobID r = j \<and> OwnerUserID r = Some u)"

lemma GetJobByID_owned:
  assumes "u \<noteq> uuid_Nil"
  shows "(\<exists>job. GetJobByID lib flt j [u] d = Inr job) \<longleftrightarrow> \<not> flt SelectRows \<and> owned_by u j d"
    and "\<not> flt SelectRows \<Longrightarrow> \<not> owned_by u j d \<Longrightarrow> GetJobByID lib flt j [u] d = Inl ErrNoRows"
  using assms
  by (auto simp: GetJobByID_def nullableOwner_def owner_ok_def owned_by_def find_None_iff find_Some_iff
      split: option.split)

lemma own_job_cases:
  assumes "own_job env j u w = (res, w1)" and "u \<noteq> uuid_Nil"
  shows "w_db w1 = w_db w \<and>
    (case res of
       Inr job \<Rightarrow> owned_by u j (w_db w) \<and> w_trace w1 = w_trace w @ [EDb (OpGet j) None]
     | Inl resp \<Rightarrow> 400 \<le> rs_Code resp)"
proof (cases "GetJobByID (e_lib env) (e_flt env (w_trace w)) j [u] (w_db w)")
  case (Inl e)
  then show ?thesis using assms(1)
    by (cases e) (auto simp: own_job_def pg_GetJobByID_def Let_def db_do_def)
next
  case (Inr job)
  then have "owned_by u j (w_db w)" using GetJobByID_owned(1) [OF assms(2)] by blast
  then show ?thesis using assms(1) Inr
    by (auto simp: own_job_def pg_GetJobByID_def Let_def db_do_def)
qed

lemma own_job_foreign:
  assumes "u \<noteq> uuid_Nil" and "\<not> owned_by u j (w_db w)"
  shows "own_job env j u w =
    (if e_flt env (w_trace w) SelectRows
     then (Inl (err_response 500 ''get job failed''), emit (EDb (OpGet j) (Some (DbErr SelectRows))) w)
     else (Inl (err_response 404 ''job not found''), emit (EDb (OpGet j) (Some ErrNoRows)) w))"
proof (cases "e_flt env (w_trace w) SelectRows")
  case True
  then show ?thesis by (simp add: own_job_def pg_GetJobByID_def GetJobByID_def Let_def db_do_def)
next
  case False
  then show ?thesis using GetJobByID_owned(2) [OF assms(1), of "e_flt env (w_trace w)"] False assms(2)
    by (simp add: own_job_def pg_GetJobByID_def Let_def db_do_def)
qed

lemma other_rows_kept:
  assumes "i \<noteq> j"
  shows "find_job i (snd (CancelJob lib flt n j d)) = find_job i d"
    and "find_job i (snd (RetryJob lib flt n j d)) = find_job i d"
    and "find_job i (snd (RecordRetryKey flt k j d)) = find_job i d"
  using assms
  by (auto simp: CancelJob_def RetryJob_def RecordRetryKey_def commit_tx_def Let_def find_job_upd
      find_job_def [of i "_\<lparr>retry_tbl := _\<rparr>"] find_job_def [symmetric] split: option.split)

lemma push_response_db [simp]: "w_db (snd (push_response env al rds texts job w)) = w_db w"
proof -
  obtain a b m1 m2 where t: "texts = (a, b, m1, m2)" by (metis prod_cases4)
  show ?thesis unfolding t
    using push_response_cases [of env al rds a b m1 m2 job w] by (metis surjective_pairing)
qed

lemma retry_now_db:
  "w_db (snd (retry_now env al rds j w)) =
     snd (RetryJob (e_lib env) (e_flt env (w_trace w)) (e_dbnow env (w_trace w)) j (w_db w))"
proof -
  obtain res d1 where r: "RetryJob (e_lib env) (e_flt env (w_trace w)) (e_dbnow env (w_trace w)) j (w_db w) =
      (res, d1)" by (rule prod.exhaust)
  have "pg_RetryJob env j w = (res, emit (EDb (OpRetryJob j) (err_of res)) (w\<lparr>w_db := d1\<rparr>))"
    by (simp add: pg_RetryJob_def db_do_def Let_def r)
  then show ?thesis unfolding r by (auto simp: retry_now_def split: sum.split store_err.split)
qed

text \<open>What a request to the subtree does to the job of another tenant: nothing.\<close>

lemma cancelJob_foreign:
  assumes "store_inv (w_db w)" and "u \<noteq> uuid_Nil" and "find_job i (w_db w) = Some r"
    and "OwnerUserID r \<noteq> Some u"
  shows "find_job i (w_db (snd (cancelJob env rq j u w))) = Some r"
proof -
  obtain res w1 where o: "own_job env j u w = (res, w1)" by (rule prod.exhaust)
  note own = own_job_cases [OF o assms(2)]
  show ?thesis
  proof (cases res)
    case (Inl resp)
    then show ?thesis using o own assms(3) by (simp add: cancelJob_def)
  next
    case (Inr job)
    have "i \<noteq> j" using own Inr assms find_job_unique [OF assms(1,3)] by (auto simp: owned_by_def)
    moreover have "find_job i (w_db (snd (pg_CancelSeries env s u w1))) = Some r" for s
      using CancelSeries_foreign [OF assms(1-4)] own by (simp add: pg_CancelSeries_def Let_def)
    moreover have "find_job i (w_db (snd (pg_CancelJob env j w1))) = Some r" if "i \<noteq> j"
      using other_rows_kept(1) [OF that] own assms(3) by (simp add: pg_CancelJob_def Let_def)
    ultimately show ?thesis using o Inr
      by (auto simp: cancelJob_def Let_def split: prod.split sum.split store_err.split option.split)
        (metis snd_conv)+
  qed
qed

lemma retryJob_foreign:
  assumes "store_inv (w_db w)" and "u \<noteq> uuid_Nil" and "find_job i (w_db w) = Some r"
    and "OwnerUserID r \<noteq> Some u"
  shows "find_job i (w_db (snd (retryJob env al rds rq j u w))) = Some r"
proof -
  obtain res w1 where o: "own_job env j u w = (res, w1)" by (rule prod.exhaust)
  note own = own_job_cases [OF o assms(2)]
  show ?thesis
  proof (cases res)
    case (Inl resp)
    then show ?thesis using o own assms(3) by (simp add: retryJob_def)
  next
    case (Inr job)
    have ij: "i \<noteq> j" using own Inr assms find_job_unique [OF assms(1,3)] by (auto simp: owned_by_def)
    have now: "find_job i (w_db (snd (retry_now env al rds j x))) = find_job i (w_db x)" for x
      by (simp add: retry_now_db other_rows_kept(2) [OF ij])
    have key: "find_job i (w_db (snd (pg_RecordRetryKey env k j w1))) = Some r" for k
      using other_rows_kept(3) [OF ij] own assms(3) by (simp add: pg_RecordRetryKey_def Let_def)
    have get: "w_db (snd (pg_GetJobByID env j u x)) = w_db x" for x
      by (simp add: pg_GetJobByID_def Let_def)
    show ?thesis using o Inr now [of w1] own assms(3)
      by (auto simp: retryJob_def Let_def split: prod.split sum.split store_err.split bool.split)
        (metis key now get snd_conv)+
  qed
qed

definition foreign_or_none :: "golib \<Rightarrow> uuid \<Rightarrow> string \<Rightarrow> db \<Rightarrow> bool" where
  \<comment> \<open>the path names no job of the user\<close>
  "foreign_or_none lib u path d \<longleftrightarrow>
     (case CutChar (CHR ''/'') (jobs_rest path) of (idPart, _, _) \<Rightarrow>
        (case uuid_Parse lib idPart of None \<Rightarrow> True | Some j \<Rightarrow> \<not> owned_by u j d))"

lemma not_owned_empty [simp]: "\<not> owned_by u j empty_db"
  by (simp add: owned_by_def empty_db_def)

lemma foreign_response:
  assumes "u \<noteq> uuid_Nil" and "rq_User rq = Some u" and "foreign_or_none (e_lib env) u (rq_Path rq) (w_db w)"
  shows "w_db (snd (JobsHandler env al eid rds rq w)) = w_db w \<and>
    fst (JobsHandler env al eid rds rq w) = fst (JobsHandler env al eid rds rq (w\<lparr>w_db := empty_db\<rparr>)) \<and>
    400 \<le> rs_Code (fst (JobsHandler env al eid rds rq w))"
proof (cases "uuid_Parse (e_lib env) (fst (CutChar (CHR ''/'') (jobs_rest (rq_Path rq))))")
  case None
  then show ?thesis using assms(2)
    by (auto simp: JobsHandler_def Let_def split: prod.split)
next
  case (Some j)
  have no: "\<not> owned_by u j (w_db w)"
    using assms(3) Some by (auto simp: foreign_or_none_def split: prod.splits)
  have empty: "\<not> owned_by u j (w_db (w\<lparr>w_db := empty_db\<rparr>))" by simp
  note f = own_job_foreign [where env = env, OF assms(1) no] own_job_foreign [where env = env, OF assms(1) empty]
  show ?thesis using assms(2) Some
    by (auto simp: JobsHandler_def Let_def getSingle_def cancelJob_def getEvents_def retryJob_def f
        split: prod.split)
qed

subsection \<open>What a tenant can see\<close>

definition own_view :: "uuid \<Rightarrow> db \<Rightarrow> db" where
  \<comment> \<open>the store as if there were no other tenant: the user's rows, their events and their retry keys\<close>
  "own_view u d =
     \<lparr>jobs_tbl = filter (\<lambda>r. OwnerUserID r = Some u) (jobs_tbl d),
      events_tbl = filter (\<lambda>e. owned_by u (EvJobID e) d) (events_tbl d), idem_tbl = [],
      retry_tbl = filter (\<lambda>(k, j). owned_by u j d) (retry_tbl d)\<rparr>"

definition seen_same :: "'a \<times> world \<Rightarrow> 'a \<times> world \<Rightarrow> bool" where
  \<comment> \<open>the same answer after the same calls\<close>
  "seen_same p q \<longleftrightarrow> fst p = fst q \<and> w_trace (snd p) = w_trace (snd q)"

lemma find_filter: "(\<And>x. x \<in> set xs \<Longrightarrow> P x \<Longrightarrow> Q x) \<Longrightarrow> List.find P (filter Q xs) = List.find P xs"
  by (induction xs) auto

lemma owned_view [simp]: "owned_by u j (own_view u d) = owned_by u j d"
  by (auto simp: owned_by_def own_view_def)

lemma view_find:
  assumes "store_inv d" and "owned_by u j d"
  shows "find_job j (own_view u d) = find_job j d"
proof -
  obtain r where r: "r \<in> set (jobs_tbl d)" "JobID r = j" "OwnerUserID r = Some u"
    using assms(2) by (auto simp: owned_by_def)
  have "find_job j d = Some r" using find_job_mem [OF assms(1) r(1)] r(2) by simp
  then have "x = r" if "x \<in> set (jobs_tbl d)" "JobID x = j" for x using find_job_unique [OF assms(1)] that by blast
  then show ?thesis using r(3) by (auto simp: find_job_def own_view_def intro!: find_filter)
qed

lemma view_get: "u \<noteq> uuid_Nil \<Longrightarrow> GetJobByID lib flt j [u] (own_view u d) = GetJobByID lib flt j [u] d"
proof -
  have "List.find (\<lambda>r. JobID r = j \<and> OwnerUserID r = Some u) (filter (\<lambda>r. OwnerUserID r = Some u) (jobs_tbl d)) =
      List.find (\<lambda>r. JobID r = j \<and> OwnerUserID r = Some u) (jobs_tbl d)"
    by (rule find_filter) simp
  then show "u \<noteq> uuid_Nil \<Longrightarrow> GetJobByID lib flt j [u] (own_view u d) = GetJobByID lib flt j [u] d"
    by (simp add: GetJobByID_def nullableOwner_def owner_ok_def own_view_def)
qed

lemma view_retry_key:
  assumes "\<And>i. map_of (retry_tbl d) key = Some i \<Longrightarrow> owned_by u i d"
  shows "map_of (retry_tbl (own_view u d)) key = map_of (retry_tbl d) key"
proof -
  have "map_of (filter (\<lambda>(k, j). owned_by u j d) xs) key = map_of xs key"
    if "\<And>i. map_of xs key = Some i \<Longrightarrow> owned_by u i d" for xs
    using that by (induction xs) (auto split: if_splits)
  then show ?thesis using assms by (simp add: own_view_def)
qed

text \<open>The calls of the handler answer the same on two stores that agree on the job they name.\<close>

lemma pg_get_same:
  "w_trace v = w_trace w \<Longrightarrow> GetJobByID (e_lib env) (e_flt env (w_trace w)) j [u] (w_db v) =
     GetJobByID (e_lib env) (e_flt env (w_trace w)) j [u] (w_db w) \<Longrightarrow>
   seen_same (pg_GetJobByID env j u v) (pg_GetJobByID env j u w)"
  by (simp add: seen_same_def pg_GetJobByID_def db_do_def Let_def)

lemma push_response_same:
  "w_trace v = w_trace w \<Longrightarrow> seen_same (push_response env al rds texts job v) (push_response env al rds texts job w)"
  by (auto simp: seen_same_def push_response_def AddJobRefToStream_def redis_do_def Let_def
      split: prod.split option.split)

lemma pg_cancel_same:
  "w_trace v = w_trace w \<Longrightarrow> find_job j (w_db v) = find_job j (w_db w) \<Longrightarrow>
   seen_same (pg_CancelJob env j v) (pg_CancelJob env j w)"
  by (auto simp: seen_same_def pg_CancelJob_def db_do_def Let_def CancelJob_def commit_tx_def split: option.split)

lemma pg_retry_same:
  "w_trace v = w_trace w \<Longrightarrow> find_job j (w_db v) = find_job j (w_db w) \<Longrightarrow>
   seen_same (pg_RetryJob env j v) (pg_RetryJob env j w)"
  by (auto simp: seen_same_def pg_RetryJob_def db_do_def Let_def RetryJob_def commit_tx_def split: option.split)

lemma retry_now_same:
  assumes "w_trace v = w_trace w" and "find_job j (w_db v) = find_job j (w_db w)"
  shows "seen_same (retry_now env al rds j v) (retry_now env al rds j w)"
proof -
  obtain r v1 w1 where p: "pg_RetryJob env j v = (r, v1)" "pg_RetryJob env j w = (r, w1)" "w_trace v1 = w_trace w1"
    using pg_retry_same [OF assms, of env] by (cases "pg_RetryJob env j v"; cases "pg_RetryJob env j w") (auto simp: seen_same_def)
  show ?thesis
    using p push_response_same [OF p(3), of env al rds retry_texts]
    by (auto simp: retry_now_def seen_same_def split: sum.split store_err.split)
qed

text \<open>Cancelling a series: every target is still there when its turn comes, in either store.\<close>

lemma cancel_loop_same:
  assumes "distinct (map fst cs)"
    and "\<And>i. i \<in> fst ` set cs \<Longrightarrow> (\<exists>r \<in> set (jobs_tbl d). JobID r = i \<and> cancellable (Status r)) \<and>
      (\<exists>r \<in> set (jobs_tbl d2). JobID r = i \<and> cancellable (Status r))"
  shows "rel_sum (=) (\<lambda>p q. fst p = fst q) (cancel_loop flt now cs d n) (cancel_loop flt now cs d2 n)"
  using assms
proof (induction cs arbitrary: d d2 n)
  case (Cons c cs)
  obtain i st where c: "c = (i, st)" by (cases c)
  have keep: "(\<exists>r \<in> set (jobs_tbl (insertEvent i st JobCancelled now (upd_job i (\<lambda>r. cancellable (Status r)) (set_cancelled now) x))).
      JobID r = k \<and> cancellable (Status r))"
    if "\<exists>r \<in> set (jobs_tbl x). JobID r = k \<and> cancellable (Status r)" "k \<noteq> i" for k x
    using that by (force simp: upd_job_def set_update_where)
  have ne: "k \<noteq> i" if "k \<in> fst ` set cs" for k using Cons.prems(1) that c by auto
  let ?e = "\<lambda>x. insertEvent i st JobCancelled now (upd_job i (\<lambda>r. cancellable (Status r)) (set_cancelled now) x)"
  have hits: "(\<exists>r \<in> set (jobs_tbl (?e d)). JobID r = k \<and> cancellable (Status r)) \<and>
      (\<exists>r \<in> set (jobs_tbl (?e d2)). JobID r = k \<and> cancellable (Status r))" if "k \<in> fst ` set cs" for k
    using Cons.prems(2) [of k] that ne [OF that] keep by auto
  have "rel_sum (=) (\<lambda>p q. fst p = fst q) (cancel_loop flt now cs (?e d) (n + 1)) (cancel_loop flt now cs (?e d2) (n + 1))"
    by (rule Cons.IH) (use Cons.prems(1) hits in auto)
  then show ?case using Cons.prems(2) [of i] c by (simp add: Let_def)
qed simp

lemma pg_series_same:
  assumes "store_inv (w_db w)" and "u \<noteq> uuid_Nil"
  shows "seen_same (pg_CancelSeries env s u (w\<lparr>w_db := own_view u (w_db w)\<rparr>)) (pg_CancelSeries env s u w)"
proof -
  let ?d = "w_db w" and ?lk = "e_locked env (w_trace w)" and ?flt = "e_flt env (w_trace w)" and ?now = "e_dbnow env (w_trace w)"
  let ?ts = "series_targets ?lk s (Some u) ?d"
  have ts: "series_targets ?lk s (Some u) (own_view u ?d) = ?ts"
    by (auto simp: series_targets_def own_view_def owner_ok_def conj_ac intro!: arg_cong [of _ _ "order_by_null ScheduledAt"]
        filter_cong)
  have targets: "r \<in> set (jobs_tbl ?d) \<and> OwnerUserID r = Some u \<and> cancellable (Status r)" if "r \<in> set ?ts" for r
    using that by (auto simp: series_targets_def owner_ok_def)
  have "distinct (map fst (map (\<lambda>r. (JobID r, Status r)) ?ts))"
    using CancelSeries_targets_live [OF assms(1), of ?lk s "Some u"] assms(2) by (simp add: live_targets_def nullableOwner_def)
  from cancel_loop_same [OF this, of "own_view u ?d" ?d ?flt ?now 0] targets
  have "rel_sum (=) (\<lambda>p q. fst p = fst q) (cancel_loop ?flt ?now (map (\<lambda>r. (JobID r, Status r)) ?ts) (own_view u ?d) 0)
      (cancel_loop ?flt ?now (map (\<lambda>r. (JobID r, Status r)) ?ts) ?d 0)"
    by (force simp: own_view_def)
  then show ?thesis
    using assms(2) ts
    by (cases rule: rel_sum.cases)
      (auto simp: seen_same_def pg_CancelSeries_def db_do_def CancelSeries_def Let_def nullableOwner_def commit_tx_def
        split: prod.splits)
qed

lemma own_job_view:
  assumes "u \<noteq> uuid_Nil" and "own_job env j u w = (res, w1)"
  shows "own_job env j u (w\<lparr>w_db := own_view u (w_db w)\<rparr>) = (res, w1\<lparr>w_db := own_view u (w_db w1)\<rparr>)"
proof -
  have "w_db w1 = w_db w" using own_job_cases [OF assms(2,1)] by simp
  then show ?thesis
    using assms(2) view_get [OF assms(1), of "e_lib env" "e_flt env (w_trace w)" j "w_db w"]
    by (cases "GetJobByID (e_lib env) (e_flt env (w_trace w)) j [u] (w_db w)")
      (auto simp: own_job_def pg_GetJobByID_def db_do_def Let_def emit_def split: store_err.splits)
qed

lemma getEvents_same:
  assumes "u \<noteq> uuid_Nil" and "own_job env j u w = (Inr job, w1)"
    and "history j (e_replica env (w_trace w1) (own_view u (w_db w1))) = history j (e_replica env (w_trace w1) (w_db w1))"
  shows "seen_same (getEvents env al eid j u (w\<lparr>w_db := own_view u (w_db w)\<rparr>)) (getEvents env al eid j u w)"
  using assms(2,3) own_job_view [OF assms(1,2)]
  by (simp add: getEvents_def seen_same_def pg_GetJobEvents_def GetJobEvents_def db_do_def Let_def split: sum.split)

lemma cancelJob_same:
  assumes "u \<noteq> uuid_Nil" and "store_inv (w_db w)" and "own_job env j u w = (Inr job, w1)"
  shows "seen_same (cancelJob env rq j u (w\<lparr>w_db := own_view u (w_db w)\<rparr>)) (cancelJob env rq j u w)"
proof -
  let ?v1 = "w1\<lparr>w_db := own_view u (w_db w1)\<rparr>"
  have own: "w_db w1 = w_db w" "owned_by u j (w_db w)" using own_job_cases [OF assms(3,1)] by simp_all
  have "find_job j (w_db ?v1) = find_job j (w_db w1)" using view_find [OF assms(2) own(2)] own(1) by simp
  then have one: "seen_same (pg_CancelJob env j ?v1) (pg_CancelJob env j w1)" by (intro pg_cancel_same) simp_all
  have all: "seen_same (pg_CancelSeries env s u ?v1) (pg_CancelSeries env s u w1)" for s
    using pg_series_same [of w1 u env s] assms(1,2) own(1) by simp
  show ?thesis
  proof (cases "if rq_Query rq ''series'' = ''true'' then SeriesID job else None")
    case None
    then show ?thesis
      using one assms(3) own_job_view [OF assms(1,3)]
      by (cases "pg_CancelJob env j ?v1"; cases "pg_CancelJob env j w1")
        (auto simp: cancelJob_def seen_same_def split: sum.split store_err.split)
  next
    case (Some s)
    then show ?thesis
      using all [of s] assms(3) own_job_view [OF assms(1,3)]
      by (cases "pg_CancelSeries env s u ?v1"; cases "pg_CancelSeries env s u w1")
        (auto simp: cancelJob_def seen_same_def split: sum.split)
  qed
qed

lemma RecordRetryKey_same:
  assumes "map_of (retry_tbl v) key = map_of (retry_tbl d) key"
  shows "fst (RecordRetryKey flt key j v) = fst (RecordRetryKey flt key j d)"
    and "jobs_tbl (snd (RecordRetryKey flt key j d)) = jobs_tbl d"
  using assms by (auto simp: RecordRetryKey_def Let_def split: option.split)

lemma retryJob_same:
  assumes "u \<noteq> uuid_Nil" and "store_inv (w_db w)" and "own_job env j u w = (Inr job, w1)"
    and "\<And>i. key \<noteq> [] \<Longrightarrow> map_of (retry_tbl (w_db w)) key = Some i \<Longrightarrow> owned_by u i (w_db w)"
    and "key = TrimSpace (rq_Header rq ''Idempotency-Key'')"
  shows "seen_same (retryJob env al rds rq j u (w\<lparr>w_db := own_view u (w_db w)\<rparr>)) (retryJob env al rds rq j u w)"
proof -
  let ?v1 = "w1\<lparr>w_db := own_view u (w_db w1)\<rparr>"
  have own: "w_db w1 = w_db w" "owned_by u j (w_db w)" using own_job_cases [OF assms(3,1)] by simp_all
  have row: "find_job j (own_view u (w_db w)) = find_job j (w_db w)" by (rule view_find [OF assms(2) own(2)])
  show ?thesis
  proof (cases "key = []")
    case True
    have "seen_same (retry_now env al rds j ?v1) (retry_now env al rds j w1)"
      using row own(1) by (intro retry_now_same) simp_all
    then show ?thesis using True assms(3,5) own_job_view [OF assms(1,3)] by (simp add: retryJob_def Let_def)
  next
    case False
    let ?flt = "e_flt env (w_trace w1)" and ?v = "own_view u (w_db w)"
    have k: "fst (RecordRetryKey ?flt key j ?v) = fst (RecordRetryKey ?flt key j (w_db w))"
      using False assms(4) by (intro RecordRetryKey_same(1) view_retry_key) blast
    obtain r d1 where d1: "RecordRetryKey ?flt key j (w_db w) = (r, d1)" by (rule prod.exhaust)
    obtain r2 v2 where v2: "RecordRetryKey ?flt key j ?v = (r2, v2)" by (rule prod.exhaust)
    have r2: "r2 = r" using k d1 v2 by simp
    have tbls: "jobs_tbl d1 = jobs_tbl (w_db w)" "jobs_tbl v2 = jobs_tbl ?v"
      using RecordRetryKey_same(2) [OF refl, of ?flt key j] d1 v2 by (metis snd_conv)+
    let ?w2 = "emit (EDb (OpRetryKey key j) (err_of r)) (w1\<lparr>w_db := d1\<rparr>)"
    let ?v2 = "emit (EDb (OpRetryKey key j) (err_of r)) (w1\<lparr>w_db := v2\<rparr>)"
    have p: "pg_RecordRetryKey env key j w1 = (r, ?w2)" "pg_RecordRetryKey env key j ?v1 = (r, ?v2)"
      using d1 v2 r2 own(1) by (simp_all add: pg_RecordRetryKey_def db_do_def Let_def emit_def)
    have "seen_same (retry_now env al rds j ?v2) (retry_now env al rds j ?w2)"
      using row tbls by (intro retry_now_same) (simp_all add: find_job_def)
    moreover have "seen_same (pg_GetJobByID env j u ?v2) (pg_GetJobByID env j u ?w2)"
    proof (rule pg_get_same)
      let ?G = "\<lambda>d. GetJobByID (e_lib env) (e_flt env (w_trace ?w2)) j [u] d"
      have "?G v2 = ?G ?v" "?G d1 = ?G (w_db w)" by (simp_all add: GetJobByID_def tbls)
      then have "?G v2 = ?G d1" using view_get [OF assms(1)] by simp
      then show "?G (w_db ?v2) = ?G (w_db ?w2)" by simp
    qed simp
    ultimately show ?thesis
      using p False assms(3,5) own_job_view [OF assms(1,3)]
      by (cases "pg_GetJobByID env j u ?v2"; cases "pg_GetJobByID env j u ?w2")
        (auto simp: retryJob_def Let_def seen_same_def split: sum.split store_err.split bool.split)
  qed
qed

lemma handler_sees_own:
  assumes "store_inv (w_db w)" and "u \<noteq> uuid_Nil" and "rq_User rq = Some u"
    and "\<And>t j. owned_by u j (w_db w) \<Longrightarrow>
      history j (e_replica env t (own_view u (w_db w))) = history j (e_replica env t (w_db w))"
    and "\<And>i. key \<noteq> [] \<Longrightarrow> map_of (retry_tbl (w_db w)) key = Some i \<Longrightarrow> owned_by u i (w_db w)"
    and "key = TrimSpace (rq_Header rq ''Idempotency-Key'')"
  shows "seen_same (JobsHandler env al eid rds rq (w\<lparr>w_db := own_view u (w_db w)\<rparr>)) (JobsHandler env al eid rds rq w)"
proof -
  let ?v = "w\<lparr>w_db := own_view u (w_db w)\<rparr>"
  have ops: "seen_same (getSingle env al j u ?v) (getSingle env al j u w) \<and>
      seen_same (getEvents env al eid j u ?v) (getEvents env al eid j u w) \<and>
      seen_same (cancelJob env rq j u ?v) (cancelJob env rq j u w) \<and>
      seen_same (retryJob env al rds rq j u ?v) (retryJob env al rds rq j u w)" for j
  proof -
    obtain res w1 where o: "own_job env j u w = (res, w1)" by (rule prod.exhaust)
    note v = own_job_view [OF assms(2) o]
    show ?thesis
    proof (cases res)
      case (Inl resp)
      then show ?thesis using o v
        by (simp add: seen_same_def getSingle_def getEvents_def cancelJob_def retryJob_def)
    next
      case (Inr job)
      have own: "owned_by u j (w_db w)" "w_db w1 = w_db w" using own_job_cases [OF o assms(2)] Inr by simp_all
      have "seen_same (getSingle env al j u ?v) (getSingle env al j u w)"
        using o v Inr by (simp add: seen_same_def getSingle_def)
      then show ?thesis
        using getEvents_same [OF assms(2) o [unfolded Inr]] assms(4) [OF own(1)] own(2)
          cancelJob_same [OF assms(2,1) o [unfolded Inr]] retryJob_same [OF assms(2,1) o [unfolded Inr] assms(5,6)]
        by simp
    qed
  qed
  show ?thesis
    using ops assms(3) by (auto simp: JobsHandler_def Let_def seen_same_def [of "(_, _)"] split: prod.split option.split)
qed

subsection \<open>Properties\<close>

text \<open>A retry key is looked up among those of all tenants: one that another tenant has used on a job of
  theirs is reported as taken, and the user's own job is not retried.\<close>

lemma retry_key_disclosed:
  assumes "own_job env j u w = (Inr job, w1)" and "TrimSpace (rq_Header rq ''Idempotency-Key'') = key" and "key \<noteq> []"
    and "map_of (retry_tbl (w_db w1)) key = Some i" and "i \<noteq> j" and "e_flt env (w_trace w1) = no_faults"
  shows "fst (retryJob env al rds rq j u w) = err_response 409 ''idempotency key already used by another job''"
  using assms
  by (simp add: retryJob_def Let_def pg_RecordRetryKey_def db_do_def RecordRetryKey_def no_faults_def)

text \<open>C8. Tenant isolation of the job endpoints: whatever the request, faults and replies, a request
  authenticated as user \<open>u\<close> leaves every job of another tenant exactly as it was. When
  its path names no job of \<open>u\<close> it changes nothing at all and is answered with an error that is
  the same as on an empty store, so the existence of another tenant's job is not disclosed. And for every
  path the answer, and the calls made on the way, are those on the store that holds
  only \<open>u\<close>'s own jobs, their events and their retry keys: other tenants' data is not observable, provided
  that the read replica keeps the tenants apart and that the retry key in the request, if there is one, is not bound to
  another tenant's job. (Retry keys are global: such a key is answered with 409, which discloses that
  it is in use; lemma \<open>retry_key_disclosed\<close>.)\<close>

theorem jobs_handler_isolates_tenants:
  assumes "store_inv (w_db w)" and "u \<noteq> uuid_Nil" and "rq_User rq = Some u"
  shows "(\<forall>i r. find_job i (w_db w) = Some r \<and> OwnerUserID r \<noteq> Some u \<longrightarrow>
      find_job i (w_db (snd (JobsHandler env al eid rds rq w))) = Some r) \<and>
    (foreign_or_none (e_lib env) u (rq_Path rq) (w_db w) \<longrightarrow>
      w_db (snd (JobsHandler env al eid rds rq w)) = w_db w \<and>
      400 \<le> rs_Code (fst (JobsHandler env al eid rds rq w)) \<and>
      fst (JobsHandler env al eid rds rq w) = fst (JobsHandler env al eid rds rq (w\<lparr>w_db := empty_db\<rparr>))) \<and>
    ((\<forall>t j. owned_by u j (w_db w) \<longrightarrow>
        history j (e_replica env t (own_view u (w_db w))) = history j (e_replica env t (w_db w))) \<and>
     (\<forall>i. TrimSpace (rq_Header rq ''Idempotency-Key'') \<noteq> [] \<and>
        map_of (retry_tbl (w_db w)) (TrimSpace (rq_Header rq ''Idempotency-Key'')) = Some i \<longrightarrow> owned_by u i (w_db w)) \<longrightarrow>
      fst (JobsHandler env al eid rds rq w) = fst (JobsHandler env al eid rds rq (w\<lparr>w_db := own_view u (w_db w)\<rparr>)) \<and>
      w_trace (snd (JobsHandler env al eid rds rq w)) =
        w_trace (snd (JobsHandler env al eid rds rq (w\<lparr>w_db := own_view u (w_db w)\<rparr>))))"
proof -
  have keeps: "find_job i (w_db (snd (JobsHandler env al eid rds rq w))) = Some r"
    if r: "find_job i (w_db w) = Some r" "OwnerUserID r \<noteq> Some u" for i r
  proof -
    have own: "w_db (snd (own_job env j u w)) = w_db w" for j
      by (metis own_job_cases [OF _ assms(2)] surjective_pairing)
    have "w_db (snd (getSingle env al j u w)) = w_db w" for j
      using own [of j] by (auto simp: getSingle_def split: prod.split sum.split)
    moreover have "w_db (snd (getEvents env al eid j u w)) = w_db w" for j
      using own [of j] by (auto simp: getEvents_def pg_GetJobEvents_def db_do_def Let_def split: prod.split sum.split)
    ultimately show ?thesis
      using cancelJob_foreign [OF assms(1,2) r] retryJob_foreign [OF assms(1,2) r] r(1) assms(3)
      by (simp add: JobsHandler_def Let_def split: prod.split option.split)
  qed
  have sees: "fst (JobsHandler env al eid rds rq w) = fst (JobsHandler env al eid rds rq (w\<lparr>w_db := own_view u (w_db w)\<rparr>)) \<and>
      w_trace (snd (JobsHandler env al eid rds rq w)) =
        w_trace (snd (JobsHandler env al eid rds rq (w\<lparr>w_db := own_view u (w_db w)\<rparr>)))"
    if "\<forall>t j. owned_by u j (w_db w) \<longrightarrow>
        history j (e_replica env t (own_view u (w_db w))) = history j (e_replica env t (w_db w))"
      and "\<forall>i. TrimSpace (rq_Header rq ''Idempotency-Key'') \<noteq> [] \<and>
        map_of (retry_tbl (w_db w)) (TrimSpace (rq_Header rq ''Idempotency-Key'')) = Some i \<longrightarrow> owned_by u i (w_db w)"
  proof -
    have "seen_same (JobsHandler env al eid rds rq (w\<lparr>w_db := own_view u (w_db w)\<rparr>)) (JobsHandler env al eid rds rq w)"
      by (rule handler_sees_own [OF assms _ _ refl]) (use that in blast)+
    then show ?thesis by (simp add: seen_same_def)
  qed
  note none = foreign_response [OF assms(2,3), of env w al eid rds]
  show ?thesis
  proof (intro conjI allI impI)
    show "find_job i (w_db (snd (JobsHandler env al eid rds rq w))) = Some r"
      if "find_job i (w_db w) = Some r \<and> OwnerUserID r \<noteq> Some u" for i r using keeps that by blast
  qed (blast dest: none sees)+
qed

definition demo_get :: request where
  "demo_get = demo_post\<lparr>rq_Method := ''GET'', rq_Path := ''/v1/jobs/7''\<rparr>"

definition owned_db :: db where
  \<comment> \<open>one pending job of user 9\<close>
  "owned_db = snd (CreateJob demo_lib no_faults 7 100 100 (demo_inp\<lparr>OwnerUserID := Some 9\<rparr>) empty_db)"

lemma owned_db_inv: "store_inv owned_db"
  unfolding owned_db_def
  by (rule CreateJob_inv [OF store_inv_empty])
    (simp_all add: initial_job_def demo_inp_def zero_job_def zero_row_def zero_runtime_def
      job_row.defs Job.defs is_int16_def fresh_id_def empty_db_def)

definition tenants_db :: db where
  \<comment> \<open>and one of user 5\<close>
  "tenants_db = snd (CreateJob demo_lib no_faults 8 100 100 (demo_inp\<lparr>OwnerUserID := Some 5, IdempotencyKey := None\<rparr>) owned_db)"

lemma tenants_db_inv: "store_inv tenants_db"
proof -
  have "fresh_id 8 owned_db" unfolding fresh_id_def by code_simp
  then show ?thesis
    unfolding tenants_db_def
    by (intro CreateJob_inv [OF owned_db_inv])
      (simp_all add: initial_job_def demo_inp_def zero_job_def zero_row_def zero_runtime_def job_row.defs Job.defs is_int16_def)
qed

lemma jobs_handler_isolates_tenants_witness:
  "w_db (snd (JobsHandler live_env demo_al (\<lambda>_. 0) None demo_get \<lparr>w_db = demo_d1, w_trace = []\<rparr>)) = demo_d1 \<and>
   400 \<le> rs_Code (fst (JobsHandler live_env demo_al (\<lambda>_. 0) None demo_get \<lparr>w_db = demo_d1, w_trace = []\<rparr>)) \<and>
   map JobID (jobs_tbl tenants_db) = [7, 8] \<and> map JobID (jobs_tbl (own_view 9 tenants_db)) = [7] \<and>
   fst (JobsHandler live_env demo_al (\<lambda>_. 0) None demo_get \<lparr>w_db = tenants_db, w_trace = []\<rparr>) =
     fst (JobsHandler live_env demo_al (\<lambda>_. 0) None demo_get \<lparr>w_db = own_view 9 tenants_db, w_trace = []\<rparr>)"
proof -
  let ?v = "\<lparr>w_db = tenants_db, w_trace = []\<rparr>"
  have p: "uuid_Parse demo_lib ''7'' = Some 7" by code_simp
  have "list_all (\<lambda>r. OwnerUserID r = None) (jobs_tbl demo_d1)" by code_simp
  then have "\<not> owned_by 9 7 demo_d1" by (auto simp: owned_by_def list_all_iff)
  then have "foreign_or_none (e_lib live_env) 9 (rq_Path demo_get) demo_d1"
    by (simp add: foreign_or_none_def demo_get_def jobs_rest_def CutPrefix_def CutChar_def Let_def
        live_env_def dead_env_def p)
  then have f: "foreign_or_none (e_lib live_env) 9 (rq_Path demo_get) (w_db \<lparr>w_db = demo_d1, w_trace = []\<rparr>)"
    by simp
  have u: "rq_User demo_get = Some 9" by (simp add: demo_get_def demo_post_def)
  have i: "store_inv (w_db \<lparr>w_db = demo_d1, w_trace = []\<rparr>)" using demo_inv(1) by simp
  let ?w = "\<lparr>w_db = demo_d1, w_trace = []\<rparr>"
  have "w_db (snd (JobsHandler live_env demo_al (\<lambda>_. 0) None demo_get ?w)) = w_db ?w \<and>
      400 \<le> rs_Code (fst (JobsHandler live_env demo_al (\<lambda>_. 0) None demo_get ?w))"
    using jobs_handler_isolates_tenants [OF i _ u, of live_env demo_al "\<lambda>_. 0" None] f by force
  moreover have "fst (JobsHandler live_env demo_al (\<lambda>_. 0) None demo_get ?v) =
      fst (JobsHandler live_env demo_al (\<lambda>_. 0) None demo_get (?v\<lparr>w_db := own_view 9 (w_db ?v)\<rparr>))"
  proof -
    have "store_inv (w_db ?v)" using tenants_db_inv by simp
    note n = jobs_handler_isolates_tenants [OF this _ u, of live_env demo_al "\<lambda>_. 0" None, THEN conjunct2, THEN conjunct2,
        THEN mp, THEN conjunct1]
    have h: "history j (e_replica live_env t (own_view 9 tenants_db)) = history j (e_replica live_env t tenants_db)"
      if "owned_by 9 j tenants_db" for t j
      using that by (auto simp: live_env_def dead_env_def history_def own_view_def intro!: filter_cong)
    have k: "TrimSpace (rq_Header demo_get ''Idempotency-Key'') = []"
      by (simp add: demo_get_def demo_post_def TrimSpace_def)
    show ?thesis by (rule n) (use h k in auto)
  qed
  moreover have "map JobID (jobs_tbl tenants_db) = [7, 8]" "map JobID (jobs_tbl (own_view 9 tenants_db)) = [7]" by code_simp+
  ultimately show ?thesis by simp
qed

subsection \<open>Manual retry\<close>

definition retry_request :: "golib \<Rightarrow> request \<Rightarrow> uuid \<Rightarrow> string \<Rightarrow> bool" where
  \<comment> \<open>\<open>POST .../{id}/retry\<close> with an idempotency key\<close>
  "retry_request lib rq j key \<longleftrightarrow>
     rq_Method rq = ''POST'' \<and> jobs_rest (rq_Path rq) \<noteq> [] \<and> \<not> Contains (jobs_rest (rq_Path rq)) ''/../'' \<and>
     (case CutChar (CHR ''/'') (jobs_rest (rq_Path rq)) of (idPart, sub, _) \<Rightarrow>
        uuid_Parse lib idPart = Some j \<and> sub = ''retry'') \<and>
     key = TrimSpace (rq_Header rq ''Idempotency-Key'') \<and> key \<noteq> []"

lemma retry_request_handler:
  assumes "retry_request (e_lib env) rq j key" and "rq_User rq = Some u"
  shows "JobsHandler env al eid rds rq w = retryJob env al rds rq j u w"
  using assms by (auto simp: retry_request_def JobsHandler_def Let_def split: prod.splits)

lemma retry_request_key:
  assumes "retry_request lib rq j key"
  shows "key \<noteq> []" and "TrimSpace (rq_Header rq ''Idempotency-Key'') = key"
  using assms unfolding retry_request_def by blast+

lemma own_job_owned:
  assumes "u \<noteq> uuid_Nil" and "owned_by u j (w_db w)" and "e_flt env (w_trace w) = no_faults"
  obtains job where "own_job env j u w = (Inr job, emit (EDb (OpGet j) None) w)"
    and "pg_GetJobByID env j u w = (Inr job, emit (EDb (OpGet j) None) w)"
proof -
  obtain job where "GetJobByID (e_lib env) (e_flt env (w_trace w)) j [u] (w_db w) = Inr job"
    using GetJobByID_owned(1) [OF assms(1), of "e_lib env" "e_flt env (w_trace w)" j "w_db w"] assms(2,3)
    by (auto simp: no_faults_def)
  then show ?thesis
    by (intro that [of job]) (simp_all add: own_job_def pg_GetJobByID_def db_do_def Let_def)
qed

lemma retry_replay:
  assumes "retry_request (e_lib env) rq j key" and "rq_User rq = Some u" and "u \<noteq> uuid_Nil"
    and "owned_by u j (w_db w)" and "\<And>t. e_flt env t = no_faults"
    and "map_of (retry_tbl (w_db w)) key = Some j"
  shows "\<exists>ref w'. JobsHandler env al eid rds rq w =
      (writeJSON 200 (ref @ [(''deduplicated'', JBool True)]), w') \<and> w_db w' = w_db w \<and>
    w_trace w' = w_trace w @ [EDb (OpGet j) None, EDb (OpRetryKey key j) None, EDb (OpGet j) None]"
proof -
  obtain job where o: "own_job env j u w = (Inr job, emit (EDb (OpGet j) None) w)"
    by (rule own_job_owned [OF assms(3,4,5)])
  note kn = retry_request_key [OF assms(1)]
  let ?w1 = "emit (EDb (OpGet j) None) w"
  have k: "pg_RecordRetryKey env key j ?w1 = (Inr True, emit (EDb (OpRetryKey key j) None) ?w1)"
    using kn(1) assms(6)
    by (simp add: pg_RecordRetryKey_def db_do_def Let_def RecordRetryKey_def assms(5) no_faults_def)
  let ?w2 = "emit (EDb (OpRetryKey key j) None) ?w1"
  have "owned_by u j (w_db ?w2)" using assms(4) by simp
  then obtain job2 where g: "pg_GetJobByID env j u ?w2 = (Inr job2, emit (EDb (OpGet j) None) ?w2)"
    by (rule own_job_owned [OF assms(3) _ assms(5)])
  show ?thesis using retry_request_handler [OF assms(1,2)] kn o k g
    by (simp add: retryJob_def Let_def) blast
qed

text \<open>C11. Retry keys over HTTP: on a caller's own job and with a new key, the request retries a
  failed job (the row is pending with its attempts reset, and the answer 200 or 202) and
  refuses any other with 409, leaving it unchanged; in both cases the key is now bound to the
  job. From then on, in every later state in which the key is bound and the job stored, the
  same request is answered 200 and \<open>deduplicated\<close>, changes nothing and dispatches nothing:
  a resend is safe, and a key spent on a refused retry can never retry the job.\<close>

theorem retry_resend:
  assumes "retry_request (e_lib env) rq j key" and "rq_User rq = Some u" and "u \<noteq> uuid_Nil"
    and "\<And>t. e_flt env t = no_faults" and "store_inv (w_db w)"
    and "find_job j (w_db w) = Some r" and "OwnerUserID r = Some u"
    and "map_of (retry_tbl (w_db w)) key = None"
    and "JobsHandler env al eid rds rq w = (resp, w1)"
  shows "map_of (retry_tbl (w_db w1)) key = Some j \<and>
    (if Status r = JobFailed
     then rs_Code resp \<in> {200, 202} \<and> find_job j (w_db w1) = Some (set_retried r)
     else rs_Code resp = 409 \<and> find_job j (w_db w1) = Some r) \<and>
    (\<forall>w2. map_of (retry_tbl (w_db w2)) key = Some j \<and> owned_by u j (w_db w2) \<longrightarrow>
      (\<exists>ref w3. JobsHandler env al eid rds rq w2 =
          (writeJSON 200 (ref @ [(''deduplicated'', JBool True)]), w3) \<and> w_db w3 = w_db w2 \<and>
        w_trace w3 = w_trace w2 @ [EDb (OpGet j) None, EDb (OpRetryKey key j) None, EDb (OpGet j) None]))"
proof -
  have "owned_by u j (w_db w)" using find_jobD [OF assms(6)] assms(7) by (auto simp: owned_by_def)
  then obtain job where o: "own_job env j u w = (Inr job, emit (EDb (OpGet j) None) w)"
    by (rule own_job_owned [OF assms(3) _ assms(4)])
  let ?w1 = "emit (EDb (OpGet j) None) w"
  note kn = retry_request_key [OF assms(1)]
  let ?d = "(w_db w)\<lparr>retry_tbl := (key, j) # retry_tbl (w_db w)\<rparr>"
  let ?w2 = "emit (EDb (OpRetryKey key j) None) (?w1\<lparr>w_db := ?d\<rparr>)"
  have k: "pg_RecordRetryKey env key j ?w1 = (Inr False, ?w2)"
    using kn(1) assms(8)
    by (simp add: pg_RecordRetryKey_def db_do_def Let_def RecordRetryKey_def assms(4) no_faults_def)
  have h: "retry_now env al rds j ?w2 = (resp, w1)"
    using assms(9) retry_request_handler [OF assms(1,2)] kn o k
    by (simp add: retryJob_def Let_def)
  have f: "find_job j ?d = Some r" using assms(6) by (simp add: find_job_def)
  have "w_db w1 = snd (RetryJob (e_lib env) no_faults (e_dbnow env (w_trace ?w2)) j ?d)"
    using retry_now_db [of env al rds j ?w2] h assms(4) by simp
  then have db: "map_of (retry_tbl (w_db w1)) key = Some j \<and>
      find_job j (w_db w1) = Some (if Status r = JobFailed then set_retried r else r)"
    using f by (auto simp: RetryJob_def no_faults_def commit_tx_def find_job_upd)
  have "rs_Code resp \<in> (if Status r = JobFailed then {200, 202} else {409})"
  proof (cases "Status r = JobFailed")
    case True
    obtain out wr where "pg_RetryJob env j ?w2 = (Inr out, wr)"
      using f True by (simp add: pg_RetryJob_def db_do_def Let_def RetryJob_def assms(4) no_faults_def commit_tx_def)
    then have "push_response env al rds retry_texts out wr = (resp, w1)" using h by (simp add: retry_now_def)
    from push_response_cases [OF this [unfolded retry_texts_def]] show ?thesis using True by auto
  next
    case False
    then show ?thesis using h f
      by (auto simp: retry_now_def pg_RetryJob_def db_do_def Let_def RetryJob_def assms(4) no_faults_def)
  qed
  then show ?thesis using db retry_replay [OF assms(1,2,3) _ assms(4)] by auto
qed

definition demo_retry :: request where
  "demo_retry = demo_post\<lparr>rq_Path := ''/v1/jobs/7/retry'', rq_Header := (\<lambda>_. ''r1'')\<rparr>"

lemma retry_resend_witness:
  "\<exists>resp w1 ref w3. JobsHandler live_env demo_al (\<lambda>_. 0) None demo_retry \<lparr>w_db = owned_db, w_trace = []\<rparr> = (resp, w1) \<and>
     rs_Code resp = 409 \<and>
     JobsHandler live_env demo_al (\<lambda>_. 0) None demo_retry w1 =
       (writeJSON 200 (ref @ [(''deduplicated'', JBool True)]), w3) \<and> w_db w3 = w_db w1"
proof -
  let ?w = "\<lparr>w_db = owned_db, w_trace = []\<rparr>"
  obtain resp w1 where h: "JobsHandler live_env demo_al (\<lambda>_. 0) None demo_retry ?w = (resp, w1)"
    by (rule prod.exhaust)
  have p: "uuid_Parse demo_lib ''7'' = Some 7" by code_simp
  have q: "retry_request (e_lib live_env) demo_retry 7 ''r1''"
    by (simp add: retry_request_def demo_retry_def demo_post_def jobs_rest_def CutPrefix_def CutChar_def
        Let_def live_env_def dead_env_def p TrimSpace_def is_space_def)
  have u: "rq_User demo_retry = Some 9" by (simp add: demo_retry_def demo_post_def)
  have e: "e_flt live_env t = no_faults" for t by (simp add: live_env_def dead_env_def)
  have f: "find_job 7 (w_db ?w) = Some (hd (jobs_tbl owned_db))"
    "OwnerUserID (hd (jobs_tbl owned_db)) = Some 9" "Status (hd (jobs_tbl owned_db)) = JobPending"
    "map_of (retry_tbl (w_db ?w)) ''r1'' = None" by code_simp+
  have i: "store_inv (w_db ?w)" using owned_db_inv by simp
  have n: "(9::uuid) \<noteq> uuid_Nil" by simp
  note r = retry_resend [OF q u n e i f(1,2,4) h]
  from r f(3) have c: "rs_Code resp = 409" "find_job 7 (w_db w1) = Some (hd (jobs_tbl owned_db))"
    and k: "map_of (retry_tbl (w_db w1)) ''r1'' = Some 7" by auto
  have "owned_by 9 7 (w_db w1)" using find_jobD [OF c(2)] f(2) by (auto simp: owned_by_def)
  with r k have "\<exists>ref w3. JobsHandler live_env demo_al (\<lambda>_. 0) None demo_retry w1 =
       (writeJSON 200 (ref @ [(''deduplicated'', JBool True)]), w3) \<and> w_db w3 = w_db w1" by blast
  with h c(1) show ?thesis by blast
qed

end
