(* ===== verification/Auth.thy ===== *)
theory Auth
  imports Http
begin

text \<open>
  Accounts and credentials: the tables of \<open>migrations/000008\<close> and \<open>000009\<close> with
  \<open>internal/storage/users\<close> and \<open>internal/storage/auth\<close>, tokens and passwords
  (\<open>internal/auth\<close>), the middleware \<open>RequireAuth\<close> and the handlers for registration, login
  and API keys. The JWT package, bcrypt and SHA-256 are the fields of \<open>authlib\<close>; \<open>jwt_Parse\<close>
  takes the key function that the package calls with the token's signing algorithm. What a
  request meets (clocks, random bytes, generated identifiers, the fate of a statement, the
  read replica) is the record \<open>aenv\<close>.
\<close>

subsection \<open>Tables and parameters\<close>

record User =
  UserID :: uuid
  UserName :: string
  Email :: string
  PasswordHash :: string
  UserCreatedAt :: instant

record APIKey =
  KeyID :: uuid
  KeyUser :: uuid
  KeyHash :: string
  KeyName :: string
  RevokedAt :: "instant option"
  KeyCreatedAt :: instant

record auth_db =
  users_tbl :: "User list"
  keys_tbl :: "APIKey list"

record authlib =
  jwt_Sign :: "string \<Rightarrow> string \<Rightarrow> instant \<Rightarrow> instant \<Rightarrow> string option"
    \<comment> \<open>HS256 with a secret: subject, expiry and issue instants\<close>
  jwt_Parse :: "string \<Rightarrow> (string \<Rightarrow> string option) \<Rightarrow> instant \<Rightarrow> string option"
    \<comment> \<open>the subject of a valid token\<close>
  bcrypt_Hash :: "string \<Rightarrow> string \<Rightarrow> string option" \<comment> \<open>with the salt it draws\<close>
  bcrypt_Compare :: "string \<Rightarrow> string \<Rightarrow> bool"
  sha256 :: "string \<Rightarrow> string"

datatype fate = Done | Failed | Lost \<comment> \<open>done, but the answer is lost\<close>

record aenv =
  a_now :: instant
  a_dbnow :: instant
  a_id :: uuid \<comment> \<open>\<open>gen_random_uuid()\<close>\<close>
  a_salt :: string
  a_rand :: "string option" \<comment> \<open>\<open>rand.Read\<close> of 32 bytes\<close>
  a_read :: bool \<comment> \<open>reads succeed\<close>
  a_write :: fate
  a_replica :: "auth_db \<Rightarrow> auth_db"

definition authlib_ok :: "authlib \<Rightarrow> bool" where
  \<comment> \<open>documented round trips: a signed token is valid until its expiry (whole seconds) for the
     key it was signed with, and a password matches its own hash\<close>
  "authlib_ok al \<longleftrightarrow>
     (\<forall>s sub e i tok key now. jwt_Sign al s sub e i = Some tok \<and> key ''HS256'' = Some s \<and>
        now < (e div second) * second \<longrightarrow> jwt_Parse al tok key now = Some sub) \<and>
     (\<forall>p salt h. bcrypt_Hash al p salt = Some h \<longrightarrow> bcrypt_Compare al h p \<and> h \<noteq> [])"

subsection \<open>Tokens and passwords\<close>

definition IssueToken ::
  "golib \<Rightarrow> authlib \<Rightarrow> instant \<Rightarrow> uuid \<Rightarrow> string \<Rightarrow> duration \<Rightarrow> (string \<times> instant) option" where
  "IssueToken lib al now userID secret ttl =
     (if secret = [] then None
      else map_option (\<lambda>tok. (tok, now + ttl))
        (jwt_Sign al secret (uuid_String lib userID) (now + ttl) now))"

definition jwt_key :: "string \<Rightarrow> string \<Rightarrow> string option" where
  \<comment> \<open>the key function: HS256 only\<close>
  "jwt_key secret alg = (if alg = ''HS256'' then Some secret else None)"

definition ParseToken :: "golib \<Rightarrow> authlib \<Rightarrow> instant \<Rightarrow> string \<Rightarrow> string \<Rightarrow> uuid option" where
  "ParseToken lib al now rawtok secret =
     (if secret = [] then None
      else case jwt_Parse al rawtok (jwt_key secret) now of
        None \<Rightarrow> None | Some sub \<Rightarrow> uuid_Parse lib sub)"

definition HashPassword :: "authlib \<Rightarrow> string \<Rightarrow> string \<Rightarrow> string option" where
  "HashPassword al salt password = bcrypt_Hash al password salt"

definition VerifyPassword :: "authlib \<Rightarrow> string \<Rightarrow> string \<Rightarrow> bool" where
  "VerifyPassword al hash password = bcrypt_Compare al hash password"

definition BearerToken :: "request \<Rightarrow> string" where
  "BearerToken rq =
     (case CutPrefix (rq_Header rq ''Authorization'') ''Bearer '' of
        None \<Rightarrow> [] | Some rest \<Rightarrow> TrimSpace rest)"

subsection \<open>Users\<close>

datatype user_err = ErrUserExists | UserArgs | UserNoRows | UserDb

definition CreateUser :: "aenv \<Rightarrow> string \<Rightarrow> string \<Rightarrow> string \<Rightarrow> auth_db \<Rightarrow> (user_err + User) \<times> auth_db" where
  "CreateUser ae name email passwordHash d =
     (if name = [] \<or> email = [] \<or> passwordHash = [] then (Inl UserArgs, d)
      else if a_write ae = Failed then (Inl UserDb, d)
      else if \<exists>u \<in> set (users_tbl d). Email u = email
        then (Inl (if a_write ae = Done then ErrUserExists else UserDb), d)
      else if \<exists>u \<in> set (users_tbl d). UserID u = a_id ae then (Inl UserDb, d)
      else
        (let u = \<lparr>UserID = a_id ae, UserName = name, Email = email, PasswordHash = passwordHash,
                  UserCreatedAt = a_dbnow ae\<rparr>;
             d1 = d\<lparr>users_tbl := users_tbl d @ [u]\<rparr>
         in (if a_write ae = Done then Inr u else Inl UserDb, d1)))"

definition GetUserByEmail :: "aenv \<Rightarrow> string \<Rightarrow> auth_db \<Rightarrow> user_err + User" where
  "GetUserByEmail ae email d =
     (if \<not> a_read ae then Inl UserDb
      else case List.find (\<lambda>u. Email u = email) (users_tbl (a_replica ae d)) of
        None \<Rightarrow> Inl UserNoRows | Some u \<Rightarrow> Inr u)"

definition GetUserByID :: "aenv \<Rightarrow> uuid \<Rightarrow> auth_db \<Rightarrow> user_err + User" where
  "GetUserByID ae i d =
     (if \<not> a_read ae then Inl UserDb
      else case List.find (\<lambda>u. UserID u = i) (users_tbl (a_replica ae d)) of
        None \<Rightarrow> Inl UserNoRows | Some u \<Rightarrow> Inr u)"

subsection \<open>API keys\<close>

datatype key_err = KeyNoRows | KeyRand | KeyDb

definition HashKey :: "authlib \<Rightarrow> string \<Rightarrow> string" where
  "HashKey al plaintext = hex_encode (sha256 al plaintext)"

definition CreateKey ::
  "authlib \<Rightarrow> aenv \<Rightarrow> uuid \<Rightarrow> string \<Rightarrow> auth_db \<Rightarrow> (key_err + string \<times> APIKey) \<times> auth_db" where
  "CreateKey al ae userID name d =
     (case a_rand ae of
        None \<Rightarrow> (Inl KeyRand, d)
      | Some bytes \<Rightarrow>
          (let plaintext = ''pmq_'' @ hex_encode bytes; hash = HashKey al plaintext in
           if a_write ae = Failed \<or> (\<exists>k \<in> set (keys_tbl d). KeyHash k = hash \<or> KeyID k = a_id ae) \<or>
              \<not> (\<exists>u \<in> set (users_tbl d). UserID u = userID)
           then (Inl KeyDb, d)
           else
             (let k = \<lparr>KeyID = a_id ae, KeyUser = userID, KeyHash = hash, KeyName = name,
                       RevokedAt = None, KeyCreatedAt = a_dbnow ae\<rparr>;
                  d1 = d\<lparr>keys_tbl := keys_tbl d @ [k]\<rparr>
              in (if a_write ae = Done then Inr (plaintext, k) else Inl KeyDb, d1))))"

definition LookupActive :: "authlib \<Rightarrow> aenv \<Rightarrow> string \<Rightarrow> auth_db \<Rightarrow> key_err + APIKey" where
  "LookupActive al ae plaintext d =
     (if \<not> a_read ae then Inl KeyDb
      else case List.find (\<lambda>k. KeyHash k = HashKey al plaintext \<and> RevokedAt k = None)
                  (keys_tbl (a_replica ae d)) of
        None \<Rightarrow> Inl KeyNoRows | Some k \<Rightarrow> Inr k)"

definition ListKeys :: "aenv \<Rightarrow> uuid \<Rightarrow> auth_db \<Rightarrow> key_err + APIKey list" where
  "ListKeys ae userID d =
     (if \<not> a_read ae then Inl KeyDb
      else Inr (order_by_desc KeyCreatedAt (filter (\<lambda>k. KeyUser k = userID) (keys_tbl (a_replica ae d)))))"

definition RevokeKey :: "aenv \<Rightarrow> uuid \<Rightarrow> uuid \<Rightarrow> auth_db \<Rightarrow> key_err option \<times> auth_db" where
  "RevokeKey ae userID keyID d =
     (let hit = (\<lambda>k. KeyID k = keyID \<and> KeyUser k = userID \<and> RevokedAt k = None);
          d1 = d\<lparr>keys_tbl := update_where hit (\<lambda>k. k\<lparr>RevokedAt := Some (a_dbnow ae)\<rparr>) (keys_tbl d)\<rparr>
      in if a_write ae = Failed then (Some KeyDb, d)
         else if a_write ae = Lost then (Some KeyDb, d1)
         else if \<not> (\<exists>k \<in> set (keys_tbl d). hit k) then (Some KeyNoRows, d1)
         else (None, d1))"

subsection \<open>The middleware\<close>

definition RequireAuth ::
  "golib \<Rightarrow> authlib \<Rightarrow> aenv \<Rightarrow> bool \<Rightarrow> string \<Rightarrow> request \<Rightarrow> auth_db \<Rightarrow> response + request" where
  \<comment> \<open>a refusal, or the request with its user; the flag says that there is a key store\<close>
  "RequireAuth lib al ae keyStore jwtSecret rq d =
     (let rawtok = BearerToken rq in
      if rawtok = [] then Inl (err_response 401 ''missing bearer token'')
      else case ParseToken lib al (a_now ae) rawtok jwtSecret of
        Some i \<Rightarrow> Inr (rq\<lparr>rq_User := Some i\<rparr>)
      | None \<Rightarrow>
          if keyStore then
            (case LookupActive al ae rawtok d of
               Inr rec \<Rightarrow> Inr (rq\<lparr>rq_User := Some (KeyUser rec)\<rparr>)
             | Inl KeyNoRows \<Rightarrow> Inl (err_response 401 ''invalid or expired credentials'')
             | Inl _ \<Rightarrow> Inl (err_response 503 ''auth lookup failed''))
          else Inl (err_response 401 ''invalid or expired credentials''))"

subsection \<open>Handlers\<close>

definition RegisterHandler ::
  "golib \<Rightarrow> apilib \<Rightarrow> authlib \<Rightarrow> aenv \<Rightarrow> request \<Rightarrow> auth_db \<Rightarrow> response \<times> auth_db" where
  "RegisterHandler lib api al ae rq d =
     (if rq_Method rq \<noteq> ''POST'' then (method_not_allowed ''POST'', d)
      else case decodeJSON api [''name'', ''email'', ''password''] rq of
        Inl e \<Rightarrow> (writeDecodeError api e, d)
      | Inr req \<Rightarrow>
          (let name = TrimSpace (str_of req ''name''); email = TrimSpace (str_of req ''email'');
               password = str_of req ''password'' in
           if name = [] \<or> email = [] \<or> length password < 8 \<or> \<not> Contains email ''@''
             then (err_response 400 ''name, valid email and password (min 8 chars) are required'', d)
           else case HashPassword al (a_salt ae) password of
             None \<Rightarrow> (err_response 500 ''password hashing failed'', d)
           | Some hash \<Rightarrow>
               (case CreateUser ae name email hash d of
                  (Inl ErrUserExists, d1) \<Rightarrow> (err_response 409 ''email already taken'', d1)
                | (Inl _, d1) \<Rightarrow> (err_response 500 ''create user failed'', d1)
                | (Inr u, d1) \<Rightarrow>
                    (writeJSON 201 [(''user_id'', JStr (uuid_String lib (UserID u))),
                       (''email'', JStr (Email u))], d1))))"

definition LoginHandler ::
  "golib \<Rightarrow> apilib \<Rightarrow> authlib \<Rightarrow> aenv \<Rightarrow> string \<Rightarrow> duration \<Rightarrow> request \<Rightarrow> auth_db \<Rightarrow> response" where
  "LoginHandler lib api al ae jwtSecret ttl rq d =
     (if rq_Method rq \<noteq> ''POST'' then method_not_allowed ''POST''
      else case decodeJSON api [''email'', ''password''] rq of
        Inl e \<Rightarrow> writeDecodeError api e
      | Inr req \<Rightarrow>
          (case GetUserByEmail ae (TrimSpace (str_of req ''email'')) d of
             Inl UserNoRows \<Rightarrow> err_response 401 ''invalid credentials''
           | Inl _ \<Rightarrow> err_response 500 ''login failed''
           | Inr u \<Rightarrow>
               if \<not> VerifyPassword al (PasswordHash u) (str_of req ''password'')
                 then err_response 401 ''invalid credentials''
               else case IssueToken lib al (a_now ae) (UserID u) jwtSecret ttl of
                 None \<Rightarrow> err_response 500 ''token issue failed''
               | Some (token, expiresAt) \<Rightarrow>
                   writeJSON 200 [(''token'', JStr token), (''expires_at'', JStr (time_Format api expiresAt))]))"

definition key_json :: "golib \<Rightarrow> apilib \<Rightarrow> APIKey \<Rightarrow> json" where
  \<comment> \<open>\<open>keyOut\<close>: no hash\<close>
  "key_json lib api k =
     JObj ([(''key_id'', JStr (uuid_String lib (KeyID k))), (''name'', JStr (KeyName k))] @
       (case RevokedAt k of Some t \<Rightarrow> [(''revoked_at'', JStr (time_Format api t))] | None \<Rightarrow> []) @
       [(''created_at'', JStr (time_Format api (KeyCreatedAt k)))])"

definition APIKeysHandler ::
  "golib \<Rightarrow> apilib \<Rightarrow> authlib \<Rightarrow> aenv \<Rightarrow> request \<Rightarrow> auth_db \<Rightarrow> response \<times> auth_db" where
  "APIKeysHandler lib api al ae rq d =
     (case rq_User rq of
        None \<Rightarrow> (err_response 401 ''unauthenticated'', d)
      | Some userID \<Rightarrow>
          if rq_Method rq = ''POST'' then
            (case decodeJSON api [''name''] rq of
               Inl e \<Rightarrow> (writeDecodeError api e, d)
             | Inr req \<Rightarrow>
                 (case CreateKey al ae userID (TrimSpace (str_of req ''name'')) d of
                    (Inl _, d1) \<Rightarrow> (err_response 500 ''create key failed'', d1)
                  | (Inr (plaintext, rec), d1) \<Rightarrow>
                      (writeJSON 201 [(''key'', JStr plaintext), (''key_id'', JStr (uuid_String lib (KeyID rec))),
                         (''warning'', JStr ''store this key now; it is never shown again'')], d1)))
          else if rq_Method rq = ''GET'' then
            (case ListKeys ae userID d of
               Inl _ \<Rightarrow> (err_response 500 ''list keys failed'', d)
             | Inr ks \<Rightarrow> (writeJSON 200 [(''keys'', JArr (map (key_json lib api) ks))], d))
          else (method_not_allowed ''GET, POST'', d))"

definition APIKeyRevokeHandler ::
  "golib \<Rightarrow> apilib \<Rightarrow> aenv \<Rightarrow> request \<Rightarrow> auth_db \<Rightarrow> response \<times> auth_db" where
  "APIKeyRevokeHandler lib api ae rq d =
     (if rq_Method rq \<noteq> ''POST'' then (method_not_allowed ''POST'', d)
      else case rq_User rq of
        None \<Rightarrow> (err_response 401 ''unauthenticated'', d)
      | Some userID \<Rightarrow>
          (case decodeJSON api [''key_id''] rq of
             Inl e \<Rightarrow> (writeDecodeError api e, d)
           | Inr req \<Rightarrow>
               (case uuid_Parse lib (str_of req ''key_id'') of
                  None \<Rightarrow> (err_response 400 ''invalid key_id'', d)
                | Some keyID \<Rightarrow>
                    (case RevokeKey ae userID keyID d of
                       (Some KeyNoRows, d1) \<Rightarrow> (err_response 404 ''key not found'', d1)
                     | (Some _, d1) \<Rightarrow> (err_response 500 ''revoke failed'', d1)
                     | (None, d1) \<Rightarrow> (writeJSON 200 [(''status'', JStr ''revoked'')], d1)))))"

end
