(* ===== verification/Auth_Props.thy ===== *)
theory Auth_Props
  imports Auth
begin

text \<open>
  Credentials: a registered user can log in and use the token, an API key works from its
  creation until its owner revokes it, and nobody else can revoke it.
\<close>

subsection \<open>Lemmas\<close>

lemma TrimSpace_id: "list_all (\<lambda>c. \<not> is_space c) s \<Longrightarrow> TrimSpace s = s"
proof -
  have d: "dropWhile is_space s = s" if "list_all (\<lambda>c. \<not> is_space c) s" for s
    using that by (cases s) auto
  assume a: "list_all (\<lambda>c. \<not> is_space c) s"
  then have "list_all (\<lambda>c. \<not> is_space c) (rev s)" by simp
  then show ?thesis using d [OF a] d by (simp add: TrimSpace_def)
qed

lemma hex_digit_nonspace: "n < 16 \<Longrightarrow> \<not> is_space (hex_digit n)"
  by (auto simp: hex_digit_def is_space_def of_char_of)

lemma hex_encode_nonspace: "list_all (\<lambda>c. \<not> is_space c) (hex_encode s)"
proof (induction s)
  case (Cons c s)
  have "(of_char c :: nat) div 16 < 16" by (simp add: less_mult_imp_div_less)
  then show ?case using Cons by (simp add: Let_def hex_digit_nonspace)
qed simp

lemma key_text_trim: "TrimSpace (''pmq_'' @ hex_encode b) = ''pmq_'' @ hex_encode b"
proof (rule TrimSpace_id)
  show "list_all (\<lambda>c. \<not> is_space c) (''pmq_'' @ hex_encode b)"
    using hex_encode_nonspace [of b] by (simp add: is_space_def)
qed

lemma BearerToken_of:
  "rq_Header rq ''Authorization'' = ''Bearer '' @ tok \<Longrightarrow> TrimSpace tok = tok \<Longrightarrow> BearerToken rq = tok"
  by (simp add: BearerToken_def CutPrefix_def)

lemma CreateKey_Inr:
  assumes "CreateKey al ae u name d = (Inr (tok, k), d1)"
  shows "keys_tbl d1 = keys_tbl d @ [k] \<and> KeyHash k = HashKey al tok \<and> KeyUser k = u \<and> RevokedAt k = None \<and>
    (\<exists>b. tok = ''pmq_'' @ hex_encode b) \<and>
    (\<forall>x \<in> set (keys_tbl d). KeyHash x \<noteq> KeyHash k \<and> KeyID x \<noteq> KeyID k)"
  using assms by (auto simp: CreateKey_def Let_def split: option.splits if_splits)

lemma find_append:
  "List.find p (xs @ ys) = (case List.find p xs of Some x \<Rightarrow> Some x | None \<Rightarrow> List.find p ys)"
  by (induction xs) auto

lemma find_none: "(\<And>x. x \<in> set xs \<Longrightarrow> \<not> p x) \<Longrightarrow> List.find p xs = None"
  by (auto simp: find_None_iff)

lemma update_where_none: "(\<And>x. x \<in> set xs \<Longrightarrow> \<not> p x) \<Longrightarrow> update_where p f xs = xs"
  by (simp add: update_where_def map_idI)

subsection \<open>Properties\<close>

text \<open>C31. The life of an API key: with reads that see the write, the key text that \<open>CreateKey\<close>
  returned authenticates its owner (unless the text also parses as a token); a revocation by
  anyone else finds no row and changes nothing; a revocation by the owner succeeds, and from
  then on the key is refused with 401. The table holds the hash of the text.\<close>

theorem api_key_lifecycle:
  assumes "CreateKey al ae u name d = (Inr (tok, k), d1)"
    and "rq_Header rq ''Authorization'' = ''Bearer '' @ tok"
    and "ParseToken lib al (a_now ae2) tok secret = None"
    and "a_read ae2" and "\<And>x. a_replica ae2 x = x" and "a_write ae2 = Done"
  shows "RequireAuth lib al ae2 True secret rq d1 = Inr (rq\<lparr>rq_User := Some u\<rparr>) \<and>
    (\<forall>v. v \<noteq> u \<longrightarrow> RevokeKey ae2 v (KeyID k) d1 = (Some KeyNoRows, d1)) \<and>
    (\<exists>d2. RevokeKey ae2 u (KeyID k) d1 = (None, d2) \<and>
       RequireAuth lib al ae2 True secret rq d2 = Inl (err_response 401 ''invalid or expired credentials'')) \<and>
    k \<in> set (keys_tbl d1) \<and> KeyHash k = HashKey al tok"
proof -
  note k = CreateKey_Inr [OF assms(1)]
  have tok: "BearerToken rq = tok" "tok \<noteq> []"
    using BearerToken_of [OF assms(2)] k key_text_trim by auto
  have fresh: "KeyHash x \<noteq> HashKey al tok" "KeyID x \<noteq> KeyID k" if "x \<in> set (keys_tbl d)" for x
    using k that by auto
  have look: "RequireAuth lib al ae2 True secret rq x =
      (case LookupActive al ae2 tok x of
         Inr rec \<Rightarrow> Inr (rq\<lparr>rq_User := Some (KeyUser rec)\<rparr>)
       | Inl KeyNoRows \<Rightarrow> Inl (err_response 401 ''invalid or expired credentials'')
       | Inl _ \<Rightarrow> Inl (err_response 503 ''auth lookup failed''))" for x
    using tok assms(3) by (simp add: RequireAuth_def)
  have "LookupActive al ae2 tok d1 = Inr k"
    using assms(4,5) k fresh(1) by (simp add: LookupActive_def find_append find_none)
  moreover have "RevokeKey ae2 v (KeyID k) d1 = (Some KeyNoRows, d1)" if "v \<noteq> u" for v
  proof -
    have "\<not> (KeyID x = KeyID k \<and> KeyUser x = v \<and> RevokedAt x = None)" if "x \<in> set (keys_tbl d1)" for x
      using that k fresh(2) \<open>v \<noteq> u\<close> by auto
    moreover from this have "update_where (\<lambda>x. KeyID x = KeyID k \<and> KeyUser x = v \<and> RevokedAt x = None)
        f (keys_tbl d1) = keys_tbl d1" for f
      by (rule update_where_none)
    ultimately show ?thesis using assms(6) by (simp add: RevokeKey_def Let_def)
  qed
  moreover have "\<exists>d2. RevokeKey ae2 u (KeyID k) d1 = (None, d2) \<and> LookupActive al ae2 tok d2 = Inl KeyNoRows"
  proof -
    have same: "update_where (\<lambda>x. KeyID x = KeyID k \<and> KeyUser x = u \<and> RevokedAt x = None) f (keys_tbl d) = keys_tbl d" for f
      using fresh(2) by (intro update_where_none) auto
    show ?thesis using k fresh assms(4-6)
      by (simp add: RevokeKey_def Let_def LookupActive_def find_append find_none)
        (simp add: update_where_def find_append find_none same [unfolded update_where_def])
  qed
  ultimately show ?thesis using look k by force
qed

definition demo_auth :: authlib where
  \<comment> \<open>tokens that carry secret and subject in the clear, and hashes that are the text itself\<close>
  "demo_auth =
     \<lparr>jwt_Sign = (\<lambda>s sub e i. Some (s @ CHR ''.'' # sub)),
      jwt_Parse = (\<lambda>tok key now. case key ''HS256'' of
         None \<Rightarrow> None | Some s \<Rightarrow> CutPrefix tok (s @ [CHR ''.''])),
      bcrypt_Hash = (\<lambda>p salt. Some (CHR ''$'' # p)), bcrypt_Compare = (\<lambda>h p. h = CHR ''$'' # p),
      sha256 = (\<lambda>s. s)\<rparr>"

definition demo_aenv :: aenv where
  "demo_aenv = \<lparr>a_now = 0, a_dbnow = 0, a_id = 5, a_salt = [], a_rand = Some ''k'', a_read = True,
     a_write = Done, a_replica = (\<lambda>d. d)\<rparr>"

definition demo_auth_db :: auth_db where
  "demo_auth_db = \<lparr>users_tbl = [\<lparr>UserID = 9, UserName = ''n'', Email = ''a@b'', PasswordHash = ''$p'',
     UserCreatedAt = 0\<rparr>], keys_tbl = []\<rparr>"

definition bearer :: "string \<Rightarrow> request" where
  "bearer tok = \<lparr>rq_Method = ''GET'', rq_Path = ''/v1/jobs'', rq_Header = (\<lambda>_. ''Bearer '' @ tok),
     rq_Query = (\<lambda>_. []), rq_ContentLength = 0, rq_Body = [], rq_RemoteAddr = [], rq_User = None\<rparr>"

lemma authlib_ok_demo: "authlib_ok demo_auth"
proof -
  have "CutPrefix (s @ CHR ''.'' # t) (s @ [CHR ''.'']) = Some t" for s t
    using HasPrefix_append [of "s @ [CHR ''.'']" t] by (simp add: CutPrefix_def)
  then show ?thesis by (auto simp: authlib_ok_def demo_auth_def)
qed

lemma api_key_lifecycle_witness:
  "\<exists>tok k d1 d2. CreateKey demo_auth demo_aenv 9 ''ci'' demo_auth_db = (Inr (tok, k), d1) \<and>
     RequireAuth demo_lib demo_auth demo_aenv True ''s'' (bearer tok) d1 = Inr ((bearer tok)\<lparr>rq_User := Some 9\<rparr>) \<and>
     RevokeKey demo_aenv 9 (KeyID k) d1 = (None, d2)"
proof -
  obtain tok k d1 where c: "CreateKey demo_auth demo_aenv 9 ''ci'' demo_auth_db = (Inr (tok, k), d1)"
    by (simp add: CreateKey_def demo_aenv_def demo_auth_db_def Let_def)
  then obtain b where b: "tok = ''pmq_'' @ hex_encode b" using CreateKey_Inr by blast
  have p: "ParseToken demo_lib demo_auth (a_now demo_aenv) tok ''s'' = None"
    by (simp add: b ParseToken_def demo_auth_def jwt_key_def CutPrefix_def)
  have e: "a_read demo_aenv" "a_replica demo_aenv x = x" "a_write demo_aenv = Done" for x
    by (simp_all add: demo_aenv_def)
  have h: "rq_Header (bearer tok) ''Authorization'' = ''Bearer '' @ tok" by (simp add: bearer_def)
  from api_key_lifecycle [OF c h p e(1) e(2) e(3)] c show ?thesis by blast
qed

subsection \<open>Login\<close>

lemma CreateUser_Inr:
  assumes "CreateUser ae name email hash d = (Inr u, d1)"
  shows "u = \<lparr>UserID = a_id ae, UserName = name, Email = email, PasswordHash = hash, UserCreatedAt = a_dbnow ae\<rparr> \<and>
    users_tbl d1 = users_tbl d @ [u] \<and> (\<forall>x \<in> set (users_tbl d). Email x \<noteq> email)"
  using assms by (auto simp: CreateUser_def Let_def split: if_splits)

lemma Register_created:
  assumes "RegisterHandler lib api al ae rq d = (resp, d1)" and "rs_Code resp = 201"
  obtains req u hash where "decodeJSON api [''name'', ''email'', ''password''] rq = Inr req"
    and "HashPassword al (a_salt ae) (str_of req ''password'') = Some hash"
    and "CreateUser ae (TrimSpace (str_of req ''name'')) (TrimSpace (str_of req ''email'')) hash d = (Inr u, d1)"
  using assms
  by (auto simp: RegisterHandler_def Let_def split: if_splits sum.splits option.splits prod.splits user_err.splits)

text \<open>C30. Registration and login round trip: after a registration was answered 201, a login with the
  same e-mail address and password, read from an up-to-date replica, is answered 200 with a
  token, and until its expiry (in whole seconds) that token authenticates the registered user
  in every request; a login with a wrong password is answered exactly as one for an address
  that is not registered.\<close>

theorem register_login_roundtrip:
  assumes "golib_ok lib" and "authlib_ok al"
    and "RegisterHandler lib api al ae rq d = (resp, d1)" and "rs_Code resp = 201"
    and "decodeJSON api [''name'', ''email'', ''password''] rq = Inr req"
    and "rq_Method rq2 = ''POST''" and "decodeJSON api [''email'', ''password''] rq2 = Inr req2"
    and "TrimSpace (str_of req2 ''email'') = TrimSpace (str_of req ''email'')"
    and "a_read ae2" and "a_replica ae2 d1 = d1" and "secret \<noteq> []"
    and "jwt_Sign al secret (uuid_String lib (a_id ae)) (a_now ae2 + ttl) (a_now ae2) = Some tok"
    and "TrimSpace tok = tok" and "tok \<noteq> []"
  shows "(str_of req2 ''password'' = str_of req ''password'' \<longrightarrow>
      LoginHandler lib api al ae2 secret ttl rq2 d1 =
        writeJSON 200 [(''token'', JStr tok), (''expires_at'', JStr (time_Format api (a_now ae2 + ttl)))]) \<and>
    (\<forall>ae3 rq3 ks d3. rq_Header rq3 ''Authorization'' = ''Bearer '' @ tok \<and>
        a_now ae3 < ((a_now ae2 + ttl) div second) * second \<longrightarrow>
      RequireAuth lib al ae3 ks secret rq3 d3 = Inr (rq3\<lparr>rq_User := Some (a_id ae)\<rparr>)) \<and>
    (\<forall>u d0. GetUserByEmail ae2 (TrimSpace (str_of req2 ''email'')) d1 = Inr u \<and>
        \<not> VerifyPassword al (PasswordHash u) (str_of req2 ''password'') \<and>
        GetUserByEmail ae2 (TrimSpace (str_of req2 ''email'')) d0 = Inl UserNoRows \<longrightarrow>
      LoginHandler lib api al ae2 secret ttl rq2 d1 = LoginHandler lib api al ae2 secret ttl rq2 d0)"
proof -
  obtain u hash where c: "HashPassword al (a_salt ae) (str_of req ''password'') = Some hash"
      "CreateUser ae (TrimSpace (str_of req ''name'')) (TrimSpace (str_of req ''email'')) hash d = (Inr u, d1)"
    using Register_created [OF assms(3,4)] assms(5) by (metis Inr_inject)
  note u = CreateUser_Inr [OF c(2)]
  have find: "GetUserByEmail ae2 (TrimSpace (str_of req2 ''email'')) d1 = Inr u"
    using u assms(8-10) by (simp add: GetUserByEmail_def find_append find_none)
  have cmp: "bcrypt_Compare al hash (str_of req ''password'')"
    using c(1) assms(2) by (auto simp: HashPassword_def authlib_ok_def)
  have login: "LoginHandler lib api al ae2 secret ttl rq2 d1 =
      writeJSON 200 [(''token'', JStr tok), (''expires_at'', JStr (time_Format api (a_now ae2 + ttl)))]"
    if "str_of req2 ''password'' = str_of req ''password''"
    using that assms(6,7,11,12) find u cmp by (simp add: LoginHandler_def VerifyPassword_def IssueToken_def)
  have auth: "RequireAuth lib al ae3 ks secret rq3 d3 = Inr (rq3\<lparr>rq_User := Some (a_id ae)\<rparr>)"
    if h: "rq_Header rq3 ''Authorization'' = ''Bearer '' @ tok"
      "a_now ae3 < ((a_now ae2 + ttl) div second) * second" for ae3 rq3 ks d3
  proof -
    have "jwt_Parse al tok (jwt_key secret) (a_now ae3) = Some (uuid_String lib (a_id ae))"
      using assms(2,12) h(2) unfolding authlib_ok_def by (metis jwt_key_def)
    moreover have "uuid_Parse lib (uuid_String lib (a_id ae)) = Some (a_id ae)"
      using assms(1) by (simp add: golib_ok_def)
    ultimately show ?thesis using BearerToken_of [OF h(1) assms(13)] assms(11,14)
      by (simp add: RequireAuth_def ParseToken_def)
  qed
  have wrong: "LoginHandler lib api al ae2 secret ttl rq2 d1 = err_response 401 ''invalid credentials''"
    if "\<not> VerifyPassword al (PasswordHash u) (str_of req2 ''password'')"
    using that assms(6,7) find by (simp add: LoginHandler_def)
  have none: "LoginHandler lib api al ae2 secret ttl rq2 x = err_response 401 ''invalid credentials''"
    if "GetUserByEmail ae2 (TrimSpace (str_of req2 ''email'')) x = Inl UserNoRows" for x
    using that assms(6,7) by (simp add: LoginHandler_def)
  show ?thesis using login auth wrong none find by auto
qed

definition demo_api :: apilib where
  \<comment> \<open>a scanner that knows two bodies\<close>
  "demo_api = \<lparr>json_Scan = (\<lambda>b _. ScanValue (RObj (
        (if b = ''r'' then [(''name'', RStr ''n'')] else []) @
        [(''email'', RStr ''a@b''), (''password'', RStr ''password'')]))),
     ParseFloat = (\<lambda>_. Some 0), time_Format = Itoa, decode_text = [], cron_text = (\<lambda>_. []),
     redis_text = (\<lambda>_. [])\<rparr>"

definition demo_body :: "string \<Rightarrow> request" where
  "demo_body b = (bearer [])\<lparr>rq_Method := ''POST'', rq_Body := b, rq_ContentLength := 1\<rparr>"

lemma demo_decode:
  "decodeJSON demo_api [''name'', ''email'', ''password''] (demo_body ''r'') =
     Inr [(''name'', ''n''), (''email'', ''a@b''), (''password'', ''password'')]"
  "decodeJSON demo_api [''email'', ''password''] (demo_body ''l'') =
     Inr [(''email'', ''a@b''), (''password'', ''password'')]"
  by (simp_all add: decodeJSON_def decodeBoundedJSON_def read_json_def demo_body_def bearer_def demo_api_def
      MaxSmallBodyBytes_def same_name_def lower_char_def char_is_def)

lemma register_login_roundtrip_witness:
  "\<exists>d1. RegisterHandler demo_lib demo_api demo_auth demo_aenv (demo_body ''r'') \<lparr>users_tbl = [], keys_tbl = []\<rparr> =
       (writeJSON 201 [(''user_id'', JStr (Itoa 5)), (''email'', JStr ''a@b'')], d1) \<and>
     LoginHandler demo_lib demo_api demo_auth demo_aenv ''s'' (5 * second) (demo_body ''l'') d1 =
       writeJSON 200 [(''token'', JStr (''s.'' @ Itoa 5)), (''expires_at'', JStr (Itoa (5 * second)))]"
proof -
  have n: "TrimSpace ''n'' = ''n''" "TrimSpace ''a@b'' = ''a@b''" "TrimSpace ''s.5'' = ''s.5''"
    by (simp_all add: TrimSpace_def is_space_def)
  have u: "uuid_String demo_lib 5 = ''5''" by code_simp
  have i: "Itoa 5 = ''5''" by code_simp
  have m: "rq_Method (demo_body b) = ''POST''" for b by (simp add: demo_body_def)
  obtain d1 where r: "RegisterHandler demo_lib demo_api demo_auth demo_aenv (demo_body ''r'') \<lparr>users_tbl = [], keys_tbl = []\<rparr> =
       (writeJSON 201 [(''user_id'', JStr ''5''), (''email'', JStr ''a@b'')], d1)"
    using n m by (simp add: RegisterHandler_def demo_decode Let_def str_of_def HashPassword_def demo_auth_def
        demo_aenv_def CreateUser_def u)
  have e: "a_read demo_aenv" "a_replica demo_aenv d1 = d1" "a_id demo_aenv = 5" "a_now demo_aenv = 0"
    by (simp_all add: demo_aenv_def)
  have j: "jwt_Sign demo_auth ''s'' (uuid_String demo_lib (a_id demo_aenv)) (a_now demo_aenv + 5 * second)
      (a_now demo_aenv) = Some ''s.5''" by (simp add: demo_auth_def u e)
  have em: "TrimSpace (str_of [(''email'', ''a@b''), (''password'', ''password'')] ''email'') =
      TrimSpace (str_of [(''name'', ''n''), (''email'', ''a@b''), (''password'', ''password'')] ''email'')"
    by (simp add: str_of_def)
  from register_login_roundtrip [OF golib_ok_demo authlib_ok_demo r _ demo_decode(1) m demo_decode(2) em e(1,2) _ j n(3)]
  show ?thesis using r by (simp add: str_of_def i e demo_api_def)
qed

end
