(* ===== verification/Api_Server.thy ===== *)
theory Api_Server
  imports Api_Jobs_Props Auth_Props
begin

text \<open>
  The route table of \<open>internal/api/routes/routes.go\<close>: which handler serves a path, behind
  which authentication. \<open>http.ServeMux\<close> matches a pattern without a trailing slash exactly and
  one with a trailing slash as a prefix; the path is the one it has cleaned (a request for an
  unclean path is redirected before it reaches a handler).
\<close>

datatype endpoint =
    Health | Register | Login | JobsRoot | JobsTree | StatsEndpoint | Keys | KeysRevoke

definition route_table :: "(string \<times> endpoint) list" where
  "route_table =
     [(''/healthz'', Health), (''/health'', Health), (''/v1/auth/register'', Register),
      (''/v1/auth/login'', Login), (''/v1/jobs'', JobsRoot), (''/v1/stats'', StatsEndpoint),
      (''/jobs'', JobsRoot), (''/stats'', StatsEndpoint), (''/v1/keys'', Keys),
      (''/v1/keys/revoke'', KeysRevoke)]"

definition route :: "string \<Rightarrow> endpoint option" where
  "route path =
     (case map_of route_table path of
        Some e \<Rightarrow> Some e
      | None \<Rightarrow>
          if HasPrefix path ''/v1/jobs/'' \<or> HasPrefix path ''/jobs/'' then Some JobsTree else None)"

record deps =
  dp_redis :: "RedisStore option"
  dp_keys :: bool
  dp_secret :: string
  dp_ttl_hours :: int
  dp_env_secret :: string \<comment> \<open>\<open>config.Env.JWTSecret\<close>\<close>
  dp_health :: "dependency \<times> dependency \<times> dependency"

definition jwtTTL :: "deps \<Rightarrow> duration" where
  "jwtTTL dp = (if 0 < dp_ttl_hours dp then wrap64 (dp_ttl_hours dp * 3600 * second) else 24 * 3600 * second)"

definition jwtSecret :: "deps \<Rightarrow> string" where
  "jwtSecret dp = (if dp_secret dp \<noteq> [] then dp_secret dp else dp_env_secret dp)"

definition JobsRootHandler ::
  "env \<Rightarrow> apilib \<Rightarrow> RedisStore option \<Rightarrow> request \<Rightarrow> world \<Rightarrow> response \<times> world" where
  "JobsRootHandler env al rds rq w =
     (if rq_Method rq = ''POST'' then EnqueueHandler env al rds rq w
      else if rq_Method rq = ''GET'' then JobsListHandler env al rq w
      else (method_not_allowed ''GET, POST'', w))"

definition serve_authed ::
  "env \<Rightarrow> apilib \<Rightarrow> authlib \<Rightarrow> aenv \<Rightarrow> (JobEvent \<Rightarrow> uuid) \<Rightarrow> nat \<Rightarrow> deps \<Rightarrow> endpoint \<Rightarrow> request \<Rightarrow>
     world \<times> auth_db \<Rightarrow> response option \<times> world \<times> auth_db" where
  \<comment> \<open>the handlers behind \<open>RequireAuth\<close>\<close>
  "serve_authed env al au ae eid n dp ep rq s =
     (case s of (w, d) \<Rightarrow>
        (case ep of
           JobsRoot \<Rightarrow> (case JobsRootHandler env al (dp_redis dp) rq w of (r, w1) \<Rightarrow> (Some r, w1, d))
         | JobsTree \<Rightarrow> (case JobsHandler env al eid (dp_redis dp) rq w of (r, w1) \<Rightarrow> (Some r, w1, d))
         | StatsEndpoint \<Rightarrow> (case StatsHandler env (dp_redis dp) n rq w of (r, w1) \<Rightarrow> (r, w1, d))
         | Keys \<Rightarrow> (case APIKeysHandler (e_lib env) al au ae rq d of (r, d1) \<Rightarrow> (Some r, w, d1))
         | KeysRevoke \<Rightarrow> (case APIKeyRevokeHandler (e_lib env) al ae rq d of (r, d1) \<Rightarrow> (Some r, w, d1))
         | _ \<Rightarrow> (None, w, d)))"

definition serve ::
  "env \<Rightarrow> apilib \<Rightarrow> authlib \<Rightarrow> aenv \<Rightarrow> (JobEvent \<Rightarrow> uuid) \<Rightarrow> nat \<Rightarrow> deps \<Rightarrow> request \<Rightarrow>
     world \<times> auth_db \<Rightarrow> response option \<times> world \<times> auth_db" where
  "serve env al au ae eid n dp rq s =
     (case s of (w, d) \<Rightarrow>
        (case route (rq_Path rq) of
           None \<Rightarrow> (Some \<lparr>rs_Code = 404, rs_Headers = [(''Content-Type'', ''text/plain; charset=utf-8'')],
                        rs_Body = JStr ''404 page not found''\<rparr>, w, d)
         | Some Health \<Rightarrow>
             (case dp_health dp of (r, dw, dr) \<Rightarrow> (Some (HealthHandler r dw dr rq), w, d))
         | Some Register \<Rightarrow>
             (case RegisterHandler (e_lib env) al au ae rq d of (r, d1) \<Rightarrow> (Some r, w, d1))
         | Some Login \<Rightarrow>
             (Some (LoginHandler (e_lib env) al au ae (jwtSecret dp) (jwtTTL dp) rq d), w, d)
         | Some ep \<Rightarrow>
             (case RequireAuth (e_lib env) au ae (dp_keys dp) (jwtSecret dp) rq d of
                Inl r \<Rightarrow> (Some r, w, d)
              | Inr rq1 \<Rightarrow> serve_authed env al au ae eid n dp ep rq1 (w, d))))"

lemma RequireAuth_user:
  "RequireAuth lib au ae ks secret rq d = Inr rq1 \<Longrightarrow> \<exists>u. rq1 = rq\<lparr>rq_User := Some u\<rparr> \<and>
     (ParseToken lib au (a_now ae) (BearerToken rq) secret = Some u \<or>
      (\<exists>k \<in> set (keys_tbl (a_replica ae d)). ks \<and> KeyHash k = HashKey au (BearerToken rq) \<and>
         RevokedAt k = None \<and> KeyUser k = u))"
  by (auto simp: RequireAuth_def LookupActive_def Let_def dest!: find_SomeD split: if_splits option.splits sum.splits key_err.splits)

text \<open>C10. Nothing but health, registration and login is reachable without a credential: a request
  to any other endpoint either is refused with 401 or 503 and leaves both stores unchanged, or
  carries a bearer text that is a valid token, or the hash of an unrevoked key, of the user
  the handler sees; whatever identity the request claimed before plays no role.\<close>

theorem api_requires_credentials:
  assumes "route (rq_Path rq) = Some ep" and "ep \<notin> {Health, Register, Login}"
  shows "(\<exists>r. serve env al au ae eid n dp rq (w, d) = (Some r, w, d) \<and> rs_Code r \<in> {401, 503}) \<or>
    (\<exists>u. (ParseToken (e_lib env) au (a_now ae) (BearerToken rq) (jwtSecret dp) = Some u \<or>
          (\<exists>k \<in> set (keys_tbl (a_replica ae d)). dp_keys dp \<and> KeyHash k = HashKey au (BearerToken rq) \<and>
             RevokedAt k = None \<and> KeyUser k = u)) \<and>
       serve env al au ae eid n dp rq (w, d) =
         serve_authed env al au ae eid n dp ep (rq\<lparr>rq_User := Some u\<rparr>) (w, d))"
proof (cases "RequireAuth (e_lib env) au ae (dp_keys dp) (jwtSecret dp) rq d")
  case (Inl r)
  then have "rs_Code r \<in> {401, 503}"
    by (auto simp: RequireAuth_def Let_def split: if_splits option.splits sum.splits key_err.splits)
  moreover have "serve env al au ae eid n dp rq (w, d) = (Some r, w, d)"
    using assms Inl by (cases ep) (simp_all add: serve_def)
  ultimately show ?thesis by blast
next
  case (Inr rq1)
  have "serve env al au ae eid n dp rq (w, d) = serve_authed env al au ae eid n dp ep rq1 (w, d)"
    using assms Inr by (cases ep) (simp_all add: serve_def)
  then show ?thesis using RequireAuth_user [OF Inr] by auto
qed

definition demo_deps :: deps where
  "demo_deps = \<lparr>dp_redis = None, dp_keys = True, dp_secret = ''s'', dp_ttl_hours = 1, dp_env_secret = [],
     dp_health = (Up, Up, Up)\<rparr>"

lemma api_requires_credentials_witness:
  "\<exists>r. serve live_env demo_al demo_auth demo_aenv (\<lambda>_. 0) 1 demo_deps (bearer ''forged'')
     (\<lparr>w_db = demo_d1, w_trace = []\<rparr>, demo_auth_db) = (Some r, \<lparr>w_db = demo_d1, w_trace = []\<rparr>, demo_auth_db) \<and>
     rs_Code r \<in> {401, 503}"
proof -
  have p: "route (rq_Path (bearer ''forged'')) = Some JobsRoot"
    by (simp add: bearer_def route_def route_table_def)
  have b: "BearerToken (bearer ''forged'') = ''forged''"
    by (simp add: BearerToken_def bearer_def CutPrefix_def TrimSpace_def is_space_def)
  have n: "ParseToken (e_lib live_env) demo_auth (a_now demo_aenv) ''forged'' (jwtSecret demo_deps) = None"
    by (simp add: ParseToken_def demo_auth_def jwt_key_def jwtSecret_def demo_deps_def CutPrefix_def)
  have k: "keys_tbl (a_replica demo_aenv demo_auth_db) = []" by (simp add: demo_aenv_def demo_auth_db_def)
  from api_requires_credentials [OF p, of live_env demo_al demo_auth demo_aenv "\<lambda>_. 0" 1 demo_deps
      "\<lparr>w_db = demo_d1, w_trace = []\<rparr>" demo_auth_db] show ?thesis
    by (simp add: b n k)
qed

end
