(* ===== verification/Paths.thy ===== *)
theory Paths
  imports Prelude
begin

text \<open>
  The functions of Go's \<open>path/filepath\<close> that the job handlers use, for Unix: \<open>Clean\<close>,
  \<open>Join\<close>, \<open>IsAbs\<close>, \<open>Base\<close>, \<open>Dir\<close>, \<open>Rel\<close> and \<open>Abs\<close>, on the component lists of a path, with
  the facts that confine a joined path to its base directory.
\<close>

subsection \<open>Definitions\<close>

fun join_with :: "string \<Rightarrow> string list \<Rightarrow> string" where
  "join_with sep [] = []"
| "join_with sep [x] = x"
| "join_with sep (x # y # xs) = x @ sep @ join_with sep (y # xs)"

abbreviation slash :: char where "slash \<equiv> CHR ''/''"

abbreviation dotdot :: string where "dotdot \<equiv> ''..''"

definition IsAbs :: "string \<Rightarrow> bool" where
  "IsAbs p \<longleftrightarrow> HasPrefix p ''/''"

fun clean_comps :: "bool \<Rightarrow> string list \<Rightarrow> string list \<Rightarrow> string list" where
  \<comment> \<open>the lexical rules, with the components kept so far in reverse order\<close>
  "clean_comps rooted [] st = rev st"
| "clean_comps rooted (c # cs) st =
     (if c = [] \<or> c = ''.'' then clean_comps rooted cs st
      else if c = dotdot then
        (case st of
           t # ts \<Rightarrow> if t \<noteq> dotdot then clean_comps rooted cs ts else clean_comps rooted cs (dotdot # st)
         | [] \<Rightarrow> clean_comps rooted cs (if rooted then [] else [dotdot]))
      else clean_comps rooted cs (c # st))"

definition comps :: "string \<Rightarrow> string list" where
  "comps p = clean_comps (IsAbs p) (Split slash p) []"

definition unsplit :: "bool \<Rightarrow> string list \<Rightarrow> string" where
  "unsplit rooted cs =
     (if rooted then slash # join_with ''/'' cs else if cs = [] then ''.'' else join_with ''/'' cs)"

definition Clean :: "string \<Rightarrow> string" where
  "Clean p = unsplit (IsAbs p) (comps p)"

definition Join :: "string \<Rightarrow> string \<Rightarrow> string" where
  "Join a b =
     (if a = [] then (if b = [] then [] else Clean b)
      else if b = [] then Clean a else Clean (a @ ''/'' @ b))"

definition Base :: "string \<Rightarrow> string" where
  \<comment> \<open>the last element, trailing slashes removed\<close>
  "Base p =
     (if p = [] then ''.''
      else (let q = TrimRightChar slash p in
            if q = [] then ''/'' else last (Split slash q)))"

definition Dir :: "string \<Rightarrow> string" where
  "Dir p = Clean (rev (dropWhile (\<lambda>c. c \<noteq> slash) (rev p)))"

fun strip_common :: "string list \<Rightarrow> string list \<Rightarrow> string list \<times> string list" where
  "strip_common (a # as) (b # bs) = (if a = b then strip_common as bs else (a # as, b # bs))"
| "strip_common as bs = (as, bs)"

definition Rel :: "string \<Rightarrow> string \<Rightarrow> string option" where
  \<comment> \<open>\<open>None\<close> when the target cannot be made relative to the base\<close>
  "Rel base targ =
     (if IsAbs base \<noteq> IsAbs targ then None
      else (case strip_common (comps base) (comps targ) of (bs, ts) \<Rightarrow>
              if dotdot \<in> set bs then None
              else Some (unsplit False (replicate (length bs) dotdot @ ts))))"

definition Abs_path :: "string option \<Rightarrow> string \<Rightarrow> string option" where
  \<comment> \<open>\<open>filepath.Abs\<close> with the working directory, \<open>None\<close> when it is not known\<close>
  "Abs_path cwd p = (if IsAbs p then Some (Clean p) else map_option (\<lambda>d. Join d p) cwd)"

subsection \<open>Components\<close>

definition plain :: "string list \<Rightarrow> bool" where
  \<comment> \<open>proper names: no empty component, no dots, no separator\<close>
  "plain cs \<longleftrightarrow> list_all (\<lambda>c. c \<noteq> [] \<and> c \<noteq> ''.'' \<and> c \<noteq> dotdot \<and> slash \<notin> set c) cs"

lemma plain_simps [simp]:
  "plain []" "plain (c # cs) \<longleftrightarrow> (c \<noteq> [] \<and> c \<noteq> ''.'' \<and> c \<noteq> dotdot \<and> slash \<notin> set c) \<and> plain cs"
  "plain (cs @ ds) \<longleftrightarrow> plain cs \<and> plain ds" "plain (rev cs) = plain cs"
  by (auto simp: plain_def)

lemma Split_no_sep: "w \<in> set (Split sep s) \<Longrightarrow> sep \<notin> set w"
  by (induction s arbitrary: w) (auto split: list.splits if_splits)

lemma clean_rooted_plain:
  "plain st \<Longrightarrow> (\<And>c. c \<in> set cs \<Longrightarrow> slash \<notin> set c) \<Longrightarrow> plain (clean_comps True cs st)"
  by (induction cs arbitrary: st) (auto split: list.splits)

definition ups :: "string list \<Rightarrow> bool" where
  \<comment> \<open>a relative cleaned path: \<open>..\<close> only in front\<close>
  "ups cs \<longleftrightarrow> (\<exists>n ds. cs = replicate n dotdot @ ds \<and> plain ds)"

lemma ups_Nil [simp]: "ups []"
  by (auto simp: ups_def intro: exI [of _ 0])

lemma ups_snoc: "ups cs \<Longrightarrow> plain [c] \<Longrightarrow> ups (cs @ [c])"
  unfolding ups_def by (metis append_assoc plain_simps(3))

lemma ups_butlast: "ups (cs @ [c]) \<Longrightarrow> c \<noteq> dotdot \<Longrightarrow> ups cs"
proof -
  assume u: "ups (cs @ [c])" and c: "c \<noteq> dotdot"
  then obtain n ds where d: "cs @ [c] = replicate n dotdot @ ds" "plain ds" by (auto simp: ups_def)
  show ?thesis
  proof (cases ds rule: rev_cases)
    case Nil
    then have "c \<in> set (replicate n dotdot)" using d(1) by (metis append_Nil2 in_set_conv_decomp)
    then show ?thesis using c by (simp split: if_splits)
  next
    case (snoc es e)
    then show ?thesis using d by (auto simp: ups_def)
  qed
qed

lemma ups_dotdot: "ups (cs @ [dotdot]) \<Longrightarrow> ups (cs @ [dotdot, dotdot])"
proof -
  assume "ups (cs @ [dotdot])"
  then obtain n ds where d: "cs @ [dotdot] = replicate n dotdot @ ds" "plain ds" by (auto simp: ups_def)
  have "ds = []"
  proof (cases ds rule: rev_cases)
    case (snoc es e)
    then show ?thesis using d by auto
  qed
  then have "cs @ [dotdot, dotdot] = replicate (Suc n) dotdot @ []"
    using d(1) by (metis append_Cons append_Nil append_Nil2 append_assoc replicate_append_same replicate_Suc)
  then show ?thesis unfolding ups_def using plain_simps(1) by blast
qed

lemma clean_relative_ups:
  "ups (rev st) \<Longrightarrow> (\<And>c. c \<in> set cs \<Longrightarrow> slash \<notin> set c) \<Longrightarrow> ups (clean_comps False cs st)"
proof (induction cs arbitrary: st)
  case (Cons c cs)
  show ?case
  proof (cases st)
    case Nil
    have "ups [dotdot]" unfolding ups_def by (rule exI [of _ 1]) (auto intro: exI [of _ "[]"])
    then show ?thesis using Cons Nil ups_snoc [of "[]" c] by auto
  next
    case (Cons t ts)
    note st = this
    show ?thesis
      using Cons.IH Cons.prems ups_snoc [of "rev st" c] ups_butlast [of "rev ts" t] ups_dotdot [of "rev ts"]
      by (auto simp: st)
  qed
qed simp

lemma comps_abs_plain: "IsAbs p \<Longrightarrow> plain (comps p)"
  by (simp add: comps_def clean_rooted_plain Split_no_sep)

lemma comps_rel_ups: "\<not> IsAbs p \<Longrightarrow> ups (comps p)"
  by (simp add: comps_def clean_relative_ups Split_no_sep)

subsection \<open>Splitting and joining\<close>

lemma Split_append: "Split sep (a @ sep # b) = Split sep a @ Split sep b"
  by (induction a) (auto split: list.splits)

lemma Split_none: "sep \<notin> set a \<Longrightarrow> Split sep a = [a]"
  by (induction a) auto

lemma Split_join:
  "cs \<noteq> [] \<Longrightarrow> (\<And>c. c \<in> set cs \<Longrightarrow> sep \<notin> set c) \<Longrightarrow> Split sep (join_with [sep] cs) = cs"
proof (induction "[sep]" cs rule: join_with.induct)
  case (3 x y xs)
  then show ?case by (simp add: Split_append Split_none)
qed (auto simp: Split_none)

lemma plain_no_slash: "plain cs \<Longrightarrow> c \<in> set cs \<Longrightarrow> slash \<notin> set c"
  by (auto simp: plain_def list_all_iff)

lemma ups_no_slash: "ups cs \<Longrightarrow> c \<in> set cs \<Longrightarrow> slash \<notin> set c"
  by (auto simp: ups_def plain_no_slash split: if_splits)

lemma comps_no_slash: "c \<in> set (comps p) \<Longrightarrow> slash \<notin> set c"
  using comps_abs_plain [of p] comps_rel_ups [of p] by (cases "IsAbs p") (auto dest: plain_no_slash ups_no_slash)

lemma IsAbs_simps [simp]: "\<not> IsAbs []" "IsAbs (c # p) \<longleftrightarrow> c = slash" "IsAbs (p @ q) \<longleftrightarrow> IsAbs p \<or> p = [] \<and> IsAbs q"
  by (cases p; auto simp: IsAbs_def)+

lemma clean_append: "clean_comps r (xs @ ys) st = clean_comps r ys (rev (clean_comps r xs st))"
  by (induction xs arbitrary: st) (auto split: list.splits)

lemma clean_plain: "plain cs \<Longrightarrow> clean_comps r cs st = rev st @ cs"
  by (induction cs arbitrary: st) auto

lemma clean_pops: "plain st \<Longrightarrow> clean_comps True (replicate n dotdot) st = rev (drop n st)"
proof (induction n arbitrary: st)
  case (Suc n)
  then show ?case by (cases st) auto
qed simp

lemma clean_ups_rooted:
  "plain st \<Longrightarrow> plain ds \<Longrightarrow> clean_comps True (replicate n dotdot @ ds) st = rev (drop n st) @ ds"
  by (simp add: clean_append clean_pops clean_plain)

lemma Clean_rel: "\<not> IsAbs p \<Longrightarrow> Clean p = (if comps p = [] then ''.'' else join_with ''/'' (comps p))"
  by (simp add: Clean_def unsplit_def)

lemma Split_Clean_rel: "\<not> IsAbs p \<Longrightarrow> Split slash (Clean p) = (if comps p = [] then [''.''] else comps p)"
  using Split_join [of "comps p" slash] comps_no_slash [of _ p] by (auto simp: Clean_rel)

lemma comps_unsplit: "plain cs \<Longrightarrow> comps (unsplit True cs) = cs"
proof -
  assume p: "plain cs"
  have "Split slash (join_with ''/'' cs) = (if cs = [] then [[]] else cs)"
    using Split_join [of cs slash] plain_no_slash [OF p] by auto
  then show ?thesis using clean_plain [OF p] by (auto simp: comps_def unsplit_def)
qed

lemma IsAbs_unsplit [simp]: "IsAbs (unsplit True cs)"
  by (simp add: unsplit_def)

lemma Clean_abs: "IsAbs p \<Longrightarrow> IsAbs (Clean p) \<and> comps (Clean p) = comps p"
  by (simp add: Clean_def comps_unsplit comps_abs_plain)

lemma ups_no_Nil: "ups cs \<Longrightarrow> [] \<notin> set cs"
proof -
  assume "ups cs"
  then obtain n ds where cs: "cs = replicate n dotdot @ ds" and p: "plain ds" unfolding ups_def by blast
  have "[] \<notin> set ds" using p by (induction ds) auto
  then show ?thesis unfolding cs by simp
qed

lemma Clean_rel_nonempty:
  assumes "\<not> IsAbs p"
  shows "Clean p \<noteq> []"
proof
  assume c: "Clean p = []"
  then have "comps p \<noteq> []" using assms by (auto simp: Clean_rel split: if_splits)
  then have "comps p = [[]]" using Split_Clean_rel [OF assms] c by simp
  then show False using ups_no_Nil [OF comps_rel_ups [OF assms]] by simp
qed

text \<open>
  Joining a cleaned relative path to an absolute one: each leading \<open>..\<close> takes away a component
  of the base, as long as there is one.
\<close>

lemma Join_ups:
  assumes b: "IsAbs b" and p: "\<not> IsAbs p" and c: "comps p = replicate n dotdot @ ds" "plain ds"
  shows "Join b (Clean p) = unsplit True (take (length (comps b) - n) (comps b) @ ds)"
    and "comps (Join b (Clean p)) = take (length (comps b) - n) (comps b) @ ds"
    and "IsAbs (Join b (Clean p))"
proof -
  have bp: "plain (comps b)" using comps_abs_plain [OF b] .
  have r: "rev (drop n (rev (comps b))) = take (length (comps b) - n) (comps b)"
    by (simp add: drop_rev)
  have t: "plain (take k (comps b))" for k
    using bp by (simp add: plain_def list_all_iff) (metis in_set_takeD)
  have s: "comps (b @ ''/'' @ Clean p) = take (length (comps b) - n) (comps b) @ ds"
  proof (cases "comps p = []")
    case True
    then have "n = 0 \<and> ds = []" using c by simp
    then show ?thesis
      using True b by (simp add: comps_def Split_append Split_Clean_rel [OF p, unfolded True] clean_append)
  next
    case False
    then have "Split slash (Clean p) = replicate n dotdot @ ds" by (simp add: Split_Clean_rel [OF p] c)
    then have "comps (b @ ''/'' @ Clean p) = clean_comps True (replicate n dotdot @ ds) (rev (comps b))"
      using b by (simp add: comps_def Split_append clean_append)
    then show ?thesis using clean_ups_rooted [of "rev (comps b)" ds n] bp c(2) r by simp
  qed
  have ne: "b \<noteq> []" using b by auto
  show j: "Join b (Clean p) = unsplit True (take (length (comps b) - n) (comps b) @ ds)"
    using ne Clean_rel_nonempty [OF p] s b by (simp add: Join_def Clean_def)
  show "comps (Join b (Clean p)) = take (length (comps b) - n) (comps b) @ ds"
    unfolding j using t c(2) by (simp add: comps_unsplit)
  show "IsAbs (Join b (Clean p))" unfolding j by simp
qed

subsection \<open>Directories and escapes\<close>

lemma join_snoc: "join_with sep (xs @ [x]) = (if xs = [] then x else join_with sep xs @ sep @ x)"
  by (induction sep xs rule: join_with.induct) auto

lemma comps_slash_end: "IsAbs a \<Longrightarrow> comps (a @ ''/'') = comps a"
  by (simp add: comps_def Split_append clean_append)

lemma comps_child:
  assumes "IsAbs a" and "plain [c]"
  shows "comps (a @ ''/'' @ c) = comps a @ [c]" and "comps ((a @ ''/'') @ c) = comps a @ [c]"
proof -
  show "comps (a @ ''/'' @ c) = comps a @ [c]"
    using assms by (simp add: comps_def Split_append Split_none clean_append)
  then show "comps ((a @ ''/'') @ c) = comps a @ [c]" by simp
qed

lemma dir_part: "slash \<notin> set x \<Longrightarrow> rev (dropWhile (\<lambda>c. c \<noteq> slash) (rev (a @ ''/'' @ x))) = a @ ''/''"
proof -
  assume "slash \<notin> set x"
  then have "dropWhile (\<lambda>c. c \<noteq> slash) (rev x @ slash # rev a) = slash # rev a"
    by (subst dropWhile_append2) auto
  then show ?thesis by simp
qed

lemma Dir_unsplit:
  assumes "plain cs"
  shows "Dir (unsplit True cs) = unsplit True (butlast cs)"
proof (cases cs rule: rev_cases)
  case Nil
  then show ?thesis by (simp add: Dir_def unsplit_def Clean_def comps_def)
next
  case (snoc xs x)
  have x: "slash \<notin> set x" and p: "plain xs" using assms snoc by auto
  show ?thesis
  proof (cases "xs = []")
    case True
    then show ?thesis using dir_part [OF x, of "[]"] snoc by (simp add: Dir_def unsplit_def Clean_def comps_def)
  next
    case False
    have "unsplit True cs = unsplit True xs @ ''/'' @ x"
      using False snoc by (simp add: unsplit_def join_snoc)
    then have "Dir (unsplit True cs) = Clean (unsplit True xs @ ''/'')"
      using dir_part [OF x, of "unsplit True xs"] by (simp add: Dir_def)
    then show ?thesis using snoc comps_slash_end [of "unsplit True xs"] comps_unsplit [OF p]
      by (simp add: Clean_def)
  qed
qed

lemma Split_hd: "q = hd (Split sep q) \<or> (\<exists>t. q = hd (Split sep q) @ sep # t)"
  by (induction q) (auto split: list.splits)

lemma escapes_iff: "q = dotdot \<or> HasPrefix q ''../'' \<longleftrightarrow> hd (Split slash q) = dotdot"
proof
  assume "q = dotdot \<or> HasPrefix q ''../''"
  then show "hd (Split slash q) = dotdot" by (auto simp: HasPrefix_iff)
next
  assume h: "hd (Split slash q) = dotdot"
  show "q = dotdot \<or> HasPrefix q ''../''" using Split_hd [of q slash] unfolding h by (auto simp: HasPrefix_iff)
qed

lemma escapes_Clean:
  "\<not> IsAbs p \<Longrightarrow> (Clean p = dotdot \<or> HasPrefix (Clean p) ''../'') \<longleftrightarrow> comps p \<noteq> [] \<and> hd (comps p) = dotdot"
  unfolding escapes_iff by (simp add: Split_Clean_rel)

lemma comps_plain: "\<not> IsAbs p \<Longrightarrow> \<not> (comps p \<noteq> [] \<and> hd (comps p) = dotdot) \<Longrightarrow> plain (comps p)"
proof -
  assume a: "\<not> IsAbs p" and h: "\<not> (comps p \<noteq> [] \<and> hd (comps p) = dotdot)"
  obtain n ds where c: "comps p = replicate n dotdot @ ds" "plain ds"
    using comps_rel_ups [OF a] unfolding ups_def by blast
  then show ?thesis using h by (cases n) auto
qed

lemma strip_common_prefix: "strip_common xs (xs @ ys) = ([], ys)"
  by (induction xs) simp_all

lemma Abs_path_abs: "Abs_path cwd p = Some b \<Longrightarrow> (\<And>d. cwd = Some d \<Longrightarrow> IsAbs d) \<Longrightarrow> IsAbs b"
proof -
  assume a: "Abs_path cwd p = Some b" and d: "\<And>d. cwd = Some d \<Longrightarrow> IsAbs d"
  show "IsAbs b"
  proof (cases "IsAbs p")
    case True
    then show ?thesis using a Clean_abs [OF True] by (simp add: Abs_path_def)
  next
    case False
    then obtain c where c: "cwd = Some c" "b = Join c p" using a by (auto simp: Abs_path_def)
    have "IsAbs c" using d c by simp
    then show ?thesis using c(2) Clean_abs [of c] Clean_abs [of "c @ ''/'' @ p"] by (auto simp: Join_def)
  qed
qed

end
