(* ===== verification/Handlers.thy ===== *)
theory Handlers
  imports Paths Task
begin

text \<open>
  What the job handlers share (\<open>internal/task/handlers/handlers.go\<close>): Go error values with
  wrapping, the \<open>PermanentError\<close> mark, environment and payload access. \<open>hlib\<close> holds the
  parts of the standard library that stay parameters: \<open>strconv.Quote\<close>, the RFC 5322 address
  parser, SHA-256 and HMAC, the URL parser and the clock formats.
\<close>

record hlib =
  Quote :: "string \<Rightarrow> string"
  ParseAddress :: "string \<Rightarrow> string option" \<comment> \<open>\<open>mail.ParseAddress\<close>: its error\<close>
  Sum256 :: "string \<Rightarrow> string"
  HMAC256 :: "string \<Rightarrow> string \<Rightarrow> string" \<comment> \<open>key, data\<close>
  url_Parse :: "string \<Rightarrow> string + string \<times> string" \<comment> \<open>error, or the host and \<open>u.String()\<close>\<close>
  NewRequest_err :: "string \<Rightarrow> string option"
  FormatRFC1123Z :: "instant \<Rightarrow> string"
  FormatAmz :: "instant \<Rightarrow> string" \<comment> \<open>\<open>20060102T150405Z\<close>\<close>
  FormatDay :: "instant \<Rightarrow> string" \<comment> \<open>\<open>20060102\<close>\<close>

subsection \<open>Errors\<close>

datatype herror =
    PermanentError herror
  | Err string \<comment> \<open>an error that wraps nothing, by its text\<close>
  | Wrapped string herror \<comment> \<open>\<open>fmt.Errorf("\<dots>: %w", err)\<close>: the text in front, and \<open>err\<close>\<close>

fun error_text :: "herror \<Rightarrow> string" where
  "error_text (PermanentError e) = error_text e"
| "error_text (Err s) = s"
| "error_text (Wrapped s e) = s @ error_text e"

fun IsPermanent :: "herror \<Rightarrow> bool" where
  \<comment> \<open>\<open>errors.As\<close> walks the chain\<close>
  "IsPermanent (PermanentError e) = True"
| "IsPermanent (Err s) = False"
| "IsPermanent (Wrapped s e) = IsPermanent e"

definition Permanent :: "herror option \<Rightarrow> herror option" where
  "Permanent err =
     (case err of
        None \<Rightarrow> None
      | Some e \<Rightarrow> if IsPermanent e then Some e else Some (PermanentError e))"

definition PermanentMsg :: "string \<Rightarrow> herror" where
  "PermanentMsg s = PermanentError (Err s)"

lemma IsPermanent_Msg [simp]: "IsPermanent (PermanentMsg s)" "error_text (PermanentMsg s) = s"
  by (simp_all add: PermanentMsg_def)

lemma Permanent_idem: "Permanent (Permanent err) = Permanent err"
  by (cases err) (auto simp: Permanent_def)

subsection \<open>Environment and payload\<close>

type_synonym payload = "(string \<times> json) list"

definition getenvOr :: "getenv option \<Rightarrow> string \<Rightarrow> string \<Rightarrow> string" where
  "getenvOr getenv key fallback =
     (case getenv of
        None \<Rightarrow> fallback
      | Some g \<Rightarrow> if TrimSpace (g key) \<noteq> [] then TrimSpace (g key) else fallback)"

definition splitCSV :: "string \<Rightarrow> string list" where
  "splitCSV s = filter (\<lambda>p. p \<noteq> []) (map TrimSpace (Split CHR '','' s))"

fun strField :: "payload \<Rightarrow> string list \<Rightarrow> string option" where
  "strField payload [] = None"
| "strField payload (k # ks) =
     (case map_of payload k of
        Some (JStr s) \<Rightarrow> if TrimSpace s \<noteq> [] then Some s else strField payload ks
      | _ \<Rightarrow> strField payload ks)"

definition strField_or :: "payload \<Rightarrow> string list \<Rightarrow> string" where
  \<comment> \<open>the callers that drop the second result see the empty string\<close>
  "strField_or payload ks = (case strField payload ks of None \<Rightarrow> [] | Some s \<Rightarrow> s)"

definition env_flag :: "string \<Rightarrow> bool" where
  \<comment> \<open>\<open>v == "1" || strings.EqualFold(v, "true")\<close>; no other letter folds to those of \<open>true\<close>\<close>
  "env_flag v \<longleftrightarrow> v = ''1'' \<or> ToLower v = ''true''"

definition env_pos :: "string \<Rightarrow> int \<Rightarrow> int" where
  \<comment> \<open>a positive decimal setting, or the default\<close>
  "env_pos v dflt =
     (if v \<noteq> [] then (case Atoi v of (n, ok) \<Rightarrow> if ok \<and> 0 < n then n else dflt) else dflt)"

lemma strField_nonempty: "strField payload ks = Some s \<Longrightarrow> s \<noteq> []"
  by (induction payload ks rule: strField.induct)
     (auto split: option.splits json.splits if_splits simp: TrimSpace_def)

declare strField.simps [simp del]

lemma splitCSV_nonempty: "x \<in> set (splitCSV s) \<Longrightarrow> x \<noteq> []"
  by (simp add: splitCSV_def)

definition demo_hl :: hlib where
  "demo_hl =
     \<lparr>Quote = (\<lambda>s. s), ParseAddress = (\<lambda>s. None), Sum256 = (\<lambda>s. s), HMAC256 = (\<lambda>k s. k @ s),
      url_Parse = (\<lambda>s. Inr (''host'', s)), NewRequest_err = (\<lambda>s. None),
      FormatRFC1123Z = (\<lambda>t. Itoa t), FormatAmz = (\<lambda>t. Itoa t), FormatDay = (\<lambda>t. Itoa t)\<rparr>"

end
