(* ===== verification/Handler_Email.thy ===== *)
theory Handler_Email
  imports Handlers
begin

text \<open>
  Mail delivery, \<open>internal/task/handlers/email.go\<close>: configuration, payload, the message and
  the SMTP conversation. The conversation is the list of commands sent; whether the server or
  the network refuses one is an oracle of \<open>smtp_env\<close>.
\<close>

subsection \<open>Configuration and payload\<close>

record EmailJob =
  To :: string
  From :: string
  Subject :: string
  Body :: string
  EmailJobID :: string

record EmailConfig =
  Host :: string
  Port :: int
  Username :: string
  Password :: string
  DefaultFrom :: string
  Timeout :: duration
  DryRun :: bool

definition EmailConfigFromEnv :: "getenv \<Rightarrow> EmailConfig" where
  \<comment> \<open>the timeout wraps at 64 bits\<close>
  "EmailConfigFromEnv getenv =
     (let p = env_pos (TrimSpace (getenv ''SMTP_PORT'')) 587;
          host = TrimSpace (getenv ''SMTP_HOST'')
      in \<lparr>Host = host, Port = (if p < 65536 then p else 587),
          Username = TrimSpace (getenv ''SMTP_USER''), Password = getenv ''SMTP_PASS'',
          DefaultFrom = TrimSpace (getenv ''SMTP_FROM''),
          Timeout = wrap64 (env_pos (TrimSpace (getenv ''SMTP_TIMEOUT_SEC'')) 15 * second),
          DryRun = (host = [] \<or> env_flag (TrimSpace (getenv ''EMAIL_DRY_RUN'')))\<rparr>)"

definition ParseEmailPayload :: "hlib \<Rightarrow> payload \<Rightarrow> herror + EmailJob" where
  "ParseEmailPayload hl payload =
     (case strField payload [''to''] of
        None \<Rightarrow> Inl (PermanentMsg ''email job missing required field: to'')
      | Some tto \<Rightarrow>
          (case strField payload [''from''] of
             None \<Rightarrow> Inl (PermanentMsg ''email job missing required field: from'')
           | Some frm \<Rightarrow>
               (case (ParseAddress hl tto, ParseAddress hl frm) of
                  (Some e, _) \<Rightarrow>
                    Inl (PermanentMsg (''email job invalid to address '' @ Quote hl tto @ '': '' @ e))
                | (None, Some e) \<Rightarrow>
                    Inl (PermanentMsg (''email job invalid from address '' @ Quote hl frm @ '': '' @ e))
                | (None, None) \<Rightarrow>
                    Inr \<lparr>To = tto, From = frm, Subject = strField_or payload [''subject''],
                         Body = strField_or payload [''body'', ''text'', ''content''],
                         EmailJobID = strField_or payload [''job_id'', ''jobId'']\<rparr>)))"

subsection \<open>The message\<close>

abbreviation crlf :: string where "crlf \<equiv> [CHR 0x0D, CHR 0x0A]"

definition buildMessage :: "hlib \<Rightarrow> instant \<Rightarrow> EmailJob \<Rightarrow> string \<Rightarrow> string" where
  "buildMessage hl now job msgID =
     ''From:'' @ From job @ crlf @
     ''To:'' @ From job @ crlf @
     ''Subject:'' @ (if Subject job = [] then ''(no subject)'' else Subject job) @ crlf @
     ''Message-Id: <'' @ msgID @ crlf @
     ''Date: '' @ FormatRFC1123Z hl now @ crlf @
     ''MIME-Version: 1.0'' @ crlf @
     ''Content-Type: text/plain; charset=utf-8'' @ crlf @
     crlf @ Body job @ crlf"

subsection \<open>The conversation\<close>

datatype smtp_cmd =
    SDial string | SNewClient string | SStartTLS string | SAuth string string
  | SMail string | SRcpt string | SData | SWrite string | SDataClose | SQuit | SConnClose

record smtp_env =
  sm_err :: "smtp_cmd \<Rightarrow> string option"
  sm_starttls :: bool \<comment> \<open>the server offers STARTTLS\<close>
  sm_uuid :: string
  sm_now :: instant

fun smtp_run ::
  "smtp_env \<Rightarrow> (smtp_cmd \<times> (string \<Rightarrow> herror) \<times> smtp_cmd list) list \<Rightarrow> herror option \<times> smtp_cmd list" where
  \<comment> \<open>commands in order until one fails, with the error each failure becomes and what is still
     sent after it\<close>
  "smtp_run se [] = (None, [])"
| "smtp_run se ((c, err, after) # rest) =
     (case sm_err se c of
        Some e \<Rightarrow> (Some (err e), c # after)
      | None \<Rightarrow> (case smtp_run se rest of (r, cs) \<Rightarrow> (r, c # cs)))"

definition JoinHostPort :: "string \<Rightarrow> string \<Rightarrow> string" where
  "JoinHostPort host port =
     (if CHR '':'' \<in> set host then ''['' @ host @ '']:'' @ port else host @ '':'' @ port)"

definition smtp_script ::
  "hlib \<Rightarrow> smtp_env \<Rightarrow> EmailConfig \<Rightarrow> EmailJob \<Rightarrow> string \<Rightarrow>
     (smtp_cmd \<times> (string \<Rightarrow> herror) \<times> smtp_cmd list) list" where
  "smtp_script hl se cfg job msgID =
     (let addr = JoinHostPort (Host cfg) (Itoa (Port cfg));
          msg = buildMessage hl (sm_now se) job msgID;
          temp = (\<lambda>what e. Wrapped what (Err e));
          perm = (\<lambda>what e. PermanentMsg (what @ e))
      in [(SDial addr, temp (''smtp dial '' @ addr @ '': ''), []),
          (SNewClient (Host cfg), temp ''smtp client: '', [])] @
         (if sm_starttls se then [(SStartTLS (Host cfg), temp ''smtp starttls: '', [SConnClose])] else []) @
         (if Username cfg \<noteq> []
          then [(SAuth (Username cfg) (Password cfg), perm ''smtp auth failed: '', [SConnClose])] else []) @
         [(SMail (From job), perm ''smtp MAIL FROM rejected: '', [SConnClose]),
          (SRcpt (To job), perm ''smtp RCPT TO rejected: '', [SConnClose]),
          (SData, temp ''smtp DATA: '', [SConnClose]),
          (SWrite msg, temp ''smtp write: '', [SDataClose, SConnClose]),
          (SDataClose, temp ''smtp data close: '', [SConnClose]),
          (SQuit, temp ''smtp quit: '', [SConnClose])])"

definition message_id :: "smtp_env \<Rightarrow> EmailJob \<Rightarrow> string" where
  "message_id se job = (if EmailJobID job = [] then sm_uuid se else EmailJobID job)"

definition Send ::
  "hlib \<Rightarrow> smtp_env \<Rightarrow> EmailConfig \<Rightarrow> EmailJob \<Rightarrow> (herror + string) \<times> smtp_cmd list" where
  "Send hl se cfg job =
     (case (ParseAddress hl (To job), ParseAddress hl (From job)) of
        (Some e, _) \<Rightarrow> (Inl (PermanentMsg (''invalid to address: '' @ e)), [])
      | (None, Some e) \<Rightarrow> (Inl (PermanentMsg (''invalid from address: '' @ e)), [])
      | (None, None) \<Rightarrow>
          (let msgID = message_id se job in
           if DryRun cfg \<or> Host cfg = []
           then (Inr (''dry-run:'' @ msgID @ '' to='' @ To job), [])
           else
             (case smtp_run se (smtp_script hl se cfg job msgID) of
                (Some e, cs) \<Rightarrow> (Inl e, cs)
              | (None, cs) \<Rightarrow> (Inr msgID, cs @ [SConnClose]))))"

subsection \<open>What a delivery says and does\<close>

lemma smtp_run_None:
  "smtp_run se sc = (None, cs) \<Longrightarrow> cs = map fst sc \<and> list_all (\<lambda>c. sm_err se c = None) cs"
  by (induction sc arbitrary: cs) (auto split: option.splits prod.splits)

lemma smtp_run_Some:
  "smtp_run se sc = (Some e, cs) \<Longrightarrow>
     \<exists>pre c err after post t. sc = pre @ (c, err, after) # post \<and> sm_err se c = Some t \<and> e = err t \<and>
       cs = map fst pre @ c # after"
proof (induction sc arbitrary: cs)
  case (Cons x sc)
  obtain c err after where x: "x = (c, err, after)" by (cases x)
  show ?case
  proof (cases "sm_err se c")
    case (Some t)
    then show ?thesis using Cons.prems x by (intro exI [of _ "[]"]) auto
  next
    case None
    then obtain cs1 where s: "smtp_run se sc = (Some e, cs1)" "cs = c # cs1"
      using Cons.prems x by (auto split: prod.splits)
    from Cons.IH [OF s(1)] obtain pre c2 err2 after2 post t where
      "sc = pre @ (c2, err2, after2) # post" "sm_err se c2 = Some t" "e = err2 t"
      "cs1 = map fst pre @ c2 # after2" by blast
    then show ?thesis using x s(2) by (intro exI [of _ "x # pre"]) auto
  qed
qed simp

text \<open>
  Delivery is reported only after the server has taken every command up to QUIT, the whole
  message among them; a dry run sends nothing.
\<close>

lemma Send_Inr:
  assumes "Send hl se cfg job = (Inr s, cs)"
  shows "(if DryRun cfg \<or> Host cfg = [] then cs = []
          else s = message_id se job \<and> SQuit \<in> set cs \<and> sm_err se SQuit = None \<and>
            SWrite (buildMessage hl (sm_now se) job s) \<in> set cs \<and> SRcpt (To job) \<in> set cs \<and>
            (\<forall>c \<in> set cs. c = SConnClose \<or> sm_err se c = None))"
proof (cases "DryRun cfg \<or> Host cfg = []")
  case True
  then show ?thesis using assms by (auto simp: Send_def Let_def split: option.splits)
next
  case False
  then obtain cs1 where r: "smtp_run se (smtp_script hl se cfg job (message_id se job)) = (None, cs1)"
      "cs = cs1 @ [SConnClose]" "s = message_id se job"
    using assms by (auto simp: Send_def Let_def split: option.splits prod.splits)
  have c: "cs1 = map fst (smtp_script hl se cfg job s)" "list_all (\<lambda>c. sm_err se c = None) cs1"
    using smtp_run_None [OF r(1)] r(3) by auto
  have m: "SQuit \<in> set cs1" "SWrite (buildMessage hl (sm_now se) job s) \<in> set cs1" "SRcpt (To job) \<in> set cs1"
    unfolding c(1) by (auto simp: smtp_script_def Let_def)
  show ?thesis using False r m c(2) by (auto simp: list_all_iff)
qed

text \<open>
  A refused QUIT is reported as a failure although the server has accepted the message, so the
  retry sends it again.
\<close>

lemma quit_failure_resends:
  assumes "\<not> DryRun cfg" "Host cfg \<noteq> []" "ParseAddress hl (To job) = None" "ParseAddress hl (From job) = None"
    and "\<And>c. sm_err se c = (if c = SQuit then Some t else None)"
  shows "\<exists>e cs. Send hl se cfg job = (Inl e, cs) \<and> \<not> IsPermanent e \<and> SDataClose \<in> set cs"
  using assms by (simp add: Send_def Let_def smtp_script_def)

text \<open>
  The \<open>To\<close> header of every message holds the sender's address: the text between \<open>To:\<close> and the
  next line break does not depend on the recipient.
\<close>

lemma message_ignores_recipient:
  "buildMessage hl now (job\<lparr>To := a\<rparr>) i = buildMessage hl now job i"
  by (simp add: buildMessage_def)

end
