(* ===== verification/Handler_Exec.thy ===== *)
theory Handler_Exec
  imports Handlers
begin

text \<open>
  Command execution, \<open>internal/task/handlers/exec.go\<close>. A run takes what the operating system
  answers (\<open>exec_env\<close>) and returns its result with the effects it had: the directories it
  created and the process it started.
\<close>

subsection \<open>Configuration and payload\<close>

record ExecConfig =
  Allowlist :: "string list"
  WorkDir :: string
  MaxOutput :: int

definition ExecConfigFromEnv :: "string \<Rightarrow> getenv \<Rightarrow> ExecConfig" where
  \<comment> \<open>with \<open>os.TempDir()\<close>\<close>
  "ExecConfigFromEnv tmp getenv =
     (let w = TrimSpace (getenv ''EXEC_WORKDIR'') in
      \<lparr>Allowlist = splitCSV (getenv ''EXEC_ALLOWLIST''),
       WorkDir = (if w = [] then Join tmp ''piercemq-exec'' else w),
       MaxOutput = env_pos (TrimSpace (getenv ''EXEC_MAX_OUTPUT'')) 4096\<rparr>)"

record ExecJob =
  Command :: string
  Args :: "string list"
  JobWorkDir :: string

fun exec_args :: "nat \<Rightarrow> json list \<Rightarrow> herror + string list" where
  "exec_args i [] = Inr []"
| "exec_args i (a # as) =
     (case a of
        JStr s \<Rightarrow> (case exec_args (Suc i) as of Inl e \<Rightarrow> Inl e | Inr ss \<Rightarrow> Inr (s # ss))
      | _ \<Rightarrow> Inl (PermanentMsg (''exec job args['' @ Itoa (int i) @ ''] must be a string'')))"

definition bad_workdir :: "string \<Rightarrow> bool" where
  "bad_workdir d \<longleftrightarrow> IsAbs d \<or> d = dotdot \<or> HasPrefix d ''../''"

definition ParseExecPayload :: "hlib \<Rightarrow> payload \<Rightarrow> herror + ExecJob" where
  "ParseExecPayload hl payload =
     (case strField payload [''command'', ''cmd'', ''binary''] of
        None \<Rightarrow> Inl (PermanentMsg ''exec job missing required field: command'')
      | Some cmd \<Rightarrow>
          if (Contains cmd ''/'' \<or> Contains cmd [CHR 0x5C]) \<and> Base cmd \<noteq> cmd
          then Inl (PermanentMsg (''exec command must be a bare binary name, got '' @ Quote hl cmd))
          else
            (case (case map_of payload ''args'' of
                     None \<Rightarrow> Inr []
                   | Some JNull \<Rightarrow> Inr []
                   | Some (JArr arr) \<Rightarrow> exec_args 0 arr
                   | Some _ \<Rightarrow> Inl (PermanentMsg ''exec job field args must be an array of strings'')) of
               Inl e \<Rightarrow> Inl e
             | Inr args \<Rightarrow>
                 (let workdir = strField_or payload [''workdir'', ''dir''] in
                  if workdir \<noteq> [] \<and> bad_workdir workdir
                  then Inl (PermanentMsg ''exec workdir must be relative without .. escape'')
                  else Inr \<lparr>Command = cmd, Args = args, JobWorkDir = workdir\<rparr>)))"

subsection \<open>Captured output\<close>

definition truncateString :: "string \<Rightarrow> int \<Rightarrow> string" where
  "truncateString s mx =
     (if int (length s) \<le> mx then TrimSpace s
      else TrimSpace (take (nat mx) s) @ [CHR 0xE2, CHR 0x80, CHR 0xA6] @ ''[truncated]'')"

definition capped_Write :: "int \<Rightarrow> string \<Rightarrow> string \<Rightarrow> int \<times> string" where
  \<comment> \<open>\<open>cappedWriter.Write\<close> on the shared buffer: the count it reports, and the buffer\<close>
  "capped_Write mx buf p =
     (let room = mx - int (length buf) in
      if room \<le> 0 then (int (length p), buf)
      else
        (let q = (if room < int (length p) then take (nat room) p else p) in
         (int (length q), buf @ q)))"

fun copy_output :: "int \<Rightarrow> bool \<Rightarrow> bool \<Rightarrow> (bool \<times> string) list \<Rightarrow> string \<Rightarrow> string \<times> bool" where
  \<comment> \<open>the two copying goroutines of \<open>os/exec\<close>: the chunks read from standard output (\<open>True\<close>)
     and standard error in the order of their writes. A write that reports fewer bytes than
     it was given ends its goroutine with \<open>io.ErrShortWrite\<close>. The result is the buffer and
     whether a goroutine failed\<close>
  "copy_output mx so se [] buf = (buf, so \<or> se)"
| "copy_output mx so se ((out, p) # cs) buf =
     (if (if out then so else se) then copy_output mx so se cs buf
      else (case capped_Write mx buf p of (n, buf1) \<Rightarrow>
              (let short = (n \<noteq> int (length p)) in
               if out then copy_output mx short se cs buf1 else copy_output mx so short cs buf1)))"

subsection \<open>Running\<close>

record exec_env =
  x_mkdir :: "string \<Rightarrow> string option" \<comment> \<open>errors, by their text\<close>
  x_ctx :: "string option"
  x_start :: "string \<Rightarrow> string option"
  x_chunks :: "(bool \<times> string) list"
  x_exit :: "string option"
  x_deadline :: bool

datatype exec_effect =
    ExecMkdir string
  | ExecStart string "string list" string "string list" \<comment> \<open>name, arguments, directory, environment\<close>

definition child_env :: "string list" where
  "child_env = [''PATH=/usr/local/bin:/usr/bin:/bin'', ''HOME=/nonexistent'']"

definition allowed :: "ExecConfig \<Rightarrow> string \<Rightarrow> bool" where
  "allowed cfg cmd \<longleftrightarrow> list_ex (\<lambda>a. cmd = a \<or> Base a = cmd) (Allowlist cfg)"

definition run_dir :: "ExecConfig \<Rightarrow> ExecJob \<Rightarrow> string" where
  "run_dir cfg job =
     (if JobWorkDir job \<noteq> [] then Join (WorkDir cfg) (Clean (JobWorkDir job)) else WorkDir cfg)"

definition max_output :: "ExecConfig \<Rightarrow> int" where
  "max_output cfg = (if MaxOutput cfg \<le> 0 then 4096 else MaxOutput cfg)"

definition run_result :: "hlib \<Rightarrow> ExecConfig \<Rightarrow> exec_env \<Rightarrow> ExecJob \<Rightarrow> herror + string" where
  \<comment> \<open>after \<open>cmd.Start\<close>: \<open>cmd.Wait\<close> and the report\<close>
  "run_result hl cfg xe job =
     (let mx = max_output cfg in
      case copy_output mx False False (x_chunks xe) [] of (buf, short) \<Rightarrow>
        (let err = (if x_exit xe \<noteq> None then x_exit xe else if short then Some ''short write'' else None);
             out = truncateString buf mx
         in if x_deadline xe
            then Inl (Err (''exec '' @ Quote hl (Command job) @ '' timed out: output: '' @ out))
            else (case err of
                    Some e \<Rightarrow>
                      Inl (Err (''exec '' @ Quote hl (Command job) @ '' failed: '' @ e @ '': output: '' @ out))
                  | None \<Rightarrow>
                      if out = [] then Inr (''exec '' @ Command job @ '' ok (no output)'')
                      else Inr (''exec '' @ Command job @ '' ok: '' @ out))))"

definition Run :: "hlib \<Rightarrow> ExecConfig \<Rightarrow> exec_env \<Rightarrow> ExecJob \<Rightarrow> (herror + string) \<times> exec_effect list" where
  "Run hl cfg xe job =
     (if \<not> allowed cfg (Command job)
      then (Inl (PermanentMsg (''exec command '' @ Quote hl (Command job) @ '' not in EXEC_ALLOWLIST'')), [])
      else
        (let dir = run_dir cfg job in
         case x_mkdir xe dir of
           Some e \<Rightarrow> (Inl (Wrapped ''exec workdir: '' (Err e)), [ExecMkdir dir])
         | None \<Rightarrow>
             (case x_ctx xe of
                Some e \<Rightarrow> (Inl (Err e), [ExecMkdir dir])
              | None \<Rightarrow>
                  (case x_start xe (Command job) of
                     Some e \<Rightarrow>
                       (Inl (PermanentMsg (''exec start '' @ Quote hl (Command job) @ '': '' @ e)), [ExecMkdir dir])
                   | None \<Rightarrow>
                       (run_result hl cfg xe job,
                        [ExecMkdir dir, ExecStart (Command job) (Args job) dir child_env])))))"

subsection \<open>The output cap\<close>

lemma capped_Write_length: "int (length buf) \<le> mx \<Longrightarrow> int (length (snd (capped_Write mx buf p))) \<le> mx"
  by (auto simp: capped_Write_def Let_def)

lemma copy_output_bound:
  "int (length buf) \<le> mx \<Longrightarrow> int (length (fst (copy_output mx so se cs buf))) \<le> mx"
proof (induction mx so se cs buf rule: copy_output.induct)
  case (2 mx so se out p cs buf)
  then show ?case using capped_Write_length [of buf mx p]
    by (auto simp: Let_def split: prod.split)
qed simp

lemma capped_Write_fit:
  "int (length buf + length p) \<le> mx \<Longrightarrow> capped_Write mx buf p = (int (length p), buf @ p)"
  by (cases p) (auto simp: capped_Write_def Let_def)

lemma copy_output_prefix:
  "int (length buf + length (concat (map snd pre))) \<le> mx \<Longrightarrow>
     copy_output mx False False (pre @ cs) buf =
     copy_output mx False False cs (buf @ concat (map snd pre))"
proof (induction pre arbitrary: buf)
  case (Cons x pre)
  obtain out p where x: "x = (out, p)" by (cases x)
  show ?case
    using Cons.IH [of "buf @ p"] Cons.prems capped_Write_fit [of buf p mx] by (simp add: x)
qed simp

lemma copy_output_sticky: "so \<or> se \<Longrightarrow> snd (copy_output mx so se cs buf)"
  by (induction mx so se cs buf rule: copy_output.induct) (auto simp: Let_def split: prod.splits)

lemma capped_Write_short:
  "int (length buf) < mx \<Longrightarrow> mx < int (length (buf @ p)) \<Longrightarrow>
     capped_Write mx buf p = (mx - int (length buf), buf @ take (nat (mx - int (length buf))) p)"
  by (auto simp: capped_Write_def Let_def)

text \<open>
  A command that exits with status 0 in time succeeds, with its whole output in the order it
  was written, when the output fits the cap. The first write that crosses the cap reports a
  short count, which \<open>os/exec\<close> turns into an error: such a command fails although it
  succeeded, and the job is retried.
\<close>

lemma output_within_cap:
  assumes "x_exit xe = None" "\<not> x_deadline xe"
    and "int (length (concat (map snd (x_chunks xe)))) \<le> max_output cfg"
  shows "run_result hl cfg xe job =
           Inr (let out = TrimSpace (concat (map snd (x_chunks xe))) in
                if out = [] then ''exec '' @ Command job @ '' ok (no output)''
                else ''exec '' @ Command job @ '' ok: '' @ out)"
  using assms copy_output_prefix [of "[]" "x_chunks xe" "max_output cfg" "[]"]
  by (simp add: run_result_def Let_def truncateString_def)

lemma output_over_cap_fails:
  assumes "x_chunks xe = pre @ (out, p) # cs"
    and "int (length (concat (map snd pre))) < max_output cfg"
    and "max_output cfg < int (length (concat (map snd pre) @ p))"
  shows "\<exists>e. run_result hl cfg xe job = Inl e \<and> \<not> IsPermanent e"
proof -
  have "snd (copy_output (max_output cfg) False False (x_chunks xe) [])"
    using copy_output_prefix [of "[]" pre "max_output cfg" "(out, p) # cs"] assms
      capped_Write_short [OF assms(2,3)]
    by (simp add: Let_def copy_output_sticky)
  then show ?thesis by (auto simp: run_result_def Let_def split: prod.split)
qed

subsection \<open>What a run may start\<close>

lemma exec_args_Inr: "exec_args i as = Inr ss \<Longrightarrow> as = map JStr ss"
  by (induction i as arbitrary: ss rule: exec_args.induct) (auto split: json.splits sum.splits)

lemma TrimRightChar_snoc: "TrimRightChar c s = [] \<longleftrightarrow> (\<forall>x \<in> set s. x = c)"
  by (auto simp: TrimRightChar_def)

lemma Base_bare: "Base p = p \<Longrightarrow> slash \<in> set p \<Longrightarrow> p = ''/''"
proof (rule ccontr)
  assume b: "Base p = p" and s: "slash \<in> set p" and n: "p \<noteq> ''/''"
  then have "Base p = last (Split slash (TrimRightChar slash p))"
    by (auto simp: Base_def Let_def split: if_splits)
  then have "slash \<notin> set (Base p)"
    using Split_no_sep [of "last (Split slash (TrimRightChar slash p))" slash "TrimRightChar slash p"] by simp
  then show False using b s by simp
qed

lemma Contains_char: "Contains s [c] \<longleftrightarrow> c \<in> set s"
  by (induction s) auto

lemma ParseExec_Inr:
  assumes "ParseExecPayload hl payload = Inr job"
  shows "strField payload [''command'', ''cmd'', ''binary''] = Some (Command job)"
    and "slash \<in> set (Command job) \<Longrightarrow> Command job = ''/''"
    and "JobWorkDir job = [] \<or> \<not> bad_workdir (JobWorkDir job)"
    and "case map_of payload ''args'' of
      None \<Rightarrow> Args job = [] | Some v \<Rightarrow> v = JNull \<and> Args job = [] \<or> v = JArr (map JStr (Args job))"
proof -
  show "strField payload [''command'', ''cmd'', ''binary''] = Some (Command job)"
    and "JobWorkDir job = [] \<or> \<not> bad_workdir (JobWorkDir job)"
    using assms by (auto simp: ParseExecPayload_def Let_def split: option.splits if_splits sum.splits)
  show "case map_of payload ''args'' of
      None \<Rightarrow> Args job = [] | Some v \<Rightarrow> v = JNull \<and> Args job = [] \<or> v = JArr (map JStr (Args job))"
    using assms by (auto simp: ParseExecPayload_def Let_def split: option.splits if_splits sum.splits json.splits
        dest!: exec_args_Inr)
  show "Command job = ''/''" if "slash \<in> set (Command job)"
    using assms that Base_bare [of "Command job"]
    by (auto simp: ParseExecPayload_def Let_def Contains_char split: option.splits if_splits sum.splits)
qed

lemma Run_started:
  "ExecStart c as d e \<in> set (snd (Run hl cfg xe job)) \<Longrightarrow>
     allowed cfg c \<and> c = Command job \<and> as = Args job \<and> d = run_dir cfg job \<and> e = child_env"
  by (auto simp: Run_def Let_def split: if_splits option.splits)

definition started :: "exec_effect list \<Rightarrow> (string \<times> string list \<times> string \<times> string list) list" where
  "started es = concat (map (\<lambda>e. case e of ExecMkdir _ \<Rightarrow> [] | ExecStart c as d ev \<Rightarrow> [(c, as, d, ev)]) es)"

lemma started_simps [simp]:
  "started [] = []" "started (ExecMkdir d # es) = started es"
  "started (ExecStart c as d ev # es) = (c, as, d, ev) # started es"
  by (simp_all add: started_def)

lemma Run_cases:
  "started (snd (Run hl cfg xe job)) = [] \<or>
   allowed cfg (Command job) \<and>
   Run hl cfg xe job =
     (run_result hl cfg xe job,
      [ExecMkdir (run_dir cfg job), ExecStart (Command job) (Args job) (run_dir cfg job) child_env])"
  by (auto simp: Run_def Let_def split: option.splits)

text \<open>C14. A job whose payload was accepted starts at most one process. Its name is the payload's command,
  one that the allowlist holds, or the last element of a path on it, and contains no separator, so a
  payload cannot choose a binary by its path; its arguments are exactly the strings of the payload
  passed one by one (none when it has no \<open>args\<close> or a null one), and its environment is the fixed one. When nothing is
  started the job fails, and an allowed command is started unless its directory cannot be made, the
  context is done or the system cannot start it. With an empty allowlist no job
  starts anything or touches the disk, and the failure is permanent.
\<close>

theorem exec_allowlist:
  assumes "ParseExecPayload hl payload = Inr job"
  shows "\<exists>c as. strField payload [''command'', ''cmd'', ''binary''] = Some c \<and>
    (case map_of payload ''args'' of
       None \<Rightarrow> as = [] | Some v \<Rightarrow> v = JNull \<and> as = [] \<or> v = JArr (map JStr as)) \<and>
    (if Allowlist cfg = []
     then snd (Run hl cfg xe job) = [] \<and> (\<exists>e. fst (Run hl cfg xe job) = Inl e \<and> IsPermanent e)
     else if (\<exists>a \<in> set (Allowlist cfg). c = a \<or> Base a = c) \<and>
       x_mkdir xe (run_dir cfg job) = None \<and> x_ctx xe = None \<and> x_start xe c = None
     then started (snd (Run hl cfg xe job)) = [(c, as, run_dir cfg job, child_env)] \<and> (slash \<notin> set c \<or> c = ''/'')
     else started (snd (Run hl cfg xe job)) = [] \<and> (\<exists>e. fst (Run hl cfg xe job) = Inl e))"
proof (intro exI conjI)
  note p = ParseExec_Inr [OF assms]
  show "strField payload [''command'', ''cmd'', ''binary''] = Some (Command job)" by (rule p(1))
  show "case map_of payload ''args'' of
      None \<Rightarrow> Args job = [] | Some v \<Rightarrow> v = JNull \<and> Args job = [] \<or> v = JArr (map JStr (Args job))" by (rule p(4))
  have "allowed cfg (Command job) \<longleftrightarrow> (\<exists>a \<in> set (Allowlist cfg). Command job = a \<or> Base a = Command job)"
    by (simp add: allowed_def list_ex_iff)
  then show "if Allowlist cfg = []
     then snd (Run hl cfg xe job) = [] \<and> (\<exists>e. fst (Run hl cfg xe job) = Inl e \<and> IsPermanent e)
     else if (\<exists>a \<in> set (Allowlist cfg). Command job = a \<or> Base a = Command job) \<and>
       x_mkdir xe (run_dir cfg job) = None \<and> x_ctx xe = None \<and> x_start xe (Command job) = None
     then started (snd (Run hl cfg xe job)) = [(Command job, Args job, run_dir cfg job, child_env)] \<and>
       (slash \<notin> set (Command job) \<or> Command job = ''/'')
     else started (snd (Run hl cfg xe job)) = [] \<and> (\<exists>e. fst (Run hl cfg xe job) = Inl e)"
    using p(2) by (auto simp: Run_def Let_def split: option.split)
qed

definition demo_xe :: exec_env where
  "demo_xe =
     \<lparr>x_mkdir = (\<lambda>d. None), x_ctx = None, x_start = (\<lambda>c. None), x_chunks = [(True, ''hi'')],
      x_exit = None, x_deadline = False\<rparr>"

definition exec_demo_cfg :: ExecConfig where
  "exec_demo_cfg = \<lparr>Allowlist = [''ls''], WorkDir = ''/srv/box'', MaxOutput = 4096\<rparr>"

definition demo_payload :: payload where
  "demo_payload = [(''command'', JStr ''ls''), (''args'', JArr [JStr ''-l'']), (''workdir'', JStr ''a/../../x'')]"

definition demo_job :: ExecJob where
  "demo_job = \<lparr>Command = ''ls'', Args = [''-l''], JobWorkDir = ''a/../../x''\<rparr>"

lemma demo_parse:
  "ParseExecPayload demo_hl demo_payload = Inr demo_job"
  by (simp add: ParseExecPayload_def demo_payload_def demo_job_def strField_or_def strField.simps TrimSpace_def is_space_def
      of_char_def bad_workdir_def)

theorem exec_allowlist_witness:
  "started (snd (Run demo_hl exec_demo_cfg demo_xe demo_job)) =
     [(''ls'', [''-l''], run_dir exec_demo_cfg demo_job, child_env)]"
proof -
  have a: "Allowlist exec_demo_cfg = [''ls'']" "x_mkdir demo_xe d = None" "x_ctx demo_xe = None" "x_start demo_xe c = None" for d c
    by (simp_all add: exec_demo_cfg_def demo_xe_def)
  have f: "strField demo_payload [''command'', ''cmd'', ''binary''] = Some ''ls''" "map_of demo_payload ''args'' = Some (JArr [JStr ''-l''])"
    by (simp_all add: demo_payload_def strField.simps TrimSpace_def is_space_def of_char_def)
  show ?thesis using exec_allowlist [OF demo_parse, of exec_demo_cfg demo_xe] a f by auto
qed

text \<open>The directory a job's process runs in, exactly: \<open>n\<close> levels above the configured one,
  where \<open>n\<close> is the number of \<open>..\<close> the cleaned \<open>workdir\<close> starts with, then down its remaining
  components. The payload check looks only at the text of \<open>workdir\<close>, so \<open>n\<close> need not be 0:
  \<open>a/../../x\<close> is accepted and runs in a sibling of the sandbox.
\<close>

theorem exec_dir_exact:
  assumes "ParseExecPayload hl payload = Inr job" and "IsAbs (WorkDir cfg)"
    and "started (snd (Run hl cfg xe job)) = [(c, as, d, ev)]"
  shows "\<exists>n ds. comps (strField_or payload [''workdir'', ''dir'']) = replicate n dotdot @ ds \<and> plain ds \<and>
           comps d = take (length (comps (WorkDir cfg)) - n) (comps (WorkDir cfg)) @ ds"
proof -
  have d: "d = run_dir cfg job" using Run_cases [of hl cfg xe job] assms(3) by auto
  have w: "JobWorkDir job = strField_or payload [''workdir'', ''dir'']"
    using assms(1) by (auto simp: ParseExecPayload_def Let_def split: option.splits if_splits sum.splits)
  show ?thesis
  proof (cases "JobWorkDir job = []")
    case True
    have "comps [] = []" by (simp add: comps_def)
    then show ?thesis using True w d by (intro exI [of _ 0] exI [of _ "[]"]) (simp add: run_dir_def)
  next
    case False
    then have r: "\<not> IsAbs (JobWorkDir job)" using ParseExec_Inr(3) [OF assms(1)] by (simp add: bad_workdir_def)
    obtain n ds where c: "comps (JobWorkDir job) = replicate n dotdot @ ds" "plain ds"
      using comps_rel_ups [OF r] unfolding ups_def by blast
    show ?thesis using Join_ups(2) [OF assms(2) r c] c False w d
      by (intro exI [of _ n] exI [of _ ds]) (simp add: run_dir_def)
  qed
qed

theorem exec_dir_exact_witness:
  "(\<exists>n ds. comps (strField_or demo_payload [''workdir'', ''dir'']) = replicate n dotdot @ ds \<and>
      comps (run_dir exec_demo_cfg demo_job) =
        take (length (comps (WorkDir exec_demo_cfg)) - n) (comps (WorkDir exec_demo_cfg)) @ ds) \<and>
   run_dir exec_demo_cfg demo_job = ''/srv/x''"
proof -
  have a: "IsAbs (WorkDir exec_demo_cfg)" by (simp add: exec_demo_cfg_def)
  have s: "started (snd (Run demo_hl exec_demo_cfg demo_xe demo_job)) = [(''ls'', [''-l''], run_dir exec_demo_cfg demo_job, child_env)]"
    by (simp add: Run_def Let_def allowed_def exec_demo_cfg_def demo_xe_def demo_job_def)
  have d: "run_dir exec_demo_cfg demo_job = ''/srv/x''"
    by (simp add: run_dir_def exec_demo_cfg_def demo_job_def Join_def Clean_def comps_def unsplit_def)
  show ?thesis using exec_dir_exact [OF demo_parse a s] d by blast
qed

end
