(* ===== verification/Handler_File.thy ===== *)
theory Handler_File
  imports Handlers
begin

text \<open>
  File jobs, \<open>internal/task/handlers/file.go\<close>: payloads, the sandboxed local storage and the
  S3 storage. The disk is a map from absolute paths to contents and the set of its directories, without links
  and without concurrent writers; every system call and HTTP request is an entry of a log, and its
  failure an oracle of \<open>file_env\<close>, as is what a failed call has done before it failed: the
  directories \<open>MkdirAll\<close> has made and the bytes a write has written.
\<close>

subsection \<open>Configuration and payload\<close>

record FileJob =
  Src :: string
  Dst :: string
  Op :: string
  Legacy :: bool
  Hint :: string

record FileConfig =
  BaseDir :: string
  MaxBytes :: int
  S3Endpoint :: string
  S3AccessKey :: string
  S3SecretKey :: string
  S3Region :: string
  S3UseSSL :: bool
  HTTPTimeout :: duration

fun firstNonEmpty :: "string list \<Rightarrow> string" where
  "firstNonEmpty [] = []"
| "firstNonEmpty (s # ss) = (if s \<noteq> [] then s else firstNonEmpty ss)"

definition FileConfigFromEnv :: "string \<Rightarrow> getenv \<Rightarrow> FileConfig" where
  \<comment> \<open>\<open>maxMB << 20\<close> and the timeout wrap at 64 bits\<close>
  "FileConfigFromEnv tmp getenv =
     (let maxMB = env_pos (TrimSpace (getenv ''FILE_MAX_MB'')) 100;
          v = TrimSpace (getenv ''S3_TIMEOUT_SEC'');
          base = TrimSpace (getenv ''FILE_BASE_DIR'')
      in \<lparr>BaseDir = (if base = [] then Join tmp ''piercemq-files'' else base),
          MaxBytes = wrap64 (maxMB * 1048576),
          S3Endpoint = TrimRightChar slash (TrimSpace (getenv ''S3_ENDPOINT'')),
          S3AccessKey = TrimSpace (getenv ''S3_ACCESS_KEY''),
          S3SecretKey = getenv ''S3_SECRET_KEY'',
          S3Region = firstNonEmpty [TrimSpace (getenv ''S3_REGION''), ''us-east-1''],
          S3UseSSL = env_flag (TrimSpace (getenv ''S3_USE_SSL'')),
          HTTPTimeout = wrap64 (env_pos v 30 * second)\<rparr>)"

abbreviation s3_scheme :: string where "s3_scheme \<equiv> ''s3://''"

definition splitS3URL :: "hlib \<Rightarrow> string \<Rightarrow> herror + string \<times> string" where
  "splitS3URL hl ref =
     (case CutChar slash (TrimPrefix ref s3_scheme) of (bucket, key, found) \<Rightarrow>
        if \<not> found \<or> bucket = [] \<or> key = []
        then Inl (PermanentMsg (''invalid s3 URL '' @ Quote hl ref @ '' (want s3://bucket/key)''))
        else Inr (bucket, key))"

definition parseS3URL :: "hlib \<Rightarrow> string \<Rightarrow> herror option" where
  "parseS3URL hl ref = (case splitS3URL hl ref of Inl e \<Rightarrow> Some e | Inr _ \<Rightarrow> None)"

definition ParseFilePayload :: "hlib \<Rightarrow> payload \<Rightarrow> herror + FileJob" where
  "ParseFilePayload hl payload =
     (let src = strField payload [''src'', ''source'', ''url''];
          dst = strField payload [''dst'', ''dest'', ''destination''];
          op = ToLower (TrimSpace (strField_or payload [''op'', ''operation'']));
          s = case_option [] id src; d = case_option [] id dst
      in if src \<noteq> None \<or> dst \<noteq> None
         then (if src = None then Inl (PermanentMsg ''file job missing required field: src'')
               else if dst = None \<and> op \<noteq> ''sha256''
               then Inl (PermanentMsg ''file job missing required field: dst'')
               else if op \<notin> {[], ''copy'', ''sha256''}
               then Inl (PermanentMsg (''file job unknown op '' @ Quote hl op @ '' (want copy|sha256)''))
               else (case (if HasPrefix s s3_scheme \<or> HasPrefix d s3_scheme
                           then parseS3URL hl (firstNonEmpty [s, d]) else None) of
                       Some e \<Rightarrow> Inl e
                     | None \<Rightarrow> Inr \<lparr>Src = s, Dst = d, Op = op, Legacy = False, Hint = []\<rparr>))
         else (case strField payload [''filename'', ''path''] of
                 Some hint \<Rightarrow> Inr \<lparr>Src = [], Dst = [], Op = [], Legacy = True, Hint = hint\<rparr>
               | None \<Rightarrow>
                   Inl (PermanentMsg
                     ''file job missing required field: filename or path (legacy) or src+dst'')))"

subsection \<open>The outside world\<close>

record http_req =
  rq_Method :: string
  rq_URL :: string
  rq_Header :: "(string \<times> string) list"
  rq_Body :: string

record http_resp =
  rs_Status :: int
  rs_Body :: string
  rs_read_err :: "string option" \<comment> \<open>what reading the body ends with, after \<open>rs_Body\<close>\<close>

datatype file_effect =
    FOpen string | FMkdirAll string | FCreateTemp string string
  | FWrite string | FRename string string | FRemove string
  | FHttp http_req

record file_env =
  fe_cwd :: "string option" \<comment> \<open>\<open>os.Getwd\<close>\<close>
  fe_cwd_err :: string \<comment> \<open>its error text\<close>
  fe_tmpdir :: string
  fe_err :: "file_effect \<Rightarrow> string option" \<comment> \<open>failures of system calls, by their text\<close>
  fe_made :: "string \<Rightarrow> nat" \<comment> \<open>levels a failed \<open>os.MkdirAll\<close> has made\<close>
  fe_written :: "string \<Rightarrow> nat" \<comment> \<open>bytes a failed write has written\<close>
  fe_read_err :: "string \<Rightarrow> string option"
  fe_close_err :: "string \<Rightarrow> string option"
  fe_rand :: "(string \<Rightarrow> string option) \<Rightarrow> string \<Rightarrow> nat" \<comment> \<open>the number \<open>os.CreateTemp\<close> picks\<close>
  fe_ctx :: "file_effect list \<Rightarrow> string option" \<comment> \<open>\<open>ctx.Err()\<close>, given the log so far\<close>
  fe_http :: "http_req \<Rightarrow> string + http_resp"
  fe_now :: instant

record file_world =
  fs :: "string \<Rightarrow> string option"
  fs_dirs :: "string \<Rightarrow> bool"
  log :: "file_effect list"

definition fdo :: "file_effect \<Rightarrow> file_world \<Rightarrow> file_world" where
  "fdo e w = w\<lparr>log := log w @ [e]\<rparr>"

definition cap :: "int \<Rightarrow> int" where
  "cap maxBytes = (if maxBytes \<le> 0 then 104857600 else maxBytes)"

definition read_limited :: "int \<Rightarrow> string \<Rightarrow> string option \<Rightarrow> string + string" where
  \<comment> \<open>\<open>io.ReadAll(io.LimitReader(r, max+1))\<close> on a reader that yields \<open>data\<close> and then the error,
     or the end: an error after the limit is not seen\<close>
  "read_limited mx data err =
     (if mx < int (length data) then Inr (take (nat (mx + 1)) data)
      else (case err of Some e \<Rightarrow> Inl e | None \<Rightarrow> Inr data))"

subsection \<open>Local storage\<close>

definition escapes :: "string \<Rightarrow> bool" where
  "escapes p \<longleftrightarrow> p = dotdot \<or> HasPrefix p ''../''"

definition resolve :: "hlib \<Rightarrow> file_env \<Rightarrow> string \<Rightarrow> string \<Rightarrow> herror + string" where
  "resolve hl fe baseDir ref =
     (let p = TrimPrefix (TrimSpace ref) ''file://'' in
      if IsAbs p
      then Inl (PermanentMsg (''file path must be relative to FILE_BASE_DIR, got absolute '' @ Quote hl ref))
      else
        (let clean = Clean p in
         if escapes clean
         then Inl (PermanentMsg (''file path escapes FILE_BASE_DIR: '' @ Quote hl ref))
         else
           (case Abs_path (fe_cwd fe) (if baseDir = [] then fe_tmpdir fe else baseDir) of
              None \<Rightarrow> Inl (Wrapped ''resolve base dir: '' (Err (fe_cwd_err fe)))
            | Some absBase \<Rightarrow>
                (let joined = Join absBase clean in
                 case Rel absBase joined of
                   None \<Rightarrow> Inl (PermanentMsg (''file path escapes FILE_BASE_DIR: '' @ Quote hl ref))
                 | Some rel \<Rightarrow>
                     if escapes rel
                     then Inl (PermanentMsg (''file path escapes FILE_BASE_DIR: '' @ Quote hl ref))
                     else Inr joined))))"

definition local_Get ::
  "hlib \<Rightarrow> file_env \<Rightarrow> FileConfig \<Rightarrow> string \<Rightarrow> file_world \<Rightarrow> (herror + string) \<times> file_world" where
  "local_Get hl fe cfg ref w =
     (case resolve hl fe (BaseDir cfg) ref of
        Inl e \<Rightarrow> (Inl e, w)
      | Inr path \<Rightarrow>
          (let w1 = fdo (FOpen path) w; mx = cap (MaxBytes cfg) in
           case (fe_err fe (FOpen path), fs w path) of
             (Some e, _) \<Rightarrow> (Inl (Wrapped (''open '' @ ref @ '': '') (Err e)), w1)
           | (None, None) \<Rightarrow>
               (Inl (Wrapped (''open '' @ ref @ '': '')
                      (Err (''open '' @ path @ '': no such file or directory''))), w1)
           | (None, Some content) \<Rightarrow>
               (case read_limited mx content (fe_read_err fe path) of
                  Inl e \<Rightarrow> (Inl (Wrapped (''read '' @ ref @ '': '') (Err e)), w1)
                | Inr data \<Rightarrow>
                    if mx < int (length data)
                    then (Inl (PermanentMsg (''file '' @ ref @ '' exceeds '' @ Itoa mx @ '' bytes cap'')), w1)
                    else (case fe_ctx fe (log w1) of
                            Some e \<Rightarrow> (Inl (Err e), w1)
                          | None \<Rightarrow> (Inr data, w1)))))"

definition temp_name :: "string \<Rightarrow> nat \<Rightarrow> string" where
  \<comment> \<open>\<open>os.CreateTemp(dir, ".tmp-*")\<close>\<close>
  "temp_name dir n = (if HasSuffix dir ''/'' then dir else dir @ ''/'') @ ''.tmp-'' @ nat_dec n"

definition path_chain :: "string \<Rightarrow> string list" where
  \<comment> \<open>an absolute path and those above it, below the root, from the top\<close>
  "path_chain d = map (\<lambda>k. unsplit True (take (Suc k) (comps d))) [0..<length (comps d)]"

definition make_dirs :: "string list \<Rightarrow> file_world \<Rightarrow> file_world" where
  "make_dirs ds w = w\<lparr>fs_dirs := (\<lambda>p. fs_dirs w p \<or> p \<in> set ds)\<rparr>"

definition remove_file :: "file_env \<Rightarrow> string \<Rightarrow> file_world \<Rightarrow> file_world" where
  \<comment> \<open>\<open>os.Remove\<close>, its error ignored\<close>
  "remove_file fe p w =
     (let w1 = fdo (FRemove p) w
      in if fe_err fe (FRemove p) = None then w1\<lparr>fs := (fs w1)(p := None)\<rparr> else w1)"

definition put_data ::
  "file_env \<Rightarrow> string \<Rightarrow> string \<Rightarrow> string \<Rightarrow> string \<Rightarrow> file_world \<Rightarrow> herror option \<times> file_world" where
  \<comment> \<open>from the created temporary file on; the deferred \<open>os.Remove\<close> runs on every return\<close>
  "put_data fe ref path tmpName data w =
     (let w1 = fdo (FWrite tmpName) w
      in case fe_err fe (FWrite tmpName) of
           Some e \<Rightarrow>
             (Some (Wrapped (''write '' @ ref @ '': '') (Err e)),
              remove_file fe tmpName (w1\<lparr>fs := (fs w1)(tmpName \<mapsto> take (fe_written fe tmpName) data)\<rparr>))
         | None \<Rightarrow>
             (let w2 = w1\<lparr>fs := (fs w1)(tmpName \<mapsto> data)\<rparr> in
              case fe_close_err fe tmpName of
                Some e \<Rightarrow> (Some (Wrapped (''close '' @ ref @ '': '') (Err e)), remove_file fe tmpName w2)
              | None \<Rightarrow>
                  (let w3 = fdo (FRename tmpName path) w2 in
                   case fe_err fe (FRename tmpName path) of
                     Some e \<Rightarrow> (Some (Wrapped (''rename '' @ ref @ '': '') (Err e)), remove_file fe tmpName w3)
                   | None \<Rightarrow>
                       (let w4 = w3\<lparr>fs := (fs w3)(tmpName := None, path \<mapsto> data)\<rparr> in
                        (map_option Err (fe_ctx fe (log w4)), remove_file fe tmpName w4)))))"

definition local_Put ::
  "hlib \<Rightarrow> file_env \<Rightarrow> FileConfig \<Rightarrow> string \<Rightarrow> string \<Rightarrow> file_world \<Rightarrow> herror option \<times> file_world" where
  "local_Put hl fe cfg ref data w =
     (case resolve hl fe (BaseDir cfg) ref of
        Inl e \<Rightarrow> (Some e, w)
      | Inr path \<Rightarrow>
          (let mx = cap (MaxBytes cfg); dir = Dir path in
           if mx < int (length data)
           then (Some (PermanentMsg (''file '' @ ref @ '' exceeds '' @ Itoa mx @ '' bytes cap'')), w)
           else
             (let w1 = fdo (FMkdirAll dir) w in
              case fe_err fe (FMkdirAll dir) of
                Some e \<Rightarrow>
                  (Some (Wrapped (''mkdir for '' @ ref @ '': '') (Err e)),
                   make_dirs (take (fe_made fe dir) (path_chain dir)) w1)
              | None \<Rightarrow>
                  (let tmpName = temp_name dir (fe_rand fe (fs w1) dir);
                       w2 = fdo (FCreateTemp dir tmpName) (make_dirs (path_chain dir) w1) in
                   case fe_err fe (FCreateTemp dir tmpName) of
                     Some e \<Rightarrow> (Some (Wrapped (''create temp for '' @ ref @ '': '') (Err e)), w2)
                   | None \<Rightarrow> put_data fe ref path tmpName data (w2\<lparr>fs := (fs w2)(tmpName \<mapsto> [])\<rparr>)))))"

subsection \<open>S3 storage\<close>

fun upper_hex :: "nat \<Rightarrow> char" where
  "upper_hex n = (if n < 10 then char_of (48 + n) else char_of (55 + n))"

definition path_plain :: "char \<Rightarrow> bool" where
  \<comment> \<open>the bytes \<open>url.PathEscape\<close> leaves as they are\<close>
  "path_plain c \<longleftrightarrow>
     (let n = (of_char c :: nat) in
      (48 \<le> n \<and> n \<le> 57) \<or> (65 \<le> n \<and> n \<le> 90) \<or> (97 \<le> n \<and> n \<le> 122) \<or> c \<in> set ''-_.~$&+=:@'')"

definition PathEscape :: "string \<Rightarrow> string" where
  "PathEscape s =
     concat (map (\<lambda>c. if path_plain c then [c]
                      else let n = (of_char c :: nat) in [CHR 0x25, upper_hex (n div 16), upper_hex (n mod 16)]) s)"

definition encodeKey :: "string \<Rightarrow> string" where
  "encodeKey key = join_with ''/'' (map PathEscape (Split slash key))"

definition sha256Hex :: "hlib \<Rightarrow> string \<Rightarrow> string" where
  "sha256Hex hl b = hex_encode (Sum256 hl b)"

definition sign_headers :: "hlib \<Rightarrow> FileConfig \<Rightarrow> instant \<Rightarrow> string \<Rightarrow> string \<Rightarrow> string \<Rightarrow> string \<Rightarrow> string \<Rightarrow> (string \<times> string) list" where
  \<comment> \<open>the signature of version 4: \<open>x-amz-date\<close> and \<open>Authorization\<close>\<close>
  "sign_headers hl cfg now meth bucket key host payloadHash =
     (let amzDate = FormatAmz hl now; dateStamp = FormatDay hl now; nl = [CHR 0x0A];
          region = (if S3Region cfg = [] then ''us-east-1'' else S3Region cfg);
          signedHeaders = ''host;x-amz-content-sha256;x-amz-date'';
          canonicalHeaders = ''host:'' @ host @ nl @ ''x-amz-content-sha256:'' @ payloadHash @ nl @
            ''x-amz-date:'' @ amzDate @ nl;
          canonicalRequest = meth @ nl @ ''/'' @ bucket @ ''/'' @ encodeKey key @ nl @ nl @
            canonicalHeaders @ nl @ signedHeaders @ nl @ payloadHash;
          scope = dateStamp @ ''/'' @ region @ ''/s3/aws4_request'';
          stringToSign = ''AWS4-HMAC-SHA256'' @ nl @ amzDate @ nl @ scope @ nl @ sha256Hex hl canonicalRequest;
          signingKey = HMAC256 hl (HMAC256 hl (HMAC256 hl (HMAC256 hl (''AWS4'' @ S3SecretKey cfg) dateStamp)
            region) ''s3'') ''aws4_request'';
          signature = hex_encode (HMAC256 hl signingKey stringToSign)
      in [(''x-amz-date'', amzDate),
          (''Authorization'', ''AWS4-HMAC-SHA256 Credential='' @ S3AccessKey cfg @ ''/'' @ scope @
             '', SignedHeaders='' @ signedHeaders @ '', Signature='' @ signature)])"

definition signedRequest ::
  "hlib \<Rightarrow> FileConfig \<Rightarrow> instant \<Rightarrow> string \<Rightarrow> string \<Rightarrow> string \<Rightarrow> string \<Rightarrow> string \<Rightarrow> herror + http_req" where
  "signedRequest hl cfg now meth bucket key body contentType =
     (let endpoint = TrimRightChar slash (S3Endpoint cfg) in
      if endpoint = [] then Inl (PermanentMsg ''S3_ENDPOINT is not configured'')
      else
        (case url_Parse hl (endpoint @ ''/'' @ bucket @ ''/'' @ encodeKey key) of
           Inl e \<Rightarrow> Inl (Wrapped ''s3 url: '' (Err e))
         | Inr (host, u) \<Rightarrow>
             (case NewRequest_err hl u of
                Some e \<Rightarrow> Inl (Wrapped ''s3 request: '' (Err e))
              | None \<Rightarrow>
                  (let payloadHash = sha256Hex hl body in
                   Inr \<lparr>rq_Method = meth, rq_URL = u,
                        rq_Header = (''x-amz-content-sha256'', payloadHash) #
                          (if contentType \<noteq> [] then [(''Content-Type'', contentType)] else []) @
                          (if S3AccessKey cfg = [] then []
                           else sign_headers hl cfg now meth bucket key host payloadHash),
                        rq_Body = body\<rparr>))))"

definition s3_Get ::
  "hlib \<Rightarrow> file_env \<Rightarrow> FileConfig \<Rightarrow> string \<Rightarrow> file_world \<Rightarrow> (herror + string) \<times> file_world" where
  "s3_Get hl fe cfg ref w =
     (case splitS3URL hl ref of
        Inl e \<Rightarrow> (Inl e, w)
      | Inr (bucket, key) \<Rightarrow>
          (case signedRequest hl cfg (fe_now fe) ''GET'' bucket key [] [] of
             Inl e \<Rightarrow> (Inl e, w)
           | Inr req \<Rightarrow>
               (let w1 = fdo (FHttp req) w; mx = cap (MaxBytes cfg); what = ''s3 GET '' @ ref in
                case fe_http fe req of
                  Inl e \<Rightarrow> (Inl (Wrapped (what @ '': '') (Err e)), w1)
                | Inr r \<Rightarrow>
                    (let st = rs_Status r;
                         text = what @ '' -> '' @ Itoa st @ '' '' @ TrimSpace (take 512 (rs_Body r))
                     in if st \<noteq> 200
                        then (Inl (if 400 \<le> st \<and> st < 500 \<and> st \<noteq> 429 then PermanentMsg text else Err text), w1)
                        else (case read_limited mx (rs_Body r) (rs_read_err r) of
                                Inl e \<Rightarrow> (Inl (Wrapped (''s3 read '' @ ref @ '': '') (Err e)), w1)
                              | Inr data \<Rightarrow>
                                  if mx < int (length data)
                                  then (Inl (PermanentMsg (''s3 object '' @ ref @ '' exceeds '' @ Itoa mx @
                                               '' bytes cap'')), w1)
                                  else (Inr data, w1))))))"

definition s3_Put ::
  "hlib \<Rightarrow> file_env \<Rightarrow> FileConfig \<Rightarrow> string \<Rightarrow> string \<Rightarrow> file_world \<Rightarrow> herror option \<times> file_world" where
  "s3_Put hl fe cfg ref data w =
     (case splitS3URL hl ref of
        Inl e \<Rightarrow> (Some e, w)
      | Inr (bucket, key) \<Rightarrow>
          (let mx = cap (MaxBytes cfg); what = ''s3 PUT '' @ ref in
           if mx < int (length data)
           then (Some (PermanentMsg (''s3 object '' @ ref @ '' exceeds '' @ Itoa mx @ '' bytes cap'')), w)
           else
             (case signedRequest hl cfg (fe_now fe) ''PUT'' bucket key data ''application/octet-stream'' of
                Inl e \<Rightarrow> (Some e, w)
              | Inr req \<Rightarrow>
                  (let w1 = fdo (FHttp req) w in
                   case fe_http fe req of
                     Inl e \<Rightarrow> (Some (Wrapped (what @ '': '') (Err e)), w1)
                   | Inr r \<Rightarrow>
                       (let st = rs_Status r; text = what @ '' -> '' @ Itoa st in
                        if st \<notin> {200, 201, 204}
                        then (Some (if 400 \<le> st \<and> st < 500 then PermanentMsg text else Err text), w1)
                        else (None, w1))))))"

subsection \<open>Processing\<close>

datatype storage = LocalFS | S3

definition storageFor :: "FileConfig \<Rightarrow> string \<Rightarrow> herror + storage" where
  "storageFor cfg ref =
     (if HasPrefix ref s3_scheme
      then (if S3Endpoint cfg = []
            then Inl (PermanentMsg ''file job references s3:// URL but S3_ENDPOINT is not configured'')
            else Inr S3)
      else Inr LocalFS)"

fun storage_Get where
  "storage_Get LocalFS hl fe cfg ref w = local_Get hl fe cfg ref w"
| "storage_Get S3 hl fe cfg ref w = s3_Get hl fe cfg ref w"

fun storage_Put where
  "storage_Put LocalFS hl fe cfg ref data w = local_Put hl fe cfg ref data w"
| "storage_Put S3 hl fe cfg ref data w = s3_Put hl fe cfg ref data w"

definition shortHex :: "string \<Rightarrow> string" where
  "shortHex h = (if 12 < length h then take 12 h else h)"

definition Process ::
  "hlib \<Rightarrow> file_env \<Rightarrow> FileConfig \<Rightarrow> FileJob \<Rightarrow> file_world \<Rightarrow> (herror + string) \<times> file_world" where
  "Process hl fe cfg job w =
     (if Legacy job
      then (Inr (if Hint job = [] then ''file validated (no src/dst, no I/O)''
                 else ''file validated '' @ Hint job @ '' (no src/dst, no I/O)''), w)
      else
        (case fe_ctx fe (log w) of
           Some e \<Rightarrow> (Inl (Err e), w)
         | None \<Rightarrow>
             (case storageFor cfg (Src job) of
                Inl e \<Rightarrow> (Inl e, w)
              | Inr srcStore \<Rightarrow>
                  (case storage_Get srcStore hl fe cfg (Src job) w of
                     (Inl e, w1) \<Rightarrow> (Inl e, w1)
                   | (Inr data, w1) \<Rightarrow>
                       (let hexSum = sha256Hex hl data; n = Itoa (int (length data)) in
                        if Op job = ''sha256''
                        then (Inr (''sha256 '' @ shortHex hexSum @ '' '' @ Src job @ '' ('' @ n @ '' bytes)''), w1)
                        else
                          (case storageFor cfg (Dst job) of
                             Inl e \<Rightarrow> (Inl e, w1)
                           | Inr dstStore \<Rightarrow>
                               (case storage_Put dstStore hl fe cfg (Dst job) data w1 of
                                  (Some e, w2) \<Rightarrow> (Inl e, w2)
                                | (None, w2) \<Rightarrow>
                                    (Inr (''copied '' @ n @ '' bytes '' @ Src job @ '' -> '' @ Dst job @
                                          '' sha256:'' @ shortHex hexSum), w2))))))))"

end
