(* ===== verification/Handler_File_Props.thy ===== *)
theory Handler_File_Props
  imports Handler_File
begin

text \<open>
  What file jobs do: where the local storage may read and write, and what a copy leaves on
  the disk.
\<close>

subsection \<open>Resolved paths\<close>

definition local_path :: "string \<Rightarrow> string" where
  "local_path ref = TrimPrefix (TrimSpace ref) ''file://''"

definition base_dir :: "file_env \<Rightarrow> string \<Rightarrow> string option" where
  "base_dir fe base = Abs_path (fe_cwd fe) (if base = [] then fe_tmpdir fe else base)"

definition in_dir :: "string \<Rightarrow> string \<Rightarrow> bool" where
  "in_dir b p \<longleftrightarrow> IsAbs p \<and> take (length (comps b)) (comps p) = comps b"

definition cwd_ok :: "file_env \<Rightarrow> bool" where
  \<comment> \<open>\<open>os.Getwd\<close> answers an absolute path\<close>
  "cwd_ok fe \<longleftrightarrow> (case fe_cwd fe of None \<Rightarrow> True | Some d \<Rightarrow> IsAbs d)"

lemma base_dir_abs: "cwd_ok fe \<Longrightarrow> base_dir fe base = Some b \<Longrightarrow> IsAbs b"
  by (auto simp: base_dir_def cwd_ok_def split: option.splits elim: Abs_path_abs)

text \<open>
  A reference resolves to the base directory followed by its own cleaned components, or is
  refused; the test with \<open>filepath.Rel\<close> never decides.
\<close>

lemma resolve_eq:
  assumes b: "base_dir fe base = Some b" "IsAbs b" and p: "\<not> IsAbs (local_path ref)"
  shows "resolve hl fe base ref =
    (if escapes (Clean (local_path ref))
     then Inl (PermanentMsg (''file path escapes FILE_BASE_DIR: '' @ Quote hl ref))
     else Inr (unsplit True (comps b @ comps (local_path ref))))"
proof (cases "escapes (Clean (local_path ref))")
  case True
  then show ?thesis using p by (simp add: resolve_def local_path_def Let_def)
next
  case False
  let ?c = "comps (local_path ref)"
  have pl: "plain ?c" using False comps_plain [OF p] escapes_Clean [OF p] by (simp add: escapes_def)
  have j: "Join b (Clean (local_path ref)) = unsplit True (comps b @ ?c)"
    using Join_ups(1) [OF b(2) p, of 0 ?c] pl by simp
  have "plain (comps b @ ?c)" using pl comps_abs_plain [OF b(2)] by simp
  then have "Rel b (unsplit True (comps b @ ?c)) = Some (Clean (local_path ref))"
    using b(2) p by (simp add: Rel_def comps_unsplit strip_common_prefix Clean_def)
  then show ?thesis
    using False p b(1) j by (simp add: resolve_def local_path_def base_dir_def Let_def)
qed

lemma resolve_Inr:
  assumes "resolve hl fe base ref = Inr path" and "cwd_ok fe"
  obtains b where "base_dir fe base = Some b" "IsAbs b" "\<not> IsAbs (local_path ref)"
    "path = unsplit True (comps b @ comps (local_path ref))" "plain (comps b @ comps (local_path ref))"
proof -
  have p: "\<not> IsAbs (local_path ref)"
    using assms(1) by (auto simp: resolve_def local_path_def Let_def split: if_splits)
  obtain b where b: "base_dir fe base = Some b"
    using assms(1) by (auto simp: resolve_def base_dir_def Let_def split: if_splits option.splits)
  have a: "IsAbs b" using base_dir_abs [OF assms(2) b] .
  have e: "\<not> escapes (Clean (local_path ref))" and "path = unsplit True (comps b @ comps (local_path ref))"
    using assms(1) resolve_eq [OF b a p, of hl] by (auto split: if_splits)
  moreover have "plain (comps b @ comps (local_path ref))"
    using e comps_plain [OF p] escapes_Clean [OF p] comps_abs_plain [OF a] by (simp add: escapes_def)
  ultimately show ?thesis using that b a p by blast
qed

lemma in_dir_unsplit: "plain (comps b @ cs) \<Longrightarrow> in_dir b (unsplit True (comps b @ cs))"
  by (simp add: in_dir_def comps_unsplit)

lemma nat_dec_plain: "slash \<notin> set (nat_dec n)"
proof (induction n rule: nat_dec.induct)
  case (1 n)
  have d: "digit_char k \<noteq> slash" if "k < 10" for k
  proof -
    have "digit_val (digit_char k) \<noteq> None" using that by (simp add: digit_val_char)
    then show ?thesis by (auto simp: digit_val_def Let_def)
  qed
  show ?case using 1 d d [THEN not_sym] by (subst nat_dec.simps) auto
qed

lemma temp_name_comps:
  assumes "IsAbs d"
  shows "IsAbs (temp_name d n) \<and> comps (temp_name d n) = comps d @ [''.tmp-'' @ nat_dec n]"
proof (cases "HasSuffix d ''/''")
  case True
  then obtain a where a: "d = a @ ''/''" by (auto simp: HasSuffix_iff)
  show ?thesis
  proof (cases "a = []")
    case True
    then show ?thesis using a nat_dec_plain [of n]
      by (simp add: temp_name_def HasSuffix_def comps_def Split_none)
  next
    case False
    then have aa: "IsAbs a" using assms a by (cases a) auto
    show ?thesis
      using comps_child(2) [OF aa, of "''.tmp-'' @ nat_dec n"] nat_dec_plain [of n] assms comps_slash_end [OF aa]
      by (simp add: temp_name_def a)
  qed
next
  case False
  then show ?thesis
    using comps_child(1) [OF assms, of "''.tmp-'' @ nat_dec n"] nat_dec_plain [of n] assms
    by (simp add: temp_name_def)
qed

subsection \<open>The effects of a storage call\<close>

definition temp_fresh :: "file_env \<Rightarrow> (string \<Rightarrow> string option) \<Rightarrow> bool" where
  \<comment> \<open>\<open>os.CreateTemp\<close> opens with \<open>O_EXCL\<close>: the file did not exist\<close>
  "temp_fresh fe s \<longleftrightarrow> (\<forall>d. s (temp_name d (fe_rand fe s d)) = None)"

lemma fdo_simps [simp]: "fs (fdo e w) = fs w" "log (fdo e w) = log w @ [e]" "fs_dirs (fdo e w) = fs_dirs w"
  by (simp_all add: fdo_def)

lemma make_dirs_simps [simp]:
  "fs (make_dirs ds w) = fs w" "log (make_dirs ds w) = log w"
  "fs_dirs (make_dirs ds w) p \<longleftrightarrow> fs_dirs w p \<or> p \<in> set ds"
  by (simp_all add: make_dirs_def)

lemma remove_simps [simp]:
  "fs (remove_file fe p w) = (if fe_err fe (FRemove p) = None then (fs w)(p := None) else fs w)"
  "log (remove_file fe p w) = log w @ [FRemove p]" "fs_dirs (remove_file fe p w) = fs_dirs w"
  by (simp_all add: remove_file_def Let_def)

fun is_rename :: "file_effect \<Rightarrow> bool" where
  "is_rename (FRename a b) = True"
| "is_rename _ = False"

definition written :: "string \<Rightarrow> string \<Rightarrow> string option \<Rightarrow> string option \<Rightarrow> (string \<Rightarrow> string option) \<Rightarrow>
    (string \<Rightarrow> string option) \<Rightarrow> file_effect list \<Rightarrow> bool" where
  \<comment> \<open>through the temporary file \<open>t\<close>, \<open>path\<close> has got \<open>new\<close> or has kept \<open>old\<close>; the files are \<open>s\<close> before
     and \<open>s'\<close> after the effects \<open>es\<close>\<close>
  "written t path old new s s' es \<longleftrightarrow>
     (\<forall>p. p \<noteq> path \<and> p \<noteq> t \<longrightarrow> s' p = s p) \<and>
     set es \<subseteq> {FWrite t, FRename t path, FRemove t, FMkdirAll (Dir path), FCreateTemp (Dir path) t} \<and>
     (if new = None then s' path = old \<and> filter is_rename es \<in> {[], [FRename t path]}
      else s' path = new \<and> s' t = None \<and> filter is_rename es = [FRename t path])"

lemma put_data_effect:
  assumes "put_data fe ref path t data w = (r, w')" and "t \<noteq> path"
  shows "\<exists>es new. log w' = log w @ es \<and> fs_dirs w' = fs_dirs w \<and> written t path (fs w path) new (fs w) (fs w') es \<and>
    (fs w' t \<noteq> None \<longrightarrow> fe_err fe (FRemove t) \<noteq> None) \<and>
    (case new of
       None \<Rightarrow> r \<noteq> None
     | Some x \<Rightarrow> x = data \<and> (\<exists>l. r = map_option Err (fe_ctx fe l)))"
proof -
  have fail: ?thesis
    if "log w' = log w @ es" "set es \<subseteq> {FWrite t, FRename t path, FRemove t}" "filter is_rename es \<in> {[], [FRename t path]}"
      "fs_dirs w' = fs_dirs w" "r \<noteq> None" "fs w' = (if fe_err fe (FRemove t) = None then (fs w)(t := None) else (fs w)(t := y))"
    for es y
    using that assms(2) by (intro exI [of _ es] exI [of _ None]) (auto simp: written_def)
  have moved: ?thesis
    if "log w' = log w @ [FWrite t, FRename t path, FRemove t]" "fs_dirs w' = fs_dirs w"
      "fs w' = (fs w)(t := None, path \<mapsto> data)" "r = map_option Err (fe_ctx fe l)" for l
    using that assms(2)
    by (intro exI [of _ "[FWrite t, FRename t path, FRemove t]"] exI [of _ "Some data"]) (auto simp: written_def)
  show ?thesis
  proof (cases "fe_err fe (FWrite t)")
    case (Some e)
    then show ?thesis
      using assms(1) by (intro fail [of "[FWrite t, FRemove t]" "Some (take (fe_written fe t) data)"]) (auto simp: put_data_def Let_def)
  next
    case None
    note w = None
    show ?thesis
    proof (cases "fe_close_err fe t")
      case (Some e)
      then show ?thesis
        using assms(1) w by (intro fail [of "[FWrite t, FRemove t]" "Some data"]) (auto simp: put_data_def Let_def)
    next
      case None
      show ?thesis
      proof (cases "fe_err fe (FRename t path)")
        case (Some e)
        then show ?thesis
          using assms(1) w None
          by (intro fail [of "[FWrite t, FRename t path, FRemove t]" "Some data"]) (auto simp: put_data_def Let_def)
      next
        case n: None
        show ?thesis
          using assms w None n
          by (intro moved [of "log w @ [FWrite t, FRename t path]"]) (auto simp: put_data_def Let_def fun_upd_twist)
      qed
    qed
  qed
qed

lemma local_Put_effect:
  assumes "local_Put hl fe cfg ref data w = (r, w')" and "resolve hl fe (BaseDir cfg) ref = Inr path"
    and "t = temp_name (Dir path) (fe_rand fe (fs w) (Dir path))" and "fs w t = None" and "t \<noteq> path"
  shows "\<exists>es new. log w' = log w @ es \<and> written t path (fs w path) new (fs w) (fs w') es \<and>
    (\<forall>d. fs_dirs w' d \<longrightarrow> fs_dirs w d \<or> d \<in> set (path_chain (Dir path))) \<and> (\<forall>d. fs_dirs w d \<longrightarrow> fs_dirs w' d) \<and>
    (fs w' t \<noteq> None \<longrightarrow> fe_err fe (FRemove t) \<noteq> None) \<and>
    (case new of
       None \<Rightarrow> r \<noteq> None
     | Some x \<Rightarrow> x = data \<and> (\<exists>l. r = map_option Err (fe_ctx fe l)))"
proof -
  let ?w1 = "fdo (FMkdirAll (Dir path)) w"
  let ?w2 = "fdo (FCreateTemp (Dir path) t) (make_dirs (path_chain (Dir path)) ?w1)"
  have early: ?thesis
    if "log w' = log w @ es" "set es \<subseteq> {FMkdirAll (Dir path), FCreateTemp (Dir path) t}" "fs w' = fs w" "r \<noteq> None"
      "\<And>d. fs_dirs w' d \<longleftrightarrow> fs_dirs w d \<or> d \<in> ds" "ds \<subseteq> set (path_chain (Dir path))" for es ds
  proof -
    have "filter is_rename es = []" using that(2) by (auto simp: filter_empty_conv)
    then show ?thesis
      using that assms(4) by (intro exI [of _ es] exI [of _ None]) (auto simp: written_def)
  qed
  consider "w' = w" "r \<noteq> None" | "w' = make_dirs (take (fe_made fe (Dir path)) (path_chain (Dir path))) ?w1" "r \<noteq> None"
    | "w' = ?w2" "r \<noteq> None" | "put_data fe ref path t data (?w2\<lparr>fs := (fs ?w2)(t \<mapsto> [])\<rparr>) = (r, w')"
    using assms(1-3) by (auto simp: local_Put_def Let_def split: if_splits option.splits)
  then show ?thesis
  proof cases
    case 1
    then show ?thesis by (intro early [of "[]" "{}"]) auto
  next
    case 2
    then show ?thesis
      by (intro early [of "[FMkdirAll (Dir path)]" "set (take (fe_made fe (Dir path)) (path_chain (Dir path)))"])
        (auto dest: in_set_takeD)
  next
    case 3
    then show ?thesis
      by (intro early [of "[FMkdirAll (Dir path), FCreateTemp (Dir path) t]" "set (path_chain (Dir path))"]) auto
  next
    case 4
    let ?es0 = "[FMkdirAll (Dir path), FCreateTemp (Dir path) t]"
    from put_data_effect [OF 4 assms(5)] obtain es new where
      e: "log w' = log ?w2 @ es" "fs_dirs w' = fs_dirs ?w2"
        "written t path (fs w path) new ((fs w)(t \<mapsto> [])) (fs w') es"
        "fs w' t \<noteq> None \<longrightarrow> fe_err fe (FRemove t) \<noteq> None"
        "case new of None \<Rightarrow> r \<noteq> None | Some x \<Rightarrow> x = data \<and> (\<exists>l. r = map_option Err (fe_ctx fe l))"
      using assms(5) by auto
    have "written t path (fs w path) new (fs w) (fs w') (?es0 @ es)"
      using e(3) by (auto simp: written_def)
    then show ?thesis using e(1,2,4,5) by (intro exI [of _ "?es0 @ es"] exI [of _ new]) auto
  qed
qed

lemma local_Put_log:
  assumes "local_Put hl fe cfg ref data w = (r, w')"
  shows "w' = w \<or> (\<exists>path t k es. resolve hl fe (BaseDir cfg) ref = Inr path \<and> t = temp_name (Dir path) k \<and>
           log w' = log w @ es \<and>
           set es \<subseteq> {FMkdirAll (Dir path), FCreateTemp (Dir path) t, FWrite t, FRename t path, FRemove t})"
proof (cases "resolve hl fe (BaseDir cfg) ref")
  case (Inl e)
  then show ?thesis using assms by (simp add: local_Put_def)
next
  case (Inr path)
  let ?t = "temp_name (Dir path) (fe_rand fe (fs w) (Dir path))"
  have "\<exists>es. log (snd (put_data fe ref path ?t data v)) = log v @ es \<and>
      set es \<subseteq> {FWrite ?t, FRename ?t path, FRemove ?t}" for v
    by (auto simp: put_data_def Let_def split: option.split)
  from this [of "(fdo (FCreateTemp (Dir path) ?t) (make_dirs (path_chain (Dir path)) (fdo (FMkdirAll (Dir path)) w)))
      \<lparr>fs := (fs w)(?t \<mapsto> [])\<rparr>"]
  obtain es where es: "log (snd (put_data fe ref path ?t data ((fdo (FCreateTemp (Dir path) ?t)
      (make_dirs (path_chain (Dir path)) (fdo (FMkdirAll (Dir path)) w)))\<lparr>fs := (fs w)(?t \<mapsto> [])\<rparr>))) =
      log w @ [FMkdirAll (Dir path), FCreateTemp (Dir path) ?t] @ es" "set es \<subseteq> {FWrite ?t, FRename ?t path, FRemove ?t}"
    by auto
  have "w' = w \<or> (\<exists>l. log w' = log w @ l \<and>
      set l \<subseteq> {FMkdirAll (Dir path), FCreateTemp (Dir path) ?t, FWrite ?t, FRename ?t path, FRemove ?t})"
    using assms Inr es by (auto simp: local_Put_def Let_def split: if_splits option.splits)
  then show ?thesis using Inr by blast
qed

lemma local_Get_effect:
  assumes "local_Get hl fe cfg ref w = (r, w')"
  shows "fs w' = fs w"
    and "w' = w \<or> (\<exists>path. resolve hl fe (BaseDir cfg) ref = Inr path \<and> log w' = log w @ [FOpen path])"
    and "fs_dirs w' = fs_dirs w"
  using assms by (auto simp: local_Get_def Let_def split: sum.splits option.splits if_splits)

lemma local_Get_Inr:
  assumes "local_Get hl fe cfg ref w = (Inr data, w')"
  shows "\<exists>path. resolve hl fe (BaseDir cfg) ref = Inr path \<and> fs w path = Some data \<and>
    int (length data) \<le> cap (MaxBytes cfg)"
proof -
  have "read_limited mx content e = Inr data \<Longrightarrow> \<not> mx < int (length data) \<Longrightarrow> content = data" for mx content e
    by (auto simp: read_limited_def split: if_splits option.splits)
  then show ?thesis
    using assms by (force simp: local_Get_def Let_def split: sum.splits option.splits if_splits)
qed

lemma s3_Get_effect:
  "s3_Get hl fe cfg ref w = (r, w') \<Longrightarrow> fs w' = fs w \<and> (w' = w \<or> (\<exists>req. log w' = log w @ [FHttp req]))"
  by (auto simp: s3_Get_def Let_def split: sum.splits option.splits if_splits prod.splits)

lemma s3_Put_effect:
  "s3_Put hl fe cfg ref data w = (r, w') \<Longrightarrow> fs w' = fs w \<and> (w' = w \<or> (\<exists>req. log w' = log w @ [FHttp req]))"
  by (auto simp: s3_Put_def Let_def split: sum.splits option.splits if_splits prod.splits)

text \<open>
  When the destination is an S3 URL, it is the source that is checked to be one: a local file
  whose reference has no separator cannot be copied to S3.
\<close>

lemma local_to_s3_refused:
  assumes "strField payload [''src'', ''source'', ''url''] = Some src"
    and "strField payload [''dst'', ''dest'', ''destination''] = Some dst"
    and "HasPrefix dst s3_scheme" and "slash \<notin> set src"
  shows "\<exists>e. ParseFilePayload hl payload = Inl e \<and> IsPermanent e"
proof -
  have "src \<noteq> []" using strField_nonempty [OF assms(1)] .
  moreover have "TrimPrefix src s3_scheme = src" using assms(4) by (auto simp: TrimPrefix_def HasPrefix_iff)
  moreover have "dropWhile (\<lambda>c. c \<noteq> slash) src = []" using assms(4) by auto
  ultimately have "\<exists>e. parseS3URL hl (firstNonEmpty [src, dst]) = Some e \<and> IsPermanent e"
    by (simp add: parseS3URL_def splitS3URL_def CutChar_def)
  then show ?thesis using assms(1-3) by (auto simp: ParseFilePayload_def Let_def)
qed

subsection \<open>Where a file job reads and writes\<close>

definition write_root :: "string \<Rightarrow> string \<Rightarrow> string" where
  \<comment> \<open>a destination that names the base directory itself is written through its parent\<close>
  "write_root b dst = (if comps (local_path dst) = [] then Dir b else b)"

fun confined :: "string \<Rightarrow> string \<Rightarrow> file_effect \<Rightarrow> bool" where
  "confined b wd (FOpen p) = in_dir b p"
| "confined b wd (FMkdirAll d) = in_dir wd d"
| "confined b wd (FCreateTemp d t) = (in_dir wd d \<and> in_dir wd t)"
| "confined b wd (FWrite t) = in_dir wd t"
| "confined b wd (FRename t p) = (in_dir wd t \<and> in_dir b p)"
| "confined b wd (FRemove t) = in_dir wd t"
| "confined b wd (FHttp r) = True"

lemma IsAbs_Clean: "IsAbs (Clean q) \<Longrightarrow> IsAbs q"
proof (rule ccontr)
  assume a: "IsAbs (Clean q)" and r: "\<not> IsAbs q"
  then obtain t where "Clean q = slash # t" by (cases "Clean q") auto
  then have "[] \<in> set (Split slash (Clean q))" by simp
  then show False
    using Split_Clean_rel [OF r] ups_no_Nil [OF comps_rel_ups [OF r]] by (simp split: if_splits)
qed

lemma Abs_path_clean:
  assumes "Abs_path cwd p = Some b" "IsAbs b"
  shows "unsplit True (comps b) = b"
proof -
  have "b = [] \<or> (\<exists>q. b = Clean q)"
    using assms(1) by (auto simp: Abs_path_def Join_def split: if_splits)
  then obtain q where q: "b = Clean q" using assms(2) by (cases "b = []") auto
  then have "IsAbs q" using IsAbs_Clean assms(2) by simp
  then show ?thesis using q Clean_abs [of q] by (simp add: Clean_def)
qed

lemma in_dir_append: "IsAbs p \<Longrightarrow> comps p = comps b @ cs \<Longrightarrow> in_dir b p"
  by (simp add: in_dir_def)

lemma plain_butlast: "plain cs \<Longrightarrow> plain (butlast cs)"
  by (induction cs) auto

lemma put_confined:
  assumes b: "base_dir fe (BaseDir cfg) = Some b" "cwd_ok fe"
    and r: "resolve hl fe (BaseDir cfg) ref = Inr path"
    and e: "e \<in> {FMkdirAll (Dir path), FCreateTemp (Dir path) t, FWrite t, FRename t path, FRemove t}"
    and t: "t = temp_name (Dir path) k"
  shows "confined b (write_root b ref) e"
proof -
  let ?c = "comps (local_path ref)"
  have ab: "IsAbs b" using base_dir_abs [OF b(2,1)] .
  have p: "path = unsplit True (comps b @ ?c)" and pl: "plain (comps b @ ?c)"
    using resolve_Inr [OF r b(2)] b(1) by auto
  have d: "Dir path = unsplit True (butlast (comps b @ ?c))" unfolding p by (rule Dir_unsplit [OF pl])
  have plb: "plain (butlast (comps b @ ?c))"
    using pl by (rule plain_butlast)
  have cd: "IsAbs (Dir path)" "comps (Dir path) = butlast (comps b @ ?c)"
    unfolding d using plb by (simp_all add: comps_unsplit)
  have ct: "IsAbs t" "comps t = comps (Dir path) @ [''.tmp-'' @ nat_dec k]"
    unfolding t using temp_name_comps [OF cd(1)] by auto
  have wr: "\<exists>cs. comps (Dir path) = comps (write_root b ref) @ cs"
  proof (cases "?c = []")
    case True
    have "unsplit True (comps b) = b" using Abs_path_clean ab b(1) unfolding base_dir_def by blast
    then have "write_root b ref = Dir path" using p True by (simp add: write_root_def)
    then show ?thesis by simp
  next
    case False
    then show ?thesis using cd(2) by (simp add: write_root_def butlast_append)
  qed
  have "in_dir (write_root b ref) (Dir path)" "in_dir (write_root b ref) t"
    using wr cd(1) ct by (auto intro: in_dir_append)
  moreover have "in_dir b path" unfolding p using in_dir_unsplit [OF pl] .
  ultimately show ?thesis using e by auto
qed

lemma Get_confined:
  assumes "base_dir fe (BaseDir cfg) = Some b" "cwd_ok fe"
    and "storage_Get st hl fe cfg ref w = (r, w')"
  shows "\<exists>es. log w' = log w @ es \<and> list_all (confined b wd) es"
proof (cases st)
  case LocalFS
  then consider "w' = w" | path where "resolve hl fe (BaseDir cfg) ref = Inr path" "log w' = log w @ [FOpen path]"
    using local_Get_effect(2) [of hl fe cfg ref w r w'] assms(3) by auto
  then show ?thesis
  proof cases
    case 1
    then show ?thesis by (intro exI [of _ "[]"]) simp
  next
    case 2
    then have "in_dir b path"
      using resolve_Inr [OF 2(1) assms(2)] assms(1) in_dir_unsplit by (metis option.inject)
    then show ?thesis using 2 by (intro exI [of _ "[FOpen path]"]) simp
  qed
next
  case S3
  then consider "w' = w" | req where "log w' = log w @ [FHttp req]"
    using s3_Get_effect [of hl fe cfg ref w r w'] assms(3) by auto
  then show ?thesis
  proof cases
    case 1
    then show ?thesis by (intro exI [of _ "[]"]) simp
  next
    case (2 req)
    then show ?thesis by (intro exI [of _ "[FHttp req]"]) simp
  qed
qed

lemma Put_confined:
  assumes "base_dir fe (BaseDir cfg) = Some b" "cwd_ok fe"
    and "storage_Put st hl fe cfg ref data w = (r, w')"
  shows "\<exists>es. log w' = log w @ es \<and> list_all (confined b (write_root b ref)) es"
proof (cases st)
  case LocalFS
  then have "local_Put hl fe cfg ref data w = (r, w')" using assms(3) by simp
  from local_Put_log [OF this] show ?thesis
  proof
    assume "w' = w"
    then show ?thesis by (intro exI [of _ "[]"]) simp
  next
    assume "\<exists>path t k es. resolve hl fe (BaseDir cfg) ref = Inr path \<and> t = temp_name (Dir path) k \<and>
           log w' = log w @ es \<and>
           set es \<subseteq> {FMkdirAll (Dir path), FCreateTemp (Dir path) t, FWrite t, FRename t path, FRemove t}"
    then obtain path t k es where x: "resolve hl fe (BaseDir cfg) ref = Inr path" "t = temp_name (Dir path) k"
        "log w' = log w @ es"
        "set es \<subseteq> {FMkdirAll (Dir path), FCreateTemp (Dir path) t, FWrite t, FRename t path, FRemove t}"
      by blast
    have "list_all (confined b (write_root b ref)) es"
      unfolding list_all_iff using put_confined [OF assms(1,2) x(1) _ x(2)] x(4) by blast
    then show ?thesis using x(3) by blast
  qed
next
  case S3
  then consider "w' = w" | req where "log w' = log w @ [FHttp req]"
    using s3_Put_effect [of hl fe cfg ref data w r w'] assms(3) by auto
  then show ?thesis
  proof cases
    case 1
    then show ?thesis by (intro exI [of _ "[]"]) simp
  next
    case (2 req)
    then show ?thesis by (intro exI [of _ "[FHttp req]"]) simp
  qed
qed

lemma Process_cases:
  assumes "\<not> Legacy job" "fe_ctx fe (log w) = None" "storageFor cfg (Src job) = Inr st"
    and "storage_Get st hl fe cfg (Src job) w = (r, w1)"
  shows "snd (Process hl fe cfg job w) = w1 \<or>
    (\<exists>dt data r2 w2. storageFor cfg (Dst job) = Inr dt \<and>
       storage_Put dt hl fe cfg (Dst job) data w1 = (r2, w2) \<and> snd (Process hl fe cfg job w) = w2)"
proof (cases "\<exists>data dt. r = Inr data \<and> Op job \<noteq> ''sha256'' \<and> storageFor cfg (Dst job) = Inr dt")
  case True
  then obtain data dt where d: "r = Inr data" "Op job \<noteq> ''sha256''" "storageFor cfg (Dst job) = Inr dt" by blast
  obtain r2 w2 where p: "storage_Put dt hl fe cfg (Dst job) data w1 = (r2, w2)" by fastforce
  have "snd (Process hl fe cfg job w) = w2"
    using assms d p by (cases r2) (simp_all add: Process_def Let_def)
  then show ?thesis using p d(3) by blast
next
  case False
  then show ?thesis
    using assms by (cases r; cases "storageFor cfg (Dst job)") (auto simp: Process_def Let_def)
qed

text \<open>C12. A file job stays inside its base directory: whatever its payload says, every file it
  opens is under the base directory, and so is every directory it makes, every temporary file
  and every rename, with one exception: a destination that names the base directory itself
  (\<open>.\<close>, \<open>a/..\<close>) passes the check, and its temporary file is made in the parent directory,
  outside the sandbox, and renamed over the base directory's path.
\<close>

theorem file_sandbox:
  assumes "cwd_ok fe" and "base_dir fe (BaseDir cfg) = Some b"
  shows "\<exists>es. log (snd (Process hl fe cfg job w)) = log w @ es \<and>
           list_all (confined b (write_root b (Dst job))) es"
proof -
  let ?wd = "write_root b (Dst job)"
  have nil: "\<exists>es. log w = log w @ es \<and> list_all (confined b ?wd) es" by (intro exI [of _ "[]"]) simp
  show ?thesis
  proof (cases "Legacy job \<or> fe_ctx fe (log w) \<noteq> None \<or> (\<exists>e. storageFor cfg (Src job) = Inl e)")
    case True
    then show ?thesis using nil by (auto simp: Process_def split: option.splits)
  next
    case False
    then obtain st where st: "storageFor cfg (Src job) = Inr st" by (cases "storageFor cfg (Src job)") auto
    obtain r w1 where g: "storage_Get st hl fe cfg (Src job) w = (r, w1)" by fastforce
    from Get_confined [OF assms(2,1) g, of ?wd] obtain es1 where
      es1: "log w1 = log w @ es1" "list_all (confined b ?wd) es1" by blast
    from Process_cases [OF _ _ st g] False
    consider "snd (Process hl fe cfg job w) = w1"
      | dt data r2 w2 where "storage_Put dt hl fe cfg (Dst job) data w1 = (r2, w2)"
          "snd (Process hl fe cfg job w) = w2"
      by blast
    then show ?thesis
    proof cases
      case 1
      then show ?thesis using es1 by auto
    next
      case 2
      from Put_confined [OF assms(2,1) 2(1)] obtain es2 where
        "log w2 = log w1 @ es2" "list_all (confined b ?wd) es2" by blast
      then show ?thesis using es1 2(2) by (intro exI [of _ "es1 @ es2"]) simp
    qed
  qed
qed

fun is_http :: "file_effect \<Rightarrow> bool" where
  "is_http (FHttp r) = True"
| "is_http _ = False"

lemma storageFor_no_s3: "S3Endpoint cfg = [] \<Longrightarrow> storageFor cfg ref = Inr st \<Longrightarrow> st = LocalFS"
  by (auto simp: storageFor_def split: if_splits)

lemma Process_no_http:
  assumes "S3Endpoint cfg = []"
  shows "\<exists>es. log (snd (Process hl fe cfg job w)) = log w @ es \<and> list_all (\<lambda>e. \<not> is_http e) es"
proof -
  have nil: "\<exists>es. log w = log w @ es \<and> list_all (\<lambda>e. \<not> is_http e) es" by (intro exI [of _ "[]"]) simp
  show ?thesis
  proof (cases "Legacy job \<or> fe_ctx fe (log w) \<noteq> None \<or> (\<exists>e. storageFor cfg (Src job) = Inl e)")
    case True
    then show ?thesis using nil by (auto simp: Process_def split: option.splits)
  next
    case False
    then obtain st where st: "storageFor cfg (Src job) = Inr st" by (cases "storageFor cfg (Src job)") auto
    obtain r w1 where g: "local_Get hl fe cfg (Src job) w = (r, w1)" by fastforce
    have g': "storage_Get st hl fe cfg (Src job) w = (r, w1)"
      using g storageFor_no_s3 [OF assms st] by simp
    obtain es1 where es1: "log w1 = log w @ es1" "list_all (\<lambda>e. \<not> is_http e) es1"
      using local_Get_effect(2) [OF g] nil by fastforce
    from Process_cases [OF _ _ st g'] False
    consider "snd (Process hl fe cfg job w) = w1"
      | dt data r2 w2 where "storageFor cfg (Dst job) = Inr dt"
          "storage_Put dt hl fe cfg (Dst job) data w1 = (r2, w2)" "snd (Process hl fe cfg job w) = w2"
      by blast
    then show ?thesis
    proof cases
      case 1
      then show ?thesis using es1 by auto
    next
      case 2
      then have "local_Put hl fe cfg (Dst job) data w1 = (r2, w2)"
        using storageFor_no_s3 [OF assms 2(1)] by simp
      from local_Put_log [OF this] obtain es2 where
        es2: "log w2 = log w1 @ es2" "list_all (\<lambda>e. \<not> is_http e) es2"
      proof
        assume "w2 = w1"
        then show ?thesis using that [of "[]"] by simp
      next
        assume "\<exists>path t k es. resolve hl fe (BaseDir cfg) (Dst job) = Inr path \<and> t = temp_name (Dir path) k \<and>
           log w2 = log w1 @ es \<and>
           set es \<subseteq> {FMkdirAll (Dir path), FCreateTemp (Dir path) t, FWrite t, FRename t path, FRemove t}"
        then show ?thesis using that unfolding list_all_iff by fastforce
      qed
      then show ?thesis using es1 2(3) by (intro exI [of _ "es1 @ es2"]) simp
    qed
  qed
qed

definition demo_fe :: file_env where
  "demo_fe =
     \<lparr>fe_cwd = Some ''/'', fe_cwd_err = [], fe_tmpdir = ''/tmp'', fe_err = (\<lambda>e. None),
      fe_made = (\<lambda>p. 0), fe_written = (\<lambda>p. 0), fe_read_err = (\<lambda>p. None),
      fe_close_err = (\<lambda>p. None), fe_rand = (\<lambda>s d. 7), fe_ctx = (\<lambda>l. None),
      fe_http = (\<lambda>r. Inl ''no route''), fe_now = 0\<rparr>"

definition file_demo_cfg :: FileConfig where
  "file_demo_cfg =
     \<lparr>BaseDir = ''/srv/f'', MaxBytes = 10, S3Endpoint = [], S3AccessKey = [], S3SecretKey = [],
      S3Region = [], S3UseSSL = False, HTTPTimeout = 0\<rparr>"

definition demo_copy :: "string \<Rightarrow> FileJob" where
  "demo_copy dst = \<lparr>Src = ''a'', Dst = dst, Op = [], Legacy = False, Hint = []\<rparr>"

definition demo_fw :: file_world where
  "demo_fw = \<lparr>fs = (\<lambda>p. if p = ''/srv/f/a'' then Some ''hi'' else None), fs_dirs = (\<lambda>p. p \<in> {''/srv'', ''/srv/f''}),
     log = []\<rparr>"

lemma demo_seven: "nat_dec 7 = ''7''"
  by code_simp

lemma demo_base: "cwd_ok demo_fe" "base_dir demo_fe (BaseDir file_demo_cfg) = Some ''/srv/f''"
  by (simp_all add: cwd_ok_def demo_fe_def base_dir_def file_demo_cfg_def Abs_path_def Clean_def comps_def unsplit_def)

lemma demo_fields:
  "fe_err demo_fe e = None" "fe_read_err demo_fe p = None" "fe_close_err demo_fe p = None"
  "fe_rand demo_fe s d = 7" "fe_ctx demo_fe l = None" "MaxBytes file_demo_cfg = 10"
  "fs demo_fw p = (if p = ''/srv/f/a'' then Some ''hi'' else None)" "log demo_fw = []"
  by (simp_all add: demo_fe_def file_demo_cfg_def demo_fw_def)

lemma demo_refs:
  "comps (local_path ''a'') = [''a'']" "comps (local_path ''b'') = [''b'']" "comps (local_path ''.'') = []"
  "\<not> IsAbs (local_path ''a'')" "\<not> IsAbs (local_path ''b'')" "\<not> IsAbs (local_path ''.'')"
  by (simp_all add: local_path_def TrimSpace_def is_space_def of_char_def TrimPrefix_def comps_def)

lemma demo_resolve:
  "resolve demo_hl demo_fe (BaseDir file_demo_cfg) ''a'' = Inr ''/srv/f/a''"
  "resolve demo_hl demo_fe (BaseDir file_demo_cfg) ''b'' = Inr ''/srv/f/b''"
  "resolve demo_hl demo_fe (BaseDir file_demo_cfg) ''.'' = Inr ''/srv/f''"
  using resolve_eq [OF demo_base(2) _ demo_refs(4)] resolve_eq [OF demo_base(2) _ demo_refs(5)]
    resolve_eq [OF demo_base(2) _ demo_refs(6)]
  by (simp_all add: demo_refs escapes_def Clean_rel) (simp_all add: comps_def unsplit_def)

theorem file_sandbox_witness:
  "(\<exists>es. log (snd (Process demo_hl demo_fe file_demo_cfg (demo_copy ''.'') demo_fw)) = log demo_fw @ es \<and>
      list_all (confined ''/srv/f'' (write_root ''/srv/f'' (Dst (demo_copy ''.'')))) es) \<and>
   FCreateTemp ''/srv'' ''/srv/.tmp-7'' \<in> set (log (snd (Process demo_hl demo_fe file_demo_cfg (demo_copy ''.'') demo_fw)))"
proof -
  have d: "Dir ''/srv/f'' = ''/srv''" by (simp add: Dir_def Clean_def comps_def unsplit_def)
  have t: "temp_name ''/srv'' 7 = ''/srv/.tmp-7''"
    by (simp add: temp_name_def HasSuffix_def demo_seven)
  have "FCreateTemp ''/srv'' ''/srv/.tmp-7'' \<in> set (log (snd (Process demo_hl demo_fe file_demo_cfg (demo_copy ''.'') demo_fw)))"
    by (simp add: Process_def demo_copy_def storageFor_def local_Get_def local_Put_def demo_resolve
        demo_fields cap_def read_limited_def Let_def d t put_data_def)
  then show ?thesis using file_sandbox [OF demo_base] by blast
qed

subsection \<open>What a copy leaves on the disk\<close>

lemma storageFor_local: "\<not> HasPrefix ref s3_scheme \<Longrightarrow> storageFor cfg ref = Inr LocalFS"
  by (simp add: storageFor_def)

lemma not_temp:
  assumes "resolve hl fe base ref = Inr path" "cwd_ok fe"
    and "comps (local_path ref) \<noteq> []" "\<not> HasPrefix (last (comps (local_path ref))) ''.tmp-''"
  shows "temp_name (Dir path) k \<noteq> path"
proof
  assume e: "temp_name (Dir path) k = path"
  obtain b where p: "path = unsplit True (comps b @ comps (local_path ref))" "plain (comps b @ comps (local_path ref))"
    using resolve_Inr [OF assms(1,2)] by metis
  have "IsAbs (Dir path)" unfolding p(1) Dir_unsplit [OF p(2)] by simp
  then have "last (comps path) = ''.tmp-'' @ nat_dec k" using temp_name_comps [of "Dir path" k] e by simp
  moreover have "last (comps path) = last (comps (local_path ref))"
    unfolding p(1) comps_unsplit [OF p(2)] using assms(3) by simp
  ultimately show False using assms(4) by (simp add: HasPrefix_iff)
qed

text \<open>C13. A copy inside the local storage is all or nothing. Nothing is written but a temporary file
  beside the destination, which did not exist before; the destination changes in one rename, to the
  whole content of the source, of at most the configured size, and otherwise keeps its content.
  Every other file keeps its content, and directories are only added, above the destination. The temporary file is gone
  afterwards unless its removal failed. A job reported as done has its
  copy in place; an error means that it is not there, but for the context's error after the rename: the file is
  in place and the job is reported as failed.
\<close>

theorem file_copy_atomic:
  assumes "cwd_ok fe" and "temp_fresh fe (fs w)" and "\<not> Legacy job" and "Op job \<noteq> ''sha256''"
    and "\<not> HasPrefix (Src job) s3_scheme" and "\<not> HasPrefix (Dst job) s3_scheme"
    and "comps (local_path (Dst job)) \<noteq> []"
    and "\<not> HasPrefix (last (comps (local_path (Dst job)))) ''.tmp-''"
    and "Process hl fe cfg job w = (r, w')"
    and "resolve hl fe (BaseDir cfg) (Dst job) = Inr pd" and "t = temp_name (Dir pd) (fe_rand fe (fs w) (Dir pd))"
  shows "t \<noteq> pd \<and> fs w t = None \<and> (\<forall>p. p \<noteq> pd \<and> p \<noteq> t \<longrightarrow> fs w' p = fs w p) \<and>
    (fs w' t \<noteq> None \<longrightarrow> fe_err fe (FRemove t) \<noteq> None) \<and>
    (\<forall>d. fs_dirs w d \<longrightarrow> fs_dirs w' d) \<and> (\<forall>d. fs_dirs w' d \<longrightarrow> fs_dirs w d \<or> d \<in> set (path_chain (Dir pd))) \<and>
    (\<exists>es. log w' = log w @ es \<and> (\<forall>p. FWrite p \<in> set es \<longrightarrow> p = t) \<and>
      (fs w' pd = fs w pd \<and> (\<exists>e. r = Inl e) \<and> filter is_rename es \<in> {[], [FRename t pd]} \<or>
       filter is_rename es = [FRename t pd] \<and>
         (\<exists>ps data. resolve hl fe (BaseDir cfg) (Src job) = Inr ps \<and> fs w ps = Some data \<and>
            int (length data) \<le> cap (MaxBytes cfg) \<and> fs w' pd = Some data \<and> fs w' t = None) \<and>
         (case r of Inl e \<Rightarrow> (\<exists>l. fe_ctx fe l = Some (error_text e)) \<and> \<not> IsPermanent e | Inr s \<Rightarrow> HasPrefix s ''copied '')))"
proof -
  have t: "t \<noteq> pd" "fs w t = None"
    using not_temp [OF assms(10,1,7,8)] assms(2) by (auto simp: assms(11) temp_fresh_def)
  show ?thesis
  proof (cases "fe_ctx fe (log w)")
    case (Some e)
    then have "w' = w \<and> r = Inl (Err e)" using assms(3,9) by (auto simp: Process_def)
    then show ?thesis using t by (auto intro: exI [of _ "[]"])
  next
    case None
    obtain r1 w1 where g: "local_Get hl fe cfg (Src job) w = (r1, w1)" by fastforce
    have f1: "fs w1 = fs w" "fs_dirs w1 = fs_dirs w" using local_Get_effect(1,3) [OF g] .
    obtain l1 where l1: "log w1 = log w @ l1" "\<And>p. FWrite p \<notin> set l1" "filter is_rename l1 = []"
      using local_Get_effect(2) [OF g] by fastforce
    show ?thesis
    proof (cases r1)
      case (Inl e)
      then have "w' = w1 \<and> r = Inl e" using assms(3,5,9) None g by (auto simp: Process_def storageFor_local)
      then show ?thesis using t f1 l1 by (auto intro!: exI [of _ l1])
    next
      case (Inr data)
      obtain ps where ps: "resolve hl fe (BaseDir cfg) (Src job) = Inr ps" "fs w ps = Some data"
        "int (length data) \<le> cap (MaxBytes cfg)"
        using local_Get_Inr [OF g [unfolded Inr]] by blast
      obtain r2 w2 where p: "local_Put hl fe cfg (Dst job) data w1 = (r2, w2)" by fastforce
      have res: "w' = w2" "case r2 of Some e \<Rightarrow> r = Inl e | None \<Rightarrow> (\<exists>s. r = Inr s \<and> HasPrefix s ''copied '')"
        using assms(3-6,9) None g Inr p
        by (cases r2; auto simp: Process_def storageFor_local Let_def)+
      from local_Put_effect [OF p assms(10) _ _ t(1)] t(2) assms(11) f1 obtain es new where
        e: "log w' = log w @ l1 @ es" "written t pd (fs w pd) new (fs w) (fs w') es"
          "\<forall>d. fs_dirs w' d \<longrightarrow> fs_dirs w d \<or> d \<in> set (path_chain (Dir pd))" "\<forall>d. fs_dirs w d \<longrightarrow> fs_dirs w' d"
          "fs w' t \<noteq> None \<longrightarrow> fe_err fe (FRemove t) \<noteq> None"
          "case new of None \<Rightarrow> r2 \<noteq> None | Some x \<Rightarrow> x = data \<and> (\<exists>l. r2 = map_option Err (fe_ctx fe l))"
        using l1(1) res(1) by auto
      have others: "\<forall>p. p \<noteq> pd \<and> p \<noteq> t \<longrightarrow> fs w' p = fs w p"
        and wr: "\<forall>p. FWrite p \<in> set (l1 @ es) \<longrightarrow> p = t"
        using e(2) l1(2) by (auto simp: written_def)
      have out: "fs w' pd = fs w pd \<and> (\<exists>e. r = Inl e) \<and> filter is_rename (l1 @ es) \<in> {[], [FRename t pd]} \<or>
          filter is_rename (l1 @ es) = [FRename t pd] \<and>
          (\<exists>ps data. resolve hl fe (BaseDir cfg) (Src job) = Inr ps \<and> fs w ps = Some data \<and>
            int (length data) \<le> cap (MaxBytes cfg) \<and> fs w' pd = Some data \<and> fs w' t = None) \<and>
          (case r of Inl e \<Rightarrow> (\<exists>l. fe_ctx fe l = Some (error_text e)) \<and> \<not> IsPermanent e | Inr s \<Rightarrow> HasPrefix s ''copied '')"
      proof (cases new)
        case None
        then have "\<exists>e. r = Inl e" using e(6) res(2) by auto
        then show ?thesis using e(2) None l1(3) by (simp add: written_def)
      next
        case (Some x)
        then obtain l where l: "x = data" "r2 = map_option Err (fe_ctx fe l)" using e(6) by auto
        have "case r of Inl e \<Rightarrow> (\<exists>l. fe_ctx fe l = Some (error_text e)) \<and> \<not> IsPermanent e | Inr s \<Rightarrow> HasPrefix s ''copied ''"
          using res(2) l(2) by (cases "fe_ctx fe l") auto
        then show ?thesis using e(2) Some l(1) l1(3) ps by (auto simp: written_def)
      qed
      show ?thesis using t others e(1,3-5) wr out by (intro conjI exI [of _ "l1 @ es"]) simp_all
    qed
  qed
qed

theorem file_copy_atomic_witness:
  "fs (snd (Process demo_hl demo_fe file_demo_cfg (demo_copy ''b'') demo_fw)) ''/srv/f/b'' = Some ''hi'' \<and>
   fs (snd (Process demo_hl demo_fe file_demo_cfg (demo_copy ''b'') demo_fw)) (temp_name (Dir ''/srv/f/b'') 7) = None"
proof -
  obtain r w' where p: "Process demo_hl demo_fe file_demo_cfg (demo_copy ''b'') demo_fw = (r, w')" by fastforce
  have fresh: "temp_fresh demo_fe (fs demo_fw)"
  proof -
    have "temp_name d 7 \<noteq> ''/srv/f/a''" for d
    proof
      assume "temp_name d 7 = ''/srv/f/a''"
      then have "last (temp_name d 7) = last ''/srv/f/a''" by (rule arg_cong)
      then show False by (simp add: temp_name_def demo_seven)
    qed
    then show ?thesis by (simp add: temp_fresh_def demo_fe_def demo_fw_def)
  qed
  have "\<exists>s. fst (Process demo_hl demo_fe file_demo_cfg (demo_copy ''b'') demo_fw) = Inr s"
    by (simp add: Process_def demo_copy_def storageFor_def local_Get_def local_Put_def demo_resolve
        demo_fields cap_def read_limited_def Let_def put_data_def)
  then obtain s where r: "r = Inr s" using p by auto
  have d: "resolve demo_hl demo_fe (BaseDir file_demo_cfg) (Dst (demo_copy ''b'')) = Inr ''/srv/f/b''"
    by (simp add: demo_copy_def demo_resolve)
  have "temp_name (Dir ''/srv/f/b'') 7 = temp_name (Dir ''/srv/f/b'') (fe_rand demo_fe (fs demo_fw) (Dir ''/srv/f/b''))"
    by (simp add: demo_fields)
  from file_copy_atomic [OF demo_base(1) fresh _ _ _ _ _ _ p d this]
  have "\<exists>ps data. resolve demo_hl demo_fe (BaseDir file_demo_cfg) (Src (demo_copy ''b'')) = Inr ps \<and>
      fs demo_fw ps = Some data \<and> fs w' ''/srv/f/b'' = Some data \<and> fs w' (temp_name (Dir ''/srv/f/b'') 7) = None"
    by (auto simp: r demo_copy_def demo_refs)
  then have "fs w' ''/srv/f/b'' = Some ''hi'' \<and> fs w' (temp_name (Dir ''/srv/f/b'') 7) = None"
    by (auto simp: demo_copy_def demo_resolve demo_fields)
  then show ?thesis unfolding p by simp
qed

end
