(* ===== verification/Processing.thy ===== *)
theory Processing
  imports Handler_Email Handler_Exec Handler_File_Props Worker
begin

text \<open>
  \<open>Worker.ProcessJobs\<close> (\<open>internal/worker/worker.go\<close>): the dispatch on the job type to the
  three handlers, and the worker's round with these handlers in it. \<open>proc_env\<close> gathers what
  the handlers see of the machine.
\<close>

record proc_env =
  pe_getenv :: getenv
  pe_json_err :: string \<comment> \<open>the JSON decoder's error text\<close>
  pe_hl :: hlib
  pe_smtp :: smtp_env
  pe_exec :: exec_env
  pe_file :: file_env

datatype proc_effects =
    NoEffect
  | EmailEffects "smtp_cmd list"
  | ExecEffects "exec_effect list"
  | FileEffects file_world

definition process_email :: "hlib \<Rightarrow> getenv \<Rightarrow> smtp_env \<Rightarrow> payload \<Rightarrow> (herror + string) \<times> proc_effects" where
  "process_email hl getenv se payload =
     (case ParseEmailPayload hl payload of
        Inl e \<Rightarrow> (Inl e, NoEffect)
      | Inr job \<Rightarrow>
          (case Send hl se (EmailConfigFromEnv getenv) job of
             (Inl e, cs) \<Rightarrow> (Inl e, EmailEffects cs)
           | (Inr msgID, cs) \<Rightarrow>
               (Inr (''email sent from '' @ From job @ '' to '' @ To job @ '' id='' @ msgID),
                EmailEffects cs)))"

definition process_exec ::
  "hlib \<Rightarrow> getenv \<Rightarrow> string \<Rightarrow> exec_env \<Rightarrow> payload \<Rightarrow> (herror + string) \<times> proc_effects" where
  "process_exec hl getenv tmp xe payload =
     (case ParseExecPayload hl payload of
        Inl e \<Rightarrow> (Inl e, NoEffect)
      | Inr job \<Rightarrow> (case Run hl (ExecConfigFromEnv tmp getenv) xe job of (r, es) \<Rightarrow> (r, ExecEffects es)))"

definition process_file ::
  "hlib \<Rightarrow> getenv \<Rightarrow> file_env \<Rightarrow> payload \<Rightarrow> file_world \<Rightarrow> (herror + string) \<times> proc_effects" where
  "process_file hl getenv fe payload fw =
     (case ParseFilePayload hl payload of
        Inl e \<Rightarrow> (Inl e, NoEffect)
      | Inr job \<Rightarrow>
          (case Process hl fe (FileConfigFromEnv (fe_tmpdir fe) getenv) job fw of (r, w) \<Rightarrow> (r, FileEffects w)))"

definition ProcessJobs_by_type ::
  "golib \<Rightarrow> proc_env \<Rightarrow> file_world \<Rightarrow> string \<Rightarrow> string \<Rightarrow> (herror + string) \<times> proc_effects" where
  "ProcessJobs_by_type lib pe fw job_type job_payload =
     (if job_payload = [] then (Inl (Err ''job payload cannot be empty''), NoEffect)
      else
        (case json_Unmarshal_obj lib job_payload of
           None \<Rightarrow> (Inl (Wrapped ''invalid job payload: '' (Err (pe_json_err pe))), NoEffect)
         | Some payload \<Rightarrow>
             if job_type = ''email'' then process_email (pe_hl pe) (pe_getenv pe) (pe_smtp pe) payload
             else if job_type \<in> {''exec'', ''exec_processing''}
             then process_exec (pe_hl pe) (pe_getenv pe) (fe_tmpdir (pe_file pe)) (pe_exec pe) payload
             else if job_type \<in> {''file'', ''file_processing''}
             then process_file (pe_hl pe) (pe_getenv pe) (pe_file pe) payload fw
             else (Inl (Err ''Job type doesn't match with the allowed ones''), NoEffect)))"

definition outcome :: "herror + string \<Rightarrow> run_event" where
  \<comment> \<open>what the goroutine of \<open>runWithTimeout\<close> delivers when it ends in time\<close>
  "outcome r = HandlerDone (case r of Inl e \<Rightarrow> Inl (error_text e) | Inr s \<Rightarrow> Inr s)"

definition process_round ::
  "env \<Rightarrow> proc_env \<Rightarrow> file_world \<Rightarrow> RedisStore \<Rightarrow> Job \<Rightarrow> world \<Rightarrow> bool \<times> world" where
  "process_round env pe fw rds job w =
     worker_round env rds job
       (outcome (fst (ProcessJobs_by_type (e_lib env) pe fw (Type job) (payload_text env (Payload job))))) w"

lemma outcome_result:
  "runWithTimeout (outcome r) = (case r of Inl e \<Rightarrow> RunErr (error_text e) | Inr s \<Rightarrow> RunOk s)"
  by (simp add: outcome_def runWithTimeout_def split: sum.splits)

text \<open>
  The worker does not look at the permanent mark: a payload the handler refuses for good goes
  through \<open>FailOrRetry\<close> like any failure, with the error's text, and is tried again until the
  job's retries are used up.
\<close>

lemma permanent_errors_retried:
  assumes "fst (ProcessJobs_by_type (e_lib env) pe fw (Type job) (payload_text env (Payload job))) = Inl e"
  shows "process_round env pe fw rds job w =
    (True, failJob env rds job (error_text e) (emit (ERun (Type job) (payload_text env (Payload job))) w))"
  using assms by (simp add: process_round_def worker_round_def outcome_result)

subsection \<open>Defaults\<close>

lemma Send_dry: "DryRun cfg \<Longrightarrow> snd (Send hl se cfg job) = []"
  by (simp add: Send_def Let_def split: option.split)

lemma unset_config:
  "DryRun (EmailConfigFromEnv (\<lambda>v. []))" "Allowlist (ExecConfigFromEnv tmp (\<lambda>v. [])) = []"
  "S3Endpoint (FileConfigFromEnv tmp (\<lambda>v. [])) = []"
  by (simp_all add: EmailConfigFromEnv_def ExecConfigFromEnv_def FileConfigFromEnv_def Let_def
      splitCSV_def TrimSpace_def TrimRightChar_def)

lemma Run_deny: "Allowlist cfg = [] \<Longrightarrow> snd (Run hl cfg xe job) = []"
  by (simp add: Run_def allowed_def)

definition local_only :: "file_world \<Rightarrow> proc_effects \<Rightarrow> bool" where
  "local_only fw es =
     (case es of
        NoEffect \<Rightarrow> True
      | EmailEffects cs \<Rightarrow> cs = []
      | ExecEffects xs \<Rightarrow> xs = []
      | FileEffects w \<Rightarrow> list_all (\<lambda>e. \<not> is_http e) (drop (length (log fw)) (log w)))"

lemma email_local: "local_only fw (snd (process_email hl (\<lambda>v. []) se payload))"
proof -
  have "snd (Send hl se (EmailConfigFromEnv (\<lambda>v. [])) job) = []" for job
    by (rule Send_dry [OF unset_config(1)])
  then show ?thesis
    by (auto simp: process_email_def local_only_def split: sum.split prod.split) (metis snd_conv)+
qed

lemma exec_local: "local_only fw (snd (process_exec hl (\<lambda>v. []) tmp xe payload))"
  by (simp add: process_exec_def local_only_def case_prod_beta Run_deny [OF unset_config(2)] split: sum.split)

lemma file_local: "local_only fw (snd (process_file hl (\<lambda>v. []) fe payload fw))"
proof -
  have "list_all (\<lambda>e. \<not> is_http e)
      (drop (length (log fw)) (log (snd (Process hl fe (FileConfigFromEnv tmp (\<lambda>v. [])) job fw))))" for tmp job
    using Process_no_http [OF unset_config(3), of hl fe tmp job fw] by auto
  then show ?thesis by (simp add: process_file_def local_only_def case_prod_beta split: sum.split)
qed

text \<open>C15. Safe defaults: with none of the handlers' environment variables set, no job of any type,
  whatever its payload, sends mail, starts a process, makes a directory for one, or issues an
  HTTP request. The only effects are on local files.
\<close>

theorem default_deny:
  "local_only fw (snd (ProcessJobs_by_type lib (pe\<lparr>pe_getenv := \<lambda>v. []\<rparr>) fw t p))"
proof -
  have "local_only fw NoEffect" by (simp add: local_only_def)
  then show ?thesis
    by (simp add: ProcessJobs_by_type_def email_local exec_local file_local split: option.split)
qed

end
