(* ===== verification/Rate_Limit.thy ===== *)
theory Rate_Limit
  imports Api_Server Config "HOL-Library.Signed_Division"
begin

text \<open>
  The rate limiter in front of the API, \<open>internal/api/middleware/ratelimit.go\<close>, and the handler
  \<open>NewServer\<close> puts together (\<open>internal/api/server.go\<close>). Token counts are \<open>float64\<close>: a value is
  the rational it denotes, and every operation is the exact one followed by the rounding
  \<open>f64\<close>, a parameter of which \<open>f64_ok\<close> states what IEEE 754 promises.
\<close>

subsection \<open>Floating point\<close>

type_synonym float64 = rat

definition f64_ok :: "(rat \<Rightarrow> float64) \<Rightarrow> bool" where
  \<comment> \<open>rounding is monotone and exact on the integers of up to 53 bits\<close>
  "f64_ok f64 \<longleftrightarrow>
     (\<forall>x y. x \<le> y \<longrightarrow> f64 x \<le> f64 y) \<and> (\<forall>i. \<bar>i\<bar> \<le> 2 ^ 53 \<longrightarrow> f64 (of_int i) = of_int i)"

definition Seconds :: "(rat \<Rightarrow> float64) \<Rightarrow> duration \<Rightarrow> float64" where
  "Seconds f64 d =
     f64 (f64 (of_int (d sdiv second)) + f64 (f64 (of_int (d smod second)) / f64 1000000000))"

subsection \<open>The limiter\<close>

record bucket =
  tokens :: float64
  lastSeen :: instant

type_synonym buckets = "(string \<times> bucket) list"

definition limits :: "(rat \<Rightarrow> float64) \<Rightarrow> Config option \<Rightarrow> float64 \<times> float64" where
  "limits f64 cfg =
     (case cfg of
        None \<Rightarrow> (f64 (of_int DefaultRateLimitRPS), f64 (of_int DefaultRateLimitBurst))
      | Some c \<Rightarrow>
          (f64 (of_int (if 0 < RateLimitRPS c then RateLimitRPS c else DefaultRateLimitRPS)),
           f64 (of_int (if 0 < RateLimitBurst c then RateLimitBurst c else DefaultRateLimitBurst))))"

definition exemptPaths :: "string list" where "exemptPaths = [''/health'', ''/healthz'']"

definition max_buckets :: nat where "max_buckets = 100000"

definition SplitHost :: "string \<Rightarrow> string option" where
  \<comment> \<open>the host of \<open>net.SplitHostPort\<close>, \<open>None\<close> for its errors\<close>
  "SplitHost hp =
     (if CHR '':'' \<notin> set hp then None
      else
        (let i = length hp - 1 - length (takeWhile (\<lambda>c. c \<noteq> CHR '':'') (rev hp)) in
         if hd hp = CHR ''['' then
           (let e = length (takeWhile (\<lambda>c. c \<noteq> CHR '']'') hp) in
            if e = length hp \<or> Suc e \<noteq> i \<or> CHR ''['' \<in> set (drop 1 hp) \<or> CHR '']'' \<in> set (drop (Suc e) hp)
            then None else Some (drop 1 (take e hp)))
         else if CHR '':'' \<in> set (take i hp) \<or> CHR ''['' \<in> set hp \<or> CHR '']'' \<in> set hp then None
         else Some (take i hp)))"

definition callerKey :: "request \<Rightarrow> string" where
  "callerKey rq =
     (if rq_Header rq ''Authorization'' \<noteq> [] then ''auth:'' @ rq_Header rq ''Authorization''
      else (case SplitHost (rq_RemoteAddr rq) of
              None \<Rightarrow> ''ip:'' @ rq_RemoteAddr rq | Some host \<Rightarrow> ''ip:'' @ host))"

definition find_bucket :: "float64 \<Rightarrow> instant \<Rightarrow> string \<Rightarrow> buckets \<Rightarrow> bucket \<times> buckets" where
  \<comment> \<open>the caller's bucket, made full when there is none; a map that has grown too large is
     replaced by one with this bucket only\<close>
  "find_bucket burst now key bs =
     (case map_of bs key of
        Some b \<Rightarrow> (b, bs)
      | None \<Rightarrow>
          (let b = \<lparr>tokens = burst, lastSeen = now\<rparr>; bs1 = (key, b) # bs in
           (b, if max_buckets < length bs1 then [(key, b)] else bs1)))"

definition refill :: "(rat \<Rightarrow> float64) \<Rightarrow> float64 \<times> float64 \<Rightarrow> instant \<Rightarrow> bucket \<Rightarrow> float64" where
  "refill f64 lm now b =
     (let t = f64 (tokens b + f64 (Seconds f64 (now - lastSeen b) * fst lm)) in
      if snd lm < t then snd lm else t)"

definition Allow ::
  "(rat \<Rightarrow> float64) \<Rightarrow> Config option \<Rightarrow> instant \<Rightarrow> string \<Rightarrow> buckets \<Rightarrow> bool \<times> buckets" where
  "Allow f64 cfg now key bs =
     (let lm = limits f64 cfg in
      case find_bucket (snd lm) now key bs of (b, bs1) \<Rightarrow>
        (let t = refill f64 lm now b in
         if t < 1 then (False, AList.update key \<lparr>tokens = t, lastSeen = now\<rparr> bs1)
         else (True, AList.update key \<lparr>tokens = f64 (t - 1), lastSeen = now\<rparr> bs1)))"

definition too_many :: response where
  "too_many =
     \<lparr>rs_Code = 429, rs_Headers = [(''Content-Type'', ''application/json''), (''Retry-After'', ''1'')],
      rs_Body = JObj [(''error'', JStr ''rate limit exceeded'')]\<rparr>"

definition RateLimit ::
  "(rat \<Rightarrow> float64) \<Rightarrow> Config option \<Rightarrow> instant \<Rightarrow> request \<Rightarrow> buckets \<Rightarrow> bool \<times> buckets" where
  \<comment> \<open>whether the request reaches the handler behind\<close>
  "RateLimit f64 cfg now rq bs =
     (if rq_Path rq \<in> set exemptPaths then (True, bs) else Allow f64 cfg now (callerKey rq) bs)"

definition NewServer ::
  "(rat \<Rightarrow> float64) \<Rightarrow> Config option \<Rightarrow> env \<Rightarrow> apilib \<Rightarrow> authlib \<Rightarrow> aenv \<Rightarrow> (JobEvent \<Rightarrow> uuid) \<Rightarrow> nat \<Rightarrow>
     deps \<Rightarrow> request \<Rightarrow> buckets \<times> world \<times> auth_db \<Rightarrow> response option \<times> buckets \<times> world \<times> auth_db" where
  "NewServer f64 cfg env al au ae eid n dp rq s =
     (case s of (bs, w, d) \<Rightarrow>
        (case RateLimit f64 cfg (a_now ae) rq bs of
           (False, bs1) \<Rightarrow> (Some too_many, bs1, w, d)
         | (True, bs1) \<Rightarrow>
             (case serve env al au ae eid n dp rq (w, d) of (r, w1, d1) \<Rightarrow> (r, bs1, w1, d1))))"

fun RateLimit_seq ::
  "(rat \<Rightarrow> float64) \<Rightarrow> Config option \<Rightarrow> (instant \<times> request) list \<Rightarrow> buckets \<Rightarrow> bool list \<times> buckets" where
  "RateLimit_seq f64 cfg [] bs = ([], bs)"
| "RateLimit_seq f64 cfg ((now, rq) # rs) bs =
     (case RateLimit f64 cfg now rq bs of (ok, bs1) \<Rightarrow>
        (case RateLimit_seq f64 cfg rs bs1 of (oks, bs2) \<Rightarrow> (ok # oks, bs2)))"

subsection \<open>Facts\<close>

lemma f64_int: "f64_ok f \<Longrightarrow> \<bar>i\<bar> \<le> 2 ^ 53 \<Longrightarrow> f (of_int i) = of_int i"
  by (simp add: f64_ok_def)

lemma f64_mono: "f64_ok f \<Longrightarrow> x \<le> y \<Longrightarrow> f x \<le> f y"
  by (simp add: f64_ok_def)

lemma f64_0: "f64_ok f \<Longrightarrow> f 0 = 0"
  using f64_int [of f 0] by simp

lemma f64_1: "f64_ok f \<Longrightarrow> f 1 = 1"
  using f64_int [of f 1] by simp

lemma f64_nonneg: "f64_ok f \<Longrightarrow> 0 \<le> x \<Longrightarrow> 0 \<le> f x"
  using f64_mono [of f 0 x] f64_0 [of f] by simp

lemma Seconds_0: "f64_ok f \<Longrightarrow> Seconds f 0 = 0"
  by (simp add: Seconds_def f64_0 second_def)

lemma Seconds_nonneg: "f64_ok f \<Longrightarrow> 0 \<le> d \<Longrightarrow> 0 \<le> Seconds f d"
proof -
  assume f: "f64_ok f" and d: "0 \<le> d"
  have "0 \<le> d sdiv second" "0 \<le> d smod second"
    using d by (simp_all add: signed_divide_int_def signed_modulo_int_def second_def sgn_if)
  then have "0 \<le> f (of_int (d sdiv second))" "0 \<le> f (f (of_int (d smod second)) / f 1000000000)"
    by (auto intro!: f64_nonneg [OF f] divide_nonneg_nonneg)
  then show ?thesis unfolding Seconds_def by (intro f64_nonneg [OF f]) simp
qed

definition burst_size :: "Config option \<Rightarrow> int" where
  "burst_size cfg =
     (case cfg of None \<Rightarrow> DefaultRateLimitBurst
      | Some c \<Rightarrow> if 0 < RateLimitBurst c then RateLimitBurst c else DefaultRateLimitBurst)"

lemma burst_size_pos: "0 < burst_size cfg"
  by (auto simp: burst_size_def DefaultRateLimitBurst_def split: option.split)

lemma limits_burst: "snd (limits f cfg) = f (of_int (burst_size cfg))"
  by (simp add: limits_def burst_size_def split: option.split)

lemma limits_rps: "f64_ok f \<Longrightarrow> 0 \<le> fst (limits f cfg)"
  by (cases cfg) (simp_all add: limits_def DefaultRateLimitRPS_def f64_nonneg)

lemma limits_pos: "f64_ok f \<Longrightarrow> 0 \<le> fst (limits f cfg) \<and> 1 \<le> snd (limits f cfg)"
proof -
  assume f: "f64_ok f"
  have "(1::rat) \<le> of_int (burst_size cfg)" using burst_size_pos [of cfg] by simp
  from f64_mono [OF f this] show ?thesis using limits_rps [OF f] f64_1 [OF f] by (simp add: limits_burst)
qed

text \<open>Tokens stay between none and the bucket's size, as long as the clock does not go back.\<close>

definition bucket_ok :: "float64 \<Rightarrow> instant \<Rightarrow> bucket \<Rightarrow> bool" where
  "bucket_ok burst now b \<longleftrightarrow> 0 \<le> tokens b \<and> tokens b \<le> burst \<and> lastSeen b \<le> now"

lemma refill_bounds:
  assumes "f64_ok f" and "0 \<le> fst lm" and "0 \<le> snd lm" and "bucket_ok (snd lm) now b"
  shows "0 \<le> refill f lm now b \<and> refill f lm now b \<le> snd lm"
proof -
  have "0 \<le> Seconds f (now - lastSeen b)" using Seconds_nonneg [OF assms(1)] assms(4) by (simp add: bucket_ok_def)
  then have "0 \<le> f (Seconds f (now - lastSeen b) * fst lm)"
    using assms(2) by (intro f64_nonneg [OF assms(1)]) simp
  then have "0 \<le> f (tokens b + f (Seconds f (now - lastSeen b) * fst lm))"
    using assms(4) by (intro f64_nonneg [OF assms(1)]) (simp add: bucket_ok_def)
  then show ?thesis using assms(3) by (simp add: refill_def Let_def)
qed

lemma Allow_bucket_ok:
  assumes f: "f64_ok f" and b: "burst_size cfg \<le> 2 ^ 53"
    and bs: "\<And>k c. map_of bs k = Some c \<Longrightarrow> bucket_ok (snd (limits f cfg)) now c"
    and r: "map_of (snd (Allow f cfg now key bs)) k = Some c"
  shows "bucket_ok (snd (limits f cfg)) now c"
proof -
  let ?lm = "limits f cfg"
  obtain c0 bs1 where fb: "find_bucket (snd ?lm) now key bs = (c0, bs1)" by fastforce
  have lp: "0 \<le> fst ?lm" "1 \<le> snd ?lm" using limits_pos [OF f, of cfg] by auto
  have c0: "bucket_ok (snd ?lm) now c0"
    using fb bs lp by (auto simp: find_bucket_def Let_def bucket_ok_def split: option.splits if_splits)
  have rest: "map_of bs1 k = Some d \<Longrightarrow> bucket_ok (snd ?lm) now d" for k d
    using fb bs c0 by (auto simp: find_bucket_def Let_def split: option.splits if_splits)
  let ?t = "refill f ?lm now c0"
  have t: "0 \<le> ?t" "?t \<le> snd ?lm" using refill_bounds [OF f _ _ c0] lp by auto
  have u: "0 \<le> f (?t - 1) \<and> f (?t - 1) \<le> snd ?lm" if "1 \<le> ?t"
  proof -
    have "f (?t - 1) \<le> f (of_int (burst_size cfg))"
    proof (rule f64_mono [OF f])
      have "snd ?lm = of_int (burst_size cfg)"
        unfolding limits_burst using b burst_size_pos [of cfg] by (intro f64_int [OF f]) simp
      then show "?t - 1 \<le> of_int (burst_size cfg)" using t by simp
    qed
    then show ?thesis using f64_nonneg [OF f, of "?t - 1"] that by (simp add: limits_burst)
  qed
  show ?thesis
    using r rest t u by (auto simp: Allow_def Let_def fb update_conv bucket_ok_def split: if_splits)
qed

subsection \<open>What the limiter bounds\<close>

lemma Allow_fresh:
  assumes f: "f64_ok f" and n: "map_of bs key = None"
  shows "fst (Allow f cfg now key bs) \<and> dom (map_of (snd (Allow f cfg now key bs))) \<subseteq> insert key (dom (map_of bs))"
proof -
  let ?lm = "limits f cfg"
  have "1 \<le> f (snd ?lm)" using f64_mono [OF f, of 1 "snd ?lm"] f64_1 [OF f] limits_pos [OF f, of cfg] by simp
  then have "\<not> refill f ?lm now \<lparr>tokens = snd ?lm, lastSeen = now\<rparr> < 1"
    using limits_pos [OF f, of cfg] by (simp add: refill_def Let_def Seconds_0 [OF f] f64_0 [OF f])
  then show ?thesis
    using n by (auto simp: Allow_def Let_def find_bucket_def update_conv dom_def split: if_splits)
qed

lemma Allow_same_instant:
  assumes f: "f64_ok f" and b: "burst_size cfg \<le> 2 ^ 53"
    and k: "map_of bs key = Some \<lparr>tokens = of_int k, lastSeen = now\<rparr>" "0 \<le> k" "k \<le> burst_size cfg"
  shows "fst (Allow f cfg now key bs) = (0 < k)"
    and "map_of (snd (Allow f cfg now key bs)) key = Some \<lparr>tokens = of_int (if 0 < k then k - 1 else k), lastSeen = now\<rparr>"
proof -
  have B: "snd (limits f cfg) = of_int (burst_size cfg)"
    unfolding limits_burst using b burst_size_pos [of cfg] by (intro f64_int [OF f]) simp
  have i: "f (of_int k) = of_int k" "f (of_int (k - 1)) = of_int (k - 1)"
    using k b by (intro f64_int [OF f]; simp)+
  have r: "refill f (limits f cfg) now \<lparr>tokens = of_int k, lastSeen = now\<rparr> = of_int k"
    using k(3) by (simp add: refill_def Let_def Seconds_0 [OF f] f64_0 [OF f] i B)
  show "fst (Allow f cfg now key bs) = (0 < k)"
    using k by (simp add: Allow_def Let_def find_bucket_def r)
  show "map_of (snd (Allow f cfg now key bs)) key = Some \<lparr>tokens = of_int (if 0 < k then k - 1 else k), lastSeen = now\<rparr>"
    using k i by (simp add: Allow_def Let_def find_bucket_def r update_conv)
qed

lemma burst_from:
  assumes f: "f64_ok f" and b: "burst_size cfg \<le> 2 ^ 53"
  shows "map_of bs (callerKey rq) = Some \<lparr>tokens = of_int (int m), lastSeen = now\<rparr> \<Longrightarrow> int m \<le> burst_size cfg \<Longrightarrow>
    rq_Path rq \<notin> set exemptPaths \<Longrightarrow>
    fst (RateLimit_seq f cfg (replicate n (now, rq)) bs) = replicate (min n m) True @ replicate (n - m) False"
proof (induction n arbitrary: m bs)
  case (Suc n)
  let ?A = "Allow f cfg now (callerKey rq) bs"
  have a: "fst ?A = (0 < m)"
    "map_of (snd ?A) (callerKey rq) = Some \<lparr>tokens = of_int (int (if 0 < m then m - 1 else m)), lastSeen = now\<rparr>"
    using Allow_same_instant [OF f b Suc.prems(1)] Suc.prems(2) by (auto simp: of_nat_diff)
  have "fst (RateLimit_seq f cfg (replicate (Suc n) (now, rq)) bs) =
      (0 < m) # fst (RateLimit_seq f cfg (replicate n (now, rq)) (snd ?A))"
    using a(1) Suc.prems(3) by (simp add: RateLimit_def case_prod_beta)
  also have "\<dots> = (0 < m) # replicate (min n (if 0 < m then m - 1 else m)) True @
      replicate (n - (if 0 < m then m - 1 else m)) False"
    using Suc.IH [OF a(2)] Suc.prems(2,3) by (simp split: if_splits)
  finally show ?case by (cases m) simp_all
qed simp

text \<open>C32. The burst bound: of \<open>n\<close> requests a caller without a bucket sends at one instant, the first
  40 (or as many as configured) pass and every further one is answered with 429.\<close>

theorem rate_limit_burst:
  assumes "f64_ok f" and "burst_size cfg \<le> 2 ^ 53" and "rq_Path rq \<notin> set exemptPaths"
    and "map_of bs (callerKey rq) = None"
  shows "fst (RateLimit_seq f cfg (replicate n (now, rq)) bs) =
    replicate (min n (nat (burst_size cfg))) True @ replicate (n - nat (burst_size cfg)) False"
proof (cases n)
  case (Suc k)
  let ?A = "Allow f cfg now (callerKey rq) bs" and ?m = "nat (burst_size cfg - 1)"
  have bp: "0 < burst_size cfg" by (rule burst_size_pos)
  have B: "snd (limits f cfg) = of_int (burst_size cfg)" "f (of_int (burst_size cfg)) = of_int (burst_size cfg)"
    "f (of_int (burst_size cfg - 1)) = of_int (burst_size cfg - 1)"
    unfolding limits_burst using assms(2) bp by (intro f64_int [OF assms(1)]; simp)+
  have r: "refill f (limits f cfg) now \<lparr>tokens = of_int (burst_size cfg), lastSeen = now\<rparr> = of_int (burst_size cfg)"
    by (simp add: refill_def Let_def Seconds_0 [OF assms(1)] f64_0 [OF assms(1)] B)
  have a: "fst ?A" "map_of (snd ?A) (callerKey rq) = Some \<lparr>tokens = of_int (int ?m), lastSeen = now\<rparr>"
    using assms(4) bp B(3) by (auto simp: Allow_def Let_def find_bucket_def B(1) r update_conv)
  have "fst (RateLimit_seq f cfg (replicate k (now, rq)) (snd ?A)) = replicate (min k ?m) True @ replicate (k - ?m) False"
    using burst_from [OF assms(1,2) a(2) _ assms(3)] bp by simp
  moreover have "nat (burst_size cfg) = Suc ?m" using bp by simp
  ultimately show ?thesis using a(1) assms(3) Suc by (simp add: RateLimit_def case_prod_beta)
qed simp

definition two_burst_cfg :: Config where
  "two_burst_cfg = (initConfig (\<lambda>_. None))\<lparr>RateLimitRPS := 1, RateLimitBurst := 2\<rparr>"

definition login_rq :: "string \<Rightarrow> request" where
  "login_rq auth =
     \<lparr>rq_Method = ''POST'', rq_Path = ''/v1/auth/login'',
      rq_Header = (\<lambda>h. if h = ''Authorization'' then auth else []), rq_Query = (\<lambda>_. []),
      rq_ContentLength = 2, rq_Body = ''{}'', rq_RemoteAddr = ''10.0.0.1:5000'', rq_User = None\<rparr>"

lemma f64_ok_id: "f64_ok id"
  by (simp add: f64_ok_def)

theorem rate_limit_burst_witness:
  "fst (RateLimit_seq id (Some two_burst_cfg) (replicate 5 (0, login_rq [])) []) =
     [True, True, False, False, False]"
proof -
  have b: "burst_size (Some two_burst_cfg) = 2"
    by (simp add: burst_size_def two_burst_cfg_def)
  have p: "rq_Path (login_rq []) \<notin> set exemptPaths" by (simp add: login_rq_def exemptPaths_def)
  show ?thesis
    using rate_limit_burst [OF f64_ok_id _ p, of "Some two_burst_cfg" "[]" 5 0]
    by (simp add: b numeral_eq_Suc)
qed

text \<open>The bound does not hold a caller who changes the Authorization header: the bucket is
  chosen by the header's text before anything has checked it, and a text not seen before gets a
  full bucket, so any number of requests with different headers passes, whatever the limits, also
  to the login endpoint.\<close>

theorem header_rotation_unlimited:
  assumes "f64_ok f" and "distinct (map (\<lambda>(t, rq). rq_Header rq ''Authorization'') rs)"
    and "list_all (\<lambda>(t, rq). rq_Header rq ''Authorization'' \<noteq> [] \<and> map_of bs (callerKey rq) = None) rs"
  shows "fst (RateLimit_seq f cfg rs bs) = replicate (length rs) True"
  using assms(2,3)
proof (induction rs arbitrary: bs)
  case (Cons x rs)
  obtain t rq where x: "x = (t, rq)" by (cases x)
  have key: "callerKey q = ''auth:'' @ rq_Header q ''Authorization''" if "rq_Header q ''Authorization'' \<noteq> []" for q
    using that by (simp add: callerKey_def)
  have nz: "rq_Header rq ''Authorization'' \<noteq> []" using Cons.prems(2) x by simp
  obtain ok bs1 where r: "RateLimit f cfg t rq bs = (ok, bs1)" by fastforce
  have ok: "ok" and d: "dom (map_of bs1) \<subseteq> insert (callerKey rq) (dom (map_of bs))"
    using Allow_fresh [OF assms(1), of bs "callerKey rq" cfg t] Cons.prems(2) r
    by (auto simp: RateLimit_def x split: if_splits)
  have "list_all (\<lambda>(t, rq). rq_Header rq ''Authorization'' \<noteq> [] \<and> map_of bs1 (callerKey rq) = None) rs"
    unfolding list_all_iff
  proof clarify
    fix t2 q
    assume q: "(t2, q) \<in> set rs"
    then have h: "rq_Header q ''Authorization'' \<noteq> []" "map_of bs (callerKey q) = None"
      using Cons.prems(2) by (auto simp: list_all_iff)
    have "rq_Header q ''Authorization'' \<noteq> rq_Header rq ''Authorization''"
      using Cons.prems(1) q x by force
    then have "callerKey q \<noteq> callerKey rq" using key [OF h(1)] key [OF nz] by simp
    then show "rq_Header q ''Authorization'' \<noteq> [] \<and> map_of bs1 (callerKey q) = None"
      using h d by (auto simp: domIff subset_iff)
  qed
  then have "fst (RateLimit_seq f cfg rs bs1) = replicate (length rs) True"
    using Cons.IH [of bs1] Cons.prems(1) by simp
  then show ?case using ok r by (cases "RateLimit_seq f cfg rs bs1") (simp add: x)
qed simp

theorem header_rotation_unlimited_witness:
  "fst (RateLimit_seq id (Some two_burst_cfg)
      [(0, login_rq ''a''), (0, login_rq ''b''), (0, login_rq ''c''), (0, login_rq ''d'')] []) = [True, True, True, True]"
  using header_rotation_unlimited [OF f64_ok_id,
      of "[(0, login_rq ''a''), (0, login_rq ''b''), (0, login_rq ''c''), (0, login_rq ''d'')]" "[]"]
  by (simp add: login_rq_def)

end
