(* ===== verification/Startup.thy ===== *)
theory Startup
  imports Config
begin

text \<open>
  Connections and start-up: \<open>internal/storage/database.go\<close>, \<open>internal/storage/migrate.go\<close>, the dialling
  functions of \<open>internal/broker/redis.go\<close> and the first lines of the processes
  (\<open>internal/api/server.go\<close>, \<open>cmd/scheduler\<close>, \<open>cmd/reaper\<close>). What the code does to the outside is a
  log of steps; \<open>su\<close> says which step fails, and how.
\<close>

subsection \<open>Steps\<close>

datatype handle = RedisClient | Pool string | Migrator

datatype su_step =
    SParseURL string
  | SOpen handle \<comment> \<open>a handle now exists and must be closed\<close>
  | SPing handle
  | SInitStreams
  | SSource | SDriver
  | SMigrate string \<comment> \<open>\<open>Up\<close>, \<open>Steps(-1)\<close>, \<open>Version\<close>, \<open>Force\<close>\<close>
  | SClose handle

type_synonym su_env = "su_step \<Rightarrow> string option"

fun live :: "handle \<Rightarrow> su_step list \<Rightarrow> int" where
  \<comment> \<open>how often a handle was opened and not closed\<close>
  "live h [] = 0"
| "live h (e # es) =
     (case e of SOpen k \<Rightarrow> of_bool (k = h) | SClose k \<Rightarrow> - of_bool (k = h) | _ \<Rightarrow> 0) + live h es"

lemma live_append [simp]: "live h (es @ fs) = live h es + live h fs"
  by (induction es) simp_all

subsection \<open>Redacting\<close>

fun index_of :: "string \<Rightarrow> string \<Rightarrow> nat option" where
  \<comment> \<open>the first position of \<open>sub\<close>; \<open>None\<close> for the result -1\<close>
  "index_of [] sub = (if sub = [] then Some 0 else None)"
| "index_of (c # s) sub = (if HasPrefix (c # s) sub then Some 0 else map_option Suc (index_of s sub))"

definition redact :: "string \<Rightarrow> string" where
  "redact dsn =
     (case index_of dsn ''@'' of
        None \<Rightarrow> dsn
      | Some i \<Rightarrow>
          (case index_of dsn ''://'' of
             Some j \<Rightarrow> take (j + 3) dsn @ ''***'' @ drop i dsn
           | None \<Rightarrow> ''***'' @ drop i dsn))"

subsection \<open>Database pools\<close>

definition openConn :: "su_env \<Rightarrow> string \<Rightarrow> (string + handle) \<times> su_step list" where
  "openConn su dsn =
     (if dsn = [] then (Inl ''storage: empty DSN'', [])
      else
        (case su (SOpen (Pool dsn)) of
           Some e \<Rightarrow> (Inl (''storage: open '' @ redact dsn @ '': '' @ e), [])
         | None \<Rightarrow>
             (case su (SPing (Pool dsn)) of
                Some e \<Rightarrow>
                  (Inl (''storage: ping '' @ redact dsn @ '': '' @ e),
                   [SOpen (Pool dsn), SPing (Pool dsn), SClose (Pool dsn)])
              | None \<Rightarrow> (Inr (Pool dsn), [SOpen (Pool dsn), SPing (Pool dsn)]))))"

definition Connect :: "su_env \<Rightarrow> string \<Rightarrow> string \<Rightarrow> (string + handle \<times> handle) \<times> su_step list" where
  "Connect su writeDSN readDSN =
     (case openConn su writeDSN of
        (Inl e, es) \<Rightarrow> (Inl (''storage: write pool: '' @ e), es)
      | (Inr write, es) \<Rightarrow>
          (case openConn su readDSN of
             (Inl e, es2) \<Rightarrow> (Inl (''storage: read pool: '' @ e), es @ es2 @ [SClose write])
           | (Inr read, es2) \<Rightarrow> (Inr (write, read), es @ es2)))"

definition Stores_Close :: "su_env \<Rightarrow> (handle option \<times> handle option) option \<Rightarrow> string option \<times> su_step list" where
  \<comment> \<open>both are closed; the first error is returned\<close>
  "Stores_Close su s =
     (case s of
        None \<Rightarrow> (None, [])
      | Some (write, read) \<Rightarrow>
          (let close = (\<lambda>h. case h of None \<Rightarrow> [] | Some x \<Rightarrow> [SClose x]);
               err = (\<lambda>h. case h of None \<Rightarrow> None | Some x \<Rightarrow> su (SClose x))
           in (case err write of Some e \<Rightarrow> Some e | None \<Rightarrow> err read, close write @ close read)))"

subsection \<open>Migrations\<close>

definition openMigrate :: "su_env \<Rightarrow> string \<Rightarrow> (string + handle) \<times> su_step list" where
  "openMigrate su dsn =
     (let db = Pool dsn; closed = [SClose db] in
      if dsn = [] then (Inl ''storage: empty DSN'', [])
      else if su (SOpen db) \<noteq> None
      then (Inl (''storage: migrate open '' @ redact dsn @ '': '' @ the (su (SOpen db))), [])
      else if su (SPing db) \<noteq> None
      then (Inl (''storage: migrate ping '' @ redact dsn @ '': '' @ the (su (SPing db))),
            [SOpen db, SPing db] @ closed)
      else if su SSource \<noteq> None
      then (Inl (''storage: migrate source: '' @ the (su SSource)), [SOpen db, SPing db, SSource] @ closed)
      else if su SDriver \<noteq> None
      then (Inl (''storage: migrate driver: '' @ the (su SDriver)),
            [SOpen db, SPing db, SSource, SDriver] @ closed)
      else if su (SOpen Migrator) \<noteq> None
      then (Inl (''storage: migrate instance: '' @ the (su (SOpen Migrator))),
            [SOpen db, SPing db, SSource, SDriver] @ closed)
      else (Inr db, [SOpen db, SPing db, SSource, SDriver, SOpen Migrator]))"

definition with_migrate :: "su_env \<Rightarrow> string \<Rightarrow> string \<Rightarrow> (string \<Rightarrow> string option) \<Rightarrow> string option \<times> su_step list" where
  \<comment> \<open>open, one operation, the deferred closes; \<open>report\<close> turns the operation's error into the result\<close>
  "with_migrate su dsn op report =
     (case openMigrate su dsn of
        (Inl e, es) \<Rightarrow> (Some e, es)
      | (Inr db, es) \<Rightarrow>
          (case su (SMigrate op) of None \<Rightarrow> None | Some e \<Rightarrow> report e,
           es @ [SMigrate op, SClose Migrator, SClose db]))"

definition ErrNoChange :: string where "ErrNoChange = ''no change''"

definition MigrateUp :: "su_env \<Rightarrow> string \<Rightarrow> string option \<times> su_step list" where
  "MigrateUp su dsn =
     with_migrate su dsn ''up'' (\<lambda>e. if e = ErrNoChange then None else Some (''storage: migrate up: '' @ e))"

definition MigrateDown :: "su_env \<Rightarrow> string \<Rightarrow> string option \<times> su_step list" where
  "MigrateDown su dsn =
     with_migrate su dsn ''down'' (\<lambda>e. if e = ErrNoChange then None else Some (''storage: migrate down: '' @ e))"

definition MigrateVersion :: "su_env \<Rightarrow> string \<Rightarrow> nat \<times> bool \<Rightarrow> (string + nat \<times> bool) \<times> su_step list" where
  \<comment> \<open>with the version and the dirty flag the library reads\<close>
  "MigrateVersion su dsn v =
     (case with_migrate su dsn ''version'' (\<lambda>e. Some (''storage: migrate version: '' @ e)) of
        (Some e, es) \<Rightarrow> (Inl e, es) | (None, es) \<Rightarrow> (Inr v, es))"

definition MigrateForce :: "su_env \<Rightarrow> string \<Rightarrow> int \<Rightarrow> string option \<times> su_step list" where
  "MigrateForce su dsn v =
     with_migrate su dsn (''force '' @ Itoa v) (\<lambda>e. Some (''storage: migrate force: '' @ e))"

definition runMigrate ::
  "su_env \<Rightarrow> Config \<Rightarrow> (string \<Rightarrow> string) \<Rightarrow> nat \<times> bool \<Rightarrow> string list \<Rightarrow> string option \<times> su_step list" where
  \<comment> \<open>\<open>api migrate \<dots>\<close>; \<open>quote\<close> is \<open>strconv.Quote\<close>\<close>
  "runMigrate su cfg quote v args =
     (let dsn = DB_URL cfg in
      case args of
        [] \<Rightarrow> (Some ''usage: api migrate up|down|version|force <v>'', [])
      | cmd # rest \<Rightarrow>
          if cmd = ''up'' then MigrateUp su dsn
          else if cmd = ''down'' then MigrateDown su dsn
          else if cmd = ''version''
          then (case MigrateVersion su dsn v of (Inl e, es) \<Rightarrow> (Some e, es) | (Inr _, es) \<Rightarrow> (None, es))
          else if cmd = ''force''
          then (case rest of
                  [] \<Rightarrow> (Some ''usage: api migrate force <v>'', [])
                | a # _ \<Rightarrow>
                    (case Atoi a of (n, ok) \<Rightarrow>
                       if ok then MigrateForce su dsn n
                       else (Some (''invalid version '' @ quote a), [])))
          else (Some (''unknown migrate command '' @ quote cmd), []))"

subsection \<open>Redis\<close>

definition Redis_Connect :: "su_env \<Rightarrow> string \<Rightarrow> (string + handle) \<times> su_step list" where
  "Redis_Connect su rdsUrl =
     (if su (SParseURL rdsUrl) \<noteq> None then (Inl (the (su (SParseURL rdsUrl))), [SParseURL rdsUrl])
      else
        (let es = [SParseURL rdsUrl, SOpen RedisClient, SPing RedisClient] in
         if su (SPing RedisClient) \<noteq> None
         then (Inl (''ping redis: '' @ the (su (SPing RedisClient)) @ [CHR 0x0A]), es)
         else if su SInitStreams \<noteq> None then (Inl (the (su SInitStreams)), es @ [SInitStreams])
         else (Inr RedisClient, es @ [SInitStreams])))"

definition FailoverOptionsFor :: "su_env \<Rightarrow> string \<Rightarrow> string list \<Rightarrow> string \<Rightarrow> string option" where
  "FailoverOptionsFor su master addrs rdsUrl =
     (if master = [] then Some ''sentinel: empty master name''
      else if addrs = [] then Some ''sentinel: no sentinel addresses''
      else map_option (\<lambda>e. ''sentinel: parse url: '' @ e) (su (SParseURL rdsUrl)))"

definition Redis_ConnectWithSentinel ::
  "su_env \<Rightarrow> string \<Rightarrow> string list \<Rightarrow> string \<Rightarrow> (string + handle) \<times> su_step list" where
  "Redis_ConnectWithSentinel su master addrs rdsUrl =
     (case FailoverOptionsFor su master addrs rdsUrl of
        Some e \<Rightarrow> (Inl e, [])
      | None \<Rightarrow>
          (let es = [SParseURL rdsUrl, SOpen RedisClient, SPing RedisClient] in
           if su (SPing RedisClient) \<noteq> None
           then (Inl (''ping redis via sentinel: '' @ the (su (SPing RedisClient))), es @ [SClose RedisClient])
           else if su SInitStreams \<noteq> None
           then (Inl (the (su SInitStreams)), es @ [SInitStreams, SClose RedisClient])
           else (Inr RedisClient, es @ [SInitStreams])))"

definition dial_redis :: "su_env \<Rightarrow> topology \<Rightarrow> (string + handle) \<times> su_step list" where
  "dial_redis su t =
     (case t of
        SingleNode url \<Rightarrow> Redis_Connect su url
      | Sentinel master addrs url \<Rightarrow> Redis_ConnectWithSentinel su master addrs url)"

subsection \<open>The processes\<close>

datatype run_start =
    RunPanics \<comment> \<open>nil pointer dereference\<close>
  | RunFails string
  | RunServes handle "handle \<times> handle"

definition start_process :: "su_env \<Rightarrow> string \<Rightarrow> string \<Rightarrow> Config \<Rightarrow> run_start \<times> su_step list" where
  \<comment> \<open>the common head of the API's \<open>Run\<close> and of the scheduler's and the reaper's \<open>run\<close>: the
     store is written to before the error is looked at. The API closes Redis by hand when the
     database fails, the others by a deferred call\<close>
  "start_process su redisText dbText cfg =
     (case dial_redis su (ConnectFromConfig (RedisURI cfg) (RedisSentinels cfg) (RedisMasterName cfg)) of
        (Inl e, es) \<Rightarrow> (RunPanics, es)
      | (Inr rds, es) \<Rightarrow>
          (case Connect su (DB_URL cfg) (DB_READ_URL cfg) of
             (Inl e, es2) \<Rightarrow> (RunFails (dbText @ e), es @ es2 @ [SClose rds])
           | (Inr stores, es2) \<Rightarrow> (RunServes rds stores, es @ es2)))"

subsection \<open>No handle is left open\<close>

lemma openConn_live:
  "openConn su dsn = (r, es) \<Longrightarrow> live h es = (case r of Inl _ \<Rightarrow> 0 | Inr k \<Rightarrow> of_bool (k = h))"
  by (auto simp: openConn_def split: if_splits option.splits)

text \<open>
  \<open>Connect\<close> either hands over exactly its two pools or, when anything fails, leaves none open.
\<close>

lemma Connect_live:
  assumes "Connect su w r = (res, es)"
  shows "live h es = (case res of Inl _ \<Rightarrow> 0 | Inr (a, b) \<Rightarrow> of_bool (a = h) + of_bool (b = h))"
proof -
  obtain r1 es1 where c1: "openConn su w = (r1, es1)" by fastforce
  obtain r2 es2 where c2: "openConn su r = (r2, es2)" by fastforce
  show ?thesis
    using assms openConn_live [OF c1, of h] openConn_live [OF c2, of h]
    by (cases r1; cases r2) (auto simp: Connect_def c1 c2)
qed

lemma openMigrate_live:
  "openMigrate su dsn = (r, es) \<Longrightarrow>
     live h es = (case r of Inl _ \<Rightarrow> 0 | Inr k \<Rightarrow> of_bool (k = h) + of_bool (Migrator = h))"
  by (auto simp: openMigrate_def Let_def split: if_splits)

lemma openMigrate_db: "openMigrate su dsn = (Inr k, es) \<Longrightarrow> k = Pool dsn"
  by (auto simp: openMigrate_def Let_def split: if_splits)

text \<open>A migration command closes what it opened, whether it succeeds or not.\<close>

lemma with_migrate_live: "live h (snd (with_migrate su dsn op report)) = 0"
proof -
  obtain r es where m: "openMigrate su dsn = (r, es)" by fastforce
  show ?thesis using openMigrate_live [OF m, of h] by (cases r) (auto simp: with_migrate_def m)
qed

lemma commands_live:
  "live h (snd (MigrateUp su dsn)) = 0" "live h (snd (MigrateDown su dsn)) = 0"
  "live h (snd (MigrateForce su dsn n)) = 0" "live h (snd (MigrateVersion su dsn v)) = 0"
proof -
  have p: "snd (case p of (Some e, es) \<Rightarrow> (Inl e, es) | (None, es) \<Rightarrow> (Inr v, es)) = snd p"
    for p :: "string option \<times> su_step list"
    by (cases p; cases "fst p") simp_all
  show "live h (snd (MigrateUp su dsn)) = 0" "live h (snd (MigrateDown su dsn)) = 0"
    "live h (snd (MigrateForce su dsn n)) = 0" "live h (snd (MigrateVersion su dsn v)) = 0"
    unfolding MigrateUp_def MigrateDown_def MigrateForce_def MigrateVersion_def p by (rule with_migrate_live)+
qed

lemma runMigrate_live: "live h (snd (runMigrate su cfg quote v args)) = 0"
proof (cases args)
  case (Cons cmd rest)
  have p: "snd (case p of (Inl e, es) \<Rightarrow> (Some e, es) | (Inr x, es) \<Rightarrow> (None, es)) = snd p"
    for p :: "(string + nat \<times> bool) \<times> su_step list"
    by (cases p; cases "fst p") simp_all
  show ?thesis
    unfolding runMigrate_def Let_def Cons list.case if_distrib [of snd] if_distrib [of "live h"] p commands_live
    by (simp add: commands_live split: list.split prod.split)
qed (simp add: runMigrate_def Let_def)

lemma sentinel_live:
  "Redis_ConnectWithSentinel su m addrs url = (r, es) \<Longrightarrow>
     live h es = (case r of Inl _ \<Rightarrow> 0 | Inr k \<Rightarrow> of_bool (k = h))"
  by (auto simp: Redis_ConnectWithSentinel_def Let_def split: if_splits option.splits)

text \<open>The single-node dial does not close its client when the ping or the set-up of the streams fails.\<close>

lemma Redis_Connect_leaks:
  "su (SParseURL url) = None \<Longrightarrow> su (SPing RedisClient) = Some t \<Longrightarrow>
     \<exists>e. fst (Redis_Connect su url) = Inl e \<and> live RedisClient (snd (Redis_Connect su url)) = 1"
  by (simp add: Redis_Connect_def Let_def)

text \<open>When Redis cannot be reached no process reports it: they all end in a nil dereference.\<close>

lemma unreachable_redis_panics:
  "fst (dial_redis su (ConnectFromConfig (RedisURI cfg) (RedisSentinels cfg) (RedisMasterName cfg))) = Inl e \<Longrightarrow>
     fst (start_process su redisText dbText cfg) = RunPanics"
  by (auto simp: start_process_def split: prod.split)

subsection \<open>What \<open>redact\<close> hides\<close>

lemma index_of_char: "index_of s [c] = (if c \<in> set s then Some (length (takeWhile (\<lambda>x. x \<noteq> c) s)) else None)"
  by (induction s) auto

lemma index_of_scheme:
  "CHR '':'' \<notin> set scheme \<Longrightarrow> index_of (scheme @ ''://'' @ rest) ''://'' = Some (length scheme)"
  by (induction scheme) auto

text \<open>
  Of a URL the credentials are hidden up to the first \<open>@\<close>, so a password without one is hidden
  and one that contains it is shown from there on; a connection string without an \<open>@\<close> (the
  keyword form) is shown as it is, its password included.
\<close>

theorem redact_exact:
  assumes "CHR ''@'' \<notin> set scheme" and "CHR '':'' \<notin> set scheme" and "CHR ''@'' \<notin> set cred"
  shows "redact (scheme @ ''://'' @ cred @ ''@'' @ rest) = scheme @ ''://***@'' @ rest"
    and "CHR ''@'' \<notin> set dsn \<Longrightarrow> redact dsn = dsn"
proof -
  have i: "index_of (scheme @ ''://'' @ cred @ ''@'' @ rest) ''://'' = Some (length scheme)"
    by (rule index_of_scheme [OF assms(2)])
  have a: "index_of (scheme @ ''://'' @ cred @ ''@'' @ rest) ''@'' = Some (length scheme + 3 + length cred)"
    using assms(1,3) by (simp add: index_of_char takeWhile_append)
  show "redact (scheme @ ''://'' @ cred @ ''@'' @ rest) = scheme @ ''://***@'' @ rest"
    unfolding redact_def a using i by (simp add: numeral_3_eq_3)
  show "CHR ''@'' \<notin> set dsn \<Longrightarrow> redact dsn = dsn" by (simp add: redact_def index_of_char)
qed

end
