(* ===== verification/Web_Views.thy ===== *)
theory Web_Views
  imports Queue
begin

text \<open>
  The display models of the dashboard and the functions its pages use,
  \<open>internal/web/views/types.go\<close>. A page is the value it is rendered from (\<open>view\<close>); its text is
  the component of theory \<open>Templates\<close> with that value.
\<close>

record ViewStats =
  st_Pending :: int
  st_Queued :: int
  st_Processing :: int
  st_Completed :: int
  st_Failed :: int
  st_Scheduled :: int
  st_Cancelled :: int
  st_OldestAgeSec :: int
  st_Workers :: int
  st_QueueDepth :: int

record ViewJob =
  vj_ID :: string
  vj_Status :: string
  vj_Type :: string
  vj_Queue :: string
  vj_Priority :: int
  vj_Attempt :: int
  vj_MaxRetry :: int
  vj_CreatedAt :: string
  vj_StartedAt :: string
  vj_CompletedAt :: string
  vj_ScheduledAt :: string
  vj_LastError :: string
  vj_PayloadStr :: string
  vj_IsRecurring :: bool
  vj_Cron :: string
  vj_CronTZ :: string
  vj_SeriesID :: string

record ViewEvent =
  ve_ID :: string
  ve_Old :: string
  ve_New :: string
  ve_Worker :: string
  ve_Reason :: string
  ve_At :: string

record JobForm =
  fm_Type :: string
  fm_QueueName :: string
  fm_Payload :: string
  fm_Priority :: string
  fm_MaxRetry :: string
  fm_ScheduledAt :: string
  fm_Cron :: string
  fm_CronTZ :: string

definition empty_form :: JobForm where
  "empty_form =
     \<lparr>fm_Type = [], fm_QueueName = [], fm_Payload = [], fm_Priority = [], fm_MaxRetry = [],
      fm_ScheduledAt = [], fm_Cron = [], fm_CronTZ = []\<rparr>"

definition QueueTypes :: "string list" where
  "QueueTypes = [''email'', ''file_processing'', ''exec_processing'']"

definition QueueOptions :: "(string \<times> string) list" where
  \<comment> \<open>name and type\<close>
  "QueueOptions = concat (map (\<lambda>t. [(t @ ''-high'', t), (t @ ''-low'', t)]) QueueTypes)"

definition DefaultQueue :: "string \<Rightarrow> string" where
  "DefaultQueue jobType = (if jobType = [] then hd QueueTypes else jobType) @ ''-high''"

definition QueueType :: "string \<Rightarrow> string" where
  "QueueType queue =
     (let q = TrimSpace (ToLower queue); t = TrimSuffix q ''-high'' in
      if t \<noteq> q then t else TrimSuffix q ''-low'')"

definition IsCanonicalQueue :: "string \<Rightarrow> bool" where
  "IsCanonicalQueue name = list_ex (\<lambda>q. fst q = TrimSpace (ToLower name)) QueueOptions"

definition IsLowQueue :: "string \<Rightarrow> bool" where
  "IsLowQueue queue = HasSuffix (TrimSpace (ToLower queue)) ''-low''"

definition SelectedQueue :: "JobForm \<Rightarrow> string" where
  "SelectedQueue form =
     (let q = TrimSpace (fm_QueueName form) in if q \<noteq> [] then q else DefaultQueue (fm_Type form))"

definition PriorityLabel :: "int \<Rightarrow> string" where
  "PriorityLabel priority = (if 0 < priority then ''High'' else ''Low'')"

record JobFilter =
  fl_Status :: string
  fl_SeriesID :: string
  fl_Limit :: int
  fl_Offset :: int
  fl_HasMore :: bool

definition page_query :: "string \<Rightarrow> string \<Rightarrow> int \<Rightarrow> int \<Rightarrow> string" where
  "page_query status seriesID limit offset =
     ''limit='' @ Itoa limit @ ''&offset='' @ Itoa offset @
     (if status \<noteq> [] then ''&status='' @ status else []) @
     (if seriesID \<noteq> [] then ''&series_id='' @ seriesID else [])"

definition filter_Query :: "JobFilter \<Rightarrow> string" where
  "filter_Query f = page_query (fl_Status f) (fl_SeriesID f) (fl_Limit f) (fl_Offset f)"

definition WithOffset :: "JobFilter \<Rightarrow> int \<Rightarrow> JobFilter" where
  "WithOffset f offset = f\<lparr>fl_Offset := offset\<rparr>"

definition tabLink :: "string \<Rightarrow> JobFilter \<Rightarrow> string" where
  "tabLink tab f = ''/?'' @ page_query tab (fl_SeriesID f) (fl_Limit f) 0"

definition ShortID :: "string \<Rightarrow> string" where
  "ShortID i = (if 8 < length i then take 8 i else i)"

definition view_Cancellable :: "string \<Rightarrow> bool" where
  "view_Cancellable status \<longleftrightarrow> status \<in> {''scheduled'', ''pending'', ''queued''}"

definition view_Retryable :: "string \<Rightarrow> bool" where
  "view_Retryable status \<longleftrightarrow> status = ''failed''"

definition Age :: "int \<Rightarrow> string" where
  \<comment> \<open>a negative age is below 60; the quotients are those of non-negative numbers\<close>
  "Age sec =
     (if sec < 60 then Itoa sec @ ''s''
      else if sec div 60 < 60 then Itoa (sec div 60) @ ''m''
      else Itoa (sec div 3600) @ ''h'')"

definition FilterTabs :: "string list" where
  "FilterTabs =
     [[], ''scheduled'', ''pending'', ''queued'', ''running'', ''completed'', ''failed'', ''cancelled'']"

datatype view =
    VLogin string string \<comment> \<open>email, message\<close>
  | VRegister string string string \<comment> \<open>name, email, message\<close>
  | VError int string
  | VDashboard ViewStats "ViewJob list" JobFilter string
  | VJobDetail ViewJob "ViewEvent list"
  | VJobNew JobForm string
  | VStatCards ViewStats
  | VStatsError
  | VJobTable "ViewJob list" JobFilter
  | VJobsError
  | VText string \<comment> \<open>\<open>http.Error\<close> and plain bodies\<close>

subsection \<open>The queues of the form and the streams of the broker\<close>

lemma TrimSpace_ToLower: "TrimSpace (ToLower s) = ToLower (TrimSpace s)"
proof -
  have sp: "is_space (lower_char c) = is_space c" for c
  proof (cases "65 \<le> (of_char c :: nat) \<and> (of_char c :: nat) \<le> 90")
    case True
    then have "(of_char (lower_char c) :: nat) = of_char c + 32"
      by (simp add: lower_char_def Let_def)
    then show ?thesis using True by (auto simp: is_space_def)
  next
    case False
    then show ?thesis by (auto simp: lower_char_def Let_def)
  qed
  have d: "dropWhile is_space (map lower_char xs) = map lower_char (dropWhile is_space xs)" for xs
    by (induction xs) (simp_all add: sp)
  show ?thesis by (simp add: TrimSpace_def ToLower_def d rev_map)
qed

lemma plain_types:
  "TrimSpace ''email'' = ''email''" "TrimSpace ''file_processing'' = ''file_processing''"
  "TrimSpace ''exec_processing'' = ''exec_processing''"
  "ToLower ''email'' = ''email''" "ToLower ''file_processing'' = ''file_processing''"
  "ToLower ''exec_processing'' = ''exec_processing''"
  by (simp_all add: TrimSpace_def is_space_def ToLower_def lower_char_def)

lemma tiers:
  "split_tier ''email-high'' p = (''email'', True)" "split_tier ''email-low'' p = (''email'', False)"
  "split_tier ''file_processing-high'' p = (''file_processing'', True)"
  "split_tier ''file_processing-low'' p = (''file_processing'', False)"
  "split_tier ''exec_processing-high'' p = (''exec_processing'', True)"
  "split_tier ''exec_processing-low'' p = (''exec_processing'', False)"
  by (simp_all add: split_tier_def HasSuffix_def TrimSuffix_def)

lemma plain_tiers:
  "split_tier ''email'' p = (''email'', 0 < p)" "split_tier ''file_processing'' p = (''file_processing'', 0 < p)"
  "split_tier ''exec_processing'' p = (''exec_processing'', 0 < p)"
  by (simp_all add: split_tier_def HasSuffix_def)

definition canonical_names :: "(string \<times> string \<times> bool) list" where
  \<comment> \<open>name, type, whether it is the low tier\<close>
  "canonical_names =
     [(''email-high'', ''email'', False), (''email-low'', ''email'', True),
      (''file_processing-high'', ''file_processing'', False), (''file_processing-low'', ''file_processing'', True),
      (''exec_processing-high'', ''exec_processing'', False), (''exec_processing-low'', ''exec_processing'', True)]"

lemma canonical_options: "map fst QueueOptions = map fst canonical_names"
  by (simp add: QueueOptions_def QueueTypes_def canonical_names_def)

lemma canonical_parts:
  "(n, t, l) \<in> set canonical_names \<Longrightarrow>
     (let h = TrimSuffix n ''-high'' in if h \<noteq> n then h else TrimSuffix n ''-low'') = t \<and> HasSuffix n ''-low'' = l"
  by (auto simp: canonical_names_def TrimSuffix_def HasSuffix_def)

lemma canonical_name:
  assumes "IsCanonicalQueue q"
  shows "(ToLower (TrimSpace q), QueueType q, IsLowQueue q) \<in> set canonical_names"
proof -
  have "ToLower (TrimSpace q) \<in> set (map fst QueueOptions)"
    using assms unfolding IsCanonicalQueue_def list_ex_iff TrimSpace_ToLower by force
  then obtain t l where m: "(ToLower (TrimSpace q), t, l) \<in> set canonical_names"
    unfolding canonical_options by force
  then show ?thesis
    using canonical_parts [OF m] by (simp add: QueueType_def IsLowQueue_def TrimSpace_ToLower Let_def)
qed

text \<open>
  A canonical queue is routed to the stream of its type and tier whatever the priority, so the
  form, the stored row and the broker agree on where a job goes.
\<close>

lemma canonical_routed:
  assumes "IsCanonicalQueue q"
  shows "QueueType q \<in> set QueueTypes"
    and "StreamFor q p = StreamFor (QueueType q) (if IsLowQueue q then 0 else 1)"
    and "StreamFor q p \<noteq> None"
proof -
  have c: "(ToLower (TrimSpace q), QueueType q, IsLowQueue q) \<in> set canonical_names"
    by (rule canonical_name [OF assms])
  have s: "(n, t, l) \<in> set canonical_names \<Longrightarrow>
      t \<in> set QueueTypes \<and> split_tier n p = (t, \<not> l) \<and> split_tier (ToLower (TrimSpace t)) (if l then 0 else 1) = (t, \<not> l)"
    for n t l
    by (auto simp: canonical_names_def QueueTypes_def tiers plain_tiers plain_types)
  show "QueueType q \<in> set QueueTypes" using s [OF c] by simp
  show "StreamFor q p = StreamFor (QueueType q) (if IsLowQueue q then 0 else 1)"
    using s [OF c] by (simp add: StreamFor_def)
  show "StreamFor q p \<noteq> None"
    using s [OF c] by (auto simp: StreamFor_def QueueTypes_def)
qed

end
