(* ===== verification/Web.thy ===== *)
theory Web
  imports Web_Views
begin

text \<open>
  The dashboard server, \<open>internal/web\<close>: sessions in a cookie (\<open>auth.go\<close>), the proxy to the API
  (\<open>api.go\<close>), the page handlers (\<open>handlers.go\<close>) and the routes (\<open>server.go\<close>). The API is an oracle:
  \<open>we_api\<close> answers a call with an error text or a status and a body, given the calls so far. A
  handler takes the request and the calls so far and returns the answer and the calls.
\<close>

subsection \<open>Requests, answers and the API\<close>

record web_request =
  wr_Method :: string
  wr_Path :: string
  wr_Cookie :: "string option" \<comment> \<open>the value of the cookie \<open>pmq_jwt\<close>\<close>
  wr_Query :: "string \<Rightarrow> string"
  wr_Form :: "string \<Rightarrow> string"
  wr_ParseForm :: bool \<comment> \<open>\<open>ParseForm\<close> succeeds\<close>

datatype cookie_action = SetSession string | ClearSession

record web_response =
  wp_Code :: int
  wp_Location :: "string option"
  wp_HXRedirect :: "string option"
  wp_Allow :: "string option"
  wp_Cookie :: "cookie_action option"
  wp_View :: "view option"

record api_call =
  ac_Method :: string
  ac_URL :: string
  ac_Header :: "(string \<times> string) list"
  ac_Body :: "json option"

record web_env =
  we_lib :: golib
  we_base :: string
  we_api :: "api_call list \<Rightarrow> api_call \<Rightarrow> string + int \<times> string"
  we_NewRequest :: "string \<Rightarrow> string option" \<comment> \<open>its error for a URL\<close>
  we_read_err :: "api_call list \<Rightarrow> string option"
  we_StatusText :: "int \<Rightarrow> string"
  we_decode_err :: string
  we_strings :: "(string \<times> json) list \<Rightarrow> bool" \<comment> \<open>the object decodes into a \<open>map[string]string\<close>\<close>
  we_MarshalIndent :: "(string \<times> json) list \<Rightarrow> string"
  we_Sprint :: "json \<Rightarrow> string"
  we_uuid :: "api_call list \<Rightarrow> string"
  we_ParseRFC3339 :: "string \<Rightarrow> instant option"
  we_ParseLocal :: "string \<Rightarrow> string \<Rightarrow> instant option" \<comment> \<open>layout, text\<close>
  we_FormatRFC3339 :: "instant \<Rightarrow> string"

datatype web_err = WebErr string | ApiError int string

definition web_err_text :: "web_err \<Rightarrow> string" where
  "web_err_text e =
     (case e of WebErr s \<Rightarrow> s | ApiError st msg \<Rightarrow> ''api: '' @ Itoa st @ '' '' @ msg)"

definition apiStatusOf :: "web_err \<Rightarrow> int" where
  "apiStatusOf e = (case e of WebErr _ \<Rightarrow> 0 | ApiError st _ \<Rightarrow> st)"

definition tokenFromRequest :: "web_request \<Rightarrow> string option" where
  "tokenFromRequest r =
     (case wr_Cookie r of Some v \<Rightarrow> if v = [] then None else Some v | None \<Rightarrow> None)"

definition max_api_body :: nat where "max_api_body = 2097152"

definition strVal :: "(string \<times> json) list \<Rightarrow> string \<Rightarrow> string" where
  "strVal m key = (case map_of m key of Some (JStr s) \<Rightarrow> s | _ \<Rightarrow> [])"

type_synonym calls = "api_call list"

definition api_call_of ::
  "web_env \<Rightarrow> web_request \<Rightarrow> string \<Rightarrow> string \<Rightarrow> (string \<times> string) list \<Rightarrow> json option \<Rightarrow> api_call" where
  "api_call_of we r meth path headers body =
     \<lparr>ac_Method = meth, ac_URL = we_base we @ path,
      ac_Header =
        (if body \<noteq> None then [(''Content-Type'', ''application/json'')] else []) @ headers @
        (case tokenFromRequest r of Some t \<Rightarrow> [(''Authorization'', ''Bearer '' @ t)] | None \<Rightarrow> []),
      ac_Body = body\<rparr>"

definition apiDoWithHeaders ::
  "web_env \<Rightarrow> bool \<Rightarrow> web_request \<Rightarrow> string \<Rightarrow> string \<Rightarrow> (string \<times> string) list \<Rightarrow> json option \<Rightarrow> calls \<Rightarrow>
     (web_err + (string \<times> json) list) \<times> calls" where
  \<comment> \<open>the flag: the result is decoded into a \<open>map[string]string\<close>\<close>
  "apiDoWithHeaders we strs r meth path headers body cs =
     (if body \<noteq> None \<and> json_Marshal (we_lib we) (the body) = None
      then (Inl (WebErr (''web: encode: '' @ we_decode_err we)), cs)
      else
        (case we_NewRequest we (we_base we @ path) of
           Some e \<Rightarrow> (Inl (WebErr (''web: request: '' @ e)), cs)
         | None \<Rightarrow>
             (let call = api_call_of we r meth path headers body; cs1 = cs @ [call] in
              case we_api we cs call of
                Inl e \<Rightarrow> (Inl (WebErr (''web: api unreachable: '' @ e)), cs1)
              | Inr (st, full) \<Rightarrow>
                  (let raw = take max_api_body full in
                   case we_read_err we cs1 of
                     Some e \<Rightarrow> (Inl (WebErr (''web: read: '' @ e)), cs1)
                   | None \<Rightarrow>
                       if st < 200 \<or> 300 \<le> st
                       then
                         (let m = (case json_Unmarshal_obj (we_lib we) raw of None \<Rightarrow> [] | Some o1 \<Rightarrow> strVal o1 ''error'')
                          in (Inl (ApiError st (if m = [] then we_StatusText we st else m)), cs1))
                       else if raw = [] then (Inr [], cs1)
                       else (case json_Unmarshal_obj (we_lib we) raw of
                               None \<Rightarrow> (Inl (WebErr (''web: decode: '' @ we_decode_err we)), cs1)
                             | Some o1 \<Rightarrow>
                                 if strs \<and> \<not> we_strings we o1
                                 then (Inl (WebErr (''web: decode: '' @ we_decode_err we)), cs1)
                                 else (Inr o1, cs1))))))"

definition apiDo ::
  "web_env \<Rightarrow> bool \<Rightarrow> web_request \<Rightarrow> string \<Rightarrow> string \<Rightarrow> json option \<Rightarrow> calls \<Rightarrow>
     (web_err + (string \<times> json) list) \<times> calls" where
  "apiDo we strs r meth path body cs = apiDoWithHeaders we strs r meth path [] body cs"

subsection \<open>Answers\<close>

definition page :: "int \<Rightarrow> view \<Rightarrow> web_response" where
  "page code v =
     \<lparr>wp_Code = code, wp_Location = None, wp_HXRedirect = None, wp_Allow = None, wp_Cookie = None,
      wp_View = Some v\<rparr>"

definition redirect :: "string \<Rightarrow> web_response" where
  "redirect to =
     \<lparr>wp_Code = 303, wp_Location = Some to, wp_HXRedirect = None, wp_Allow = None, wp_Cookie = None,
      wp_View = None\<rparr>"

definition redirectLogin :: web_response where
  "redirectLogin = (redirect ''/login'')\<lparr>wp_Cookie := Some ClearSession\<rparr>"

definition htmxRedirect :: "string \<Rightarrow> web_response" where
  "htmxRedirect to =
     \<lparr>wp_Code = 204, wp_Location = None, wp_HXRedirect = Some to, wp_Allow = None, wp_Cookie = None,
      wp_View = None\<rparr>"

definition bad_method :: "string \<Rightarrow> web_response" where
  "bad_method allow = (page 405 (VText ''method not allowed''))\<lparr>wp_Allow := Some allow\<rparr>"

definition not_found :: web_response where
  "not_found = page 404 (VError 404 ''page not found'')"

subsection \<open>Sessions\<close>

definition requireSession ::
  "(web_request \<Rightarrow> calls \<Rightarrow> web_response \<times> calls) \<Rightarrow> web_request \<Rightarrow> calls \<Rightarrow> web_response \<times> calls" where
  "requireSession nxt r cs =
     (case tokenFromRequest r of None \<Rightarrow> (redirect ''/login'', cs) | Some _ \<Rightarrow> nxt r cs)"

definition handleLoginPost :: "web_env \<Rightarrow> web_request \<Rightarrow> calls \<Rightarrow> web_response \<times> calls" where
  "handleLoginPost we r cs =
     (if \<not> wr_ParseForm r then (page 200 (VLogin [] ''invalid form''), cs)
      else
        (let email = wr_Form r ''email''; password = wr_Form r ''password'' in
         case apiDo we True r ''POST'' ''/v1/auth/login''
                (Some (JObj [(''email'', JStr email), (''password'', JStr password)])) cs of
           (Inl e, cs1) \<Rightarrow>
             (if apiStatusOf e = 401 then page 401 (VLogin email ''invalid credentials'')
              else page 502 (VLogin email (''login failed: '' @ web_err_text e)), cs1)
         | (Inr out, cs1) \<Rightarrow>
             ((redirect ''/'')\<lparr>wp_Cookie := Some (SetSession (strVal out ''token''))\<rparr>, cs1)))"

definition routeLogin :: "web_env \<Rightarrow> web_request \<Rightarrow> calls \<Rightarrow> web_response \<times> calls" where
  "routeLogin we r cs =
     (if wr_Method r = ''GET''
      then (case tokenFromRequest r of
              Some _ \<Rightarrow> (redirect ''/'', cs) | None \<Rightarrow> (page 200 (VLogin [] []), cs))
      else if wr_Method r = ''POST'' then handleLoginPost we r cs
      else (bad_method ''GET, POST'', cs))"

definition handleRegisterPost :: "web_env \<Rightarrow> web_request \<Rightarrow> calls \<Rightarrow> web_response \<times> calls" where
  "handleRegisterPost we r cs =
     (if \<not> wr_ParseForm r then (page 200 (VRegister [] [] ''invalid form''), cs)
      else
        (let name = wr_Form r ''name''; email = wr_Form r ''email''; password = wr_Form r ''password'' in
         case apiDo we True r ''POST'' ''/v1/auth/register''
                (Some (JObj [(''name'', JStr name), (''email'', JStr email), (''password'', JStr password)])) cs of
           (Inl e, cs1) \<Rightarrow>
             (page 400 (VRegister name email
                (case e of ApiError _ m \<Rightarrow> if m \<noteq> [] then m else ''registration failed''
                 | WebErr _ \<Rightarrow> ''registration failed'')), cs1)
         | (Inr _, cs1) \<Rightarrow>
             (case apiDo we True r ''POST'' ''/v1/auth/login''
                     (Some (JObj [(''email'', JStr email), (''password'', JStr password)])) cs1 of
                (Inl _, cs2) \<Rightarrow> (redirect ''/login'', cs2)
              | (Inr out, cs2) \<Rightarrow>
                  ((redirect ''/'')\<lparr>wp_Cookie := Some (SetSession (strVal out ''token''))\<rparr>, cs2))))"

definition routeRegister :: "web_env \<Rightarrow> web_request \<Rightarrow> calls \<Rightarrow> web_response \<times> calls" where
  "routeRegister we r cs =
     (if wr_Method r = ''GET'' then (page 200 (VRegister [] [] []), cs)
      else if wr_Method r = ''POST'' then handleRegisterPost we r cs
      else (bad_method ''GET, POST'', cs))"

definition handleLogout :: "web_request \<Rightarrow> calls \<Rightarrow> web_response \<times> calls" where
  "handleLogout r cs =
     (if wr_Method r \<notin> {''POST'', ''GET''} then (bad_method ''GET, POST'', cs) else (redirectLogin, cs))"

subsection \<open>From API objects to display models\<close>

definition numVal :: "(string \<times> json) list \<Rightarrow> string \<Rightarrow> int" where
  \<comment> \<open>decoded numbers are \<open>float64\<close>\<close>
  "numVal m key = (case map_of m key of Some (JNum n) \<Rightarrow> float_to_int n | _ \<Rightarrow> 0)"

definition statsFromMap :: "(string \<times> json) list \<Rightarrow> ViewStats" where
  "statsFromMap m =
     \<lparr>st_Pending = numVal m ''pending'', st_Queued = numVal m ''queued'',
      st_Processing = numVal m ''processing'', st_Completed = numVal m ''completed'',
      st_Failed = numVal m ''failed'', st_Scheduled = numVal m ''scheduled'',
      st_Cancelled = numVal m ''cancelled'', st_OldestAgeSec = numVal m ''pending_oldest_age_sec'',
      st_Workers = numVal m ''total_workers'', st_QueueDepth = numVal m ''queue_depth''\<rparr>"

definition jobFromMap :: "web_env \<Rightarrow> (string \<times> json) list \<Rightarrow> ViewJob" where
  "jobFromMap we m =
     \<lparr>vj_ID = strVal m ''job_id'', vj_Status = strVal m ''status'', vj_Type = strVal m ''type'',
      vj_Queue = strVal m ''queue_name'', vj_Priority = numVal m ''priority'',
      vj_Attempt = numVal m ''attempt_count'', vj_MaxRetry = numVal m ''max_retry'',
      vj_CreatedAt = strVal m ''created_at'', vj_StartedAt = strVal m ''started_at'',
      vj_CompletedAt = strVal m ''completed_at'', vj_ScheduledAt = strVal m ''scheduled_at'',
      vj_LastError = strVal m ''last_error'',
      vj_PayloadStr =
        (case map_of m ''payload'' of
           Some (JObj p) \<Rightarrow> we_MarshalIndent we p
         | Some (JStr p) \<Rightarrow> p
         | None \<Rightarrow> []
         | Some JNull \<Rightarrow> []
         | Some p \<Rightarrow> we_Sprint we p),
      vj_IsRecurring = (map_of m ''is_recurring'' = Some (JBool True)),
      vj_Cron = strVal m ''cron'', vj_CronTZ = strVal m ''cron_tz'', vj_SeriesID = strVal m ''series_id''\<rparr>"

definition objects_of :: "(string \<times> json) list \<Rightarrow> string \<Rightarrow> (string \<times> json) list list" where
  \<comment> \<open>the members of a list that are objects\<close>
  "objects_of m key =
     (case map_of m key of
        Some (JArr xs) \<Rightarrow> List.map_filter (\<lambda>x. case x of JObj o1 \<Rightarrow> Some o1 | _ \<Rightarrow> None) xs
      | _ \<Rightarrow> [])"

definition jobsFromList :: "web_env \<Rightarrow> (string \<times> json) list \<Rightarrow> ViewJob list" where
  "jobsFromList we m = map (jobFromMap we) (objects_of m ''jobs'')"

definition eventsFromList :: "(string \<times> json) list \<Rightarrow> ViewEvent list" where
  "eventsFromList m =
     map (\<lambda>em. \<lparr>ve_ID = strVal em ''event_id'', ve_Old = strVal em ''old_status'',
                ve_New = strVal em ''new_status'', ve_Worker = strVal em ''worker_id'',
                ve_Reason = strVal em ''reason'', ve_At = strVal em ''occurred_at''\<rparr>)
       (objects_of m ''events'')"

definition listQuery :: "web_request \<Rightarrow> string \<times> string \<times> int \<times> int" where
  "listQuery r =
     (wr_Query r ''status'', wr_Query r ''series_id'',
      (case Atoi (wr_Query r ''limit'') of (n, ok) \<Rightarrow> if ok \<and> 0 < n then min n 100 else 25),
      (case Atoi (wr_Query r ''offset'') of (n, ok) \<Rightarrow> if ok \<and> 0 \<le> n then n else 0))"

definition list_path :: "web_request \<Rightarrow> string" where
  "list_path r =
     (case listQuery r of (status, seriesID, limit, offset) \<Rightarrow>
        ''/v1/jobs?'' @ page_query status seriesID limit offset)"

definition list_filter :: "web_request \<Rightarrow> string \<Rightarrow> ViewJob list \<Rightarrow> JobFilter" where
  "list_filter r status js =
     (case listQuery r of (_, seriesID, limit, offset) \<Rightarrow>
        \<lparr>fl_Status = status, fl_SeriesID = seriesID, fl_Limit = limit, fl_Offset = offset,
         fl_HasMore = (int (length js) = limit)\<rparr>)"

subsection \<open>Pages\<close>

definition fetchDashboard ::
  "web_env \<Rightarrow> web_request \<Rightarrow> calls \<Rightarrow> (web_err + ViewStats \<times> ViewJob list \<times> string) \<times> calls" where
  "fetchDashboard we r cs =
     (case apiDo we False r ''GET'' ''/v1/stats'' None cs of
        (Inl e, cs1) \<Rightarrow> (Inl e, cs1)
      | (Inr statsOut, cs1) \<Rightarrow>
          (case apiDo we False r ''GET'' (list_path r) None cs1 of
             (Inl e, cs2) \<Rightarrow> (Inl e, cs2)
           | (Inr listOut, cs2) \<Rightarrow>
               (Inr (statsFromMap statsOut, jobsFromList we listOut, fst (listQuery r)), cs2)))"

definition handleDashboard :: "web_env \<Rightarrow> web_request \<Rightarrow> calls \<Rightarrow> web_response \<times> calls" where
  "handleDashboard we r cs =
     (if wr_Path r \<noteq> ''/'' then (not_found, cs)
      else if wr_Method r \<noteq> ''GET'' then (bad_method ''GET'', cs)
      else
        (case fetchDashboard we r cs of
           (Inl e, cs1) \<Rightarrow>
             (if apiStatusOf e = 401 then redirectLogin
              else if apiStatusOf e = 400
              then page 200 (VDashboard (statsFromMap []) []
                     ((list_filter r [] [])\<lparr>fl_SeriesID := [], fl_HasMore := False\<rparr>) ''invalid filter'')
              else page 502 (VError 502 (''dashboard unavailable: '' @ web_err_text e)), cs1)
         | (Inr (stats, js, status), cs1) \<Rightarrow>
             (page 200 (VDashboard stats js (list_filter r status js) []), cs1)))"

definition handleJobDetail :: "web_env \<Rightarrow> web_request \<Rightarrow> string \<Rightarrow> calls \<Rightarrow> web_response \<times> calls" where
  "handleJobDetail we r i cs =
     (case apiDo we False r ''GET'' (''/v1/jobs/'' @ i) None cs of
        (Inl e, cs1) \<Rightarrow>
          (if apiStatusOf e = 401 then redirectLogin
           else if apiStatusOf e = 404 then page 404 (VError 404 ''job not found'')
           else page 502 (VError 502 ''job unavailable''), cs1)
      | (Inr jobOut, cs1) \<Rightarrow>
          (case apiDo we False r ''GET'' (''/v1/jobs/'' @ i @ ''/events'') None cs1 of
             (Inl e, cs2) \<Rightarrow>
               (if apiStatusOf e = 401 then redirectLogin
                else page 200 (VJobDetail (jobFromMap we jobOut) (eventsFromList [])), cs2)
           | (Inr eventsOut, cs2) \<Rightarrow>
               (page 200 (VJobDetail (jobFromMap we jobOut) (eventsFromList eventsOut)), cs2)))"

definition handleJobRetry :: "web_env \<Rightarrow> web_request \<Rightarrow> string \<Rightarrow> calls \<Rightarrow> web_response \<times> calls" where
  "handleJobRetry we r i cs =
     (case apiDo we False r ''POST'' (''/v1/jobs/'' @ i @ ''/retry'') None cs of
        (Inl e, cs1) \<Rightarrow> (if apiStatusOf e = 401 then redirectLogin else redirect (''/jobs/'' @ i), cs1)
      | (Inr _, cs1) \<Rightarrow> (redirect (''/jobs/'' @ i), cs1))"

definition handleJobCancel :: "web_env \<Rightarrow> web_request \<Rightarrow> string \<Rightarrow> calls \<Rightarrow> web_response \<times> calls" where
  "handleJobCancel we r i cs =
     (let series = (wr_Query r ''series'' = ''true'');
          path = ''/v1/jobs/'' @ i @ (if series then ''?series=true'' else [])
      in case apiDo we False r ''DELETE'' path None cs of
           (Inl e, cs1) \<Rightarrow> (if apiStatusOf e = 401 then redirectLogin else redirect (''/jobs/'' @ i), cs1)
         | (Inr _, cs1) \<Rightarrow> (redirect (if series then ''/'' else ''/jobs/'' @ i), cs1))"

definition routeJobSub :: "web_env \<Rightarrow> web_request \<Rightarrow> calls \<Rightarrow> web_response \<times> calls" where
  "routeJobSub we r cs =
     (case CutPrefix (wr_Path r) ''/jobs/'' of
        None \<Rightarrow> (not_found, cs)
      | Some rest \<Rightarrow>
          if rest = [] \<or> Contains rest ''/../'' then (not_found, cs)
          else (case CutChar CHR ''/'' rest of (i, sub, _) \<Rightarrow>
                  if sub = [] \<and> wr_Method r = ''GET'' then handleJobDetail we r i cs
                  else if sub = ''retry'' \<and> wr_Method r = ''POST'' then handleJobRetry we r i cs
                  else if sub = ''cancel'' \<and> wr_Method r = ''POST'' then handleJobCancel we r i cs
                  else (not_found, cs)))"

definition handleJobNew :: "web_request \<Rightarrow> calls \<Rightarrow> web_response \<times> calls" where
  "handleJobNew r cs =
     (if wr_Method r \<noteq> ''GET'' then (bad_method ''GET'', cs) else (page 200 (VJobNew empty_form []), cs))"

subsection \<open>The enqueue form\<close>

definition parseRunAt :: "web_env \<Rightarrow> string \<Rightarrow> string option" where
  "parseRunAt we v0 =
     (let v = TrimSpace v0 in
      case we_ParseRFC3339 we v of
        Some t \<Rightarrow> Some (we_FormatRFC3339 we t)
      | None \<Rightarrow>
          (case we_ParseLocal we ''2006-01-02T15:04:05'' v of
             Some t \<Rightarrow> Some (we_FormatRFC3339 we t)
           | None \<Rightarrow>
               (case we_ParseLocal we ''2006-01-02T15:04'' v of
                  Some t \<Rightarrow> Some (we_FormatRFC3339 we t) | None \<Rightarrow> None)))"

definition form_of :: "web_request \<Rightarrow> JobForm" where
  "form_of r =
     (let f = (\<lambda>k. TrimSpace (wr_Form r k)) in
      \<lparr>fm_Type = f ''type'', fm_QueueName = f ''queue_name'', fm_Payload = f ''payload'',
       fm_Priority = f ''priority'', fm_MaxRetry = f ''max_retry'', fm_ScheduledAt = f ''scheduled_at'',
       fm_Cron = f ''cron'', fm_CronTZ = f ''cron_tz''\<rparr>)"

definition form_queue :: "JobForm \<Rightarrow> string" where
  "form_queue form = (if fm_QueueName form = [] then DefaultQueue (fm_Type form) else fm_QueueName form)"

definition form_check :: "web_env \<Rightarrow> JobForm \<Rightarrow> string option" where
  \<comment> \<open>the message of the first check that fails after the payload has been read\<close>
  "form_check we form =
     (case Atoi (fm_MaxRetry form) of (n, ok) \<Rightarrow>
        if \<not> IsCanonicalQueue (form_queue form) \<or> QueueType (form_queue form) \<noteq> fm_Type form
        then Some (''queue must be one of the streams for type '' @ fm_Type form)
        else if fm_Priority form \<notin> {[], ''0'', ''1''} then Some ''priority must be 0 (low) or 1 (high)''
        else if fm_MaxRetry form \<noteq> [] \<and> (\<not> ok \<or> n < 0)
        then Some ''max retries must be a non-negative integer''
        else if fm_ScheduledAt form \<noteq> [] \<and> parseRunAt we (fm_ScheduledAt form) = None
        then Some ''run at must be a valid date and time''
        else None)"

definition form_json :: "web_env \<Rightarrow> JobForm \<Rightarrow> (string \<times> json) list \<Rightarrow> (string \<times> json) list" where
  \<comment> \<open>the text \<open>null\<close> decodes without an error and leaves the map nil, which is written as null\<close>
  "form_json we form payload =
     [(''type'', JStr (fm_Type form)),
      (''payload'', if fm_Payload form = ''null'' then JNull else JObj payload), (''queue_name'', JStr (form_queue form)),
      (''priority'', JNum (if IsLowQueue (form_queue form) then 0 else 1))] @
     (if fm_MaxRetry form \<noteq> [] then [(''max_retry'', JNum (of_int (fst (Atoi (fm_MaxRetry form)))))] else []) @
     (if fm_ScheduledAt form \<noteq> []
      then [(''scheduled_at'', JStr (the (parseRunAt we (fm_ScheduledAt form))))] else []) @
     (if fm_Cron form \<noteq> [] then [(''cron'', JStr (fm_Cron form))] else []) @
     (if fm_CronTZ form \<noteq> [] then [(''cron_tz'', JStr (fm_CronTZ form))] else [])"

definition form_body :: "web_env \<Rightarrow> JobForm \<Rightarrow> string + (string \<times> json) list" where
  \<comment> \<open>the validation of the form: a message, or the body of the API request\<close>
  "form_body we form =
     (if fm_Type form = [] then Inl ''type is required''
      else if fm_Payload form = [] then Inl ''payload is required (JSON object)''
      else
        (case json_Unmarshal_obj (we_lib we) (fm_Payload form) of
           None \<Rightarrow> Inl ''payload must be a JSON object''
         | Some payload \<Rightarrow>
             (case form_check we form of Some msg \<Rightarrow> Inl msg | None \<Rightarrow> Inr (form_json we form payload))))"

definition handleJobCreate :: "web_env \<Rightarrow> web_request \<Rightarrow> calls \<Rightarrow> web_response \<times> calls" where
  "handleJobCreate we r cs =
     (if \<not> wr_ParseForm r then (page 400 (VJobNew empty_form ''invalid form''), cs)
      else
        (let form = form_of r; fail = (\<lambda>msg. page 400 (VJobNew form msg)) in
         case form_body we form of
           Inl msg \<Rightarrow> (fail msg, cs)
         | Inr body \<Rightarrow>
             (case apiDoWithHeaders we False r ''POST'' ''/v1/jobs''
                     [(''Idempotency-Key'', we_uuid we cs)] (Some (JObj body)) cs of
                (Inl e, cs1) \<Rightarrow>
                  (if apiStatusOf e = 401 then redirectLogin
                   else if apiStatusOf e \<in> {409, 400, 413}
                   then fail (case e of ApiError _ m \<Rightarrow> if m \<noteq> [] then m else ''enqueue failed''
                              | WebErr _ \<Rightarrow> ''enqueue failed'')
                   else page 502 (VJobNew form (''enqueue failed: '' @ web_err_text e)), cs1)
              | (Inr out, cs1) \<Rightarrow> (redirect (''/jobs/'' @ strVal out ''job_id''), cs1))))"

definition routeJobs :: "web_env \<Rightarrow> web_request \<Rightarrow> calls \<Rightarrow> web_response \<times> calls" where
  "routeJobs we r cs =
     (if wr_Method r = ''GET'' then (redirect ''/'', cs)
      else if wr_Method r = ''POST'' then handleJobCreate we r cs
      else (bad_method ''GET, POST'', cs))"

subsection \<open>Fragments\<close>

definition handlePartialStats :: "web_env \<Rightarrow> web_request \<Rightarrow> calls \<Rightarrow> web_response \<times> calls" where
  "handlePartialStats we r cs =
     (if wr_Method r \<noteq> ''GET'' then (bad_method ''GET'', cs)
      else
        (case apiDo we False r ''GET'' ''/v1/stats'' None cs of
           (Inl e, cs1) \<Rightarrow>
             (if apiStatusOf e = 401 then htmxRedirect ''/login'' else page 502 VStatsError, cs1)
         | (Inr out, cs1) \<Rightarrow> (page 200 (VStatCards (statsFromMap out)), cs1)))"

definition handlePartialJobs :: "web_env \<Rightarrow> web_request \<Rightarrow> calls \<Rightarrow> web_response \<times> calls" where
  "handlePartialJobs we r cs =
     (if wr_Method r \<noteq> ''GET'' then (bad_method ''GET'', cs)
      else
        (case apiDo we False r ''GET'' (list_path r) None cs of
           (Inl e, cs1) \<Rightarrow>
             (if apiStatusOf e = 401 then htmxRedirect ''/login'' else page 502 VJobsError, cs1)
         | (Inr out, cs1) \<Rightarrow>
             (let js = jobsFromList we out in
              (page 200 (VJobTable js (list_filter r (fst (listQuery r)) js)), cs1))))"

subsection \<open>Routes\<close>

datatype web_route =
    RHealth | RStatic | RLogin | RRegister | RLogout | RJobNew | RJobs | RJobSub
  | RPartialStats | RPartialJobs | RDashboard

definition web_routes :: "(string \<times> web_route) list" where
  "web_routes =
     [(''/healthz'', RHealth), (''/login'', RLogin), (''/register'', RRegister), (''/logout'', RLogout),
      (''/jobs/new'', RJobNew), (''/jobs'', RJobs), (''/partials/stats'', RPartialStats),
      (''/partials/jobs'', RPartialJobs)]"

definition web_route :: "string \<Rightarrow> web_route" where
  \<comment> \<open>\<open>http.ServeMux\<close>: exact patterns, then the longest prefix ending in a slash\<close>
  "web_route path =
     (case map_of web_routes path of
        Some x \<Rightarrow> x
      | None \<Rightarrow>
          if HasPrefix path ''/static/'' then RStatic
          else if HasPrefix path ''/jobs/'' then RJobSub else RDashboard)"

definition web_serve :: "web_env \<Rightarrow> (string \<Rightarrow> web_response) \<Rightarrow> web_request \<Rightarrow> calls \<Rightarrow> web_response \<times> calls" where
  \<comment> \<open>\<open>static\<close> is the file server over the embedded directory\<close>
  "web_serve we static r cs =
     (case web_route (wr_Path r) of
        RHealth \<Rightarrow> (page 200 (VText ([CHR 0x7B, CHR 0x22] @ ''status'' @ [CHR 0x22] @ '':'' @ [CHR 0x22] @ ''ok'' @
                       [CHR 0x22, CHR 0x7D])), cs)
      | RStatic \<Rightarrow> (static (wr_Path r), cs)
      | RLogin \<Rightarrow> routeLogin we r cs
      | RRegister \<Rightarrow> routeRegister we r cs
      | RLogout \<Rightarrow> handleLogout r cs
      | RJobNew \<Rightarrow> requireSession handleJobNew r cs
      | RJobs \<Rightarrow> requireSession (routeJobs we) r cs
      | RJobSub \<Rightarrow> requireSession (routeJobSub we) r cs
      | RPartialStats \<Rightarrow> requireSession (handlePartialStats we) r cs
      | RPartialJobs \<Rightarrow> requireSession (handlePartialJobs we) r cs
      | RDashboard \<Rightarrow> requireSession (handleDashboard we) r cs)"

end
