(* ===== verification/Web_Props.thy ===== *)
theory Web_Props
  imports Web
begin

text \<open>
  The dashboard: which calls a browser's request makes with which identity, what happens when
  the session has expired, and that the enqueue form and the router agree.
\<close>

subsection \<open>The calls of a request\<close>

definition carries_session :: "web_env \<Rightarrow> web_request \<Rightarrow> api_call \<Rightarrow> bool" where
  "carries_session we r c =
     (case tokenFromRequest r of
        Some t \<Rightarrow> map_of (ac_Header c) ''Authorization'' = Some (''Bearer '' @ t)
      | None \<Rightarrow>
          map_of (ac_Header c) ''Authorization'' = None \<and> ac_Method c = ''POST'' \<and>
          ac_URL c \<in> {we_base we @ ''/v1/auth/login'', we_base we @ ''/v1/auth/register''})"

definition adds :: "(api_call \<Rightarrow> bool) \<Rightarrow> calls \<Rightarrow> calls \<Rightarrow> bool" where
  "adds P cs cs' \<longleftrightarrow> (\<exists>new. cs' = cs @ new \<and> list_all P new)"

lemma adds_refl [simp]: "adds P cs cs"
  by (auto simp: adds_def)

lemma adds_trans: "adds P cs cs1 \<Longrightarrow> adds P cs1 cs2 \<Longrightarrow> adds P cs cs2"
  by (auto simp: adds_def)

lemma adds_one: "P c \<Longrightarrow> adds P cs (cs @ [c])"
  by (auto simp: adds_def)

lemma apiDo_calls:
  "snd (apiDoWithHeaders we strs r meth path headers body cs) \<in> {cs, cs @ [api_call_of we r meth path headers body]}"
  by (simp add: apiDoWithHeaders_def Let_def split: option.split sum.split prod.split)

lemma session_call:
  assumes "map_of headers ''Authorization'' = None"
    and "tokenFromRequest r \<noteq> None \<or> meth = ''POST'' \<and> path \<in> {''/v1/auth/login'', ''/v1/auth/register''}"
  shows "carries_session we r (api_call_of we r meth path headers body)"
  using assms by (auto simp: carries_session_def api_call_of_def map_add_def split: option.splits)

lemma apiDoWithHeaders_adds:
  assumes "apiDoWithHeaders we strs r meth path headers body cs = (res, cs')"
    and "map_of headers ''Authorization'' = None"
    and "tokenFromRequest r \<noteq> None \<or> meth = ''POST'' \<and> path \<in> {''/v1/auth/login'', ''/v1/auth/register''}"
  shows "adds (carries_session we r) cs cs'"
  using apiDo_calls [of we strs r meth path headers body cs] assms(1) session_call [OF assms(2,3), of we body] adds_one
  by auto

lemma apiDo_adds:
  "apiDo we strs r meth path body cs = (res, cs') \<Longrightarrow>
     tokenFromRequest r \<noteq> None \<or> meth = ''POST'' \<and> path \<in> {''/v1/auth/login'', ''/v1/auth/register''} \<Longrightarrow>
     adds (carries_session we r) cs cs'"
  unfolding apiDo_def by (erule apiDoWithHeaders_adds) simp_all

lemma open_adds:
  "adds (carries_session we r) cs (snd (handleLoginPost we r cs))"
  "adds (carries_session we r) cs (snd (handleRegisterPost we r cs))"
  by (auto simp: handleLoginPost_def handleRegisterPost_def Let_def
      split: prod.split sum.split dest!: apiDo_adds intro: adds_trans)

lemma session_adds:
  assumes "tokenFromRequest r \<noteq> None"
  shows "adds (carries_session we r) cs (snd (handleDashboard we r cs))"
    "adds (carries_session we r) cs (snd (handleJobDetail we r i cs))"
    "adds (carries_session we r) cs (snd (handleJobRetry we r i cs))"
    "adds (carries_session we r) cs (snd (handleJobCancel we r i cs))"
    "adds (carries_session we r) cs (snd (handleJobCreate we r cs))"
    "adds (carries_session we r) cs (snd (handlePartialStats we r cs))"
    "adds (carries_session we r) cs (snd (handlePartialJobs we r cs))"
proof -
  note a = apiDo_adds [OF _ disjI1 [OF assms]]
  note h = apiDoWithHeaders_adds [OF _ _ disjI1 [OF assms]]
  show "adds (carries_session we r) cs (snd (handleDashboard we r cs))"
    by (auto simp: handleDashboard_def fetchDashboard_def split: prod.split sum.split dest!: a intro: adds_trans)
  show "adds (carries_session we r) cs (snd (handleJobDetail we r i cs))"
    by (auto simp: handleJobDetail_def split: prod.split sum.split dest!: a intro: adds_trans)
  show "adds (carries_session we r) cs (snd (handleJobRetry we r i cs))"
    "adds (carries_session we r) cs (snd (handleJobCancel we r i cs))"
    by (auto simp: handleJobRetry_def handleJobCancel_def Let_def split: prod.split sum.split dest!: a)
  show "adds (carries_session we r) cs (snd (handleJobCreate we r cs))"
    by (auto simp: handleJobCreate_def Let_def split: prod.split sum.split dest!: h)
  show "adds (carries_session we r) cs (snd (handlePartialStats we r cs))"
    "adds (carries_session we r) cs (snd (handlePartialJobs we r cs))"
    by (auto simp: handlePartialStats_def handlePartialJobs_def Let_def split: prod.split sum.split dest!: a)
qed

text \<open>C33. The dashboard acts only for the session of the request: every call a request makes to
  the API carries the token of its cookie and no other; a request without a session makes no
  call except those of the login and registration forms, which carry no token; and outside these
  forms, the health check, static files and logout it is sent to the login page.\<close>

theorem web_calls_carry_session:
  "(\<exists>new. snd (web_serve we static r cs) = cs @ new \<and> list_all (carries_session we r) new) \<and>
   (tokenFromRequest r = None \<and> web_route (wr_Path r) \<notin> {RHealth, RStatic, RLogin, RRegister, RLogout} \<longrightarrow>
      web_serve we static r cs = (redirect ''/login'', cs))"
proof -
  have sub: "adds (carries_session we r) cs (snd (routeJobSub we r cs))" if "tokenFromRequest r \<noteq> None"
    using session_adds [OF that] by (auto simp: routeJobSub_def split: option.split prod.split)
  have jobs: "adds (carries_session we r) cs (snd (routeJobs we r cs))" if "tokenFromRequest r \<noteq> None"
    using session_adds [OF that] by (auto simp: routeJobs_def)
  have forms: "adds (carries_session we r) cs (snd (routeLogin we r cs))"
    "adds (carries_session we r) cs (snd (routeRegister we r cs))"
    using open_adds by (auto simp: routeLogin_def routeRegister_def split: option.split)
  have "adds (carries_session we r) cs (snd (web_serve we static r cs))"
    using sub jobs forms session_adds
    by (cases "web_route (wr_Path r)"; cases "tokenFromRequest r")
      (simp_all add: web_serve_def requireSession_def handleJobNew_def handleLogout_def)
  moreover have "web_serve we static r cs = (redirect ''/login'', cs)"
    if "tokenFromRequest r = None" "web_route (wr_Path r) \<notin> {RHealth, RStatic, RLogin, RRegister, RLogout}"
    using that by (cases "web_route (wr_Path r)") (simp_all add: web_serve_def requireSession_def)
  ultimately show ?thesis by (simp add: adds_def)
qed

definition demo_web :: web_env where
  \<comment> \<open>an API that answers every call with 200 and an empty body\<close>
  "demo_web =
     \<lparr>we_lib = demo_lib, we_base = ''http://a'', we_api = (\<lambda>cs c. Inr (200, [])), we_NewRequest = (\<lambda>u. None),
      we_read_err = (\<lambda>cs. None), we_StatusText = (\<lambda>n. []), we_decode_err = [], we_strings = (\<lambda>o1. True),
      we_MarshalIndent = (\<lambda>o1. []), we_Sprint = (\<lambda>j. []), we_uuid = (\<lambda>cs. ''u''), we_ParseRFC3339 = (\<lambda>s. None),
      we_ParseLocal = (\<lambda>l s. None), we_FormatRFC3339 = (\<lambda>t. [])\<rparr>"

definition anonymous :: "string \<Rightarrow> web_request" where
  "anonymous path =
     \<lparr>wr_Method = ''GET'', wr_Path = path, wr_Cookie = None, wr_Query = (\<lambda>k. []), wr_Form = (\<lambda>k. []),
      wr_ParseForm = True\<rparr>"

lemma web_calls_carry_session_witness:
  "web_serve demo_web (\<lambda>f. page 200 (VText f)) (anonymous ''/jobs/5'') [] = (redirect ''/login'', [])"
proof -
  have "tokenFromRequest (anonymous ''/jobs/5'') = None" by code_simp
  moreover have "web_route (wr_Path (anonymous ''/jobs/5'')) = RJobSub" by code_simp
  ultimately show ?thesis
    using web_calls_carry_session [of demo_web "\<lambda>f. page 200 (VText f)" "anonymous ''/jobs/5''" "[]"] by simp
qed

subsection \<open>Expired sessions\<close>

text \<open>
  When the API refuses the session of a page request, the browser is sent to the login page:
  a full page by a redirect that clears the cookie, a fragment by htmx's own redirect.
\<close>

definition refused :: "web_env \<Rightarrow> bool" where
  \<comment> \<open>the API answers every call with 401\<close>
  "refused we \<longleftrightarrow> (\<forall>cs c. \<exists>b. we_api we cs c = Inr (401, b)) \<and> we_read_err we = (\<lambda>cs. None)"

lemma apiDo_401:
  assumes "refused we" and "apiDoWithHeaders we strs r meth path headers body cs = (res, cs1)"
  shows "\<exists>e. res = Inl e \<and> (cs1 = cs \<or> apiStatusOf e = 401)"
proof -
  obtain b where "we_api we cs (api_call_of we r meth path headers body) = Inr (401, b)"
    using assms(1) unfolding refused_def by blast
  moreover have "we_read_err we = (\<lambda>cs. None)"
    using assms(1) by (simp add: refused_def)
  ultimately show ?thesis
    using assms(2) unfolding apiDoWithHeaders_def
    by (auto simp: Let_def apiStatusOf_def split: if_splits option.splits)
qed

lemma expired_pages:
  assumes "refused we"
  shows "handleDashboard we r cs = (resp, cs') \<Longrightarrow> cs' = cs \<or> resp = redirectLogin"
    "handleJobDetail we r i cs = (resp, cs') \<Longrightarrow> cs' = cs \<or> resp = redirectLogin"
    "handleJobRetry we r i cs = (resp, cs') \<Longrightarrow> cs' = cs \<or> resp = redirectLogin"
    "handleJobCancel we r i cs = (resp, cs') \<Longrightarrow> cs' = cs \<or> resp = redirectLogin"
    "handleJobCreate we r cs = (resp, cs') \<Longrightarrow> cs' = cs \<or> resp = redirectLogin"
    "handlePartialStats we r cs = (resp, cs') \<Longrightarrow> cs' = cs \<or> resp = htmxRedirect ''/login''"
    "handlePartialJobs we r cs = (resp, cs') \<Longrightarrow> cs' = cs \<or> resp = htmxRedirect ''/login''"
proof -
  note a = apiDo_401 [OF assms]
  show "handleDashboard we r cs = (resp, cs') \<Longrightarrow> cs' = cs \<or> resp = redirectLogin"
    by (auto simp: handleDashboard_def fetchDashboard_def apiDo_def split: if_splits prod.splits sum.splits dest!: a)
  show "handleJobDetail we r i cs = (resp, cs') \<Longrightarrow> cs' = cs \<or> resp = redirectLogin"
    by (auto simp: handleJobDetail_def apiDo_def split: if_splits prod.splits sum.splits dest!: a)
  show "handleJobRetry we r i cs = (resp, cs') \<Longrightarrow> cs' = cs \<or> resp = redirectLogin"
    by (auto simp: handleJobRetry_def apiDo_def split: if_splits prod.splits sum.splits dest!: a)
  show "handleJobCancel we r i cs = (resp, cs') \<Longrightarrow> cs' = cs \<or> resp = redirectLogin"
    by (auto simp: handleJobCancel_def apiDo_def Let_def split: if_splits prod.splits sum.splits dest!: a)
  show "handleJobCreate we r cs = (resp, cs') \<Longrightarrow> cs' = cs \<or> resp = redirectLogin"
    by (auto simp: handleJobCreate_def Let_def split: if_splits prod.splits sum.splits dest!: a)
  show "handlePartialStats we r cs = (resp, cs') \<Longrightarrow> cs' = cs \<or> resp = htmxRedirect ''/login''"
    by (auto simp: handlePartialStats_def apiDo_def split: if_splits prod.splits sum.splits dest!: a)
  show "handlePartialJobs we r cs = (resp, cs') \<Longrightarrow> cs' = cs \<or> resp = htmxRedirect ''/login''"
    by (auto simp: handlePartialJobs_def apiDo_def Let_def split: if_splits prod.splits sum.splits dest!: a)
qed

lemma expired_session:
  assumes "refused we" and "web_route (wr_Path r) \<notin> {RLogin, RRegister}"
    and "web_serve we static r cs = (resp, cs')"
  shows "cs' = cs \<or> resp = redirectLogin \<or> resp = htmxRedirect ''/login''"
proof -
  note e = expired_pages [OF assms(1)]
  have sub: "routeJobSub we r cs = (resp, cs') \<Longrightarrow> cs' = cs \<or> resp = redirectLogin"
    by (auto simp: routeJobSub_def split: option.splits if_splits prod.splits dest: e(2-4))
  have jobs: "routeJobs we r cs = (resp, cs') \<Longrightarrow> cs' = cs \<or> resp = redirectLogin"
    by (auto simp: routeJobs_def split: if_splits dest: e(5))
  show ?thesis
    using assms(2,3)
    by (cases "web_route (wr_Path r)"; cases "tokenFromRequest r")
      (auto simp: web_serve_def requireSession_def handleJobNew_def handleLogout_def
        split: if_splits dest: sub jobs e(1,6,7))
qed

subsection \<open>The enqueue form\<close>

text \<open>C34. The form and the router agree: when a form is accepted, its type is one of the three
  offered, the queue and the priority it sends name the same tier, and the broker routes the
  stored job to the stream of that type and tier, whatever priority the row later has.\<close>

theorem form_routed:
  assumes "form_body we form = Inr body"
  shows "\<exists>q n. map_of body ''type'' = Some (JStr (fm_Type form)) \<and> fm_Type form \<in> set QueueTypes \<and>
    map_of body ''queue_name'' = Some (JStr q) \<and> map_of body ''priority'' = Some (JNum (of_int n)) \<and>
    n = (if IsLowQueue q then 0 else 1) \<and>
    StreamFor q p = StreamFor (fm_Type form) n \<and> StreamFor q p \<noteq> None"
proof -
  obtain payload where pl: "json_Unmarshal_obj (we_lib we) (fm_Payload form) = Some payload"
    "form_check we form = None" "body = form_json we form payload"
    using assms by (auto simp: form_body_def split: if_splits option.splits)
  have c: "IsCanonicalQueue (form_queue form)" "QueueType (form_queue form) = fm_Type form"
    using pl(2) by (auto simp: form_check_def split: if_splits prod.splits)
  have m: "map_of body ''type'' = Some (JStr (fm_Type form))"
    "map_of body ''queue_name'' = Some (JStr (form_queue form))"
    "map_of body ''priority'' = Some (JNum (if IsLowQueue (form_queue form) then 0 else 1))"
    unfolding pl(3) form_json_def by simp_all
  show ?thesis
    using m canonical_routed(1) [OF c(1)] canonical_routed(2,3) [OF c(1), of p] c(2)
    by (intro exI [of _ "form_queue form"] exI [of _ "if IsLowQueue (form_queue form) then 0 else (1::int)"]) auto
qed

definition demo_form :: JobForm where
  "demo_form = empty_form\<lparr>fm_Type := ''email'', fm_Payload := ''{}'', fm_QueueName := ''email-low''\<rparr>"

lemma form_routed_witness:
  "\<exists>body. form_body demo_web demo_form = Inr body \<and> fm_Type demo_form \<in> set QueueTypes"
proof -
  have "\<not> isl (form_body demo_web demo_form)" by code_simp
  then obtain body where b: "form_body demo_web demo_form = Inr body"
    by (cases "form_body demo_web demo_form") auto
  from form_routed [OF b] show ?thesis using b by blast
qed

end
