(* ===== verification/Supervisor.thy ===== *)
theory Supervisor
  imports Worker "HOL-Library.Multiset"
begin

text \<open>
  The supervisor of the worker processes, \<open>runSupervisor\<close> in \<open>internal/worker/worker.go\<close>, as a
  state machine: one process per pool, one goroutine per process that waits for it, the channel
  \<open>errCh\<close> with room for three pools, and the main loop that starts a pool again after a delay. A
  step is one of these moving, a process ending, or the context being cancelled; which one moves
  is not determined.
\<close>

subsection \<open>States\<close>

datatype sv_result = CtxErr | StartFailed string

datatype sv_main =
    Starting "string list" \<comment> \<open>the pools of \<open>poolOrder\<close> still to be started\<close>
  | Selecting \<comment> \<open>in the loop's \<open>select\<close>\<close>
  | Waiting string \<comment> \<open>in the inner \<open>select\<close>, before a restart\<close>
  | Draining \<comment> \<open>in \<open>time.Sleep\<close>, the children have been signalled\<close>
  | Returned sv_result

record supervisor =
  sv_main :: sv_main
  sv_done :: bool \<comment> \<open>the context is cancelled\<close>
  children :: "string \<rightharpoonup> nat" \<comment> \<open>the process last started for a pool\<close>
  running :: "nat \<rightharpoonup> string" \<comment> \<open>the processes that live, with their pool\<close>
  waiters :: "(string \<times> nat) multiset" \<comment> \<open>goroutines in \<open>cmd.Wait()\<close>\<close>
  senders :: "string multiset" \<comment> \<open>goroutines at \<open>errCh <- pool\<close>\<close>
  errCh :: "string list"
  backoff :: "string \<Rightarrow> duration" \<comment> \<open>0 for a pool without entry\<close>
  delays :: "(string \<times> duration \<times> bool) list" \<comment> \<open>the waits so far and whether the start then succeeded\<close>

definition errCh_cap :: nat where "errCh_cap = 3"

definition sv_init :: supervisor where
  "sv_init =
     \<lparr>sv_main = Starting poolOrder, sv_done = False, children = (\<lambda>_. None), running = (\<lambda>_. None), waiters = {#},
      senders = {#}, errCh = [], backoff = (\<lambda>_. 0), delays = []\<rparr>"

definition runSupervisor_init :: "getenv \<Rightarrow> supervisor option" where
  \<comment> \<open>in the test mode without children it only waits for its context\<close>
  "runSupervisor_init getenv = (if getenv ''WORKER_TEST_NOFORK'' = ''1'' then None else Some sv_init)"

subsection \<open>Its parts\<close>

definition unreaped :: "supervisor \<Rightarrow> nat set" where
  \<comment> \<open>processes nobody has waited for yet; the system does not reuse their numbers\<close>
  "unreaped s =
     snd ` set_mset (waiters s) \<union> (case sv_main s of Starting _ \<Rightarrow> ran (children s) | _ \<Rightarrow> {})"

definition fresh_pid :: "nat \<Rightarrow> supervisor \<Rightarrow> bool" where
  "fresh_pid pid s \<longleftrightarrow> running s pid = None \<and> pid \<notin> unreaped s"

definition startChild :: "string \<Rightarrow> nat \<Rightarrow> supervisor \<Rightarrow> supervisor" where
  \<comment> \<open>when \<open>cmd.Start\<close> succeeds\<close>
  "startChild pool pid s =
     s\<lparr>children := (children s)(pool \<mapsto> pid), running := (running s)(pid \<mapsto> pool)\<rparr>"

definition wait_goroutines :: "supervisor \<Rightarrow> (string \<times> nat) multiset" where
  \<comment> \<open>one for every entry of \<open>children\<close> after the first starts\<close>
  "wait_goroutines s = mset (List.map_filter (\<lambda>p. map_option (Pair p) (children s p)) poolOrder)"

definition sv_receive :: "string \<Rightarrow> supervisor \<Rightarrow> supervisor" where
  "sv_receive pool s =
     (if sv_done s then s\<lparr>sv_main := Returned CtxErr\<rparr>
      else s\<lparr>sv_main := Waiting pool, backoff := (backoff s)(pool := restart_delay (backoff s pool))\<rparr>)"

definition sv_restarted :: "string \<Rightarrow> nat \<Rightarrow> supervisor \<Rightarrow> supervisor" where
  "sv_restarted pool pid s =
     (startChild pool pid s)
       \<lparr>sv_main := Selecting, backoff := (backoff s)(pool := 0), waiters := add_mset (pool, pid) (waiters s),
        delays := delays s @ [(pool, backoff s pool, True)]\<rparr>"

definition sv_restart_failed :: "string \<Rightarrow> supervisor \<Rightarrow> supervisor" where
  "sv_restart_failed pool s =
     s\<lparr>sv_main := Selecting, senders := add_mset pool (senders s),
       delays := delays s @ [(pool, backoff s pool, False)]\<rparr>"

definition kill_children :: "supervisor \<Rightarrow> supervisor" where
  "kill_children s = s\<lparr>sv_main := Returned CtxErr, running := (running s) |` (- ran (children s))\<rparr>"

definition sv_waited :: "string \<Rightarrow> nat \<Rightarrow> supervisor \<Rightarrow> supervisor" where
  \<comment> \<open>\<open>Wait\<close> returned\<close>
  "sv_waited pool pid s =
     s\<lparr>waiters := waiters s - {#(pool, pid)#},
       senders := (if sv_done s then senders s else add_mset pool (senders s))\<rparr>"

subsection \<open>Steps\<close>

text \<open>
  \<open>cmd.Start\<close> refuses when the context is done. A process may end at any time; once the context
  is done \<open>exec.CommandContext\<close> kills it. When both branches of a \<open>select\<close> can proceed either may.
  The function's deferred \<open>cancel\<close> is part of the failing start, the only return before the
  context is done.
\<close>

inductive sv_step :: "supervisor \<Rightarrow> supervisor \<Rightarrow> bool" where
  start: "sv_main s = Starting (p # ps) \<Longrightarrow> \<not> sv_done s \<Longrightarrow> fresh_pid pid s \<Longrightarrow>
    sv_step s ((startChild p pid s)\<lparr>sv_main := Starting ps\<rparr>)"
| start_fails: "sv_main s = Starting (p # ps) \<Longrightarrow>
    sv_step s (s\<lparr>sv_main := Returned (StartFailed p), sv_done := True\<rparr>)"
| started: "sv_main s = Starting [] \<Longrightarrow>
    sv_step s (s\<lparr>sv_main := Selecting, waiters := wait_goroutines s\<rparr>)"
| process_ends: "running s pid = Some p \<Longrightarrow> sv_step s (s\<lparr>running := (running s)(pid := None)\<rparr>)"
| cancelled: "\<not> sv_done s \<Longrightarrow> sv_step s (s\<lparr>sv_done := True\<rparr>)"
| wait_returns: "(p, pid) \<in># waiters s \<Longrightarrow> running s pid = None \<Longrightarrow> sv_step s (sv_waited p pid s)"
| send: "p \<in># senders s \<Longrightarrow> length (errCh s) < errCh_cap \<Longrightarrow>
    sv_step s (s\<lparr>senders := senders s - {#p#}, errCh := errCh s @ [p]\<rparr>)"
| receive: "sv_main s = Selecting \<Longrightarrow> errCh s = p # ps \<Longrightarrow> sv_step s (sv_receive p (s\<lparr>errCh := ps\<rparr>))"
| shutdown: "sv_main s = Selecting \<Longrightarrow> sv_done s \<Longrightarrow> sv_step s (s\<lparr>sv_main := Draining\<rparr>)"
| drained: "sv_main s = Draining \<Longrightarrow> sv_step s (kill_children s)"
| restart: "sv_main s = Waiting p \<Longrightarrow> \<not> sv_done s \<Longrightarrow> fresh_pid pid s \<Longrightarrow> sv_step s (sv_restarted p pid s)"
| restart_fails: "sv_main s = Waiting p \<Longrightarrow> sv_step s (sv_restart_failed p s)"
| wait_aborted: "sv_main s = Waiting p \<Longrightarrow> sv_done s \<Longrightarrow> sv_step s (s\<lparr>sv_main := Returned CtxErr\<rparr>)"

inductive sv_reach :: "supervisor \<Rightarrow> bool" where
  init: "sv_reach sv_init"
| step: "sv_reach s \<Longrightarrow> sv_step s t \<Longrightarrow> sv_reach t"

inductive_cases sv_stepE: "sv_step s t"

subsection \<open>The invariant\<close>

definition owners :: "string \<Rightarrow> supervisor \<Rightarrow> nat" where
  \<comment> \<open>what will bring a pool back: a goroutine waiting for its process, its name on the way to the
     main loop, or the main loop about to start it\<close>
  "owners p s =
     size {#x \<in># waiters s. fst x = p#} + count (senders s) p + count_list (errCh s) p +
     (if sv_main s = Waiting p then 1 else 0)"

definition in_flight :: "supervisor \<Rightarrow> nat" where
  "in_flight s =
     size (waiters s) + size (senders s) + length (errCh s) + (case sv_main s of Waiting _ \<Rightarrow> 1 | _ \<Rightarrow> 0)"

definition starting_inv :: "supervisor \<Rightarrow> bool" where
  "starting_inv s \<longleftrightarrow>
     (\<forall>ps. sv_main s = Starting ps \<longrightarrow>
        waiters s = {#} \<and> senders s = {#} \<and> errCh s = [] \<and>
        (\<exists>qs. poolOrder = qs @ ps \<and> dom (children s) = set qs))"

definition owner_inv :: "supervisor \<Rightarrow> bool" where
  "owner_inv s \<longleftrightarrow>
     (\<forall>p. owners p s \<le> 1) \<and>
     (\<not> sv_done s \<longrightarrow> (\<exists>ps. sv_main s = Starting ps) \<or>
        sv_main s \<notin> {Draining, Returned CtxErr} \<and> (\<forall>p. sv_main s \<noteq> Returned (StartFailed p)) \<and>
        (\<forall>p\<in>set poolOrder. owners p s = 1))"

definition process_inv :: "supervisor \<Rightarrow> bool" where
  "process_inv s \<longleftrightarrow>
     (\<forall>pid p. running s pid = Some p \<longrightarrow> children s p = Some pid \<and>
        ((\<exists>ps. sv_main s = Starting ps) \<or> (\<exists>q. sv_main s = Returned (StartFailed q)) \<or> (p, pid) \<in># waiters s)) \<and>
     finite (dom (running s)) \<and> dom (children s) \<subseteq> set poolOrder \<and>
     (\<forall>p. sv_main s = Waiting p \<longrightarrow> p \<in> set poolOrder) \<and>
     fst ` set_mset (waiters s) \<union> set_mset (senders s) \<union> set (errCh s) \<subseteq> set poolOrder"

lemma distinct_poolOrder: "distinct poolOrder"
  by (simp add: poolOrder_def)

lemmas sv_defs = startChild_def sv_receive_def sv_restarted_def sv_restart_failed_def kill_children_def
  sv_waited_def

lemma starting_step: "sv_step s t \<Longrightarrow> starting_inv s \<Longrightarrow> starting_inv t"
proof (induction rule: sv_step.induct)
  case (start s p ps pid)
  then obtain qs where "poolOrder = qs @ p # ps" "dom (children s) = set qs"
    by (auto simp: starting_inv_def)
  then have "poolOrder = (qs @ [p]) @ ps \<and> dom ((children s)(p \<mapsto> pid)) = set (qs @ [p])" by auto
  then have "\<exists>qs. poolOrder = qs @ ps \<and> dom ((children s)(p \<mapsto> pid)) = set qs" by blast
  then show ?case using start by (simp add: starting_inv_def startChild_def)
qed (auto simp: starting_inv_def sv_defs)

lemma wait_goroutines_all:
  assumes "dom (children s) = set poolOrder"
  shows "wait_goroutines s = mset (map (\<lambda>p. (p, the (children s p))) poolOrder)"
proof -
  have "List.map_filter (\<lambda>p. map_option (Pair p) (children s p)) ps = map (\<lambda>p. (p, the (children s p))) ps"
    if "set ps \<subseteq> dom (children s)" for ps
    using that by (induction ps) (auto simp: List.map_filter_simps)
  then show ?thesis using assms by (simp add: wait_goroutines_def)
qed

lemma goroutine_per_pool:
  assumes "dom (children s) = set poolOrder"
  shows "size {#x \<in># wait_goroutines s. fst x = p#} = (if p \<in> set poolOrder then 1 else 0)"
  unfolding wait_goroutines_all [OF assms] by (auto simp: poolOrder_def)

lemma owners_step:
  "sv_step s t \<Longrightarrow> starting_inv s \<Longrightarrow> owner_inv s \<Longrightarrow> owner_inv t"
proof (induction rule: sv_step.induct)
  case (started s)
  then have "dom (children s) = set poolOrder" "senders s = {#}" "errCh s = []"
    by (auto simp: starting_inv_def)
  then have "owners p (s\<lparr>sv_main := Selecting, waiters := wait_goroutines s\<rparr>) =
      (if p \<in> set poolOrder then 1 else 0)" for p
    using goroutine_per_pool [of s p] by (simp add: owners_def wait_goroutines_def)
  then show ?case by (simp add: owner_inv_def)
next
  case (wait_returns p pid s)
  then obtain W where W: "waiters s = add_mset (p, pid) W" by (blast dest: multi_member_split)
  have "owners q (sv_waited p pid s) = (if sv_done s \<and> p = q then owners q s - 1 else owners q s)" for q
    by (simp add: owners_def sv_waited_def W)
  then show ?case using wait_returns by (auto simp: owner_inv_def sv_waited_def le_diff_conv)
next
  case (send p s)
  then obtain S where S: "senders s = add_mset p S" by (blast dest: multi_member_split)
  have "owners q (s\<lparr>senders := senders s - {#p#}, errCh := errCh s @ [p]\<rparr>) = owners q s" for q
    by (simp add: owners_def S)
  then show ?case using send by (auto simp: owner_inv_def)
next
  case (receive s p ps)
  have "owners q (sv_receive p (s\<lparr>errCh := ps\<rparr>)) = (if sv_done s \<and> p = q then owners q s - 1 else owners q s)" for q
    using receive by (simp add: owners_def sv_receive_def)
  then show ?case using receive by (auto simp: owner_inv_def sv_receive_def le_diff_conv)
next
  case (restart s p pid)
  have "owners q (sv_restarted p pid s) = owners q s" for q
    using restart by (simp add: owners_def sv_restarted_def startChild_def)
  then show ?case using restart by (auto simp: owner_inv_def sv_restarted_def startChild_def)
next
  case (restart_fails s p)
  have "owners q (sv_restart_failed p s) = owners q s" for q
    using restart_fails by (simp add: owners_def sv_restart_failed_def)
  then show ?case using restart_fails by (auto simp: owner_inv_def sv_restart_failed_def)
next
  case (wait_aborted s p)
  have "owners q (s\<lparr>sv_main := Returned CtxErr\<rparr>) \<le> owners q s" for q by (simp add: owners_def)
  then show ?case using wait_aborted by (auto simp: owner_inv_def intro: order_trans)
qed (auto simp: owner_inv_def owners_def startChild_def kill_children_def starting_inv_def)

lemma in_flight_step: "sv_step s t \<Longrightarrow> starting_inv s \<Longrightarrow> in_flight s \<le> 3 \<Longrightarrow> in_flight t \<le> 3"
proof (induction rule: sv_step.induct)
  case (started s)
  then have "dom (children s) = set poolOrder" "senders s = {#}" "errCh s = []"
    by (auto simp: starting_inv_def)
  then show ?case by (simp add: in_flight_def wait_goroutines_all poolOrder_def)
next
  case (wait_returns p pid s)
  then obtain W where "waiters s = add_mset (p, pid) W" by (blast dest: multi_member_split)
  then show ?case using wait_returns by (simp add: in_flight_def sv_waited_def)
next
  case (send p s)
  then obtain S where "senders s = add_mset p S" by (blast dest: multi_member_split)
  then show ?case using send by (simp add: in_flight_def)
qed (auto simp: in_flight_def sv_defs)

lemma process_step:
  "sv_step s t \<Longrightarrow> starting_inv s \<Longrightarrow> owner_inv s \<Longrightarrow> process_inv s \<Longrightarrow> process_inv t"
proof (induction rule: sv_step.induct)
  case (start s p ps pid)
  then obtain qs where q: "poolOrder = qs @ p # ps" "dom (children s) = set qs"
    by (auto simp: starting_inv_def)
  then have p: "p \<in> set poolOrder" "children s p = None"
    using distinct_poolOrder by (auto simp: q(1) domIff set_eq_iff)
  then have "\<forall>i. running s i \<noteq> Some p" using start(6) by (auto simp: process_inv_def)
  then show ?case using start p by (auto simp: process_inv_def startChild_def)
next
  case (started s)
  then have d: "dom (children s) = set poolOrder" by (auto simp: starting_inv_def)
  then have "children s p = Some pid \<Longrightarrow> (p, pid) \<in># wait_goroutines s" for p pid
    by (force simp: wait_goroutines_all)
  moreover have "fst ` set_mset (wait_goroutines s) \<subseteq> set poolOrder" using d by (auto simp: wait_goroutines_all)
  ultimately show ?case using started by (auto simp: process_inv_def starting_inv_def)
next
  case (wait_returns p pid s)
  then obtain W where W: "waiters s = add_mset (p, pid) W" by (blast dest: multi_member_split)
  then show ?case using wait_returns by (fastforce simp: process_inv_def sv_waited_def)
next
  case (send p s)
  then show ?case by (auto simp: process_inv_def dest: in_diffD)
next
  case (restart s p pid)
  have "size {#x \<in># waiters s. fst x = p#} = 0"
    using restart(1,5) by (auto simp: owner_inv_def owners_def dest!: spec [of _ p])
  then have "(p, i) \<notin># {#x \<in># waiters s. fst x = p#}" for i by (simp only: size_eq_0_iff_empty) simp
  then have "(p, i) \<notin># waiters s" for i unfolding set_mset_filter by simp
  then have "\<forall>i. running s i \<noteq> Some p" using restart(1,6) by (auto simp: process_inv_def)
  then show ?case using restart by (auto simp: process_inv_def sv_restarted_def startChild_def)
next
  case (drained s)
  then show ?case by (auto simp: process_inv_def kill_children_def restrict_map_def dom_def
        split: if_splits elim!: finite_subset [rotated])
qed (auto simp: process_inv_def sv_defs starting_inv_def)

subsection \<open>Delays\<close>

definition outcomes :: "string \<Rightarrow> supervisor \<Rightarrow> bool list" where
  "outcomes p s = map (snd \<circ> snd) (filter (\<lambda>x. fst x = p) (delays s))"

definition waited :: "string \<Rightarrow> supervisor \<Rightarrow> duration list" where
  "waited p s = map (fst \<circ> snd) (filter (\<lambda>x. fst x = p) (delays s))"

definition backoff_after :: "bool list \<Rightarrow> duration" where
  "backoff_after oks = foldl (\<lambda>d ok. snd (supervise ok d)) 0 oks"

lemma restart_delays_snoc:
  "restart_delays (oks @ [ok]) d = restart_delays oks d @ [restart_delay (foldl (\<lambda>d ok. snd (supervise ok d)) d oks)]"
  by (induction oks arbitrary: d) (simp_all add: supervise_def)

definition delay_inv :: "supervisor \<Rightarrow> bool" where
  "delay_inv s \<longleftrightarrow>
     (\<forall>p. waited p s = restart_delays (outcomes p s) 0) \<and>
     ((\<forall>r. sv_main s \<noteq> Returned r) \<longrightarrow>
        (\<forall>p. backoff s p = (let d = backoff_after (outcomes p s) in
           if sv_main s = Waiting p then restart_delay d else d)))"

lemma delay_step: "sv_step s t \<Longrightarrow> delay_inv s \<Longrightarrow> delay_inv t"
proof (induction rule: sv_step.induct)
  case (restart s p pid)
  then show ?case
    by (auto simp: delay_inv_def waited_def outcomes_def sv_restarted_def startChild_def Let_def
        backoff_after_def restart_delays_snoc supervise_def)
next
  case (restart_fails s p)
  then show ?case
    by (auto simp: delay_inv_def waited_def outcomes_def sv_restart_failed_def Let_def
        backoff_after_def restart_delays_snoc supervise_def)
qed (auto simp: delay_inv_def waited_def outcomes_def startChild_def sv_receive_def kill_children_def
    sv_waited_def Let_def)

subsection \<open>Reachable states\<close>

lemma sv_reach_inv:
  "sv_reach s \<Longrightarrow> starting_inv s \<and> owner_inv s \<and> process_inv s \<and> in_flight s \<le> 3 \<and> delay_inv s"
proof (induction rule: sv_reach.induct)
  case init
  then show ?case
    by (simp add: sv_init_def starting_inv_def owner_inv_def owners_def process_inv_def in_flight_def
        delay_inv_def waited_def outcomes_def backoff_after_def)
next
  case (step s t)
  then show ?case
    using starting_step owners_step process_step in_flight_step delay_step by blast
qed

definition sv_up :: supervisor where
  \<comment> \<open>the three pools run as the processes 1, 2 and 3\<close>
  "sv_up =
     sv_init\<lparr>sv_main := Selecting, children := [''email'' \<mapsto> 1, ''file_processing'' \<mapsto> 2, ''exec_processing'' \<mapsto> 3],
       running := [1 \<mapsto> ''email'', 2 \<mapsto> ''file_processing'', 3 \<mapsto> ''exec_processing''],
       waiters := {#(''email'', 1), (''file_processing'', 2), (''exec_processing'', 3)#}\<rparr>"

lemma sv_up_reach: "sv_reach sv_up"
proof -
  let ?a = "(startChild ''email'' 1 sv_init)\<lparr>sv_main := Starting [''file_processing'', ''exec_processing'']\<rparr>"
  let ?b = "(startChild ''file_processing'' 2 ?a)\<lparr>sv_main := Starting [''exec_processing'']\<rparr>"
  let ?c = "(startChild ''exec_processing'' 3 ?b)\<lparr>sv_main := Starting []\<rparr>"
  note d = sv_init_def startChild_def fresh_pid_def unreaped_def poolOrder_def
  have a: "sv_reach ?a"
    by (rule sv_reach.step [OF sv_reach.init sv_step.start]) (simp_all add: d)
  have b: "sv_reach ?b"
    by (rule sv_reach.step [OF a sv_step.start]) (auto simp: d ran_def split: if_splits)
  have c: "sv_reach ?c"
    by (rule sv_reach.step [OF b sv_step.start]) (auto simp: d ran_def split: if_splits)
  have "sv_reach (?c\<lparr>sv_main := Selecting, waiters := wait_goroutines ?c\<rparr>)"
    by (rule sv_reach.step [OF c sv_step.started]) simp
  also have "?c\<lparr>sv_main := Selecting, waiters := wait_goroutines ?c\<rparr> = sv_up"
    by (simp add: d sv_up_def wait_goroutines_def List.map_filter_simps)
  finally show ?thesis .
qed

text \<open>A crash of the first process: its goroutine reports it and the main loop starts it again.\<close>

definition sv_again :: supervisor where
  "sv_again =
     sv_restarted ''email'' 4 (sv_receive ''email''
       ((sv_waited ''email'' 1 (sv_up\<lparr>running := (running sv_up)(1 := None)\<rparr>))\<lparr>senders := {#}, errCh := []\<rparr>))"

lemma sv_again_reach: "sv_reach sv_again"
proof -
  let ?a = "sv_up\<lparr>running := (running sv_up)(1 := None)\<rparr>"
  let ?b = "sv_waited ''email'' 1 ?a"
  let ?c = "?b\<lparr>senders := senders ?b - {#''email''#}, errCh := errCh ?b @ [''email'']\<rparr>"
  let ?d = "sv_receive ''email'' (?c\<lparr>errCh := []\<rparr>)"
  note d = sv_up_def sv_init_def sv_waited_def errCh_cap_def
  have a: "sv_reach ?a"
    by (rule sv_reach.step [OF sv_up_reach sv_step.process_ends]) (simp add: d)
  have b: "sv_reach ?b"
    by (rule sv_reach.step [OF a sv_step.wait_returns]) (simp_all add: d)
  have c: "sv_reach ?c"
    by (rule sv_reach.step [OF b sv_step.send]) (simp_all add: d)
  have e: "sv_reach ?d"
    by (rule sv_reach.step [OF c sv_step.receive]) (simp_all add: d)
  have "sv_reach (sv_restarted ''email'' 4 ?d)"
    by (rule sv_reach.step [OF e sv_step.restart]) (auto simp: d sv_receive_def fresh_pid_def unreaped_def)
  then show ?thesis by (simp add: sv_again_def d)
qed

text \<open>C35. The supervisor loses no pool and doubles none: in every reachable state of the loop, while
  the context lasts, exactly one thing will bring each pool back (a goroutine waiting for its
  process, its name on the way through the channel, or the pending restart), each pool has at
  most one live process, and no goroutine blocks on the channel.\<close>

theorem supervisor_keeps_pools:
  assumes "sv_reach s"
  shows "(\<not> sv_done s \<and> (\<forall>ps. sv_main s \<noteq> Starting ps) \<longrightarrow> (\<forall>p\<in>set poolOrder. owners p s = 1)) \<and>
    (running s i = Some p \<and> running s j = Some p \<longrightarrow> i = j) \<and>
    size (senders s) + length (errCh s) \<le> errCh_cap"
proof -
  have o: "owner_inv s" and p: "process_inv s" and f: "in_flight s \<le> 3"
    using sv_reach_inv [OF assms] by simp_all
  have k: "running s k = Some p \<Longrightarrow> children s p = Some k" for k
    using p by (simp add: process_inv_def)
  then have "running s i = Some p \<and> running s j = Some p \<longrightarrow> i = j" by (metis k option.inject)
  moreover have "size (senders s) + length (errCh s) \<le> errCh_cap" using f by (simp add: in_flight_def errCh_cap_def)
  moreover have "\<not> sv_done s \<and> (\<forall>ps. sv_main s \<noteq> Starting ps) \<longrightarrow> (\<forall>p\<in>set poolOrder. owners p s = 1)"
    using o by (auto simp: owner_inv_def)
  ultimately show ?thesis by blast
qed

lemma supervisor_keeps_pools_witness: "sv_main sv_again = Selecting \<and> owners ''email'' sv_again = 1"
proof -
  have "sv_main sv_again = Selecting" "\<not> sv_done sv_again"
    by (simp_all add: sv_again_def sv_restarted_def startChild_def sv_receive_def sv_waited_def sv_up_def sv_init_def)
  then show ?thesis
    using supervisor_keeps_pools [OF sv_again_reach, of 1 "''email''" 2] by (simp add: poolOrder_def)
qed

text \<open>The delay before each restart of a pool is \<open>restart_delays\<close> of the outcomes of its restarts
  so far: it doubles from one second to thirty only while the start itself fails. A pool whose
  process starts and then crashes is started again after one second for ever.\<close>

theorem supervisor_delays:
  assumes "sv_reach s"
  shows "waited p s = restart_delays (outcomes p s) 0 \<and>
    ((\<forall>ok\<in>set (outcomes p s). ok) \<longrightarrow> set (waited p s) \<subseteq> {second})"
proof -
  have w: "waited p s = restart_delays (outcomes p s) 0"
    using sv_reach_inv [OF assms] by (simp add: delay_inv_def)
  have "set (restart_delays oks 0) \<subseteq> {second}" if "\<forall>ok\<in>set oks. ok" for oks
    using that by (induction oks) (auto simp: supervise_def restart_delay_def)
  then show ?thesis by (simp add: w)
qed

lemma supervisor_delays_witness: "outcomes ''email'' sv_again = [True] \<and> waited ''email'' sv_again = [second]"
proof -
  have "outcomes ''email'' sv_again = [True]"
    by (simp add: outcomes_def sv_again_def sv_restarted_def startChild_def sv_receive_def sv_waited_def sv_up_def
        sv_init_def)
  then show ?thesis
    using supervisor_delays [OF sv_again_reach, of "''email''"] by (simp add: supervise_def restart_delay_def)
qed

subsection \<open>Shutdown\<close>

definition sv_weight :: "supervisor \<Rightarrow> nat" where
  "sv_weight s =
     (case sv_main s of Starting _ \<Rightarrow> 13 | Waiting _ \<Rightarrow> 6 | Selecting \<Rightarrow> 3 | Draining \<Rightarrow> 2 | Returned _ \<Rightarrow> 0) +
     card (dom (running s)) + 3 * size (waiters s) + 2 * size (senders s) + length (errCh s)"

lemma weight_step:
  "sv_step s t \<Longrightarrow> sv_done s \<Longrightarrow> starting_inv s \<Longrightarrow> finite (dom (running s)) \<Longrightarrow>
     sv_done t \<and> sv_weight t < sv_weight s"
proof (induction rule: sv_step.induct)
  case (started s)
  then have "dom (children s) = set poolOrder" "senders s = {#}" "errCh s = []"
    by (auto simp: starting_inv_def)
  then show ?case using started by (simp add: sv_weight_def wait_goroutines_all poolOrder_def starting_inv_def)
next
  case (process_ends s pid p)
  then have "pid \<in> dom (running s)" by auto
  then have "card (dom (running s) - {pid}) < card (dom (running s))"
    using process_ends by (intro card_Diff1_less)
  then show ?case using process_ends by (simp add: sv_weight_def)
next
  case (wait_returns p pid s)
  then obtain W where "waiters s = add_mset (p, pid) W" by (blast dest: multi_member_split)
  then show ?case using wait_returns by (simp add: sv_weight_def sv_waited_def)
next
  case (send p s)
  then obtain S where "senders s = add_mset p S" by (blast dest: multi_member_split)
  then show ?case using send by (simp add: sv_weight_def)
next
  case (drained s)
  have "card (dom (running s) - ran (children s)) \<le> card (dom (running s))"
    using drained by (intro card_mono) auto
  moreover have "dom (running s |` (- ran (children s))) = dom (running s) - ran (children s)"
    by (auto simp: restrict_map_def split: if_splits)
  ultimately show ?case using drained by (simp add: sv_weight_def kill_children_def)
qed (auto simp: sv_weight_def sv_receive_def sv_restart_failed_def)

text \<open>Once nothing can move any more the supervisor has returned and no process is left.\<close>

lemma stuck_shutdown:
  assumes "sv_done s" and "in_flight s \<le> 3" and stuck: "\<And>t. \<not> sv_step s t"
  shows "(\<exists>r. sv_main s = Returned r) \<and> running s = (\<lambda>_. None) \<and> waiters s = {#} \<and> senders s = {#}"
proof -
  have r: "running s pid = None" for pid
    using stuck process_ends [of s pid] by (cases "running s pid") auto
  have w: "waiters s = {#}"
    using stuck wait_returns [of _ _ s] r by (metis multiset_nonemptyE surj_pair)
  have n: "senders s = {#}"
  proof (rule ccontr)
    assume "senders s \<noteq> {#}"
    then obtain p where p: "p \<in># senders s" by blast
    then have "0 < size (senders s)" by (simp add: nonempty_has_size [symmetric]) auto
    then have "length (errCh s) < errCh_cap" using assms(2) by (simp add: in_flight_def errCh_cap_def)
    then show False using stuck send [OF p] by blast
  qed
  have "\<exists>r. sv_main s = Returned r"
  proof (cases "sv_main s")
    case (Starting ps)
    then show ?thesis using stuck start_fails [of s] started [of s] by (cases ps) blast+
  next
    case Selecting
    then show ?thesis using stuck shutdown [of s] assms(1) by blast
  next
    case (Waiting p)
    then show ?thesis using stuck restart_fails [of s p] by blast
  next
    case Draining
    then show ?thesis using stuck drained [of s] by blast
  qed blast
  then show ?thesis using r w n by auto
qed

text \<open>C36. Shutdown terminates: from a reachable state whose context is cancelled at most 25 more
  steps are possible, in every interleaving, and where they end the supervisor has returned, no
  child process lives and no goroutine is left.\<close>

theorem supervisor_shutdown_terminates:
  assumes "sv_reach s" and "sv_done s" and "(sv_step ^^ n) s t"
  shows "n \<le> 25 \<and> ((\<forall>u. \<not> sv_step t u) \<longrightarrow>
    (\<exists>r. sv_main t = Returned r) \<and> running t = (\<lambda>_. None) \<and> waiters t = {#} \<and> senders t = {#})"
proof -
  have step: "sv_reach u \<Longrightarrow> sv_done u \<Longrightarrow> (sv_step ^^ m) u v \<Longrightarrow> sv_reach v \<and> sv_done v \<and> m + sv_weight v \<le> sv_weight u"
    for m u v
  proof (induction m arbitrary: v)
    case (Suc m)
    then obtain x where x: "(sv_step ^^ m) u x" "sv_step x v" by auto
    have h: "sv_reach x" "sv_done x" "m + sv_weight x \<le> sv_weight u"
      using Suc.IH [OF Suc.prems(1,2) x(1)] by simp_all
    have "sv_done v \<and> sv_weight v < sv_weight x"
      using weight_step [OF x(2) h(2)] sv_reach_inv [OF h(1)] by (simp add: process_inv_def)
    moreover have "sv_reach v" using h(1) x(2) by (rule sv_reach.step)
    ultimately show ?case using h(3) by simp
  qed simp
  have t: "sv_reach t" "sv_done t" "n \<le> sv_weight s" using step [OF assms] by auto
  have i: "in_flight s \<le> 3" "process_inv s" "starting_inv s" using sv_reach_inv [OF assms(1)] by simp_all
  have "pid \<in> (\<lambda>p. the (children s p)) ` set poolOrder" if "running s pid = Some p" for pid p
  proof -
    have "children s p = Some pid" "dom (children s) \<subseteq> set poolOrder"
      using i(2) that unfolding process_inv_def by blast+
    then show ?thesis by (intro image_eqI [of _ _ p]) auto
  qed
  then have "dom (running s) \<subseteq> (\<lambda>p. the (children s p)) ` set poolOrder" by blast
  then have "card (dom (running s)) \<le> card ((\<lambda>p. the (children s p)) ` set poolOrder)"
    by (intro card_mono) auto
  also have "\<dots> \<le> 3" using card_image_le [of "set poolOrder" "\<lambda>p. the (children s p)"] by (simp add: poolOrder_def)
  finally have c: "card (dom (running s)) \<le> 3" .
  have "sv_weight s \<le> 25"
  proof (cases "sv_main s")
    case (Starting ps)
    then show ?thesis using i(3) c by (simp add: sv_weight_def starting_inv_def)
  qed (use i(1) c in \<open>simp_all add: sv_weight_def in_flight_def\<close>)
  moreover have "in_flight t \<le> 3" using sv_reach_inv [OF t(1)] by simp
  ultimately show ?thesis using t stuck_shutdown [OF t(2)] by (meson order_trans add_leD1)
qed

lemma supervisor_shutdown_terminates_witness:
  "\<exists>s t. sv_reach s \<and> sv_done s \<and> (sv_step ^^ 1) s t \<and> sv_main t = Draining \<and> (1::nat) \<le> 25"
proof -
  let ?s = "sv_up\<lparr>sv_done := True\<rparr>"
  have r: "sv_reach ?s"
    by (rule sv_reach.step [OF sv_up_reach sv_step.cancelled]) (simp add: sv_up_def sv_init_def)
  have "sv_step ?s (?s\<lparr>sv_main := Draining\<rparr>)"
    by (rule sv_step.shutdown) (simp_all add: sv_up_def)
  then have t: "(sv_step ^^ 1) ?s (?s\<lparr>sv_main := Draining\<rparr>)" by (simp add: eq_OO)
  from supervisor_shutdown_terminates [OF r _ t] have "(1::nat) \<le> 25" by simp
  then show ?thesis using r t by (intro exI [of _ ?s] exI [of _ "?s\<lparr>sv_main := Draining\<rparr>"]) simp
qed

end
