(* ===== verification/Client.thy ===== *)
theory Client
  imports Api_Enqueue
begin

text \<open>
  The client library, \<open>pkg/client/client.go\<close>. The server is an oracle: \<open>ce_Do\<close> answers a call with
  an error text or a status and a body, given the calls so far; a method takes the calls so far and
  returns its result and the calls. A body is the tree the JSON encoder writes (\<open>raw\<close> of theory
  \<open>Http\<close>); encoder and decoder themselves are parameters.
\<close>

subsection \<open>Calls\<close>

record client =
  cl_BaseURL :: string
  cl_Token :: string

record http_call =
  hc_Method :: string
  hc_URL :: string
  hc_Header :: "(string \<times> string) list"
  hc_Body :: string

record client_env =
  ce_Marshal :: "raw \<Rightarrow> string + string" \<comment> \<open>\<open>json.Marshal\<close>: its error text or the text\<close>
  ce_NewRequest :: "string \<Rightarrow> string option" \<comment> \<open>its error for a URL\<close>
  ce_Do :: "http_call list \<Rightarrow> http_call \<Rightarrow> string + int \<times> string"
  ce_Decode :: "string \<Rightarrow> string + (string \<times> json) list" \<comment> \<open>\<open>Decode\<close> of a body into a map\<close>
  ce_Sprint :: "(string \<times> json) list \<Rightarrow> string" \<comment> \<open>\<open>%v\<close> of a map\<close>

type_synonym http_calls = "http_call list"
type_synonym 'a client_result = "(string + 'a) \<times> http_calls"

definition Encode :: "client_env \<Rightarrow> raw \<Rightarrow> string + string" where
  \<comment> \<open>\<open>json.Encoder\<close> ends a value with a line break\<close>
  "Encode ce v = (case ce_Marshal ce v of Inl e \<Rightarrow> Inl e | Inr s \<Rightarrow> Inr (s @ [CHR 0x0A]))"

definition client_call :: "client \<Rightarrow> string \<Rightarrow> string \<Rightarrow> string \<Rightarrow> (string \<times> string) list \<Rightarrow> http_call" where
  "client_call c meth path body headers =
     \<lparr>hc_Method = meth, hc_URL = TrimRightChar CHR ''/'' (cl_BaseURL c) @ path,
      hc_Header =
        fold (\<lambda>kv. AList.update (fst kv) (snd kv)) headers
          (AList.update ''Content-Type'' ''application/json'' [] @
           (if cl_Token c \<noteq> [] then [(''Authorization'', ''Bearer '' @ cl_Token c)] else [])),
      hc_Body = body\<rparr>"

definition doWithHeaders ::
  "client_env \<Rightarrow> client \<Rightarrow> string \<Rightarrow> string \<Rightarrow> raw option \<Rightarrow> (string \<times> string) list \<Rightarrow> http_calls \<Rightarrow>
     (string \<times> json) list client_result" where
  "doWithHeaders ce c meth path body headers cs =
     (case (case body of None \<Rightarrow> Inr [] | Some v \<Rightarrow> Encode ce v) of
        Inl e \<Rightarrow> (Inl (''client: encode: '' @ e), cs)
      | Inr text \<Rightarrow>
          (let call = client_call c meth path text headers in
           case ce_NewRequest ce (hc_URL call) of
             Some e \<Rightarrow> (Inl (''client: request: '' @ e), cs)
           | None \<Rightarrow>
               (case ce_Do ce cs call of
                  Inl e \<Rightarrow> (Inl (''client: do: '' @ e), cs @ [call])
                | Inr (st, full) \<Rightarrow>
                    if st < 200 \<or> 300 \<le> st
                    then
                      (let errBody = (case ce_Decode ce full of Inl _ \<Rightarrow> [] | Inr m \<Rightarrow> m) in
                       (Inl (''client: '' @ meth @ '' '' @ path @ '' -> '' @ Itoa st @ '' '' @ ce_Sprint ce errBody),
                        cs @ [call]))
                    else
                      (case ce_Decode ce full of
                         Inl e \<Rightarrow> (Inl (''client: decode: '' @ e), cs @ [call])
                       | Inr m \<Rightarrow> (Inr m, cs @ [call])))))"

definition client_do ::
  "client_env \<Rightarrow> client \<Rightarrow> string \<Rightarrow> string \<Rightarrow> raw option \<Rightarrow> http_calls \<Rightarrow> (string \<times> json) list client_result" where
  "client_do ce c meth path body cs = doWithHeaders ce c meth path body [] cs"

definition strings_of :: "(string \<times> json) list client_result \<Rightarrow> (string \<times> string) list client_result" where
  \<comment> \<open>the result decoded into a \<open>map[string]string\<close>: a null leaves the zero value\<close>
  "strings_of r =
     (case r of
        (Inl e, cs) \<Rightarrow> (Inl e, cs)
      | (Inr m, cs) \<Rightarrow>
          if list_all (\<lambda>kv. case snd kv of JStr _ \<Rightarrow> True | JNull \<Rightarrow> True | _ \<Rightarrow> False) m
          then (Inr (map (\<lambda>kv. (fst kv, case snd kv of JStr s \<Rightarrow> s | _ \<Rightarrow> [])) m), cs)
          else (Inl ''client: decode: json: cannot unmarshal into Go value of type string'', cs))"

subsection \<open>Accounts\<close>

definition str_obj :: "(string \<times> string) list \<Rightarrow> raw" where
  "str_obj kvs = RObj (map (\<lambda>kv. (fst kv, RStr (snd kv))) kvs)"

definition client_Register ::
  "client_env \<Rightarrow> client \<Rightarrow> string \<Rightarrow> string \<Rightarrow> string \<Rightarrow> http_calls \<Rightarrow> (string \<times> string) list client_result" where
  "client_Register ce c name email password cs =
     strings_of (client_do ce c ''POST'' ''/v1/auth/register''
       (Some (str_obj [(''email'', email), (''name'', name), (''password'', password)])) cs)"

definition client_Login ::
  "client_env \<Rightarrow> client \<Rightarrow> string \<Rightarrow> string \<Rightarrow> http_calls \<Rightarrow> ((string + string) \<times> http_calls) \<times> client" where
  \<comment> \<open>with the client, which keeps the token\<close>
  "client_Login ce c email password cs =
     (case strings_of (client_do ce c ''POST'' ''/v1/auth/login''
             (Some (str_obj [(''email'', email), (''password'', password)])) cs) of
        (Inl e, cs1) \<Rightarrow> ((Inl e, cs1), c)
      | (Inr out, cs1) \<Rightarrow>
          (let t = str_of out ''token'' in ((Inr t, cs1), c\<lparr>cl_Token := t\<rparr>)))"

definition client_CreateAPIKey ::
  "client_env \<Rightarrow> client \<Rightarrow> string \<Rightarrow> http_calls \<Rightarrow> (string \<times> string) list client_result" where
  "client_CreateAPIKey ce c name cs =
     strings_of (client_do ce c ''POST'' ''/v1/keys'' (Some (str_obj [(''name'', name)])) cs)"

subsection \<open>Jobs\<close>

record EnqueueRequest =
  eq_Type :: string
  eq_QueueName :: string
  eq_Payload :: "(string \<times> raw) list option" \<comment> \<open>\<open>None\<close> is a nil map\<close>
  eq_Priority :: int
  eq_MaxRetry :: int
  eq_IdempotencyKey :: string
  eq_ScheduledAt :: string
  eq_Cron :: string
  eq_CronTZ :: string

definition omit_str :: "string \<Rightarrow> string \<Rightarrow> (string \<times> raw) list" where
  \<comment> \<open>the tag \<open>omitempty\<close>\<close>
  "omit_str key s = (if s = [] then [] else [(key, RStr s)])"

definition omit_int :: "string \<Rightarrow> int \<Rightarrow> (string \<times> raw) list" where
  "omit_int key n = (if n = 0 then [] else [(key, RNum (Itoa n))])"

definition EnqueueRequest_members :: "EnqueueRequest \<Rightarrow> (string \<times> raw) list" where
  \<comment> \<open>what the encoder writes for the struct\<close>
  "EnqueueRequest_members q =
     [(''type'', RStr (eq_Type q))] @ omit_str ''queue_name'' (eq_QueueName q) @
     [(''payload'', case eq_Payload q of None \<Rightarrow> RNull | Some m \<Rightarrow> RObj m)] @
     omit_int ''priority'' (eq_Priority q) @ omit_int ''max_retry'' (eq_MaxRetry q) @
     omit_str ''idempotency_key'' (eq_IdempotencyKey q) @ omit_str ''scheduled_at'' (eq_ScheduledAt q) @
     omit_str ''cron'' (eq_Cron q) @ omit_str ''cron_tz'' (eq_CronTZ q)"

definition client_max_payload :: int where "client_max_payload = 15 * 1024"

definition key_header :: "string \<Rightarrow> (string \<times> string) list" where
  "key_header key = (if key \<noteq> [] then [(''Idempotency-Key'', key)] else [])"

definition client_Enqueue ::
  "client_env \<Rightarrow> client \<Rightarrow> EnqueueRequest \<Rightarrow> http_calls \<Rightarrow> (string \<times> json) list client_result" where
  "client_Enqueue ce c q cs =
     (case (case eq_Payload q of None \<Rightarrow> Inl [] | Some m \<Rightarrow> ce_Marshal ce (RObj m)) of
        Inr b \<Rightarrow>
          if client_max_payload < int (length b)
          then (Inl (''client: payload exceeds 15KB ('' @ Itoa (int (length b)) @ '' bytes)''), cs)
          else doWithHeaders ce c ''POST'' ''/v1/jobs'' (Some (RObj (EnqueueRequest_members q)))
                 (key_header (eq_IdempotencyKey q)) cs
      | Inl _ \<Rightarrow>
          doWithHeaders ce c ''POST'' ''/v1/jobs'' (Some (RObj (EnqueueRequest_members q)))
            (key_header (eq_IdempotencyKey q)) cs)"

definition client_GetJob ::
  "client_env \<Rightarrow> client \<Rightarrow> string \<Rightarrow> http_calls \<Rightarrow> (string \<times> json) list client_result" where
  "client_GetJob ce c jobID cs = client_do ce c ''GET'' (''/v1/jobs/'' @ jobID) None cs"

definition client_GetJobEvents ::
  "client_env \<Rightarrow> client \<Rightarrow> string \<Rightarrow> http_calls \<Rightarrow> (string \<times> json) list client_result" where
  "client_GetJobEvents ce c jobID cs = client_do ce c ''GET'' (''/v1/jobs/'' @ jobID @ ''/events'') None cs"

definition list_params :: "string \<Rightarrow> int \<Rightarrow> int \<Rightarrow> string" where
  "list_params status limit offset =
     (if status \<noteq> [] then ''status='' @ status @ ''&'' else []) @
     (if 0 < limit then ''limit='' @ Itoa limit @ ''&'' else []) @
     (if 0 < offset then ''offset='' @ Itoa offset else [])"

definition client_ListJobs ::
  "client_env \<Rightarrow> client \<Rightarrow> string \<Rightarrow> int \<Rightarrow> int \<Rightarrow> http_calls \<Rightarrow> (string \<times> json) list client_result" where
  "client_ListJobs ce c status limit offset cs =
     client_do ce c ''GET'' (''/v1/jobs?'' @ list_params status limit offset) None cs"

definition client_ListSeries ::
  "client_env \<Rightarrow> client \<Rightarrow> string \<Rightarrow> string \<Rightarrow> int \<Rightarrow> int \<Rightarrow> http_calls \<Rightarrow> (string \<times> json) list client_result" where
  "client_ListSeries ce c seriesID status limit offset cs =
     client_do ce c ''GET'' (''/v1/jobs?series_id='' @ seriesID @ ''&'' @ list_params status limit offset) None cs"

definition client_CancelSeries ::
  "client_env \<Rightarrow> client \<Rightarrow> string \<Rightarrow> bool \<Rightarrow> http_calls \<Rightarrow> (string \<times> json) list client_result" where
  "client_CancelSeries ce c jobID series cs =
     client_do ce c ''DELETE'' (''/v1/jobs/'' @ jobID @ (if series then ''?series=true'' else [])) None cs"

definition client_Cancel ::
  "client_env \<Rightarrow> client \<Rightarrow> string \<Rightarrow> http_calls \<Rightarrow> (string \<times> json) list client_result" where
  "client_Cancel ce c jobID cs = client_CancelSeries ce c jobID False cs"

definition client_RetryWithKey ::
  "client_env \<Rightarrow> client \<Rightarrow> string \<Rightarrow> string \<Rightarrow> http_calls \<Rightarrow> (string \<times> json) list client_result" where
  "client_RetryWithKey ce c jobID key cs =
     doWithHeaders ce c ''POST'' (''/v1/jobs/'' @ jobID @ ''/retry'') None (key_header key) cs"

definition client_Retry ::
  "client_env \<Rightarrow> client \<Rightarrow> string \<Rightarrow> http_calls \<Rightarrow> (string \<times> json) list client_result" where
  "client_Retry ce c jobID cs = client_RetryWithKey ce c jobID [] cs"

definition client_Stats :: "client_env \<Rightarrow> client \<Rightarrow> http_calls \<Rightarrow> (string \<times> json) list client_result" where
  "client_Stats ce c cs = client_do ce c ''GET'' ''/v1/stats'' None cs"

subsection \<open>What the server reads\<close>

definition carries :: "http_call \<Rightarrow> request \<Rightarrow> bool" where
  \<comment> \<open>the request that arrives is the call that was made\<close>
  "carries call rq \<longleftrightarrow>
     rq_Method rq = hc_Method call \<and> rq_Body rq = hc_Body call \<and>
     rq_ContentLength rq = int (length (hc_Body call)) \<and>
     (\<forall>k. rq_Header rq k = (case map_of (hc_Header call) k of Some v \<Rightarrow> v | None \<Rightarrow> []))"

text \<open>
  The encoder writes valid UTF-8: it replaces every byte of a string that is not part of an encoded
  character by U+FFFD, whose bytes are EF BF BD.
\<close>

definition continues :: "nat \<Rightarrow> nat \<Rightarrow> nat \<Rightarrow> string \<Rightarrow> bool" where
  \<comment> \<open>the next \<open>k\<close> bytes continue a character, the first of them between \<open>lo\<close> and \<open>hi\<close>\<close>
  "continues k lo hi cs \<longleftrightarrow>
     k \<le> length cs \<and> (let ns = map of_char (take k cs) :: nat list in
       lo \<le> hd ns \<and> hd ns \<le> hi \<and> list_all (\<lambda>n. 128 \<le> n \<and> n \<le> 191) (tl ns))"

fun rune_size :: "string \<Rightarrow> nat" where
  \<comment> \<open>the bytes of the character a text starts with, \<open>0\<close> when it starts with none\<close>
  "rune_size [] = 0"
| "rune_size (c # cs) =
     (let n = of_char c :: nat in
      if n < 128 then 1
      else if 194 \<le> n \<and> n \<le> 223 then (if continues 1 128 191 cs then 2 else 0)
      else if n = 224 then (if continues 2 160 191 cs then 3 else 0)
      else if n = 237 then (if continues 2 128 159 cs then 3 else 0)
      else if 225 \<le> n \<and> n \<le> 239 then (if continues 2 128 191 cs then 3 else 0)
      else if n = 240 then (if continues 3 144 191 cs then 4 else 0)
      else if 241 \<le> n \<and> n \<le> 243 then (if continues 3 128 191 cs then 4 else 0)
      else if n = 244 then (if continues 3 128 143 cs then 4 else 0)
      else 0)"

declare rune_size.simps(2) [simp del]

function to_utf8 :: "string \<Rightarrow> string" where
  "to_utf8 [] = []"
| "to_utf8 (c # cs) =
     (case rune_size (c # cs) of
        0 \<Rightarrow> [CHR 0xEF, CHR 0xBF, CHR 0xBD] @ to_utf8 cs
      | Suc k \<Rightarrow> c # take k cs @ to_utf8 (drop k cs))"
  by pat_completeness auto
termination by (relation "measure length") auto

function valid_utf8 :: "string \<Rightarrow> bool" where
  "valid_utf8 [] = True"
| "valid_utf8 (c # cs) = (case rune_size (c # cs) of 0 \<Rightarrow> False | Suc k \<Rightarrow> valid_utf8 (drop k cs))"
  by pat_completeness auto
termination by (relation "measure length") auto

fun utf8_raw :: "raw \<Rightarrow> raw" where
  "utf8_raw (RStr s) = RStr (to_utf8 s)"
| "utf8_raw (RArr vs) = RArr (map utf8_raw vs)"
| "utf8_raw (RObj kvs) = RObj (map (\<lambda>kv. (to_utf8 (fst kv), utf8_raw (snd kv))) kvs)"
| "utf8_raw v = v"

fun valid_raw :: "raw \<Rightarrow> bool" where
  "valid_raw (RStr s) = valid_utf8 s"
| "valid_raw (RArr vs) = list_all valid_raw vs"
| "valid_raw (RObj kvs) = list_all (\<lambda>kv. valid_utf8 (fst kv) \<and> valid_raw (snd kv)) kvs"
| "valid_raw v = True"

definition codec_ok :: "client_env \<Rightarrow> apilib \<Rightarrow> raw \<Rightarrow> bool" where
  \<comment> \<open>the server's scanner reads what the client's encoder writes for a tree: the tree, as valid UTF-8\<close>
  "codec_ok ce al v \<longleftrightarrow> (\<forall>s. ce_Marshal ce v = Inr s \<longrightarrow> json_Scan al (s @ [CHR 0x0A]) True = ScanValue (utf8_raw v))"

definition utf8_request :: "EnqueueRequest \<Rightarrow> EnqueueRequest" where
  "utf8_request q =
     q\<lparr>eq_Type := to_utf8 (eq_Type q), eq_QueueName := to_utf8 (eq_QueueName q),
       eq_Payload := map_option (map (\<lambda>kv. (to_utf8 (fst kv), utf8_raw (snd kv)))) (eq_Payload q),
       eq_IdempotencyKey := to_utf8 (eq_IdempotencyKey q), eq_ScheduledAt := to_utf8 (eq_ScheduledAt q),
       eq_Cron := to_utf8 (eq_Cron q), eq_CronTZ := to_utf8 (eq_CronTZ q)\<rparr>"

definition valid_request :: "EnqueueRequest \<Rightarrow> bool" where
  "valid_request q \<longleftrightarrow> valid_raw (RObj (EnqueueRequest_members q))"

lemma to_utf8_valid: "valid_utf8 s \<Longrightarrow> to_utf8 s = s"
  by (induction s rule: to_utf8.induct) (simp_all split: nat.splits)

lemma to_utf8_Nil [simp]: "to_utf8 s = [] \<longleftrightarrow> s = []"
  by (cases s) (simp_all split: nat.split)

declare to_utf8.simps(2) [simp del] and valid_utf8.simps(2) [simp del]

lemma utf8_raw_valid: "valid_raw v \<Longrightarrow> utf8_raw v = v"
  by (induction v rule: utf8_raw.induct) (auto simp: to_utf8_valid list_all_iff intro!: map_idI)

lemma utf8_members: "utf8_raw (RObj (EnqueueRequest_members q)) = RObj (EnqueueRequest_members (utf8_request q))"
proof -
  have "valid_utf8 ''type''" "valid_utf8 ''queue_name''" "valid_utf8 ''payload''" "valid_utf8 ''priority''"
    "valid_utf8 ''max_retry''" "valid_utf8 ''idempotency_key''" "valid_utf8 ''scheduled_at''" "valid_utf8 ''cron''"
    "valid_utf8 ''cron_tz''" by code_simp+
  note keys = this [THEN to_utf8_valid]
  show ?thesis
    by (cases "eq_Payload q")
      (simp_all add: EnqueueRequest_members_def utf8_request_def omit_str_def omit_int_def keys)
qed

lemma utf8_request_valid: "valid_request q \<Longrightarrow> utf8_request q = q"
proof -
  assume v: "valid_request q"
  have s: "to_utf8 (eq_Type q) = eq_Type q" "to_utf8 (eq_QueueName q) = eq_QueueName q"
    "to_utf8 (eq_IdempotencyKey q) = eq_IdempotencyKey q" "to_utf8 (eq_ScheduledAt q) = eq_ScheduledAt q"
    "to_utf8 (eq_Cron q) = eq_Cron q" "to_utf8 (eq_CronTZ q) = eq_CronTZ q"
    using v by (auto simp: valid_request_def EnqueueRequest_members_def omit_str_def to_utf8_valid split: if_splits)
  have "map (\<lambda>kv. (to_utf8 (fst kv), utf8_raw (snd kv))) m = m" if "eq_Payload q = Some m" for m
  proof -
    have "valid_raw (RObj m)" using v that by (simp add: valid_request_def EnqueueRequest_members_def)
    from utf8_raw_valid [OF this] show ?thesis by simp
  qed
  then show ?thesis using s by (cases "eq_Payload q") (simp_all add: utf8_request_def)
qed

definition request_read :: "EnqueueRequest \<Rightarrow> (string \<times> json) list option \<Rightarrow> enqueueRequest" where
  "request_read q payload =
     \<lparr>er_Type = eq_Type q, er_QueueName = eq_QueueName q, er_Payload = payload, er_Priority = eq_Priority q,
      er_MaxRetry = eq_MaxRetry q, er_IdempotencyKey = eq_IdempotencyKey q, er_ScheduledAt = eq_ScheduledAt q,
      er_Cron = eq_Cron q, er_CronTZ = eq_CronTZ q\<rparr>"

lemma map_of_omit:
  "map_of (rev (omit_str key s)) k = (if k = key \<and> s \<noteq> [] then Some (RStr s) else None)"
  "map_of (rev (omit_int key n)) k = (if k = key \<and> n \<noteq> 0 then Some (RNum (Itoa n)) else None)"
  by (simp_all add: omit_str_def omit_int_def)

lemma um_int16_Itoa: "is_int16 n \<Longrightarrow> um_int16 (RNum (Itoa n)) old = Inr n"
  by (simp add: um_int16_def int16_literal_def Atoi_Itoa is_int16_def is_int64_def)

lemma members_read:
  assumes "is_int16 (eq_Priority q)" and "is_int16 (eq_MaxRetry q)"
    and "case eq_Payload q of None \<Rightarrow> payload = None | Some m \<Rightarrow> um_map al (RObj m) None = Inr payload"
  shows "request_members al (EnqueueRequest_members q) = Inr (request_read q payload)"
proof -
  let ?m = "\<lambda>k. map_of (rev (EnqueueRequest_members q)) k"
  note m = EnqueueRequest_members_def map_of_omit map_of_append map_add_def
  have keys:
    "?m ''type'' = Some (RStr (eq_Type q))"
    "?m ''queue_name'' = (if eq_QueueName q \<noteq> [] then Some (RStr (eq_QueueName q)) else None)"
    "?m ''payload'' = Some (case eq_Payload q of None \<Rightarrow> RNull | Some m \<Rightarrow> RObj m)"
    "?m ''priority'' = (if eq_Priority q \<noteq> 0 then Some (RNum (Itoa (eq_Priority q))) else None)"
    "?m ''max_retry'' = (if eq_MaxRetry q \<noteq> 0 then Some (RNum (Itoa (eq_MaxRetry q))) else None)"
    "?m ''retry_policy'' = None" "?m ''schedule_at'' = None" "?m ''cron_expr'' = None" "?m ''timezone'' = None"
    by (simp_all add: m)
  have keys2:
    "?m ''idempotency_key'' = (if eq_IdempotencyKey q \<noteq> [] then Some (RStr (eq_IdempotencyKey q)) else None)"
    "?m ''scheduled_at'' = (if eq_ScheduledAt q \<noteq> [] then Some (RStr (eq_ScheduledAt q)) else None)"
    "?m ''cron'' = (if eq_Cron q \<noteq> [] then Some (RStr (eq_Cron q)) else None)"
    "?m ''cron_tz'' = (if eq_CronTZ q \<noteq> [] then Some (RStr (eq_CronTZ q)) else None)"
    by (simp_all add: m)
  have p: "um_field (EnqueueRequest_members q) [''payload''] (um_map al) None = Inr payload"
    using assms(3) by (cases "eq_Payload q") (simp_all add: um_field_def keys um_map_def)
  show ?thesis
    unfolding request_members_def bind_dec_def p
    by (simp add: um_field_def um_max_retry_def keys keys2 um_string_def um_int16_Itoa assms(1,2) request_read_def)
qed

lemma key_header_call:
  "map_of (hc_Header (client_call c meth path body (key_header key))) ''Idempotency-Key'' =
     (if key \<noteq> [] then Some key else None)"
  "map_of (hc_Header (client_call c meth path body (key_header key))) ''Authorization'' =
     (if cl_Token c \<noteq> [] then Some (''Bearer '' @ cl_Token c) else None)"
  by (simp_all add: client_call_def key_header_def update_conv)

lemma client_Enqueue_call:
  assumes "client_Enqueue ce c q cs = (r, cs @ [call])"
  obtains enc where "ce_Marshal ce (RObj (EnqueueRequest_members q)) = Inr enc"
    and "call = client_call c ''POST'' ''/v1/jobs'' (enc @ [CHR 0x0A]) (key_header (eq_IdempotencyKey q))"
  using assms
  by (auto simp: client_Enqueue_def doWithHeaders_def Encode_def Let_def split: sum.splits option.splits if_splits prod.splits)

text \<open>C38. Round trip of a job submission: the call \<open>Enqueue\<close> makes is decoded by the enqueue handler
  to exactly the request the caller filled in, omitted fields included, when its texts are valid UTF-8 and the body is
  not above the server's limit of 256 KB; a byte of a text that is not UTF-8 arrives as U+FFFD, which is what the
  encoder does. The call carries the client's
  token, and the key the handler uses is the caller's, trimmed unless it is blank.\<close>

theorem client_enqueue_roundtrip:
  assumes "client_Enqueue ce c q cs = (r, cs @ [call])" and "carries call rq"
    and "codec_ok ce al (RObj (EnqueueRequest_members q))" and "int (length (hc_Body call)) \<le> 262144"
    and "is_int16 (eq_Priority q)" and "is_int16 (eq_MaxRetry q)"
    and "case eq_Payload q of None \<Rightarrow> payload = None | Some m \<Rightarrow> um_map al (utf8_raw (RObj m)) None = Inr payload"
  shows "rq_Method rq = ''POST'' \<and> decodeEnqueueRequest al rq = Inr (request_read (utf8_request q) payload) \<and>
    (valid_request q \<longrightarrow> decodeEnqueueRequest al rq = Inr (request_read q payload)) \<and>
    rq_Header rq ''Authorization'' = (if cl_Token c \<noteq> [] then ''Bearer '' @ cl_Token c else []) \<and>
    er_IdempotencyKey (enqueue_normal rq (request_read (utf8_request q) payload)) =
      (if TrimSpace (eq_IdempotencyKey q) \<noteq> [] then TrimSpace (eq_IdempotencyKey q) else to_utf8 (eq_IdempotencyKey q))"
proof -
  obtain enc where t: "ce_Marshal ce (RObj (EnqueueRequest_members q)) = Inr enc"
    "call = client_call c ''POST'' ''/v1/jobs'' (enc @ [CHR 0x0A]) (key_header (eq_IdempotencyKey q))"
    by (rule client_Enqueue_call [OF assms(1)])
  have body: "hc_Body call = enc @ [CHR 0x0A]" "hc_Method call = ''POST''" by (simp_all add: t(2) client_call_def)
  have scan: "json_Scan al (enc @ [CHR 0x0A]) True = ScanValue (RObj (EnqueueRequest_members (utf8_request q)))"
    using assms(3) t(1) by (simp add: codec_ok_def utf8_members [symmetric])
  have "rq_Body rq = enc @ [CHR 0x0A]" "rq_ContentLength rq = int (length (enc @ [CHR 0x0A]))"
    using assms(2) body by (simp_all add: carries_def)
  then have "read_json al MaxEnqueueBodyBytes rq = Inr (RObj (EnqueueRequest_members (utf8_request q)))"
    using assms(4) body scan by (simp add: read_json_def Let_def MaxEnqueueBodyBytes_def)
  moreover have "is_int16 (eq_Priority (utf8_request q))" "is_int16 (eq_MaxRetry (utf8_request q))"
    using assms(5,6) by (simp_all add: utf8_request_def)
  moreover have "case eq_Payload (utf8_request q) of None \<Rightarrow> payload = None | Some m \<Rightarrow> um_map al (RObj m) None = Inr payload"
    using assms(7) by (cases "eq_Payload q") (simp_all add: utf8_request_def)
  ultimately have d: "decodeEnqueueRequest al rq = Inr (request_read (utf8_request q) payload)"
    using members_read by (simp add: decodeEnqueueRequest_def)
  have "rq_Header rq ''Authorization'' = (if cl_Token c \<noteq> [] then ''Bearer '' @ cl_Token c else [])"
    "rq_Header rq ''Idempotency-Key'' = eq_IdempotencyKey q"
    using assms(2) by (simp_all add: carries_def t(2) key_header_call)
  then show ?thesis
    using d assms(2) body utf8_request_valid [of q]
    by (simp add: carries_def enqueue_normal_def request_read_def Let_def) (simp add: utf8_request_def)
qed

definition demo_enqueue :: EnqueueRequest where
  "demo_enqueue =
     \<lparr>eq_Type = ''email'', eq_QueueName = [], eq_Payload = Some [], eq_Priority = 1, eq_MaxRetry = 0,
      eq_IdempotencyKey = ''k'', eq_ScheduledAt = [], eq_Cron = [], eq_CronTZ = []\<rparr>"

definition demo_client :: client where "demo_client = \<lparr>cl_BaseURL = ''http://a/'', cl_Token = ''t''\<rparr>"

definition demo_ce :: client_env where
  \<comment> \<open>an encoder that writes one submission, and a server that accepts everything\<close>
  "demo_ce =
     \<lparr>ce_Marshal = (\<lambda>v. if v = RObj [] then Inr ''{}''
        else if v = RObj (EnqueueRequest_members demo_enqueue) then Inr ''{.}'' else Inl ''?''),
      ce_NewRequest = (\<lambda>u. None), ce_Do = (\<lambda>cs call. Inr (201, ''{}'')), ce_Decode = (\<lambda>b. Inr []),
      ce_Sprint = (\<lambda>m. ''map[]'')\<rparr>"

definition demo_scan :: apilib where
  "demo_scan =
     \<lparr>json_Scan = (\<lambda>s e. if s = ''{.}'' @ [CHR 0x0A] then ScanValue (RObj (EnqueueRequest_members demo_enqueue)) else ScanSyntax),
      ParseFloat = (\<lambda>l. None), time_Format = (\<lambda>t. []), decode_text = [], cron_text = (\<lambda>e. []), redis_text = (\<lambda>e. [])\<rparr>"

lemma demo_enqueue_valid: "valid_request demo_enqueue"
  unfolding valid_request_def by code_simp

lemma client_enqueue_roundtrip_witness:
  "\<exists>call. snd (client_Enqueue demo_ce demo_client demo_enqueue []) = [call] \<and>
     (\<exists>rq. carries call rq \<and> decodeEnqueueRequest demo_scan rq = Inr (request_read demo_enqueue (Some [])) \<and>
       rq_Header rq ''Authorization'' = ''Bearer t'')"
proof -
  define call where "call = client_call demo_client ''POST'' ''/v1/jobs'' (''{.}'' @ [CHR 0x0A]) (key_header ''k'')"
  define rq where "rq = \<lparr>rq_Method = ''POST'', rq_Path = ''/v1/jobs'',
    rq_Header = (\<lambda>k. case map_of (hc_Header call) k of Some v \<Rightarrow> v | None \<Rightarrow> []), rq_Query = (\<lambda>k. []),
    rq_ContentLength = 4, rq_Body = ''{.}'' @ [CHR 0x0A], rq_RemoteAddr = [], rq_User = None\<rparr>"
  have ne: "RObj (EnqueueRequest_members demo_enqueue) \<noteq> RObj []" by (simp add: EnqueueRequest_members_def)
  have f: "eq_IdempotencyKey demo_enqueue = ''k''" "eq_Payload demo_enqueue = Some []"
    "eq_Priority demo_enqueue = 1" "eq_MaxRetry demo_enqueue = 0" by (simp_all add: demo_enqueue_def)
  have m: "ce_Marshal demo_ce (RObj (EnqueueRequest_members demo_enqueue)) = Inr ''{.}''"
    "ce_Marshal demo_ce (RObj []) = Inr ''{}''"
    using ne by (simp_all add: demo_ce_def)
  have e: "client_Enqueue demo_ce demo_client demo_enqueue [] = (Inr [], [] @ [call])"
    unfolding client_Enqueue_def f doWithHeaders_def Encode_def option.case m
    by (simp add: client_max_payload_def call_def Let_def) (simp add: demo_ce_def)
  have c: "carries call rq" by (simp add: carries_def rq_def call_def client_call_def)
  have v: "utf8_raw (RObj (EnqueueRequest_members demo_enqueue)) = RObj (EnqueueRequest_members demo_enqueue)"
    using demo_enqueue_valid by (intro utf8_raw_valid) (simp add: valid_request_def)
  have k: "codec_ok demo_ce demo_scan (RObj (EnqueueRequest_members demo_enqueue))"
    using ne unfolding codec_ok_def v by (simp add: m demo_scan_def)
  have p: "case eq_Payload demo_enqueue of None \<Rightarrow> Some [] = None
      | Some m \<Rightarrow> um_map demo_scan (utf8_raw (RObj m)) None = Inr (Some [])"
    by (simp add: f um_map_def)
  have l: "int (length (hc_Body call)) \<le> 262144" by (simp add: call_def client_call_def)
  have i: "is_int16 (eq_Priority demo_enqueue)" "is_int16 (eq_MaxRetry demo_enqueue)"
    by (simp_all add: f is_int16_def)
  from client_enqueue_roundtrip [OF e c k l i p] show ?thesis
    using e c demo_enqueue_valid by (auto simp: demo_client_def)
qed

end
