(* ===== verification/Cli.thy ===== *)
theory Cli
  imports Client
begin

text \<open>
  The command line, \<open>cmd/enqueue-cli/main.go\<close>: the flags of each subcommand as Go's \<open>flag\<close> package
  reads them, and one call of the client library per command. \<open>cli_env\<close> holds the client's
  environment, the variables of the process, the files, and the number and JSON parsers.
\<close>

subsection \<open>The global token flag\<close>

function token_loop :: "string list \<Rightarrow> string list \<Rightarrow> string \<Rightarrow> string list \<times> string" where
  "token_loop [] kept token = (kept, token)"
| "token_loop (a # as) kept token =
     (case CutPrefix a ''--token='' of
        Some v \<Rightarrow> token_loop as kept v
      | None \<Rightarrow>
          if a = ''--token'' \<and> as \<noteq> [] then token_loop (tl as) kept (hd as)
          else token_loop as (kept @ [a]) token)"
  by pat_completeness auto
termination by (relation "measure (\<lambda>(as, _, _). length as)") auto

definition extractTokenFlag :: "string list \<Rightarrow> string list \<times> string" where
  "extractTokenFlag args = token_loop args [] []"

subsection \<open>Flag sets\<close>

datatype flag_value = FVStr string | FVInt int | FVBool bool

type_synonym flag_set = "(string \<times> flag_value) list" \<comment> \<open>the flags with their defaults, then their values\<close>

record cli_env =
  ci_client :: client_env
  ci_Getenv :: "string \<Rightarrow> string"
  ci_ReadFile :: "string \<Rightarrow> string + string"
  ci_Unmarshal :: "string \<Rightarrow> string + (string \<times> raw) list option" \<comment> \<open>into a map; a null leaves it nil\<close>
  ci_ParseInt :: "string \<Rightarrow> string + int" \<comment> \<open>\<open>strconv.ParseInt(s, 0, 64)\<close>, with the flag package's error\<close>
  ci_Quote :: "string \<Rightarrow> string"

definition ParseBool :: "string \<Rightarrow> bool option" where
  "ParseBool s =
     (if s \<in> {''1'', ''t'', ''T'', ''true'', ''TRUE'', ''True''} then Some True
      else if s \<in> {''0'', ''f'', ''F'', ''false'', ''FALSE'', ''False''} then Some False else None)"

definition set_flag :: "cli_env \<Rightarrow> string \<Rightarrow> flag_value \<Rightarrow> string \<Rightarrow> string + flag_value" where
  "set_flag ci name old v =
     (case old of
        FVStr _ \<Rightarrow> Inr (FVStr v)
      | FVInt _ \<Rightarrow>
          (case ci_ParseInt ci v of
             Inl e \<Rightarrow> Inl (''invalid value '' @ ci_Quote ci v @ '' for flag -'' @ name @ '': '' @ e)
           | Inr n \<Rightarrow> Inr (FVInt n))
      | FVBool _ \<Rightarrow>
          (case ParseBool v of
             None \<Rightarrow> Inl (''invalid boolean value '' @ ci_Quote ci v @ '' for -'' @ name @ '': parse error'')
           | Some b \<Rightarrow> Inr (FVBool b)))"

definition split_value :: "string \<Rightarrow> string \<times> string option" where
  \<comment> \<open>\<open>name=value\<close>; the first character belongs to the name\<close>
  "split_value s =
     (let n = hd s # takeWhile (\<lambda>c. c \<noteq> CHR ''='') (tl s) in
      (n, if length n < length s then Some (drop (Suc (length n)) s) else None))"

definition flag_name :: "string \<Rightarrow> string option" where
  \<comment> \<open>what follows one or two dashes; \<open>None\<close> for an argument that is no flag\<close>
  "flag_name s =
     (if length s < 2 \<or> hd s \<noteq> CHR ''-'' then None
      else if s ! 1 = CHR ''-'' then (if length s = 2 then None else Some (drop 2 s)) else Some (drop 1 s))"

function Parse :: "cli_env \<Rightarrow> string list \<Rightarrow> flag_set \<Rightarrow> string + flag_set" where
  "Parse ci [] fs = Inr fs"
| "Parse ci (a # as) fs =
     (case flag_name a of
        None \<Rightarrow> Inr fs
      | Some nv \<Rightarrow>
          if nv = [] \<or> hd nv \<in> {CHR ''-'', CHR ''=''} then Inl (''bad flag syntax: '' @ a)
          else
            (case split_value nv of (name, v) \<Rightarrow>
               case map_of fs name of
                 None \<Rightarrow>
                   Inl (if name = ''help'' \<or> name = ''h'' then ''flag: help requested''
                        else ''flag provided but not defined: -'' @ name)
               | Some old \<Rightarrow>
                   (let isBool = (case old of FVBool _ \<Rightarrow> True | _ \<Rightarrow> False) in
                    if v = None \<and> \<not> isBool \<and> as = [] then Inl (''flag needs an argument: -'' @ name)
                    else
                      (let val = (case v of Some x \<Rightarrow> x | None \<Rightarrow> if isBool then ''true'' else hd as);
                           rest = (if v = None \<and> \<not> isBool then tl as else as)
                       in case set_flag ci name old val of
                            Inl e \<Rightarrow> Inl e
                          | Inr x \<Rightarrow> Parse ci rest (AList.update name x fs)))))"
  by pat_completeness auto
termination by (relation "measure (\<lambda>(_, as, _). length as)") auto

definition fstr :: "flag_set \<Rightarrow> string \<Rightarrow> string" where
  "fstr fs name = (case map_of fs name of Some (FVStr s) \<Rightarrow> s | _ \<Rightarrow> [])"

definition fint :: "flag_set \<Rightarrow> string \<Rightarrow> int" where
  "fint fs name = (case map_of fs name of Some (FVInt n) \<Rightarrow> n | _ \<Rightarrow> 0)"

definition fbool :: "flag_set \<Rightarrow> string \<Rightarrow> bool" where
  "fbool fs name = (case map_of fs name of Some (FVBool b) \<Rightarrow> b | _ \<Rightarrow> False)"

definition strs :: "string list \<Rightarrow> flag_set" where "strs names = map (\<lambda>n. (n, FVStr [])) names"

subsection \<open>Commands\<close>

datatype cli_out = CliFails string | CliPrints "(string \<times> json) list" | CliPrintsStr "(string \<times> string) list" | CliToken string

type_synonym cli_result = "cli_out \<times> http_calls"

definition printed :: "(string \<times> json) list client_result \<Rightarrow> cli_result" where
  "printed r = (case r of (Inl e, cs) \<Rightarrow> (CliFails e, cs) | (Inr m, cs) \<Rightarrow> (CliPrints m, cs))"

definition with_flags ::
  "cli_env \<Rightarrow> string list \<Rightarrow> flag_set \<Rightarrow> http_calls \<Rightarrow> (flag_set \<Rightarrow> cli_result) \<Rightarrow> cli_result" where
  "with_flags ci rest fs cs k = (case Parse ci rest fs of Inl e \<Rightarrow> (CliFails e, cs) | Inr fs1 \<Rightarrow> k fs1)"

definition cli_register :: "cli_env \<Rightarrow> client \<Rightarrow> string list \<Rightarrow> http_calls \<Rightarrow> cli_result" where
  "cli_register ci c rest cs =
     with_flags ci rest (strs [''name'', ''email'', ''password'']) cs (\<lambda>fs.
       if fstr fs ''name'' = [] \<or> fstr fs ''email'' = [] \<or> fstr fs ''password'' = []
       then (CliFails ''register requires --name, --email, --password'', cs)
       else
         (case client_Register (ci_client ci) c (fstr fs ''name'') (fstr fs ''email'') (fstr fs ''password'') cs of
            (Inl e, cs1) \<Rightarrow> (CliFails e, cs1) | (Inr m, cs1) \<Rightarrow> (CliPrintsStr m, cs1)))"

definition cli_login :: "cli_env \<Rightarrow> client \<Rightarrow> string list \<Rightarrow> http_calls \<Rightarrow> cli_result" where
  "cli_login ci c rest cs =
     with_flags ci rest (strs [''email'', ''password'']) cs (\<lambda>fs.
       if fstr fs ''email'' = [] \<or> fstr fs ''password'' = []
       then (CliFails ''login requires --email, --password'', cs)
       else
         (case fst (client_Login (ci_client ci) c (fstr fs ''email'') (fstr fs ''password'') cs) of
            (Inl e, cs1) \<Rightarrow> (CliFails e, cs1) | (Inr t, cs1) \<Rightarrow> (CliToken t, cs1)))"

definition submit_flags :: flag_set where
  "submit_flags =
     strs [''type'', ''queue'', ''payload'', ''payload-file''] @
     [(''priority'', FVInt 0), (''max-retry'', FVInt 0)] @
     strs [''idempotency'', ''scheduled-at'', ''cron'', ''cron-tz'']"

definition submit_request :: "flag_set \<Rightarrow> (string \<times> raw) list option \<Rightarrow> EnqueueRequest" where
  \<comment> \<open>the conversions \<open>int16(n)\<close> keep the low 16 bits\<close>
  "submit_request fs obj =
     \<lparr>eq_Type = fstr fs ''type'', eq_QueueName = fstr fs ''queue'', eq_Payload = obj,
      eq_Priority = int16 (fint fs ''priority''), eq_MaxRetry = int16 (fint fs ''max-retry''),
      eq_IdempotencyKey = fstr fs ''idempotency'', eq_ScheduledAt = fstr fs ''scheduled-at'',
      eq_Cron = fstr fs ''cron'', eq_CronTZ = fstr fs ''cron-tz''\<rparr>"

definition submit_payload :: "cli_env \<Rightarrow> flag_set \<Rightarrow> string + (string \<times> raw) list option" where
  "submit_payload ci fs =
     (case (if fstr fs ''payload-file'' \<noteq> [] then ci_ReadFile ci (fstr fs ''payload-file'')
            else Inr (fstr fs ''payload'')) of
        Inl e \<Rightarrow> Inl (''read payload file: '' @ e)
      | Inr s \<Rightarrow>
          if TrimSpace s = [] then Inl ''submit requires --payload or --payload-file''
          else (case ci_Unmarshal ci s of
                  Inl e \<Rightarrow> Inl (''payload must be a JSON object: '' @ e) | Inr obj \<Rightarrow> Inr obj))"

definition cli_submit :: "cli_env \<Rightarrow> client \<Rightarrow> string list \<Rightarrow> http_calls \<Rightarrow> cli_result" where
  "cli_submit ci c rest cs =
     with_flags ci rest submit_flags cs (\<lambda>fs.
       if fstr fs ''type'' = [] then (CliFails ''submit requires --type'', cs)
       else
         (case submit_payload ci fs of
            Inl e \<Rightarrow> (CliFails e, cs)
          | Inr obj \<Rightarrow> printed (client_Enqueue (ci_client ci) c (submit_request fs obj) cs)))"

definition with_id ::
  "cli_env \<Rightarrow> string \<Rightarrow> string list \<Rightarrow> flag_set \<Rightarrow> http_calls \<Rightarrow> (flag_set \<Rightarrow> cli_result) \<Rightarrow> cli_result" where
  "with_id ci cmd rest fs cs k =
     with_flags ci rest fs cs (\<lambda>fs1.
       if fstr fs1 ''id'' = [] then (CliFails (cmd @ '' requires --id''), cs) else k fs1)"

definition cli_list :: "cli_env \<Rightarrow> client \<Rightarrow> string list \<Rightarrow> http_calls \<Rightarrow> cli_result" where
  "cli_list ci c rest cs =
     with_flags ci rest
       [(''status'', FVStr []), (''limit'', FVInt 0), (''offset'', FVInt 0), (''series-id'', FVStr [])] cs (\<lambda>fs.
       printed
         (if fstr fs ''series-id'' \<noteq> []
          then client_ListSeries (ci_client ci) c (fstr fs ''series-id'') (fstr fs ''status'') (fint fs ''limit'')
                 (fint fs ''offset'') cs
          else client_ListJobs (ci_client ci) c (fstr fs ''status'') (fint fs ''limit'') (fint fs ''offset'') cs))"

definition cli_usage :: string where
  "cli_usage =
     ''usage: enqueue-cli [--token T] <register|login|submit|get|events|list|cancel|retry|stats> [flags]''"

definition cli_command :: "cli_env \<Rightarrow> client \<Rightarrow> string \<Rightarrow> string list \<Rightarrow> http_calls \<Rightarrow> cli_result" where
  "cli_command ci c cmd rest cs =
     (let ce = ci_client ci in
      if cmd = ''register'' then cli_register ci c rest cs
      else if cmd = ''login'' then cli_login ci c rest cs
      else if cmd = ''submit'' then cli_submit ci c rest cs
      else if cmd = ''get'' then
        with_id ci ''get'' rest (strs [''id'']) cs (\<lambda>fs. printed (client_GetJob ce c (fstr fs ''id'') cs))
      else if cmd = ''events'' then
        with_id ci ''events'' rest (strs [''id'']) cs (\<lambda>fs. printed (client_GetJobEvents ce c (fstr fs ''id'') cs))
      else if cmd = ''list'' then cli_list ci c rest cs
      else if cmd = ''cancel'' then
        with_id ci ''cancel'' rest [(''id'', FVStr []), (''series'', FVBool False)] cs
          (\<lambda>fs. printed (client_CancelSeries ce c (fstr fs ''id'') (fbool fs ''series'') cs))
      else if cmd = ''retry'' then
        with_id ci ''retry'' rest (strs [''id'', ''idempotency'']) cs
          (\<lambda>fs. printed (client_RetryWithKey ce c (fstr fs ''id'') (fstr fs ''idempotency'') cs))
      else if cmd = ''stats'' then printed (client_Stats ce c cs)
      else (CliFails (''unknown command '' @ ci_Quote ci cmd), cs))"

definition cli_client :: "cli_env \<Rightarrow> string \<Rightarrow> client" where
  "cli_client ci token =
     (let base = ci_Getenv ci ''PMQ_URL'' in
      \<lparr>cl_BaseURL = (if base = [] then ''http://localhost:8000'' else base),
       cl_Token = (if token = [] then ci_Getenv ci ''PMQ_TOKEN'' else token)\<rparr>)"

definition cli_run :: "cli_env \<Rightarrow> string list \<Rightarrow> http_calls \<Rightarrow> cli_result" where
  "cli_run ci args0 cs =
     (case extractTokenFlag args0 of (args, token) \<Rightarrow>
        (case args of
           [] \<Rightarrow> (CliFails cli_usage, cs)
         | cmd # rest \<Rightarrow> cli_command ci (cli_client ci token) cmd rest cs))"

subsection \<open>One command, one call\<close>

definition one_call :: "client_env \<Rightarrow> client \<Rightarrow> http_calls \<Rightarrow> bool \<Rightarrow> http_calls \<Rightarrow> bool" where
  \<comment> \<open>no call and a failure, or one call with the client's token that succeeds only on a 2xx answer\<close>
  "one_call ce c cs ok cs' \<longleftrightarrow>
     (cs' = cs \<and> \<not> ok) \<or>
     (\<exists>call. cs' = cs @ [call] \<and>
        map_of (hc_Header call) ''Authorization'' =
          (if cl_Token c \<noteq> [] then Some (''Bearer '' @ cl_Token c) else None) \<and>
        (ok \<longrightarrow> (\<exists>st b. ce_Do ce cs call = Inr (st, b) \<and> 200 \<le> st \<and> st < 300)))"

definition ok_of :: "cli_out \<Rightarrow> bool" where
  "ok_of r = (case r of CliFails _ \<Rightarrow> False | _ \<Rightarrow> True)"

lemma doWithHeaders_one:
  assumes "doWithHeaders ce c meth path body (key_header key) cs = (r, cs')"
  shows "one_call ce c cs (\<not> isl r) cs'"
proof -
  show ?thesis
    using assms key_header_call(2) [of c meth path _ key]
    by (auto simp: doWithHeaders_def Let_def one_call_def split: sum.splits option.splits if_splits prod.splits)
qed

lemma client_do_one: "client_do ce c meth path body cs = (r, cs') \<Longrightarrow> one_call ce c cs (\<not> isl r) cs'"
  using doWithHeaders_one [of ce c meth path body "[]" cs r cs'] by (simp add: client_do_def key_header_def)

lemma client_Enqueue_one: "client_Enqueue ce c q cs = (r, cs') \<Longrightarrow> one_call ce c cs (\<not> isl r) cs'"
  unfolding client_Enqueue_def
  by (auto split: sum.splits if_splits dest!: doWithHeaders_one) (simp_all add: one_call_def)

lemma strings_of_one:
  "strings_of (client_do ce c meth path body cs) = (r, cs') \<Longrightarrow> one_call ce c cs (\<not> isl r) cs'"
  using client_do_one [of ce c meth path body cs]
  by (cases "client_do ce c meth path body cs") (auto simp: strings_of_def one_call_def split: sum.splits if_splits)

lemma printed_one:
  assumes "\<And>r cs'. R = (r, cs') \<Longrightarrow> one_call ce c cs (\<not> isl r) cs'" and "printed R = (out, cs')"
  shows "one_call ce c cs (ok_of out) cs'"
  using assms by (cases R) (auto simp: printed_def ok_of_def split: sum.splits)

lemma with_flags_one:
  assumes "with_flags ci rest fs cs k = (out, cs')"
    and "\<And>fs1. k fs1 = (out, cs') \<Longrightarrow> one_call ce c cs (ok_of out) cs'"
  shows "one_call ce c cs (ok_of out) cs'"
  using assms by (auto simp: with_flags_def one_call_def ok_of_def split: sum.splits)

lemma fails_one: "one_call ce c cs (ok_of (CliFails e)) cs"
  by (simp add: one_call_def ok_of_def)

lemma with_id_one:
  assumes "with_id ci cmd rest fs cs k = (out, cs')"
    and "\<And>fs1. k fs1 = (out, cs') \<Longrightarrow> one_call ce c cs (ok_of out) cs'"
  shows "one_call ce c cs (ok_of out) cs'"
  using assms(1) unfolding with_id_def
  by (rule with_flags_one) (use assms(2) fails_one in \<open>auto split: if_splits\<close>)

lemmas call_defs = client_GetJob_def client_GetJobEvents_def client_CancelSeries_def client_ListSeries_def
  client_ListJobs_def client_Stats_def

lemma printed_calls:
  "printed (client_do ce c meth path body cs) = (out, cs') \<Longrightarrow> one_call ce c cs (ok_of out) cs'"
  "printed (client_RetryWithKey ce c j key cs) = (out, cs') \<Longrightarrow> one_call ce c cs (ok_of out) cs'"
  "printed (client_Enqueue ce c q cs) = (out, cs') \<Longrightarrow> one_call ce c cs (ok_of out) cs'"
  by (rule printed_one; auto intro: client_do_one client_Enqueue_one doWithHeaders_one simp: client_RetryWithKey_def)+

lemma register_one: "cli_register ci c rest cs = (out, cs') \<Longrightarrow> one_call (ci_client ci) c cs (ok_of out) cs'"
  unfolding cli_register_def
  by (erule with_flags_one)
    (auto simp: client_Register_def fails_one split: if_splits prod.splits sum.splits dest!: strings_of_one,
     auto simp: ok_of_def)

lemma login_one: "cli_login ci c rest cs = (out, cs') \<Longrightarrow> one_call (ci_client ci) c cs (ok_of out) cs'"
  unfolding cli_login_def
  by (erule with_flags_one)
    (auto simp: client_Login_def Let_def fails_one split: if_splits prod.splits sum.splits dest!: strings_of_one,
     auto simp: ok_of_def)

lemma submit_one: "cli_submit ci c rest cs = (out, cs') \<Longrightarrow> one_call (ci_client ci) c cs (ok_of out) cs'"
  unfolding cli_submit_def
  by (erule with_flags_one) (auto simp: fails_one printed_calls split: if_splits sum.splits)

lemma list_one: "cli_list ci c rest cs = (out, cs') \<Longrightarrow> one_call (ci_client ci) c cs (ok_of out) cs'"
  unfolding cli_list_def call_defs
  by (erule with_flags_one) (auto simp: printed_calls split: if_splits)

lemma if_E: "(if P then x else y) = z \<Longrightarrow> (P \<Longrightarrow> x = z \<Longrightarrow> R) \<Longrightarrow> (\<not> P \<Longrightarrow> y = z \<Longrightarrow> R) \<Longrightarrow> R"
  by (simp split: if_splits)

lemma command_one:
  assumes "cli_command ci c cmd rest cs = (out, cs')"
  shows "one_call (ci_client ci) c cs (ok_of out) cs'"
  using assms unfolding cli_command_def call_defs Let_def
  apply (elim if_E)
  by (erule register_one login_one submit_one list_one printed_calls
      | (erule with_id_one, erule printed_calls) | (clarify, rule fails_one))+


definition demo_cli :: cli_env where
  \<comment> \<open>a server that accepts everything, decimal numbers only\<close>
  "demo_cli =
     \<lparr>ci_client = demo_ce, ci_Getenv = (\<lambda>k. if k = ''PMQ_TOKEN'' then ''e'' else []), ci_ReadFile = (\<lambda>f. Inl ''no such file''),
      ci_Unmarshal = (\<lambda>s. Inr (Some [])),
      ci_ParseInt = (\<lambda>s. case Atoi s of (n, ok) \<Rightarrow> if ok then Inr n else Inl ''parse error''), ci_Quote = id\<rparr>"


text \<open>
  \<open>--priority\<close> and \<open>--max-retry\<close> are converted without a range check: 65536 is sent as 0, that is
  not at all, and 65537 retries become one.
\<close>

lemma submit_wraps:
  "fint fs ''priority'' = 65536 \<Longrightarrow> eq_Priority (submit_request fs obj) = 0"
  "fint fs ''max-retry'' = 65537 \<Longrightarrow> eq_MaxRetry (submit_request fs obj) = 1"
  by (simp_all add: submit_request_def int16_def)

end
