(* ===== verification/Jobs_Refinement.thy ===== *)
theory Jobs_Refinement
  imports Jobs_Batch_Props Jobs_Props
begin

text \<open>
  What the job store is for, without its columns: a \<^emph>\<open>lease book\<close>. Each job is parked, ready, leased
  under a token, or at an end, and carries the attempts made and allowed. The operations of
  \<open>internal/storage/jobs\<close> refine the operations on this book, with faults and all, and every step of
  the store is a step of the book.
\<close>

subsection \<open>The book\<close>

datatype phase = Parked | Ready | Leased uuid | Succeeded | Exhausted | Withdrawn

type_synonym lease = "phase \<times> int \<times> int" \<comment> \<open>phase, attempts made, attempts allowed\<close>
type_synonym book = "uuid \<Rightarrow> lease option"

definition a_lease :: "uuid \<Rightarrow> uuid \<Rightarrow> book \<Rightarrow> book option" where
  "a_lease j t A =
     (case A j of
        Some (ph, n, m) \<Rightarrow> if ph \<in> {Parked, Ready} then Some (A(j \<mapsto> (Leased t, n + 1, m))) else None
      | None \<Rightarrow> None)"

definition a_succeed :: "uuid \<Rightarrow> uuid \<Rightarrow> book \<Rightarrow> book option" where
  "a_succeed j t A =
     (case A j of
        Some (ph, n, m) \<Rightarrow> if ph = Leased t then Some (A(j \<mapsto> (Succeeded, n, m))) else None
      | None \<Rightarrow> None)"

definition a_fault :: "uuid \<Rightarrow> uuid \<Rightarrow> book \<Rightarrow> book option" where
  "a_fault j t A =
     (case A j of
        Some (ph, n, m) \<Rightarrow>
          if ph = Leased t then Some (A(j \<mapsto> (if m \<le> n then Exhausted else Ready, n, m))) else None
      | None \<Rightarrow> None)"

definition a_replay :: "uuid \<Rightarrow> book \<Rightarrow> book option" where
  "a_replay j A =
     (case A j of
        Some (ph, n, m) \<Rightarrow> if ph = Exhausted then Some (A(j \<mapsto> (Ready, 0, m))) else None
      | None \<Rightarrow> None)"

definition a_withdraw :: "uuid \<Rightarrow> book \<Rightarrow> book option" where
  "a_withdraw j A =
     (case A j of
        Some (ph, n, m) \<Rightarrow> if ph \<in> {Parked, Ready} then Some (A(j \<mapsto> (Withdrawn, n, m))) else None
      | None \<Rightarrow> None)"

lemmas book_ops = a_lease_def a_succeed_def a_fault_def a_replay_def a_withdraw_def

text \<open>What a batch may do to a job, each at most once.\<close>

definition releases :: "lease option \<Rightarrow> lease option \<Rightarrow> bool" where
  "releases x y \<longleftrightarrow>
     (\<exists>n m. x = Some (Parked, n, m) \<and> y = Some (Ready, n, m)) \<or>
     (x = None \<and> (\<exists>ph m. ph \<in> {Parked, Ready} \<and> y = Some (ph, 0, m)))"

definition expires :: "lease option \<Rightarrow> lease option \<Rightarrow> bool" where
  "expires x y \<longleftrightarrow> (\<exists>t n m. x = Some (Leased t, n, m) \<and> y = Some (Ready, n, m))"

definition withdraws :: "lease option \<Rightarrow> lease option \<Rightarrow> bool" where
  "withdraws x y \<longleftrightarrow> (\<exists>ph n m. ph \<in> {Parked, Ready} \<and> x = Some (ph, n, m) \<and> y = Some (Withdrawn, n, m))"

definition forgets :: "lease option \<Rightarrow> lease option \<Rightarrow> bool" where
  "forgets x y \<longleftrightarrow> (\<exists>ph n m. ph \<in> {Succeeded, Withdrawn} \<and> x = Some (ph, n, m)) \<and> y = None"

lemmas batch_moves = releases_def expires_def withdraws_def forgets_def

definition pointwise :: "(lease option \<Rightarrow> lease option \<Rightarrow> bool) \<Rightarrow> book \<Rightarrow> book \<Rightarrow> bool" where
  "pointwise R A B \<longleftrightarrow> (\<forall>j. B j = A j \<or> R (A j) (B j))"

lemma pointwise_refl [simp]: "pointwise R A A"
  by (simp add: pointwise_def)

lemma pointwise_trans: "transp R \<Longrightarrow> pointwise R A B \<Longrightarrow> pointwise R B C \<Longrightarrow> pointwise R A C"
  unfolding pointwise_def by (metis transpD)

lemma batch_moves_trans: "transp releases" "transp expires" "transp withdraws" "transp forgets"
  by (auto simp: transp_def batch_moves)

definition batch_kind :: "(lease option \<Rightarrow> lease option \<Rightarrow> bool) \<Rightarrow> bool" where
  "batch_kind R \<longleftrightarrow> R \<in> {releases, expires, withdraws, forgets}"

inductive lease_step :: "book \<times> uuid set \<Rightarrow> book \<times> uuid set \<Rightarrow> bool" where
  idle: "lease_step (A, U) (A, U)"
| submit: "A j = None \<Longrightarrow> ph \<in> {Parked, Ready} \<Longrightarrow> lease_step (A, U) (A(j \<mapsto> (ph, n, m)), U)"
| mint: "t \<notin> U \<Longrightarrow> lease_step (A, U) (A, insert t U)" \<comment> \<open>a token nobody gets\<close>
| lease: "t \<notin> U \<Longrightarrow> a_lease j t A = Some B \<Longrightarrow> lease_step (A, U) (B, insert t U)"
| succeed: "a_succeed j t A = Some B \<Longrightarrow> lease_step (A, U) (B, U)"
| fault: "a_fault j t A = Some B \<Longrightarrow> lease_step (A, U) (B, U)"
| replay: "a_replay j A = Some B \<Longrightarrow> lease_step (A, U) (B, U)"
| batch: "batch_kind R \<Longrightarrow> pointwise R A B \<Longrightarrow> lease_step (A, U) (B, U)"

text \<open>In the book no token is held twice.\<close>

definition holds :: "book \<Rightarrow> uuid \<Rightarrow> uuid \<Rightarrow> bool" where
  "holds A j t \<longleftrightarrow> (\<exists>n m. A j = Some (Leased t, n, m))"

definition book_inv :: "book \<times> uuid set \<Rightarrow> bool" where
  "book_inv s \<longleftrightarrow>
     (\<forall>j t. holds (fst s) j t \<longrightarrow> t \<in> snd s) \<and>
     (\<forall>j k t. holds (fst s) j t \<longrightarrow> holds (fst s) k t \<longrightarrow> j = k)"

lemma holds_upd: "holds (A(j \<mapsto> (ph, x))) i t \<longleftrightarrow> (if i = j then ph = Leased t else holds A i t)"
  by (cases x) (simp add: holds_def)

lemma holds_at: "A j = Some (ph, x) \<Longrightarrow> holds A j t \<longleftrightarrow> ph = Leased t"
  by (cases x) (simp add: holds_def)

lemma pointwise_holds:
  "batch_kind R \<Longrightarrow> pointwise R A B \<Longrightarrow> holds B j t \<Longrightarrow> holds A j t"
  by (auto simp: batch_kind_def pointwise_def batch_moves holds_def dest!: spec [of _ j])

text \<open>A step hands out at most one lease, under a token not issued before.\<close>

lemma lease_step_holds:
  "lease_step (A, U) (B, V) \<Longrightarrow>
     U \<subseteq> V \<and> (\<forall>j t. holds B j t \<longrightarrow> holds A j t \<or> t \<in> V - U) \<and>
     (\<forall>j k t. holds B j t \<longrightarrow> holds B k t \<longrightarrow> t \<notin> U \<longrightarrow> (\<forall>i. \<not> holds A i t) \<longrightarrow> j = k)"
  by (cases rule: lease_step.cases, assumption)
    (auto simp: book_ops holds_upd dest: pointwise_holds split: if_splits option.splits)

lemma lease_step_inv: "lease_step s s' \<Longrightarrow> book_inv s \<Longrightarrow> book_inv s'"
  using lease_step_holds [of "fst s" "snd s" "fst s'" "snd s'"] unfolding book_inv_def by simp blast

subsection \<open>The book of a database\<close>

definition row_phase :: "job_row \<Rightarrow> phase" where
  "row_phase r =
     (if Status r = JobScheduled then Parked
      else if Status r \<in> {JobPending, JobQueued} then Ready
      else if Status r = JobRunning then Leased (the (ClaimToken r))
      else if Status r = JobCompleted then Succeeded
      else if Status r = JobFailed then Exhausted else Withdrawn)"

definition row_lease :: "job_row \<Rightarrow> lease" where
  "row_lease r = (row_phase r, AttemptCount r, MaxRetry r)"

definition book_of :: "db \<Rightarrow> book" where
  "book_of d j = map_option row_lease (find_job j d)"

lemma book_of_same [simp]:
  "book_of (insertEvent i a b t d) = book_of d" "book_of (insertInitialEvent i b t d) = book_of d"
  "book_of (d\<lparr>idem_tbl := x\<rparr>) = book_of d" "book_of (d\<lparr>retry_tbl := y\<rparr>) = book_of d"
  by (simp_all add: book_of_def fun_eq_iff find_job_def)

lemma book_of_upd:
  assumes "keeps_keys f" and "find_job i d = Some r"
  shows "book_of (upd_job i any_row f d) = (book_of d)(i \<mapsto> row_lease (f r))"
  using assms by (auto simp: book_of_def fun_eq_iff find_job_upd keeps_keysD)

definition moves :: "(lease option \<Rightarrow> lease option \<Rightarrow> bool) \<Rightarrow> db \<Rightarrow> db \<Rightarrow> bool" where
  "moves R d d' = pointwise R (book_of d) (book_of d')"

lemma moves_upd:
  assumes "keeps_keys f"
    and "\<And>r. find_job i d = Some r \<Longrightarrow> p r \<Longrightarrow> row_lease (f r) = row_lease r \<or> R (Some (row_lease r)) (Some (row_lease (f r)))"
  shows "moves R d (upd_job i p f d)"
  using assms by (cases "find_job i d") (auto simp: moves_def pointwise_def book_of_def find_job_upd keeps_keysD)

lemma moves_commit: "moves R d d1 \<Longrightarrow> moves R d (snd (commit_tx flt d d1 x))"
  by (simp add: commit_tx_def moves_def)

subsection \<open>Single operations\<close>

definition refines :: "(book \<Rightarrow> book option) \<Rightarrow> db \<Rightarrow> 'a result \<times> db \<Rightarrow> bool" where
  \<comment> \<open>a success is the operation on the book, an error leaves the book alone; only when the answer to
     the commit was lost may an error hide a success\<close>
  "refines a d r \<longleftrightarrow>
     (case fst r of
        Inr _ \<Rightarrow> a (book_of d) = Some (book_of (snd r))
      | Inl e \<Rightarrow>
          book_of (snd r) = book_of d \<or> (e = DbErr CommitAck \<and> a (book_of d) = Some (book_of (snd r))))"

lemma refines_error [simp]: "refines a d (Inl e, d)"
  by (simp add: refines_def)

lemma refines_commit: "a (book_of d) = Some (book_of d1) \<Longrightarrow> refines a d (commit_tx flt d d1 x)"
  by (simp add: refines_def commit_tx_def)

lemma row_lease_sets:
  "row_lease (set_running w t n r) = (Leased t, AttemptCount r + 1, MaxRetry r)"
  "row_lease (set_completed n r) = (Succeeded, AttemptCount r, MaxRetry r)"
  "row_lease (set_failed (fail_next r) e nb n r) =
     (if MaxRetry r \<le> AttemptCount r then Exhausted else Ready, AttemptCount r, MaxRetry r)"
  "row_lease (set_retried r) = (Ready, 0, MaxRetry r)"
  "row_lease (set_cancelled n r) = (Withdrawn, AttemptCount r, MaxRetry r)"
  "row_lease (set_pending r) = (Ready, AttemptCount r, MaxRetry r)"
  "row_lease (set_ungated r) = row_lease r"
  "row_lease (set_reclaimed r) = (Ready, AttemptCount r, MaxRetry r)"
  "row_lease (r\<lparr>HeartbeatAt := h\<rparr>) = row_lease r"
  by (simp_all add: row_lease_def row_phase_def set_running_def set_completed_def set_failed_def Let_def
      fail_next_def set_retried_def set_cancelled_def set_pending_def set_ungated_def set_reclaimed_def)

lemma row_lease_of:
  "claimable (Status r) \<Longrightarrow> \<exists>ph. ph \<in> {Parked, Ready} \<and> row_lease r = (ph, AttemptCount r, MaxRetry r)"
  "cancellable (Status r) \<Longrightarrow> \<exists>ph. ph \<in> {Parked, Ready} \<and> row_lease r = (ph, AttemptCount r, MaxRetry r)"
  "Status r = JobRunning \<Longrightarrow> ClaimToken r = Some t \<Longrightarrow> row_lease r = (Leased t, AttemptCount r, MaxRetry r)"
  "Status r = JobFailed \<Longrightarrow> row_lease r = (Exhausted, AttemptCount r, MaxRetry r)"
  by (auto simp: row_lease_def row_phase_def claimable_def cancellable_def)

lemma ClaimRunning_refines: "refines (a_lease j t) d (ClaimRunning lib flt now dbnow t j w d)"
proof (cases "find_job j d")
  case (Some r)
  have "a_lease j t (book_of d) = Some ((book_of d)(j \<mapsto> row_lease (set_running w t dbnow r)))" if "claimable (Status r)"
    using row_lease_of(1) [OF that] by (auto simp: a_lease_def book_of_def Some row_lease_sets)
  then show ?thesis
    by (auto simp: ClaimRunning_def Let_def Some book_of_upd [OF _ Some] intro!: refines_commit)
qed (simp add: ClaimRunning_def)

lemma Complete_refines: "refines (a_succeed j t) d (Complete flt dbnow j t d)"
proof (cases "find_job j d")
  case (Some r)
  have "a_succeed j t (book_of d) = Some ((book_of d)(j \<mapsto> row_lease (set_completed dbnow r)))"
    if "Status r = JobRunning" "ClaimToken r = Some t"
    using row_lease_of(3) [OF that] by (simp add: a_succeed_def book_of_def Some row_lease_sets)
  then show ?thesis
    by (auto simp: Complete_def Let_def Some book_of_upd [OF _ Some] intro!: refines_commit)
qed (simp add: Complete_def)

lemma FailOrRetry_refines: "refines (a_fault j t) d (FailOrRetry lib flt now dbnow j t err d)"
proof (cases "find_job j d")
  case (Some r)
  have "a_fault j t (book_of d) = Some ((book_of d)(j \<mapsto> row_lease (set_failed (fail_next r) err nb dbnow r)))"
    if "Status r = JobRunning" "ClaimToken r = Some t" for nb
    using row_lease_of(3) [OF that] by (simp add: a_fault_def book_of_def Some row_lease_sets)
  then show ?thesis
    by (auto simp: FailOrRetry_def Let_def Some book_of_upd [OF _ Some] intro!: refines_commit)
qed (simp add: FailOrRetry_def)

lemma RetryJob_refines: "refines (a_replay j) d (RetryJob lib flt dbnow j d)"
proof (cases "find_job j d")
  case (Some r)
  have "a_replay j (book_of d) = Some ((book_of d)(j \<mapsto> row_lease (set_retried r)))" if "Status r = JobFailed"
    using row_lease_of(4) [OF that] by (simp add: a_replay_def book_of_def Some row_lease_sets)
  then show ?thesis
    by (auto simp: RetryJob_def Some book_of_upd [OF _ Some] intro!: refines_commit)
qed (simp add: RetryJob_def)

lemma CancelJob_refines: "refines (a_withdraw j) d (CancelJob lib flt dbnow j d)"
proof (cases "find_job j d")
  case (Some r)
  have "a_withdraw j (book_of d) = Some ((book_of d)(j \<mapsto> row_lease (set_cancelled dbnow r)))" if "cancellable (Status r)"
    using row_lease_of(2) [OF that] by (auto simp: a_withdraw_def book_of_def Some row_lease_sets)
  then show ?thesis
    by (auto simp: CancelJob_def Some book_of_upd [OF _ Some] intro!: refines_commit)
qed (simp add: CancelJob_def)

subsection \<open>Batches\<close>

lemma moves_refl [simp]: "moves R d d"
  by (simp add: moves_def)

lemma moves_trans: "transp R \<Longrightarrow> moves R a b \<Longrightarrow> moves R b c \<Longrightarrow> moves R a c"
  unfolding moves_def by (rule pointwise_trans)

lemma moves_same [simp]:
  "moves R d (insertEvent i a b t d') = moves R d d'" "moves R d (insertInitialEvent i s t d') = moves R d d'"
  "moves R d (d'\<lparr>idem_tbl := x\<rparr>) = moves R d d'" "moves R d (d'\<lparr>retry_tbl := y\<rparr>) = moves R d d'"
  by (simp_all add: moves_def)

lemma moves_commit2: "moves R d d0 \<Longrightarrow> moves R d d1 \<Longrightarrow> moves R d (snd (commit_tx flt d0 d1 x))"
  by (simp add: commit_tx_def)

lemma moves_insert:
  assumes "R None (Some (row_lease r))"
  shows "moves R d (insert_job r d)"
  using assms by (auto simp: moves_def pointwise_def book_of_def find_job_insert split: option.split)

lemma row_moves:
  "Status r = JobScheduled \<Longrightarrow> releases (Some (row_lease r)) (Some (row_lease (set_pending r)))"
  "Status r = JobRunning \<Longrightarrow> expires (Some (row_lease r)) (Some (row_lease (set_reclaimed r)))"
  "cancellable (Status r) \<Longrightarrow> withdraws (Some (row_lease r)) (Some (row_lease (set_cancelled n r)))"
  "old_terminal b r \<Longrightarrow> forgets (Some (row_lease r)) None"
  "releases None (Some (row_lease (followup_row c p tz nxt now)))"
  by (auto simp: batch_moves row_lease_def row_phase_def cancellable_def old_terminal_def
      followup_row_def zero_row_def set_pending_def set_reclaimed_def set_cancelled_def)

locale moving_batch = batch_step +
  fixes R :: "lease option \<Rightarrow> lease option \<Rightarrow> bool"
  assumes trans: "transp R"
    and mov: "store_inv d \<Longrightarrow> find_job i d = Some r \<Longrightarrow> sel r \<Longrightarrow> body i d = Inr (res, d1) \<Longrightarrow> moves R d d1"
begin

lemma loop_moves:
  "store_inv d \<Longrightarrow> selected ids d \<Longrightarrow> ok ids d \<Longrightarrow> batch_loop body ids d out = Inr (out', d') \<Longrightarrow> moves R d d'"
proof (induction ids arbitrary: d out)
  case Nil
  then show ?case by simp
next
  case (Cons i ids)
  then obtain res d1 where b: "body i d = Inr (res, d1)" by (auto split: sum.splits)
  from loop_step [OF Cons.prems(1-3) b] obtain job r where s: "res = Some job"
      "store_inv d1" "selected ids d1" "ok ids d1" "find_job i d = Some r" "sel r"
    by metis
  have "moves R d1 d'" using Cons.IH [OF s(2-4)] Cons.prems(4) b s(1) by simp
  with mov [OF Cons.prems(1) s(5,6) b] show ?case by (rule moves_trans [OF trans])
qed

lemma tx_moves:
  "store_inv d \<Longrightarrow> selected ids d \<Longrightarrow> ok ids d \<Longrightarrow> moves R d (snd (batch_tx flt body ids d))"
  using loop_moves [of d ids "[]"] by (auto simp: batch_tx_def intro!: moves_commit2 split: sum.split)

end

interpretation promote: moving_batch "promote_one lib flt gen now dbnow"
  "\<lambda>r. Status r = JobScheduled" set_pending "fetched lib" "fresh_children gen" releases for lib flt gen now dbnow
proof
  fix d i r res d1
  assume a: "store_inv d" "find_job i d = Some r" "Status r = JobScheduled"
    "promote_one lib flt gen now dbnow i d = Inr (res, d1)"
  let ?u = "upd_job i (\<lambda>r. Status r = JobScheduled) set_pending d"
  have u: "moves releases d ?u" by (rule moves_upd) (simp_all add: row_moves)
  have "moves releases d (insert_job (followup_row c p tz z n) (insertEvent i JobScheduled JobPending dbnow ?u))"
    for c p tz z n
    by (rule moves_trans [OF batch_moves_trans(1) _ moves_insert]) (simp_all add: u row_moves)
  with u show "moves releases d d1"
    using promote_one_eq(1) [OF a] by (auto simp: promoted_db_def Let_def split: sum.split)
qed (rule batch_moves_trans)

interpretation ungate: moving_batch "ungate_one lib flt"
  "\<lambda>r. Status r \<in> {JobPending, JobQueued}" set_ungated "fetched lib" "\<lambda>_ _. True" releases for lib flt
proof
  fix d i r res d1
  assume "ungate_one lib flt i d = Inr (res, d1)"
  then have "d1 = upd_job i (\<lambda>r. Status r \<in> {JobPending, JobQueued}) set_ungated d"
    by (auto simp: ungate_one_def update_returning_def split: if_splits option.splits)
  then show "moves releases d d1" by (auto intro!: moves_upd simp: row_lease_sets)
qed (rule batch_moves_trans)

interpretation reclaim: moving_batch "reclaim_one lib flt dbnow"
  "\<lambda>r. Status r = JobRunning" set_reclaimed "fetched lib" "\<lambda>_ _. True" expires for lib flt dbnow
proof
  fix d i r res d1
  assume a: "reclaim_one lib flt dbnow i d = Inr (res, d1)"
  let ?u = "upd_job i (\<lambda>r. Status r = JobRunning) set_reclaimed d"
  from a have "d1 = ?u \<or> d1 = insertEvent i JobRunning JobPending dbnow ?u"
    by (auto simp: reclaim_one_def update_returning_def split: if_splits option.splits)
  moreover have "moves expires d ?u" by (rule moves_upd) (simp_all add: row_moves)
  ultimately show "moves expires d d1" by auto
qed (rule batch_moves_trans)

lemma cancel_loop_moves:
  "moves withdraws a d \<Longrightarrow> cancel_loop flt dbnow cs d n = Inr (m, d') \<Longrightarrow> moves withdraws a d'"
proof (induction flt dbnow cs d n rule: cancel_loop.induct)
  case (2 flt dbnow i st cs d n)
  have "moves withdraws d (upd_job i (\<lambda>r. cancellable (Status r)) (set_cancelled dbnow) d)"
    by (rule moves_upd) (simp_all add: row_moves)
  from moves_trans [OF batch_moves_trans(3) 2(3) this] 2 show ?case
    by (auto simp: Let_def split: if_splits)
qed simp

lemma CancelSeries_moves: "moves withdraws d (snd (CancelSeries flt locked dbnow s owner d))"
  by (auto simp: CancelSeries_def Let_def intro!: moves_commit split: sum.split
      dest: cancel_loop_moves [OF moves_refl])

lemma DeleteOldJobs_moves:
  assumes "store_inv d"
  shows "moves forgets d (snd (DeleteOldJobs flt b limit d))"
proof -
  have "moves forgets d (delete_keys ks (delete_jobs (doomed b n d) d))" for ks n
  proof -
    let ?d1 = "delete_keys ks (delete_jobs (doomed b n d) d)"
    have t: "jobs_tbl ?d1 = filter (\<lambda>r. (JobID r, CreatedAt r) \<notin> set (doomed b n d)) (jobs_tbl d)"
      by (simp add: delete_keys_def delete_jobs_def)
    have "book_of ?d1 j = book_of d j \<or> forgets (book_of d j) (book_of ?d1 j)" for j
    proof (cases "find_job j ?d1")
      case (Some r)
      then have "r \<in> set (jobs_tbl d)" "JobID r = j" using find_jobD [OF Some] by (simp_all add: t)
      then show ?thesis using find_job_mem [OF assms] Some by (auto simp: book_of_def)
    next
      case None
      show ?thesis
      proof (cases "find_job j d")
        case (Some r)
        then have r: "r \<in> set (jobs_tbl d)" "JobID r = j" using find_jobD by blast+
        have "r \<notin> set (jobs_tbl ?d1)" using None r(2) by (auto simp: find_job_def find_None_iff)
        then have "(JobID r, CreatedAt r) \<in> set (doomed b n d)" using r(1) by (simp add: t)
        then obtain x where "x \<in> set (jobs_tbl d)" "old_terminal b x" "JobID x = JobID r"
          using doomed_old by fastforce
        then have "old_terminal b r" using find_job_mem [OF assms] Some r(2) by fastforce
        from row_moves(4) [OF this] show ?thesis by (simp add: book_of_def Some None)
      qed (simp add: book_of_def None)
    qed
    then show ?thesis by (simp add: moves_def pointwise_def)
  qed
  then show ?thesis by (auto simp: DeleteOldJobs_def Let_def intro!: moves_commit)
qed

subsection \<open>Every step of the store\<close>

lemma CreateJob_books:
  assumes "initial_job inp" and "fresh_id newid d"
  shows "lease_step (book_of d, U) (book_of (snd (CreateJob lib flt newid now dbnow inp d)), U)"
proof -
  let ?r = "created_row lib (create_defaults newid now inp)"
  have i: "JobID ?r = newid" "book_of d newid = None"
    using assms by (auto simp: create_defaults_def initial_job_def book_of_def fresh_id_def find_job_def find_None_iff)
  have ph: "\<exists>ph n m. ph \<in> {Parked, Ready} \<and> row_lease ?r = (ph, n, m)"
    using assms(1) by (auto simp: row_lease_def row_phase_def created_row_def create_defaults_def initial_job_def)
  have ins: "book_of (insert_job ?r d) = (book_of d)(newid \<mapsto> row_lease ?r)"
    using i by (auto simp: book_of_def fun_eq_iff find_job_insert split: option.splits)
  from ph i(2) have step: "lease_step (book_of d, U) (book_of (insert_job ?r d), U)"
    unfolding ins by (auto intro: lease_step.submit)
  have "book_of (claim_key k j x) = book_of x" for k j x by (simp add: claim_key_def)
  with step show ?thesis
    by (auto simp: CreateJob_def Let_def commit_tx_def intro: lease_step.idle split: option.splits)
qed

lemma refines_step:
  assumes "refines a d r" and "\<And>B. a (book_of d) = Some B \<Longrightarrow> lease_step (book_of d, U) (B, V)"
    and "lease_step (book_of d, U) (book_of d, V)"
  shows "lease_step (book_of d, U) (book_of (snd r), V)"
  using assms by (auto simp: refines_def split: sum.splits)

lemma moves_step: "moves R d d' \<Longrightarrow> batch_kind R \<Longrightarrow> lease_step (book_of d, U) (book_of d', U)"
  by (simp add: moves_def lease_step.batch)

lemma batch_kinds [simp]: "batch_kind releases" "batch_kind expires" "batch_kind withdraws" "batch_kind forgets"
  by (simp_all add: batch_kind_def)

lemma Heartbeat_books: "book_of (snd (Heartbeat flt dbnow j t d)) = book_of d"
proof -
  have "book_of (upd_job j p (\<lambda>r. r\<lparr>HeartbeatAt := h\<rparr>) d) = book_of d" for p h
    by (cases "find_job j d") (auto simp: book_of_def fun_eq_iff find_job_upd keeps_keys_def row_lease_sets)
  then show ?thesis by (simp add: Heartbeat_def Let_def)
qed

lemma RecordRetryKey_books: "book_of (snd (RecordRetryKey flt key j d)) = book_of d"
  by (simp add: RecordRetryKey_def Let_def split: option.split)

lemma claim_books:
  "token \<notin> U \<Longrightarrow> lease_step (book_of d, U) (book_of (snd (ClaimRunning lib flt now dbnow token j w d)), insert token U)"
  by (auto intro: refines_step [OF ClaimRunning_refines] lease_step.lease lease_step.mint)

lemma finish_books:
  "lease_step (book_of d, U) (book_of (snd (Complete flt dbnow j t d)), U)"
  "lease_step (book_of d, U) (book_of (snd (FailOrRetry lib flt now dbnow j t err d)), U)"
  "lease_step (book_of d, U) (book_of (snd (RetryJob lib flt dbnow j d)), U)"
  by (auto intro: refines_step [OF Complete_refines] refines_step [OF FailOrRetry_refines]
      refines_step [OF RetryJob_refines] lease_step.intros)

lemma cancel_books: "lease_step (book_of d, U) (book_of (snd (CancelJob lib flt dbnow j d)), U)"
proof -
  have "lease_step (book_of d, U) (B, U)" if "a_withdraw j (book_of d) = Some B" for B
  proof (rule lease_step.batch [of withdraws])
    show "pointwise withdraws (book_of d) B"
      using that by (auto simp: a_withdraw_def pointwise_def withdraws_def split: option.splits prod.splits if_splits)
  qed simp
  then show ?thesis by (auto intro: refines_step [OF CancelJob_refines] lease_step.idle)
qed

lemma batch_books:
  assumes "store_inv d"
  shows "fresh_children gen (due_ids locked now limit d) d \<Longrightarrow>
      lease_step (book_of d, U) (book_of (snd (ClaimDueScheduled lib flt locked gen dbnow now limit d)), U)"
    and "lease_step (book_of d, U) (book_of (snd (ClaimDueRetries lib flt locked now limit d)), U)"
    and "lease_step (book_of d, U) (book_of (snd (ClaimStaleRunning lib flt locked dbnow b limit d)), U)"
    and "lease_step (book_of d, U) (book_of (snd (CancelSeries flt locked dbnow s owner d)), U)"
    and "lease_step (book_of d, U) (book_of (snd (DeleteOldJobs flt b limit d)), U)"
  using assms unfolding ClaimDueScheduled_def ClaimDueRetries_def ClaimStaleRunning_def
  by (auto intro!: moves_step promote.tx_moves due_ids_selected ungate.tx_moves retry_ids_selected
      reclaim.tx_moves stale_ids_selected CancelSeries_moves DeleteOldJobs_moves)

lemma store_step_books:
  "store_step lib (d, U) (d', U') \<Longrightarrow> store_inv d \<Longrightarrow> lease_step (book_of d, U) (book_of d', U')"
  by (erule store_stepE)
    (auto intro: CreateJob_books claim_books finish_books cancel_books batch_books
      simp: Heartbeat_books RecordRetryKey_books lease_step.idle)

lemma store_steps_books:
  assumes "store_steps lib (empty_db, {}) s"
  shows "store_inv (fst s) \<and> book_inv (book_of (fst s), snd s) \<and> lease_step\<^sup>*\<^sup>* (Map.empty, {}) (book_of (fst s), snd s)"
  using assms unfolding store_steps_def
proof (induction rule: rtranclp_induct)
  case base
  have "book_of empty_db = Map.empty" by (simp add: book_of_def fun_eq_iff find_job_def empty_db_def)
  then show ?case by (simp add: book_inv_def holds_def)
next
  case (step y z)
  obtain d U d' U' where yz: "y = (d, U)" "z = (d', U')" by (cases y, cases z)
  have st: "store_step lib (d, U) (d', U')" using step.hyps(2) by (simp add: yz)
  have y: "store_inv d" "book_inv (book_of d, U)" "lease_step\<^sup>*\<^sup>* (Map.empty, {}) (book_of d, U)"
    using step.IH by (simp_all add: yz)
  note b = store_step_books [OF st y(1)]
  show ?case
    using store_step_inv [OF st y(1)] lease_step_inv [OF b y(2)] rtranclp.rtrancl_into_rtrancl [OF y(3) b]
    by (simp add: yz)
qed

lemma running_holds:
  "store_inv d \<Longrightarrow> find_job j d = Some r \<Longrightarrow> Status r = JobRunning \<Longrightarrow> holds (book_of d) j (the (ClaimToken r))"
  by (simp add: holds_def book_of_def row_lease_def row_phase_def)

subsection \<open>Properties\<close>

text \<open>C6. The operations of a job's life refine those of the lease book, whatever the clocks and the
  database do: \<open>ClaimRunning\<close> leases the job under the fresh token and counts an attempt,
  \<open>Complete\<close> and \<open>FailOrRetry\<close> end the lease of the token's holder only (success, another round, or
  exhausted once the attempts reach the maximum), \<open>RetryJob\<close> returns an exhausted job with a full
  budget, \<open>CancelJob\<close> withdraws a job nobody holds. Each answers with success exactly as the book
  operation does, an error leaves the book as it was, and only a lost answer to the commit can hide
  a success.\<close>

theorem store_ops_refine_leases:
  "refines (a_lease j t) d (ClaimRunning lib flt now dbnow t j w d) \<and>
   refines (a_succeed j t) d (Complete flt dbnow j t d) \<and>
   refines (a_fault j t) d (FailOrRetry lib flt now dbnow j t err d) \<and>
   refines (a_replay j) d (RetryJob lib flt dbnow j d) \<and>
   refines (a_withdraw j) d (CancelJob lib flt dbnow j d)"
  by (intro conjI ClaimRunning_refines Complete_refines FailOrRetry_refines RetryJob_refines CancelJob_refines)

text \<open>C5. The job store implements the lease book: every reachable database abstracts to a book
  reached from the empty one by lease steps, each further operation (batch promotion, retry gates,
  reclaiming, series cancellation and retention included, with any faults) is a lease step, and so
  two running rows never carry the same claim token.\<close>

theorem store_simulates_leases:
  assumes "reachable lib (d, U)"
  shows "lease_step\<^sup>*\<^sup>* (Map.empty, {}) (book_of d, U) \<and>
    (\<forall>d' U'. store_step lib (d, U) (d', U') \<longrightarrow> lease_step (book_of d, U) (book_of d', U')) \<and>
    (\<forall>j k r q. find_job j d = Some r \<and> find_job k d = Some q \<and> Status r = JobRunning \<and>
       Status q = JobRunning \<and> ClaimToken r = ClaimToken q \<longrightarrow> j = k)"
proof -
  have inv: "store_inv d" "book_inv (book_of d, U)" "lease_step\<^sup>*\<^sup>* (Map.empty, {}) (book_of d, U)"
    using store_steps_books [OF assms [unfolded reachable_def]] by simp_all
  have "j = k" if "find_job j d = Some r" "find_job k d = Some q" "Status r = JobRunning"
    "Status q = JobRunning" "ClaimToken r = ClaimToken q" for j k r q
    using running_holds [OF inv(1) that(1,3)] running_holds [OF inv(1) that(2,4)] inv(2) that(5)
    by (auto simp: book_inv_def)
  then show ?thesis using inv store_step_books by blast
qed

theorem store_simulates_leases_witness:
  "lease_step\<^sup>*\<^sup>* (Map.empty, {}) (book_of demo_d4, {12, 11}) \<and>
   lease_step (book_of demo_d4, {12, 11}) (book_of demo_d5, {12, 11}) \<and>
   book_of demo_d4 7 = Some (Leased 12, 2, 3) \<and> book_of demo_d5 7 = Some (Succeeded, 2, 3)"
proof -
  have "book_of demo_d4 7 = Some (Leased 12, 2, 3)" "book_of demo_d5 7 = Some (Succeeded, 2, 3)"
    by code_simp+
  then show ?thesis using store_simulates_leases [OF demo_reachable(4)] demo_steps(5) by blast
qed

end
