(* ===== verification/Html.thy ===== *)
theory Html
  imports Web_Views
begin

text \<open>
  How a page is written. A component that templ generates from a \<open>.templ\<close> file is a list of
  writes into a buffer: its own text, and data through the escaping functions of the library,
  which are parameters. Then a scanner that finds the tags in a text, and what a well-formed
  text is.
\<close>

subsection \<open>Components\<close>

datatype op =
    WEnter \<comment> \<open>a component's \<open>Render\<close> first looks at \<open>ctx.Err()\<close>\<close>
  | WStr string \<comment> \<open>\<open>templruntime.WriteString\<close>: text of the template\<close>
  | WText string \<comment> \<open>\<open>templ.JoinStringErrs\<close>, then \<open>templ.EscapeString\<close>\<close>
  | WUrl string \<comment> \<open>\<open>templ.JoinURLErrs\<close>, then \<open>templ.EscapeString\<close>\<close>
  | WAttr string \<comment> \<open>\<open>templ.ResolveAttributeValue\<close>\<close>
  | WCss "string list" \<comment> \<open>\<open>templ.RenderCSSItems\<close>\<close>
  | WClass "string list" \<comment> \<open>\<open>ResolveAttributeValue(templ.CSSClasses(cs).String())\<close>\<close>

type_synonym component = "op list"

record templ_env =
  te_JoinString :: "string \<Rightarrow> string + string"
  te_JoinURL :: "string \<Rightarrow> string + string"
  te_Escape :: "string \<Rightarrow> string"
  te_Attr :: "string \<Rightarrow> string + string"
  te_CSS :: "string list \<Rightarrow> string + string" \<comment> \<open>the style elements it writes\<close>
  te_Classes :: "string list \<Rightarrow> string"
  te_CtxErr :: "string \<Rightarrow> string option" \<comment> \<open>after the output so far\<close>
  te_Write :: "string \<Rightarrow> string \<Rightarrow> (nat \<times> string) option" \<comment> \<open>a failing write: the characters it took, the error\<close>
  te_Flush :: "string \<Rightarrow> string option"

fun op_text :: "templ_env \<Rightarrow> op \<Rightarrow> string \<Rightarrow> string + string" where
  "op_text te WEnter out = (case te_CtxErr te out of None \<Rightarrow> Inr [] | Some e \<Rightarrow> Inl e)"
| "op_text te (WStr s) out = Inr s"
| "op_text te (WText s) out = (case te_JoinString te s of Inl e \<Rightarrow> Inl e | Inr t \<Rightarrow> Inr (te_Escape te t))"
| "op_text te (WUrl s) out = (case te_JoinURL te s of Inl e \<Rightarrow> Inl e | Inr t \<Rightarrow> Inr (te_Escape te t))"
| "op_text te (WAttr s) out = te_Attr te s"
| "op_text te (WCss cs) out = te_CSS te cs"
| "op_text te (WClass cs) out = te_Attr te (te_Classes te cs)"

fun run_ops :: "templ_env \<Rightarrow> component \<Rightarrow> string \<Rightarrow> string option \<times> string" where
  \<comment> \<open>the error that ended it, and the output\<close>
  "run_ops te [] out = (None, out)"
| "run_ops te (x # xs) out =
     (case op_text te x out of
        Inl e \<Rightarrow> (Some e, out)
      | Inr s \<Rightarrow>
          (case te_Write te out s of
             Some (n, e) \<Rightarrow> (Some e, out @ take n s)
           | None \<Rightarrow> run_ops te xs (out @ s)))"

definition Render :: "templ_env \<Rightarrow> component \<Rightarrow> string option \<times> string" where
  \<comment> \<open>of the outermost component, which flushes the buffer\<close>
  "Render te c =
     (case run_ops te c [] of (Some e, out) \<Rightarrow> (Some e, out) | (None, out) \<Rightarrow> (te_Flush te out, out))"

subsection \<open>Tags\<close>

datatype lex_mode =
    LText
  | LName string \<comment> \<open>reading a tag's name\<close>
  | LAttrs string \<comment> \<open>between attributes of the tag\<close>
  | LValue string \<comment> \<open>in a quoted value\<close>
  | LScript nat \<comment> \<open>in a script, after so many characters of its end tag\<close>
  | LBad

definition script_end :: string where "script_end = ''</script>''"

definition after_tag :: "string \<Rightarrow> lex_mode" where
  "after_tag n = (if n = ''script'' then LScript 0 else LText)"

fun lex_step :: "lex_mode \<Rightarrow> char \<Rightarrow> lex_mode" where
  "lex_step LText c = (if c = CHR ''<'' then LName [] else LText)"
| "lex_step (LName n) c =
     (if c = CHR ''>'' then after_tag n else if c = CHR '' '' then LAttrs n
      else if c = CHR ''<'' \<or> c = CHR 0x22 then LBad else LName (n @ [c]))"
| "lex_step (LAttrs n) c =
     (if c = CHR ''>'' then after_tag n else if c = CHR 0x22 then LValue n
      else if c = CHR ''<'' then LBad else LAttrs n)"
| "lex_step (LValue n) c = (if c = CHR 0x22 then LAttrs n else LValue n)"
| "lex_step (LScript k) c =
     (if c = script_end ! k then (if k = 8 then LText else LScript (Suc k))
      else LScript (if c = CHR ''<'' then 1 else 0))"
| "lex_step LBad c = LBad"

fun lex_emit :: "lex_mode \<Rightarrow> char \<Rightarrow> string option" where
  \<comment> \<open>the tag that ends here\<close>
  "lex_emit (LName n) c = (if c = CHR ''>'' then Some n else None)"
| "lex_emit (LAttrs n) c = (if c = CHR ''>'' then Some n else None)"
| "lex_emit (LScript k) c = (if k = 8 \<and> c = CHR ''>'' then Some ''/script'' else None)"
| "lex_emit _ c = None"

definition void_tags :: "string list" where
  "void_tags = [''!doctype'', ''meta'', ''link'', ''input'']"

fun nest :: "string \<Rightarrow> string list \<Rightarrow> string list option" where
  \<comment> \<open>the open elements after a tag\<close>
  "nest (c # n) S =
     (if c = CHR ''/'' then (case S of t # S1 \<Rightarrow> if t = n then Some S1 else None | [] \<Rightarrow> None)
      else if c # n \<in> set void_tags then Some S else Some ((c # n) # S))"
| "nest [] S = None"

fun html_lex :: "lex_mode \<Rightarrow> string list \<Rightarrow> string \<Rightarrow> (lex_mode \<times> string list) option" where
  "html_lex m S [] = Some (m, S)"
| "html_lex m S (c # cs) =
     (case lex_emit m c of
        None \<Rightarrow> html_lex (lex_step m c) S cs
      | Some n \<Rightarrow> (case nest n S of None \<Rightarrow> None | Some S1 \<Rightarrow> html_lex (lex_step m c) S1 cs))"

declare html_lex.simps [simp del]

fun tags :: "lex_mode \<Rightarrow> string \<Rightarrow> string list" where
  "tags m [] = []"
| "tags m (c # cs) = (case lex_emit m c of None \<Rightarrow> [] | Some n \<Rightarrow> [n]) @ tags (lex_step m c) cs"

subsection \<open>Checking a component\<close>

fun check :: "lex_mode \<Rightarrow> string list \<Rightarrow> component \<Rightarrow> (lex_mode \<times> string list) option" where
  \<comment> \<open>data stands between tags or in a quoted value, links in a quoted value only\<close>
  "check m S [] = Some (m, S)"
| "check m S (WStr s # xs) = (case html_lex m S s of None \<Rightarrow> None | Some (m1, S1) \<Rightarrow> check m1 S1 xs)"
| "check m S (WEnter # xs) = check m S xs"
| "check m S (WText s # xs) = (if m = LText then check m S xs else None)"
| "check m S (WCss cs # xs) = (if m = LText then check m S xs else None)"
| "check m S (WUrl s # xs) = (case m of LValue _ \<Rightarrow> check m S xs | _ \<Rightarrow> None)"
| "check m S (WAttr s # xs) = (case m of LValue _ \<Rightarrow> check m S xs | _ \<Rightarrow> None)"
| "check m S (WClass cs # xs) = (case m of LValue _ \<Rightarrow> check m S xs | _ \<Rightarrow> None)"

fun own_tags :: "lex_mode \<Rightarrow> component \<Rightarrow> string list" where
  \<comment> \<open>the tags of the template's own texts\<close>
  "own_tags m [] = []"
| "own_tags m (WStr s # xs) = tags m s @ own_tags (fold (\<lambda>c m. lex_step m c) s m) xs"
| "own_tags m (x # xs) = own_tags m xs"

definition safe_text :: "string \<Rightarrow> bool" where
  "safe_text s \<longleftrightarrow> (\<forall>c \<in> set s. c \<noteq> CHR ''<'' \<and> c \<noteq> CHR ''>'' \<and> c \<noteq> CHR 0x22)"

definition templ_ok :: "templ_env \<Rightarrow> bool" where
  \<comment> \<open>what the library documents: escaped text has neither angle brackets nor quotes, and class
     names that are plain strings need no style element\<close>
  "templ_ok te \<longleftrightarrow>
     (\<forall>s. safe_text (te_Escape te s)) \<and> (\<forall>s t. te_Attr te s = Inr t \<longrightarrow> safe_text t) \<and>
     (\<forall>cs t. te_CSS te cs = Inr t \<longrightarrow> t = [])"

lemma check_append:
  "check m S (xs @ ys) = (case check m S xs of None \<Rightarrow> None | Some (m1, S1) \<Rightarrow> check m1 S1 ys)"
  by (induction m S xs rule: check.induct) (auto split: option.splits lex_mode.splits)

lemma check_concat:
  "(\<And>x. x \<in> set xs \<Longrightarrow> check m S (f x) = Some (m, S)) \<Longrightarrow> check m S (concat (map f xs)) = Some (m, S)"
  by (induction xs) (simp_all add: check_append)

lemma html_lex_append:
  "html_lex m S (s @ t) = (case html_lex m S s of None \<Rightarrow> None | Some (m1, S1) \<Rightarrow> html_lex m1 S1 t)"
  by (induction m S s rule: html_lex.induct) (simp_all add: html_lex.simps split: option.split)

lemma lex_mode_fold: "html_lex m S s = Some (m1, S1) \<Longrightarrow> fold (\<lambda>c m. lex_step m c) s m = m1"
  by (induction m S s rule: html_lex.induct) (auto simp: html_lex.simps split: option.splits)

lemma tags_append: "tags m (s @ t) = tags m s @ tags (fold (\<lambda>c m. lex_step m c) s m) t"
  by (induction s arbitrary: m) simp_all

definition data_mode :: "lex_mode \<Rightarrow> bool" where
  "data_mode m \<longleftrightarrow> m = LText \<or> (\<exists>n. m = LValue n)"

lemma safe_scan:
  assumes "safe_text s" and "data_mode m"
  shows "html_lex m S s = Some (m, S)" and "tags m s = []" and "fold (\<lambda>c m. lex_step m c) s m = m"
proof -
  have step: "lex_step m c = m \<and> lex_emit m c = None" if "c \<in> set s" for c
    using assms that unfolding safe_text_def data_mode_def by (elim disjE exE) simp_all
  have "html_lex m S s = Some (m, S) \<and> tags m s = [] \<and> fold (\<lambda>c m. lex_step m c) s m = m"
    using step by (induction s) (simp_all add: html_lex.simps)
  then show "html_lex m S s = Some (m, S)" "tags m s = []" "fold (\<lambda>c m. lex_step m c) s m = m" by simp_all
qed

lemma safe_take: "safe_text s \<Longrightarrow> safe_text (take n s)"
  unfolding safe_text_def by (meson in_set_takeD)

text \<open>Data leaves the scanner where it is.\<close>

lemma safe_nil: "s = [] \<Longrightarrow> safe_text s"
  by (simp add: safe_text_def)

lemma op_scan:
  assumes "check m S (x # xs) \<noteq> None" and "\<And>w. x \<noteq> WStr w"
  shows "check m S (x # xs) = check m S xs" and "own_tags m (x # xs) = own_tags m xs"
    and "x = WEnter \<or> data_mode m"
  using assms by (cases x; auto simp: data_mode_def split: lex_mode.splits if_splits)+

lemma op_safe:
  assumes "templ_ok te" and "op_text te x out = Inr s" and "\<And>w. x \<noteq> WStr w"
  shows "safe_text s" and "x = WEnter \<Longrightarrow> s = []"
proof -
  show "x = WEnter \<Longrightarrow> s = []" using assms(2) by (auto split: option.splits)
  show "safe_text s"
    using assms unfolding templ_ok_def
    by (cases x) (auto simp: safe_nil split: sum.splits option.splits)
qed

lemma html_lex_take: "html_lex m S s \<noteq> None \<Longrightarrow> html_lex m S (take n s) \<noteq> None"
  using html_lex_append [of m S "take n s" "drop n s"] by (auto split: option.splits)

lemma run_scan:
  assumes "templ_ok te"
  shows "html_lex LText [] out = Some (m, S) \<Longrightarrow> check m S xs \<noteq> None \<Longrightarrow> run_ops te xs out = (err, out') \<Longrightarrow>
    html_lex LText [] out' \<noteq> None \<and>
    (err = None \<longrightarrow> html_lex LText [] out' = check m S xs \<and> tags LText out' = tags LText out @ own_tags m xs)"
proof (induction xs arbitrary: out m S)
  case Nil
  then show ?case by simp
next
  case (Cons x xs)
  show ?case
  proof (cases "op_text te x out")
    case (Inl e)
    then have "err = Some e \<and> out' = out" using Cons.prems(3) by simp
    then show ?thesis using Cons.prems(1) by simp
  next
    case (Inr s)
    have next_state: "\<exists>m1 S1. html_lex m S s = Some (m1, S1) \<and> check m1 S1 xs = check m S (x # xs) \<and>
        tags m s @ own_tags m1 xs = own_tags m (x # xs)"
    proof (cases "\<exists>w. x = WStr w")
      case True
      then show ?thesis using Cons.prems(2) Inr lex_mode_fold by (auto split: option.splits)
    next
      case False
      then have w: "x \<noteq> WStr w" for w by blast
      note o = op_scan [OF Cons.prems(2) w] and safe = op_safe [OF assms Inr w]
      have "html_lex m S s = Some (m, S) \<and> tags m s = []"
        using o(3) safe safe_scan [of s m] by (auto simp: html_lex.simps)
      then show ?thesis using o(1,2) by auto
    qed
    then obtain m1 S1 where n: "html_lex m S s = Some (m1, S1)" "check m1 S1 xs = check m S (x # xs)"
        "tags m s @ own_tags m1 xs = own_tags m (x # xs)" by blast
    have l: "html_lex LText [] (out @ s) = Some (m1, S1)" using Cons.prems(1) n(1) by (simp add: html_lex_append)
    show ?thesis
    proof (cases "te_Write te out s")
      case None
      have r: "run_ops te xs (out @ s) = (err, out')" using Cons.prems(3) by (simp add: Inr None)
      have "tags LText (out @ s) = tags LText out @ tags m s"
        using lex_mode_fold [OF Cons.prems(1)] by (simp add: tags_append)
      with Cons.IH [OF l _ r] Cons.prems(2) show ?thesis
        unfolding n(2) n(3) [symmetric] by simp
    next
      case (Some p)
      then have "out' = out @ take (fst p) s \<and> err = Some (snd p)"
        using Cons.prems(3) by (auto simp: Inr split: prod.splits)
      then show ?thesis
        using html_lex_take [of LText "[]" "out @ s" "length out + fst p"] l by simp
    qed
  qed
qed

lemma Render_scan:
  assumes "templ_ok te" and "check LText [] c = Some (LText, [])" and "Render te c = (err, out)"
  shows "html_lex LText [] out \<noteq> None \<and>
    (err = None \<longrightarrow> html_lex LText [] out = Some (LText, []) \<and> tags LText out = own_tags LText c)"
proof -
  obtain e o1 where r: "run_ops te c [] = (e, o1)" by fastforce
  then have "out = o1" "err = None \<longrightarrow> e = None"
    using assms(3) by (auto simp: Render_def split: option.splits)
  then show ?thesis using run_scan [OF assms(1) _ _ r, of LText "[]"] assms(2) by (auto simp: html_lex.simps)
qed

end
