(* ===== verification/Templates.thy ===== *)
theory Templates
  imports Html
begin

text \<open>
  The pages of the dashboard, the files \<open>internal/web/views/*_templ.go\<close> that templ generates: one
  definition per component, with the source's conditions and loops over the writes of theory
  \<open>Html\<close>. A text the template writes is named after its file and its number in
  \<open>templruntime.WriteString\<close>; short ones stand in place. Pages render their content as the
  children of \<open>Layout\<close>; the content of the three largest is cut into parts.
\<close>

subsection \<open>Helpers of \<open>types.go\<close>\<close>

definition Num :: "int \<Rightarrow> string" where "Num n = Itoa n"

definition StatusBadge :: "string \<Rightarrow> string" where
  "StatusBadge status =
     ''inline-flex items-center rounded-full px-2 py-0.5 text-xs font-medium '' @
     (if status \<in> {''pending'', ''queued''} then ''bg-amber-500/15 text-amber-300 ring-1 ring-amber-500/30''
      else if status = ''running'' then ''bg-sky-500/15 text-sky-300 ring-1 ring-sky-500/30''
      else if status = ''completed'' then ''bg-emerald-500/15 text-emerald-300 ring-1 ring-emerald-500/30''
      else if status = ''failed'' then ''bg-red-500/15 text-red-300 ring-1 ring-red-500/30''
      else if status = ''scheduled'' then ''bg-violet-500/15 text-violet-300 ring-1 ring-violet-500/30''
      else if status = ''cancelled'' then ''bg-zinc-500/15 text-zinc-400 ring-1 ring-zinc-500/30''
      else ''bg-zinc-500/15 text-zinc-300 ring-1 ring-zinc-500/30'')"

definition TabClass :: "bool \<Rightarrow> string" where
  "TabClass active =
     ''rounded-md px-3 py-1.5 text-sm font-medium '' @
     (if active then ''bg-zinc-100 text-zinc-900''
      else ''text-zinc-400 hover:bg-zinc-800 hover:text-zinc-200'')"

text \<open>The characters outside ASCII in UTF-8, a line break with indentation, and a conditional part.\<close>

definition u_nl :: char where "u_nl = CHR 0x0A"
definition u_larr :: string where "u_larr = [CHR 0xE2, CHR 0x86, CHR 0x90]"
definition u_rarr :: string where "u_rarr = [CHR 0xE2, CHR 0x86, CHR 0x92]"
definition u_cycle :: string where "u_cycle = [CHR 0xE2, CHR 0x86, CHR 0xBB]"
definition u_middot :: string where "u_middot = [CHR 0xC2, CHR 0xB7]"
definition u_mdash :: string where "u_mdash = [CHR 0xE2, CHR 0x80, CHR 0x94]"
definition u_hellip :: string where "u_hellip = [CHR 0xE2, CHR 0x80, CHR 0xA6]"
definition u_le :: string where "u_le = [CHR 0xE2, CHR 0x89, CHR 0xA4]"

definition nl_tabs :: "nat \<Rightarrow> string" where "nl_tabs n = u_nl # replicate n (CHR 0x09)"

definition opt :: "bool \<Rightarrow> component \<Rightarrow> component" where
  "opt b c = (if b then c else [])"

subsection \<open>\<open>layout_templ.go\<close>\<close>

definition layout_1 :: string where
  "layout_1 =
     ''<!doctype html><html lang=\"en\"><head><meta charset=\"utf-8\"><meta name=\"viewport\" '' @
     ''content=\"width=device-width, initial-scale=1\"><title>''"

definition layout_2 :: string where
  "layout_2 =
     '' '' @ u_middot @
     '' PierceMQ</title><link rel=\"stylesheet\" href=\"/static/app.css\"></head><body '' @
     ''class=\"min-h-screen bg-zinc-950 text-zinc-100 antialiased\"><nav class=\"border-b '' @
     ''border-zinc-800 bg-zinc-900/60\"><div class=\"mx-auto flex max-w-6xl items-center gap-6 '' @
     ''px-4 py-3\"><a href=\"/\" class=\"text-lg font-bold tracking-tight\">Pierce<span '' @
     ''class=\"text-emerald-400\">MQ</span></a> ''"

definition layout_3 :: string where
  "layout_3 =
     ''<a href=\"/\" class=\"text-sm text-zinc-300 hover:text-white\">Dashboard</a> <a '' @
     ''href=\"/jobs/new\" class=\"text-sm text-zinc-300 hover:text-white\">New job</a> <span '' @
     ''class=\"flex-1\"></span><form method=\"POST\" action=\"/logout\"><button type=\"submit\" '' @
     ''class=\"rounded-md bg-zinc-800 px-3 py-1.5 text-sm text-zinc-300 '' @
     ''hover:bg-zinc-700\">Logout</button></form>''"

definition layout_4 :: string where
  "layout_4 =
     ''<span class=\"flex-1\"></span> <a href=\"/login\" class=\"text-sm text-zinc-300 '' @
     ''hover:text-white\">Login</a> <a href=\"/register\" class=\"rounded-md bg-emerald-600 px-3 '' @
     ''py-1.5 text-sm font-medium text-white hover:bg-emerald-500\">Register</a>''"

definition layout_5 :: string where
  "layout_5 =
     ''</div></nav><main class=\"mx-auto max-w-6xl px-4 py-6\">''"

definition layout_6 :: string where
  "layout_6 =
     ''</main><script src=\"/static/htmx.min.js\"></script></body></html>''"

definition Layout :: "string \<Rightarrow> bool \<Rightarrow> component \<Rightarrow> component" where
  "Layout title authed children =
     [WEnter, WStr layout_1, WText title, WStr layout_2] @
     (if authed
       then [WStr layout_3]
       else [WStr layout_4]) @
     [WStr layout_5] @
     children @
     [WStr layout_6]"

subsection \<open>\<open>login_templ.go\<close>\<close>

definition login_1 :: string where
  "login_1 =
     ''<div class=\"mx-auto mt-16 max-w-md rounded-lg border border-zinc-800 bg-zinc-900 p-6\"><h1 '' @
     ''class=\"text-xl font-semibold\">Login</h1><p class=\"mt-1 text-sm text-zinc-400\">Session is '' @
     ''cookie-based; the token never reaches JS.</p>''"

definition login_2 :: string where
  "login_2 =
     ''<div class=\"mt-4 rounded-md bg-red-500/10 px-3 py-2 text-sm text-red-300 ring-1 '' @
     ''ring-red-500/30\">''"

definition login_4 :: string where
  "login_4 =
     ''<form method=\"POST\" action=\"/login\" class=\"mt-4 space-y-4\"><div><label for=\"email\" '' @
     ''class=\"block text-sm font-medium text-zinc-300\">Email</label> <input id=\"email\" '' @
     ''name=\"email\" type=\"email\" required value=\"''"

definition login_5 :: string where
  "login_5 =
     ''\" autocomplete=\"email\" class=\"mt-1 w-full rounded-md border border-zinc-700 bg-zinc-800 '' @
     ''px-3 py-2 text-sm placeholder-zinc-500 focus:border-emerald-500 '' @
     ''focus:outline-none\"></div><div><label for=\"password\" class=\"block text-sm font-medium '' @
     ''text-zinc-300\">Password</label> <input id=\"password\" name=\"password\" type=\"password\" '' @
     ''required autocomplete=\"current-password\" class=\"mt-1 w-full rounded-md border '' @
     ''border-zinc-700 bg-zinc-800 px-3 py-2 text-sm placeholder-zinc-500 '' @
     ''focus:border-emerald-500 focus:outline-none\"></div><button type=\"submit\" class=\"w-full '' @
     ''rounded-md bg-emerald-600 px-3 py-2 text-sm font-medium text-white '' @
     ''hover:bg-emerald-500\">Login</button></form><p class=\"mt-4 text-center text-sm '' @
     ''text-zinc-400\">No account? <a href=\"/register\" class=\"text-emerald-400 '' @
     ''hover:text-emerald-300\">Register</a></p></div>''"

definition login_6 :: string where
  "login_6 =
     ''<div class=\"mx-auto mt-16 max-w-md rounded-lg border border-zinc-800 bg-zinc-900 p-6\"><h1 '' @
     ''class=\"text-xl font-semibold\">Register</h1><p class=\"mt-1 text-sm text-zinc-400\">Creates '' @
     ''a user and logs you in.</p>''"

definition login_7 :: string where
  "login_7 =
     ''<div class=\"mt-4 rounded-md bg-red-500/10 px-3 py-2 text-sm text-red-300 ring-1 '' @
     ''ring-red-500/30\">''"

definition login_9 :: string where
  "login_9 =
     ''<form method=\"POST\" action=\"/register\" class=\"mt-4 space-y-4\"><div><label for=\"name\" '' @
     ''class=\"block text-sm font-medium text-zinc-300\">Name</label> <input id=\"name\" name=\"name\" '' @
     ''type=\"text\" required value=\"''"

definition login_10 :: string where
  "login_10 =
     ''\" autocomplete=\"username\" class=\"mt-1 w-full rounded-md border border-zinc-700 '' @
     ''bg-zinc-800 px-3 py-2 text-sm placeholder-zinc-500 focus:border-emerald-500 '' @
     ''focus:outline-none\"></div><div><label for=\"email\" class=\"block text-sm font-medium '' @
     ''text-zinc-300\">Email</label> <input id=\"email\" name=\"email\" type=\"email\" required value=\"''"

definition login_11 :: string where
  "login_11 =
     ''\" autocomplete=\"email\" class=\"mt-1 w-full rounded-md border border-zinc-700 bg-zinc-800 '' @
     ''px-3 py-2 text-sm placeholder-zinc-500 focus:border-emerald-500 '' @
     ''focus:outline-none\"></div><div><label for=\"password\" class=\"block text-sm font-medium '' @
     ''text-zinc-300\">Password (min 8 chars)</label> <input id=\"password\" name=\"password\" '' @
     ''type=\"password\" required minlength=\"8\" autocomplete=\"new-password\" class=\"mt-1 w-full '' @
     ''rounded-md border border-zinc-700 bg-zinc-800 px-3 py-2 text-sm placeholder-zinc-500 '' @
     ''focus:border-emerald-500 focus:outline-none\"></div><button type=\"submit\" class=\"w-full '' @
     ''rounded-md bg-emerald-600 px-3 py-2 text-sm font-medium text-white '' @
     ''hover:bg-emerald-500\">Register</button></form><p class=\"mt-4 text-center text-sm '' @
     ''text-zinc-400\">Have an account? <a href=\"/login\" class=\"text-emerald-400 '' @
     ''hover:text-emerald-300\">Login</a></p></div>''"

definition Login :: "string \<Rightarrow> string \<Rightarrow> component" where
  "Login email errMsg =
     [WEnter] @
     Layout ''Login'' False
       ([WStr login_1] @
        opt (errMsg \<noteq> [])
          ([WStr login_2, WText errMsg, WStr ''</div>'']) @
        [WStr login_4, WAttr email, WStr login_5])"

definition Register :: "string \<Rightarrow> string \<Rightarrow> string \<Rightarrow> component" where
  "Register name email errMsg =
     [WEnter] @
     Layout ''Register'' False
       ([WStr login_6] @
        opt (errMsg \<noteq> [])
          ([WStr login_7, WText errMsg, WStr ''</div>'']) @
        [WStr login_9, WAttr name, WStr login_10, WAttr email, WStr login_11])"

subsection \<open>\<open>error_templ.go\<close>\<close>

definition error_page_1 :: string where
  "error_page_1 =
     ''<div class=\"mx-auto mt-16 max-w-md text-center\"><div class=\"text-5xl font-bold '' @
     ''text-zinc-700\">''"

definition error_page_2 :: string where
  "error_page_2 =
     ''</div><p class=\"mt-2 text-sm text-zinc-400\">''"

definition error_page_3 :: string where
  "error_page_3 =
     ''</p><a href=\"/\" class=\"mt-4 inline-block rounded-md bg-zinc-800 px-4 py-2 text-sm '' @
     ''text-zinc-300 hover:bg-zinc-700\">Back to dashboard</a></div>''"

definition ErrorPage :: "int \<Rightarrow> string \<Rightarrow> component" where
  "ErrorPage code msg =
     [WEnter] @
     Layout ''Error'' True
       ([WStr error_page_1, WText (Itoa code), WStr error_page_2, WText msg, WStr error_page_3])"

subsection \<open>\<open>dashboard_templ.go\<close>\<close>

definition dashboard_1 :: string where
  "dashboard_1 =
     ''<div class=\"rounded-lg border border-zinc-800 bg-zinc-900 p-4\"><div class=\"text-xs '' @
     ''font-medium uppercase tracking-wide text-zinc-500\">''"

definition dashboard_2 :: string where
  "dashboard_2 =
     ''</div><div class=\"mt-1 text-2xl font-semibold tabular-nums\">''"

definition dashboard_4 :: string where
  "dashboard_4 =
     ''<div class=\"mt-0.5 text-xs text-zinc-500\">''"

definition dashboard_7 :: string where
  "dashboard_7 =
     ''<div id=\"stat-cards\" hx-get=\"/partials/stats\" hx-trigger=\"every 5s\" hx-swap=\"outerHTML\" '' @
     ''class=\"grid grid-cols-2 gap-3 md:grid-cols-4\">''"

definition dashboard_9 :: string where
  "dashboard_9 =
     ''<div id=\"stat-cards\" hx-get=\"/partials/stats\" hx-trigger=\"every 5s\" hx-swap=\"outerHTML\" '' @
     ''class=\"rounded-lg border border-red-500/30 bg-red-500/10 p-4 text-sm text-red-300\">Stats '' @
     ''unavailable '' @ u_mdash @ '' retrying'' @ u_hellip @ ''</div>''"

definition dashboard_10 :: string where
  "dashboard_10 =
     ''<tr class=\"border-t border-zinc-800 hover:bg-zinc-900/60\"><td class=\"px-3 py-2 font-mono '' @
     ''text-xs text-zinc-400\" title=\"''"

definition dashboard_12 :: string where
  "dashboard_12 =
     ''</td><td class=\"px-3 py-2 text-sm\">''"

definition dashboard_16 :: string where
  "dashboard_16 =
     ''</span></td><td class=\"px-3 py-2 text-sm tabular-nums text-zinc-400\">''"

definition dashboard_18 :: string where
  "dashboard_18 =
     ''</td><td class=\"px-3 py-2 text-sm text-zinc-400\">''"

definition dashboard_19 :: string where
  "dashboard_19 =
     ''</td><td class=\"px-3 py-2 text-xs text-zinc-500\">''"

definition dashboard_20 :: string where
  "dashboard_20 =
     ''</td><td class=\"px-3 py-2 text-right\"><a href=\"''"

definition dashboard_21 :: string where
  "dashboard_21 =
     ''\" class=\"text-sm text-emerald-400 hover:text-emerald-300\">View</a></td></tr>''"

definition dashboard_23 :: string where
  "dashboard_23 =
     ''\" hx-trigger=\"every 15s\" hx-swap=\"outerHTML\"><div class=\"overflow-hidden rounded-lg '' @
     ''border border-zinc-800\"><table class=\"w-full border-collapse\"><thead><tr '' @
     ''class=\"bg-zinc-900 text-left text-xs uppercase tracking-wide text-zinc-500\"><th '' @
     ''class=\"px-3 py-2 font-medium\">ID</th><th class=\"px-3 py-2 font-medium\">Type</th><th '' @
     ''class=\"px-3 py-2 font-medium\">Status</th><th class=\"px-3 py-2 font-medium\">Try</th><th '' @
     ''class=\"px-3 py-2 font-medium\">Queue</th><th class=\"px-3 py-2 font-medium\">Created</th><th '' @
     ''class=\"px-3 py-2 font-medium\"><span class=\"sr-only\">Open</span></th></tr></thead> <tbody>''"

definition dashboard_24 :: string where
  "dashboard_24 =
     ''<tr><td colspan=\"7\" class=\"px-3 py-8 text-center text-sm text-zinc-500\">No jobs match '' @
     ''this filter.</td></tr>''"

definition dashboard_25 :: string where
  "dashboard_25 =
     ''</tbody></table></div><div class=\"mt-3 flex items-center justify-between text-sm\"><div '' @
     ''class=\"text-zinc-500\">Showing ''"

definition dashboard_26 :: string where
  "dashboard_26 =
     '' '' @ u_middot @ '' offset ''"

definition dashboard_29 :: string where
  "dashboard_29 =
     ''\" class=\"rounded-md bg-zinc-800 px-3 py-1.5 text-zinc-300 hover:bg-zinc-700\">'' @ u_larr @
     '' Prev</a> ''"

definition dashboard_31 :: string where
  "dashboard_31 =
     ''\" class=\"rounded-md bg-zinc-800 px-3 py-1.5 text-zinc-300 hover:bg-zinc-700\">Next '' @ u_rarr @
     ''</a>''"

definition dashboard_33 :: string where
  "dashboard_33 =
     ''<div id=\"job-table\" class=\"rounded-lg border border-red-500/30 bg-red-500/10 p-4 text-sm '' @
     ''text-red-300\">Jobs unavailable '' @ u_mdash @
     '' <a href=\"/\" class=\"underline\">reload</a>.</div>''"

definition dashboard_34 :: string where
  "dashboard_34 =
     ''<div class=\"mb-4 flex items-center justify-between\"><h1 class=\"text-xl '' @
     ''font-semibold\">Dashboard</h1><a href=\"/jobs/new\" class=\"rounded-md bg-emerald-600 px-3 '' @
     ''py-1.5 text-sm font-medium text-white hover:bg-emerald-500\">+ New job</a></div>''"

definition dashboard_35 :: string where
  "dashboard_35 =
     ''<div class=\"mb-4 rounded-md bg-amber-500/10 px-3 py-2 text-sm text-amber-300 ring-1 '' @
     ''ring-amber-500/30\">''"

definition dashboard_38 :: string where
  "dashboard_38 =
     '' <div class=\"mt-6 mb-3 flex flex-wrap items-center gap-2\">''"

definition dashboard_49 :: string where
  "dashboard_49 =
     ''<form method=\"GET\" action=\"/\" class=\"ml-auto flex gap-2\"><input name=\"series_id\" value=\"''"

definition dashboard_50 :: string where
  "dashboard_50 =
     ''\" placeholder=\"series id'' @ u_hellip @
     ''\" class=\"w-40 rounded-md border border-zinc-700 bg-zinc-800 px-2 py-1.5 font-mono text-xs '' @
     ''placeholder-zinc-500 focus:border-emerald-500 focus:outline-none\"> <button type=\"submit\" '' @
     ''class=\"rounded-md bg-zinc-800 px-3 py-1.5 text-sm text-zinc-300 '' @
     ''hover:bg-zinc-700\">Series</button> ''"

definition dashboard_51 :: string where
  "dashboard_51 =
     ''<a href=\"/\" class=\"rounded-md bg-zinc-800 px-3 py-1.5 text-sm text-zinc-300 '' @
     ''hover:bg-zinc-700\">Clear</a>''"

definition StatCard :: "string \<Rightarrow> string \<Rightarrow> string \<Rightarrow> component" where
  "StatCard label val sub =
     [WEnter, WStr dashboard_1, WText label, WStr dashboard_2, WText val, WStr ''</div>''] @
     opt (sub \<noteq> [])
       ([WStr dashboard_4, WText sub, WStr ''</div>'']) @
     [WStr ''</div>'']"

definition StatCards :: "ViewStats \<Rightarrow> component" where
  "StatCards stats =
     [WEnter, WStr dashboard_7] @
     StatCard ''Pending'' (Num (st_Pending stats)) (Num (st_Queued stats) @ '' queued'') @
     StatCard ''Processing'' (Num (st_Processing stats)) (Num (st_Workers stats) @ '' workers'') @
     StatCard ''Scheduled'' (Num (st_Scheduled stats)) ''recurring + delayed'' @
     StatCard ''Failed'' (Num (st_Failed stats)) ''dead-letter queue'' @
     StatCard ''Completed'' (Num (st_Completed stats)) [] @
     StatCard ''Cancelled'' (Num (st_Cancelled stats)) [] @
     StatCard ''Queue depth'' (Num (st_QueueDepth stats)) ''stream entries'' @
     StatCard ''Oldest pending'' (Age (st_OldestAgeSec stats)) ''head-of-line wait'' @
     [WStr ''</div>'']"

definition StatsError :: "component" where
  "StatsError =
     [WEnter, WStr dashboard_9]"

definition JobRow :: "ViewJob \<Rightarrow> component" where
  "JobRow job =
     [WEnter, WStr dashboard_10, WAttr (vj_ID job), WStr ''\">'', WText (ShortID (vj_ID job)),
      WStr dashboard_12, WText (vj_Type job), WStr ''</td><td class=\"px-3 py-2\">'',
      WCss [StatusBadge (vj_Status job)], WStr ''<span class=\"'',
      WClass [StatusBadge (vj_Status job)], WStr ''\">'', WText (vj_Status job), WStr dashboard_16,
      WText (Num (vj_Attempt job)), WStr ''/'', WText (Num (vj_MaxRetry job)), WStr dashboard_18,
      WText (vj_Queue job), WStr dashboard_19, WText (vj_CreatedAt job), WStr dashboard_20,
      WUrl (''/jobs/'' @ vj_ID job), WStr dashboard_21]"

definition JobTable :: "ViewJob list \<Rightarrow> JobFilter \<Rightarrow> component" where
  "JobTable jobs flt =
     [WEnter, WStr ''<div id=\"job-table\" hx-get=\"'', WAttr (''/partials/jobs?'' @ filter_Query flt),
      WStr dashboard_23] @
     concat (map JobRow jobs) @
     opt (jobs = [])
       ([WStr dashboard_24]) @
     [WStr dashboard_25, WText (Num (int (length jobs))), WStr dashboard_26,
      WText (Num (fl_Offset flt)), WStr ''</div><div class=\"flex gap-2\">''] @
     opt (0 < fl_Offset flt)
       ([WStr ''<a href=\"'',
         WUrl (''/?'' @ filter_Query (WithOffset flt (max (wrap64 (fl_Offset flt - fl_Limit flt)) 0))),
         WStr dashboard_29]) @
     opt (fl_HasMore flt)
       ([WStr ''<a href=\"'',
         WUrl (''/?'' @ filter_Query (WithOffset flt (wrap64 (fl_Offset flt + fl_Limit flt)))),
         WStr dashboard_31]) @
     [WStr ''</div></div></div>'']"

definition JobsError :: "component" where
  "JobsError =
     [WEnter, WStr dashboard_33]"

definition Dashboard_head :: "ViewStats \<Rightarrow> string \<Rightarrow> component" where
  "Dashboard_head stats notice =
     [WStr dashboard_34] @
     opt (notice \<noteq> [])
       ([WStr dashboard_35, WText notice, WStr ''</div>'']) @
     [WStr '' ''] @
     StatCards stats"

definition Dashboard_tab :: "JobFilter \<Rightarrow> string \<Rightarrow> component" where
  "Dashboard_tab flt tab =
     (if tab = fl_Status flt
       then [WCss [TabClass True], WStr ''<a href=\"'', WUrl (tabLink tab flt), WStr ''\" class=\"'',
             WClass [TabClass True], WStr ''\">''] @
            (if tab = []
              then [WStr ''All'']
              else [WText tab]) @
            [WStr ''</a>'']
       else [WCss [TabClass False], WStr ''<a href=\"'', WUrl (tabLink tab flt), WStr ''\" class=\"'',
             WClass [TabClass False], WStr ''\">''] @
            (if tab = []
              then [WStr ''All'']
              else [WText tab]) @
            [WStr ''</a>''])"

definition Dashboard_tabs :: "JobFilter \<Rightarrow> component" where
  "Dashboard_tabs flt =
     [WStr dashboard_38] @
     concat (map (Dashboard_tab flt) FilterTabs)"

definition Dashboard_series :: "JobFilter \<Rightarrow> component" where
  "Dashboard_series flt =
     [WStr dashboard_49, WAttr (fl_SeriesID flt), WStr dashboard_50] @
     opt (fl_SeriesID flt \<noteq> [])
       ([WStr dashboard_51]) @
     [WStr ''</form></div>'']"

definition Dashboard :: "ViewStats \<Rightarrow> ViewJob list \<Rightarrow> JobFilter \<Rightarrow> string \<Rightarrow> component" where
  "Dashboard stats jobs flt notice =
     [WEnter] @
     Layout ''Dashboard'' True
       (Dashboard_head stats notice @ Dashboard_tabs flt @ Dashboard_series flt @ JobTable jobs flt)"

subsection \<open>\<open>jobs_templ.go\<close>\<close>

definition jobs_1 :: string where
  "jobs_1 =
     ''<div class=\"flex justify-between gap-4 border-b border-zinc-800/60 py-2 text-sm\"><dt '' @
     ''class=\"shrink-0 text-zinc-500\">''"

definition jobs_2 :: string where
  "jobs_2 =
     ''</dt><dd class=\"truncate text-right font-mono text-xs text-zinc-200\" title=\"''"

definition jobs_5 :: string where
  "jobs_5 =
     ''<div class=\"mb-4 flex flex-wrap items-center gap-3\"><a href=\"/\" class=\"text-sm '' @
     ''text-zinc-400 hover:text-white\">'' @ u_larr @ '' Dashboard</a><h1 class=\"font-mono text-lg\">''"

definition jobs_11 :: string where
  "jobs_11 =
     ''\" class=\"inline-flex items-center rounded-full bg-violet-500/15 px-2 py-0.5 text-xs '' @
     ''font-medium text-violet-300 ring-1 ring-violet-500/30\">'' @ u_cycle @ '' series</a> ''"

definition jobs_14 :: string where
  "jobs_14 =
     ''\"><button type=\"submit\" class=\"rounded-md bg-emerald-600 px-3 py-1.5 text-sm font-medium '' @
     ''text-white hover:bg-emerald-500\">Retry</button></form>''"

definition jobs_16 :: string where
  "jobs_16 =
     ''\"><button type=\"submit\" class=\"rounded-md bg-zinc-800 px-3 py-1.5 text-sm text-zinc-300 '' @
     ''hover:bg-zinc-700\">Cancel</button></form>''"

definition jobs_18 :: string where
  "jobs_18 =
     ''\"><button type=\"submit\" class=\"rounded-md bg-red-600/80 px-3 py-1.5 text-sm font-medium '' @
     ''text-white hover:bg-red-600\">Cancel series</button></form>''"

definition jobs_19 :: string where
  "jobs_19 =
     ''</div><div class=\"grid gap-4 md:grid-cols-2\"><div class=\"rounded-lg border '' @
     ''border-zinc-800 bg-zinc-900 p-4\"><h2 class=\"mb-2 text-sm font-semibold uppercase '' @
     ''tracking-wide text-zinc-500\">Job</h2><dl>''"

definition jobs_21 :: string where
  "jobs_21 =
     ''</dl></div><div class=\"rounded-lg border border-zinc-800 bg-zinc-900 p-4\"><h2 class=\"mb-2 '' @
     ''text-sm font-semibold uppercase tracking-wide text-zinc-500\">Payload</h2>''"

definition jobs_22 :: string where
  "jobs_22 =
     ''<pre class=\"overflow-auto rounded bg-zinc-950 p-3 font-mono text-xs text-zinc-300\">''"

definition jobs_24 :: string where
  "jobs_24 =
     ''<p class=\"text-sm text-zinc-500\">No payload.</p>''"

definition jobs_25 :: string where
  "jobs_25 =
     ''</div></div><div class=\"mt-4 rounded-lg border border-zinc-800 bg-zinc-900 p-4\"><h2 '' @
     ''class=\"mb-2 text-sm font-semibold uppercase tracking-wide text-zinc-500\">Timeline</h2>''"

definition jobs_26 :: string where
  "jobs_26 =
     ''<p class=\"text-sm text-zinc-500\">No events recorded.</p>''"

definition jobs_27 :: string where
  "jobs_27 =
     ''<table class=\"w-full border-collapse text-sm\"><thead><tr class=\"text-left text-xs '' @
     ''uppercase tracking-wide text-zinc-500\"><th class=\"py-1 font-medium\">When</th><th '' @
     ''class=\"py-1 font-medium\">Transition</th><th class=\"py-1 font-medium\">Worker</th><th '' @
     ''class=\"py-1 font-medium\">Reason</th></tr></thead> <tbody>''"

definition jobs_28 :: string where
  "jobs_28 =
     ''<tr class=\"border-t border-zinc-800/60\"><td class=\"py-1.5 pr-3 font-mono text-xs '' @
     ''text-zinc-400\">''"

definition jobs_31 :: string where
  "jobs_31 =
     '' '' @ u_rarr @ ''</span> ''"

definition jobs_34 :: string where
  "jobs_34 =
     ''</span></td><td class=\"py-1.5 pr-3 font-mono text-xs text-zinc-400\">''"

definition jobs_35 :: string where
  "jobs_35 =
     ''</td><td class=\"py-1.5 text-xs text-zinc-400\">''"

definition jobs_39 :: string where
  "jobs_39 =
     ''<div class=\"mb-4 flex items-center gap-3\"><a href=\"/\" class=\"text-sm text-zinc-400 '' @
     ''hover:text-white\">'' @ u_larr @
     '' Dashboard</a><h1 class=\"text-xl font-semibold\">New job</h1></div><div class=\"max-w-2xl '' @
     ''rounded-lg border border-zinc-800 bg-zinc-900 p-6\">''"

definition jobs_40 :: string where
  "jobs_40 =
     ''<div class=\"mb-4 rounded-md bg-red-500/10 px-3 py-2 text-sm text-red-300 ring-1 '' @
     ''ring-red-500/30\">''"

definition jobs_42 :: string where
  "jobs_42 =
     ''<form method=\"POST\" action=\"/jobs\" class=\"space-y-4\"><div class=\"grid gap-4 '' @
     ''md:grid-cols-2\"><div><label for=\"type\" class=\"block text-sm font-medium '' @
     ''text-zinc-300\">Type</label> <select id=\"type\" name=\"type\" data-queue-type class=\"mt-1 '' @
     ''w-full rounded-md border border-zinc-700 bg-zinc-800 px-3 py-2 text-sm '' @
     ''focus:border-emerald-500 focus:outline-none\">''"

definition jobs_48 :: string where
  "jobs_48 =
     ''</select></div><div><label for=\"queue_name\" class=\"block text-sm font-medium '' @
     ''text-zinc-300\">Queue</label> <select id=\"queue_name\" name=\"queue_name\" data-queue-select '' @
     ''class=\"mt-1 w-full rounded-md border border-zinc-700 bg-zinc-800 px-3 py-2 text-sm '' @
     ''focus:border-emerald-500 focus:outline-none\">''"

definition jobs_55 :: string where
  "jobs_55 =
     ''</select></div></div><div><label for=\"payload\" class=\"block text-sm font-medium '' @
     ''text-zinc-300\">Payload <span class=\"text-zinc-500\">(JSON object, '' @ u_le @
     ''15KB)</span></label> <textarea id=\"payload\" name=\"payload\" rows=\"5\" placeholder=\"''"

definition jobs_56 :: string where
  "jobs_56 =
     ''\" class=\"mt-1 w-full rounded-md border border-zinc-700 bg-zinc-800 px-3 py-2 font-mono '' @
     ''text-sm placeholder-zinc-600 focus:border-emerald-500 focus:outline-none\">''"

definition jobs_57 :: string where
  "jobs_57 =
     ''</textarea></div><div class=\"grid gap-4 md:grid-cols-2\"><div><label for=\"priority\" '' @
     ''class=\"block text-sm font-medium text-zinc-300\">Priority</label> <select id=\"priority\" '' @
     ''name=\"priority\" data-priority-select class=\"mt-1 w-full rounded-md border border-zinc-700 '' @
     ''bg-zinc-800 px-3 py-2 text-sm focus:border-emerald-500 focus:outline-none\"><option '' @
     ''value=\"1\"''"

definition jobs_59 :: string where
  "jobs_59 =
     ''>High</option> <option value=\"0\"''"

definition jobs_61 :: string where
  "jobs_61 =
     ''>Low</option></select></div><div><label for=\"max_retry\" class=\"block text-sm font-medium '' @
     ''text-zinc-300\">Max retries <span class=\"text-zinc-500\">(default 3)</span></label> <input '' @
     ''id=\"max_retry\" name=\"max_retry\" type=\"number\" min=\"0\" value=\"''"

definition jobs_62 :: string where
  "jobs_62 =
     ''\" placeholder=\"3\" class=\"mt-1 w-full rounded-md border border-zinc-700 bg-zinc-800 px-3 '' @
     ''py-2 text-sm placeholder-zinc-500 focus:border-emerald-500 '' @
     ''focus:outline-none\"></div></div><div><label for=\"scheduled_at\" class=\"block text-sm '' @
     ''font-medium text-zinc-300\">Run at <span class=\"text-zinc-500\">(UTC, or leave '' @
     ''empty)</span></label> <input id=\"scheduled_at\" name=\"scheduled_at\" type=\"datetime-local\" '' @
     ''value=\"''"

definition jobs_63 :: string where
  "jobs_63 =
     ''\" class=\"mt-1 w-full rounded-md border border-zinc-700 bg-zinc-800 px-3 py-2 text-sm '' @
     ''placeholder-zinc-600 focus:border-emerald-500 focus:outline-none\"></div><div class=\"grid '' @
     ''gap-4 md:grid-cols-2\"><div><label for=\"cron\" class=\"block text-sm font-medium '' @
     ''text-zinc-300\">Cron <span class=\"text-zinc-500\">(recurring, exclusive with '' @
     ''run-at)</span></label> <input id=\"cron\" name=\"cron\" type=\"text\" value=\"''"

definition jobs_64 :: string where
  "jobs_64 =
     ''\" placeholder=\"*/5 * * * *\" class=\"mt-1 w-full rounded-md border border-zinc-700 '' @
     ''bg-zinc-800 px-3 py-2 font-mono text-sm placeholder-zinc-600 focus:border-emerald-500 '' @
     ''focus:outline-none\"></div><div><label for=\"cron_tz\" class=\"block text-sm font-medium '' @
     ''text-zinc-300\">Timezone</label> <input id=\"cron_tz\" name=\"cron_tz\" type=\"text\" value=\"''"

definition jobs_65 :: string where
  "jobs_65 =
     ''\" placeholder=\"UTC\" class=\"mt-1 w-full rounded-md border border-zinc-700 bg-zinc-800 px-3 '' @
     ''py-2 font-mono text-sm placeholder-zinc-600 focus:border-emerald-500 '' @
     ''focus:outline-none\"></div></div><button type=\"submit\" class=\"rounded-md bg-emerald-600 '' @
     ''px-4 py-2 text-sm font-medium text-white hover:bg-emerald-500\">Enqueue '' @
     ''job</button></form><script>'' @ nl_tabs 4 @ ''(function () {'' @ nl_tabs 5 @
     ''var typeSel = document.querySelector(\"[data-queue-type]\");'' @ nl_tabs 5 @
     ''var queueSel = document.querySelector(\"[data-queue-select]\");'' @ nl_tabs 5 @
     ''var prioritySel = document.querySelector(\"[data-priority-select]\");'' @ nl_tabs 5 @
     ''if (!typeSel || !queueSel) { return; }'' @ nl_tabs 0 @ nl_tabs 5 @ ''function syncPriority() {'' @
     nl_tabs 6 @ ''if (prioritySel) {'' @ nl_tabs 7 @
     ''prioritySel.value = /-low$/.test(queueSel.value) ? \"0\" : \"1\";'' @ nl_tabs 6 @ ''}'' @
     nl_tabs 5 @ ''}'' @ nl_tabs 0 @ nl_tabs 5 @ ''function applyType() {'' @ nl_tabs 6 @
     ''var type = typeSel.value;'' @ nl_tabs 6 @ ''var shown = 0;'' @ nl_tabs 6 @
     ''for (var i = 0; i < queueSel.options.length; i++) {'' @ nl_tabs 7 @
     ''var opt = queueSel.options[i];'' @ nl_tabs 7 @
     ''var match = opt.getAttribute(\"data-type\") === type;'' @ nl_tabs 7 @ ''opt.hidden = !match;'' @
     nl_tabs 7 @ ''opt.disabled = !match;'' @ nl_tabs 7 @ ''if (match) { shown++; }'' @ nl_tabs 6 @
     ''}'' @ nl_tabs 6 @ ''if (shown === 0) { return; }'' @ nl_tabs 6 @
     ''if (queueSel.selectedOptions[0] && !queueSel.selectedOptions[0].disabled) {'' @ nl_tabs 7 @
     ''syncPriority();'' @ nl_tabs 7 @ ''return;'' @ nl_tabs 6 @ ''}'' @ nl_tabs 6 @
     ''queueSel.value = type + \"-high\";'' @ nl_tabs 6 @ ''syncPriority();'' @ nl_tabs 5 @ ''}'' @
     nl_tabs 0 @ nl_tabs 5 @ ''typeSel.addEventListener(\"change\", applyType);'' @ nl_tabs 5 @
     ''queueSel.addEventListener(\"change\", syncPriority);'' @ nl_tabs 5 @ ''applyType();'' @ nl_tabs 4 @
     ''})();'' @ nl_tabs 3 @ ''</script></div>''"

definition fieldRow :: "string \<Rightarrow> string \<Rightarrow> component" where
  "fieldRow label val =
     [WEnter, WStr jobs_1, WText label, WStr jobs_2, WAttr val, WStr ''\">'', WText val,
      WStr ''</dd></div>'']"

definition JobDetail_actions :: "ViewJob \<Rightarrow> component" where
  "JobDetail_actions job =
     [WStr jobs_5, WText (ShortID (vj_ID job)), WStr ''</h1>'', WCss [StatusBadge (vj_Status job)],
      WStr ''<span class=\"'', WClass [StatusBadge (vj_Status job)], WStr ''\">'',
      WText (vj_Status job), WStr ''</span> ''] @
     opt (vj_IsRecurring job)
       ([WStr ''<a href=\"'', WUrl (''/?series_id='' @ vj_SeriesID job), WStr jobs_11]) @
     [WStr ''<span class=\"flex-1\"></span> ''] @
     opt (view_Retryable (vj_Status job))
       ([WStr ''<form method=\"POST\" action=\"'', WUrl (''/jobs/'' @ vj_ID job @ ''/retry''),
         WStr jobs_14]) @
     opt (view_Cancellable (vj_Status job))
       ([WStr ''<form method=\"POST\" action=\"'', WUrl (''/jobs/'' @ vj_ID job @ ''/cancel''),
         WStr jobs_16] @
        opt (vj_IsRecurring job)
          ([WStr ''<form method=\"POST\" action=\"'',
            WUrl (''/jobs/'' @ vj_ID job @ ''/cancel?series=true''), WStr jobs_18]))"

definition JobDetail_fields :: "ViewJob \<Rightarrow> component" where
  "JobDetail_fields job =
     [WStr jobs_19] @
     fieldRow ''id'' (vj_ID job) @
     fieldRow ''type'' (vj_Type job) @
     fieldRow ''queue'' (vj_Queue job) @
     fieldRow ''priority'' (PriorityLabel (vj_Priority job)) @
     fieldRow ''attempt'' (Num (vj_Attempt job) @ '' / '' @ Num (vj_MaxRetry job)) @
     fieldRow ''created'' (vj_CreatedAt job) @
     opt (vj_StartedAt job \<noteq> [])
       (fieldRow ''started'' (vj_StartedAt job)) @
     opt (vj_CompletedAt job \<noteq> [])
       (fieldRow ''completed'' (vj_CompletedAt job)) @
     opt (vj_ScheduledAt job \<noteq> [])
       (fieldRow ''scheduled for'' (vj_ScheduledAt job)) @
     opt (vj_IsRecurring job)
       (fieldRow ''cron'' (vj_Cron job @ '' ('' @ vj_CronTZ job @ '')'') @
        [WStr '' ''] @
        fieldRow ''series'' (vj_SeriesID job)) @
     opt (vj_LastError job \<noteq> [])
       (fieldRow ''last error'' (vj_LastError job))"

definition JobDetail_payload :: "ViewJob \<Rightarrow> component" where
  "JobDetail_payload job =
     [WStr jobs_21] @
     (if vj_PayloadStr job \<noteq> []
       then [WStr jobs_22, WText (vj_PayloadStr job), WStr ''</pre>'']
       else [WStr jobs_24])"

definition JobDetail_event :: "ViewEvent \<Rightarrow> component" where
  "JobDetail_event e =
     [WStr jobs_28, WText (ve_At e), WStr ''</td><td class=\"py-1.5 pr-3\">''] @
     opt (ve_Old e \<noteq> [])
       ([WStr ''<span class=\"text-zinc-500\">'', WText (ve_Old e), WStr jobs_31]) @
     [WCss [StatusBadge (ve_New e)], WStr ''<span class=\"'', WClass [StatusBadge (ve_New e)],
      WStr ''\">'', WText (ve_New e), WStr jobs_34, WText (ve_Worker e), WStr jobs_35,
      WText (ve_Reason e), WStr ''</td></tr>'']"

definition JobDetail_timeline :: "ViewEvent list \<Rightarrow> component" where
  "JobDetail_timeline events =
     [WStr jobs_25] @
     (if events = []
       then [WStr jobs_26]
       else [WStr jobs_27] @
            concat (map JobDetail_event events) @
            [WStr ''</tbody></table>'']) @
     [WStr ''</div>'']"

definition JobDetail :: "ViewJob \<Rightarrow> ViewEvent list \<Rightarrow> component" where
  "JobDetail job events =
     [WEnter] @
     Layout (''Job '' @ ShortID (vj_ID job)) True
       (JobDetail_actions job @ JobDetail_fields job @ JobDetail_payload job @ JobDetail_timeline events)"

definition JobNew_type :: "JobForm \<Rightarrow> string \<Rightarrow> component" where
  "JobNew_type form t =
     [WStr ''<option value=\"'', WAttr t, WStr ''\"''] @
     opt (fm_Type form = [] \<or> fm_Type form = t)
       ([WStr '' selected'']) @
     [WStr ''>'', WText t, WStr ''</option>'']"

definition JobNew_types :: "JobForm \<Rightarrow> string \<Rightarrow> component" where
  "JobNew_types form errMsg =
     [WStr jobs_39] @
     opt (errMsg \<noteq> [])
       ([WStr jobs_40, WText errMsg, WStr ''</div>'']) @
     [WStr jobs_42] @
     concat (map (JobNew_type form) QueueTypes)"

definition JobNew_queue :: "JobForm \<Rightarrow> string \<times> string \<Rightarrow> component" where
  "JobNew_queue form q =
     [WStr ''<option value=\"'', WAttr (fst q), WStr ''\" data-type=\"'', WAttr (snd q), WStr ''\"''] @
     opt (fst q = SelectedQueue form)
       ([WStr '' selected'']) @
     [WStr ''>'', WText (fst q), WStr ''</option>'']"

definition JobNew_queues :: "JobForm \<Rightarrow> component" where
  "JobNew_queues form =
     [WStr jobs_48] @
     concat (map (JobNew_queue form) QueueOptions)"

definition JobNew_payload :: "JobForm \<Rightarrow> component" where
  "JobNew_payload form =
     [WStr jobs_55, WAttr (''{'' @ [u_nl] @ ''  \"to\": \"b@example.com\"'' @ [u_nl] @ ''}''),
      WStr jobs_56, WText (fm_Payload form), WStr jobs_57] @
     opt (fm_Priority form = [] \<or> fm_Priority form = ''1'')
       ([WStr '' selected'']) @
     [WStr jobs_59] @
     opt (fm_Priority form = ''0'')
       ([WStr '' selected'']) @
     [WStr jobs_61, WAttr (fm_MaxRetry form)]"

definition JobNew_times :: "JobForm \<Rightarrow> component" where
  "JobNew_times form =
     [WStr jobs_62, WAttr (fm_ScheduledAt form), WStr jobs_63, WAttr (fm_Cron form), WStr jobs_64,
      WAttr (fm_CronTZ form), WStr jobs_65]"

definition JobNew :: "JobForm \<Rightarrow> string \<Rightarrow> component" where
  "JobNew form errMsg =
     [WEnter] @
     Layout ''New job'' True
       (JobNew_types form errMsg @ JobNew_queues form @ JobNew_payload form @ JobNew_times form)"

end
