(* ===== verification/Page_Scan.thy ===== *)
theory Page_Scan
  imports Templates
begin

text \<open>
  What the scanner of theory \<open>Html\<close> makes of each text of the templates, in the mode and under the
  open elements in which it is written: evaluated once, used by every proof about a page.
\<close>

named_theorems scan_facts \<open>each text, in the mode and under the elements it is written in\<close>

lemma scan_layout [scan_facts]:
  "html_lex LText S layout_1 = Some (LText, ''title'' # ''head'' # ''html'' # S)"
  "html_lex LText (''title'' # ''head'' # S) layout_2 = Some (LText, ''div'' # ''nav'' # ''body'' # S)"
  "html_lex LText S layout_3 = Some (LText, S)"
  "html_lex LText S layout_4 = Some (LText, S)"
  "html_lex LText (''div'' # ''nav'' # S) layout_5 = Some (LText, ''main'' # S)"
  "html_lex LText (''main'' # ''body'' # ''html'' # S) layout_6 = Some (LText, S)"
  by code_simp+

lemma scan_login_a [scan_facts]:
  "html_lex LText S login_1 = Some (LText, ''div'' # S)"
  "html_lex LText S login_2 = Some (LText, ''div'' # S)"
  "html_lex LText (''div'' # S) ''</div>'' = Some (LText, S)"
  "html_lex LText S login_4 = Some (LValue ''input'', ''div'' # ''form'' # S)"
  "html_lex (LValue ''input'') (''div'' # ''form'' # ''div'' # S) login_5 = Some (LText, S)"
  by code_simp+

lemma scan_login_b [scan_facts]:
  "html_lex LText S login_6 = Some (LText, ''div'' # S)"
  "html_lex LText S login_7 = Some (LText, ''div'' # S)"
  "html_lex LText S login_9 = Some (LValue ''input'', ''div'' # ''form'' # S)"
  "html_lex (LValue ''input'') (''div'' # S) login_10 = Some (LValue ''input'', ''div'' # S)"
  "html_lex (LValue ''input'') (''div'' # ''form'' # ''div'' # S) login_11 = Some (LText, S)"
  by code_simp+

lemma scan_error_page [scan_facts]:
  "html_lex LText S error_page_1 = Some (LText, ''div'' # ''div'' # S)"
  "html_lex LText (''div'' # S) error_page_2 = Some (LText, ''p'' # S)"
  "html_lex LText (''p'' # ''div'' # S) error_page_3 = Some (LText, S)"
  by code_simp+

lemma scan_dashboard_a [scan_facts]:
  "html_lex LText S dashboard_1 = Some (LText, ''div'' # ''div'' # S)"
  "html_lex LText (''div'' # S) dashboard_2 = Some (LText, ''div'' # S)"
  "html_lex LText S dashboard_4 = Some (LText, ''div'' # S)"
  "html_lex LText S dashboard_7 = Some (LText, ''div'' # S)"
  "html_lex LText S dashboard_9 = Some (LText, S)"
  "html_lex LText S dashboard_10 = Some (LValue ''td'', ''tr'' # S)"
  "html_lex (LValue ''td'') S ''\">'' = Some (LText, ''td'' # S)"
  "html_lex LText (''td'' # S) dashboard_12 = Some (LText, ''td'' # S)"
  by code_simp+

lemma scan_dashboard_b [scan_facts]:
  "html_lex LText (''td'' # S) ''</td><td class=\"px-3 py-2\">'' = Some (LText, ''td'' # S)"
  "html_lex LText S ''<span class=\"'' = Some (LValue ''span'', S)"
  "html_lex (LValue ''span'') S ''\">'' = Some (LText, ''span'' # S)"
  "html_lex LText (''span'' # ''td'' # S) dashboard_16 = Some (LText, ''td'' # S)"
  "html_lex LText S ''/'' = Some (LText, S)"
  "html_lex LText (''td'' # S) dashboard_18 = Some (LText, ''td'' # S)"
  "html_lex LText (''td'' # S) dashboard_19 = Some (LText, ''td'' # S)"
  "html_lex LText (''td'' # S) dashboard_20 = Some (LValue ''a'', ''td'' # S)"
  by code_simp+

lemma scan_dashboard_c [scan_facts]:
  "html_lex (LValue ''a'') (''td'' # ''tr'' # S) dashboard_21 = Some (LText, S)"
  "html_lex LText S ''<div id=\"job-table\" hx-get=\"'' = Some (LValue ''div'', S)"
  "html_lex (LValue ''div'') S dashboard_23 = Some (LText, ''tbody'' # ''table'' # ''div'' # ''div'' # S)"
  "html_lex LText S dashboard_24 = Some (LText, S)"
  "html_lex LText (''tbody'' # ''table'' # ''div'' # S) dashboard_25 = Some (LText, ''div'' # ''div'' # S)"
  "html_lex LText S dashboard_26 = Some (LText, S)"
  "html_lex LText (''div'' # S) ''</div><div class=\"flex gap-2\">'' = Some (LText, ''div'' # S)"
  "html_lex LText S ''<a href=\"'' = Some (LValue ''a'', S)"
  by code_simp+

lemma scan_dashboard_d [scan_facts]:
  "html_lex (LValue ''a'') S dashboard_29 = Some (LText, S)"
  "html_lex (LValue ''a'') S dashboard_31 = Some (LText, S)"
  "html_lex LText (''div'' # ''div'' # ''div'' # S) ''</div></div></div>'' = Some (LText, S)"
  "html_lex LText S dashboard_33 = Some (LText, S)"
  "html_lex LText S dashboard_34 = Some (LText, S)"
  "html_lex LText S dashboard_35 = Some (LText, ''div'' # S)"
  "html_lex LText S '' '' = Some (LText, S)"
  "html_lex LText S dashboard_38 = Some (LText, ''div'' # S)"
  by code_simp+

lemma scan_dashboard_e [scan_facts]:
  "html_lex (LValue ''a'') S ''\" class=\"'' = Some (LValue ''a'', S)"
  "html_lex (LValue ''a'') S ''\">'' = Some (LText, ''a'' # S)"
  "html_lex LText S ''All'' = Some (LText, S)"
  "html_lex LText (''a'' # S) ''</a>'' = Some (LText, S)"
  "html_lex LText S dashboard_49 = Some (LValue ''input'', ''form'' # S)"
  "html_lex (LValue ''input'') S dashboard_50 = Some (LText, S)"
  "html_lex LText S dashboard_51 = Some (LText, S)"
  "html_lex LText (''form'' # ''div'' # S) ''</form></div>'' = Some (LText, S)"
  by code_simp+

lemma scan_jobs_a [scan_facts]:
  "html_lex LText S jobs_1 = Some (LText, ''dt'' # ''div'' # S)"
  "html_lex LText (''dt'' # S) jobs_2 = Some (LValue ''dd'', S)"
  "html_lex (LValue ''dd'') S ''\">'' = Some (LText, ''dd'' # S)"
  "html_lex LText (''dd'' # ''div'' # S) ''</dd></div>'' = Some (LText, S)"
  "html_lex LText S jobs_5 = Some (LText, ''h1'' # ''div'' # S)"
  "html_lex LText (''h1'' # S) ''</h1>'' = Some (LText, S)"
  "html_lex LText (''span'' # S) ''</span> '' = Some (LText, S)"
  "html_lex (LValue ''a'') S jobs_11 = Some (LText, S)"
  by code_simp+

lemma scan_jobs_b [scan_facts]:
  "html_lex LText S ''<span class=\"flex-1\"></span> '' = Some (LText, S)"
  "html_lex LText S ''<form method=\"POST\" action=\"'' = Some (LValue ''form'', S)"
  "html_lex (LValue ''form'') S jobs_14 = Some (LText, S)"
  "html_lex (LValue ''form'') S jobs_16 = Some (LText, S)"
  "html_lex (LValue ''form'') S jobs_18 = Some (LText, S)"
  "html_lex LText (''div'' # S) jobs_19 = Some (LText, ''dl'' # ''div'' # ''div'' # S)"
  "html_lex LText (''dl'' # ''div'' # S) jobs_21 = Some (LText, ''div'' # S)"
  "html_lex LText S jobs_22 = Some (LText, ''pre'' # S)"
  by code_simp+

lemma scan_jobs_c [scan_facts]:
  "html_lex LText (''pre'' # S) ''</pre>'' = Some (LText, S)"
  "html_lex LText S jobs_24 = Some (LText, S)"
  "html_lex LText (''div'' # ''div'' # S) jobs_25 = Some (LText, ''div'' # S)"
  "html_lex LText S jobs_26 = Some (LText, S)"
  "html_lex LText S jobs_27 = Some (LText, ''tbody'' # ''table'' # S)"
  "html_lex LText S jobs_28 = Some (LText, ''td'' # ''tr'' # S)"
  "html_lex LText (''td'' # S) ''</td><td class=\"py-1.5 pr-3\">'' = Some (LText, ''td'' # S)"
  "html_lex LText S ''<span class=\"text-zinc-500\">'' = Some (LText, ''span'' # S)"
  by code_simp+

lemma scan_jobs_d [scan_facts]:
  "html_lex LText (''span'' # S) jobs_31 = Some (LText, S)"
  "html_lex LText (''span'' # ''td'' # S) jobs_34 = Some (LText, ''td'' # S)"
  "html_lex LText (''td'' # S) jobs_35 = Some (LText, ''td'' # S)"
  "html_lex LText (''td'' # ''tr'' # S) ''</td></tr>'' = Some (LText, S)"
  "html_lex LText (''tbody'' # ''table'' # S) ''</tbody></table>'' = Some (LText, S)"
  "html_lex LText S jobs_39 = Some (LText, ''div'' # S)"
  "html_lex LText S jobs_40 = Some (LText, ''div'' # S)"
  "html_lex LText S jobs_42 = Some (LText, ''select'' # ''div'' # ''div'' # ''form'' # S)"
  by code_simp+

lemma scan_jobs_e [scan_facts]:
  "html_lex LText S ''<option value=\"'' = Some (LValue ''option'', S)"
  "html_lex (LValue ''option'') S ''\"'' = Some (LAttrs ''option'', S)"
  "html_lex (LAttrs ''option'') S '' selected'' = Some (LAttrs ''option'', S)"
  "html_lex (LAttrs ''option'') S ''>'' = Some (LText, ''option'' # S)"
  "html_lex LText (''option'' # S) ''</option>'' = Some (LText, S)"
  "html_lex LText (''select'' # ''div'' # S) jobs_48 = Some (LText, ''select'' # ''div'' # S)"
  "html_lex (LValue ''option'') S ''\" data-type=\"'' = Some (LValue ''option'', S)"
  "html_lex LText (''select'' # ''div'' # ''div'' # S) jobs_55 = Some (LValue ''textarea'', ''div'' # S)"
  by code_simp+

lemma scan_jobs_f [scan_facts]:
  "html_lex (LValue ''textarea'') S jobs_56 = Some (LText, ''textarea'' # S)"
  "html_lex LText (''textarea'' # ''div'' # S) jobs_57 = Some (LAttrs ''option'', ''select'' # ''div'' # ''div'' # S)"
  "html_lex (LAttrs ''option'') S jobs_59 = Some (LAttrs ''option'', S)"
  "html_lex (LAttrs ''option'') (''select'' # ''div'' # S) jobs_61 = Some (LValue ''input'', ''div'' # S)"
  "html_lex (LValue ''input'') (''div'' # ''div'' # S) jobs_62 = Some (LValue ''input'', ''div'' # S)"
  "html_lex (LValue ''input'') (''div'' # S) jobs_63 = Some (LValue ''input'', ''div'' # ''div'' # S)"
  "html_lex (LValue ''input'') (''div'' # S) jobs_64 = Some (LValue ''input'', ''div'' # S)"
  by code_simp+

lemma scan_jobs_script [scan_facts]:
  "html_lex (LValue ''input'') (''div'' # ''div'' # ''form'' # ''div'' # S) jobs_65 = Some (LText, S)"
  by code_simp

end
