(* ===== verification/Page_Props.thy ===== *)
theory Page_Props
  imports Page_Scan Web Jobs_Ops
begin

text \<open>
  What every page of the dashboard is, whatever the data on it: a well-formed document whose tags
  are the template's own, with links that stay on the dashboard and forms its router accepts.
\<close>

named_theorems block_facts \<open>components that leave the scanner where they found it\<close>

subsection \<open>Components\<close>

definition block :: "component \<Rightarrow> bool" where
  "block c \<longleftrightarrow> (\<forall>S. check LText S c = Some (LText, S))"

lemma check_opt: "check m S c = Some (m, S) \<Longrightarrow> check m S (opt b c) = Some (m, S)"
  by (simp add: opt_def)

lemma check_block: "block c \<Longrightarrow> check LText S c = Some (LText, S)"
  by (simp add: block_def)

lemmas check_simps = check_append check_opt

lemma block_append: "block a \<Longrightarrow> block b \<Longrightarrow> block (a @ b)"
  by (simp add: block_def check_append)

lemma block_concat: "(\<And>x. x \<in> set xs \<Longrightarrow> block (f x)) \<Longrightarrow> block (concat (map f xs))"
  by (simp add: block_def check_concat)

lemma Layout_block:
  assumes "block c"
  shows "block (Layout title authed c)"
  using assms unfolding block_def by (simp add: Layout_def check_simps scan_facts)

lemma Page_block: "block c \<Longrightarrow> block ([WEnter] @ Layout title authed c)"
  using Layout_block by (simp add: block_def)

lemma Login_block [block_facts]: "block (Login email errMsg)"
  unfolding Login_def
  by (rule Page_block) (simp add: block_def check_simps scan_facts)

lemma Register_block [block_facts]: "block (Register name email errMsg)"
  unfolding Register_def
  by (rule Page_block) (simp add: block_def check_simps scan_facts)

lemma ErrorPage_block [block_facts]: "block (ErrorPage code msg)"
  unfolding ErrorPage_def
  by (rule Page_block) (simp add: block_def check_simps scan_facts)

lemma StatCard_block: "block (StatCard label val sub)"
  by (simp add: block_def StatCard_def check_simps scan_facts)

lemma StatCards_block [block_facts]: "block (StatCards stats)"
  unfolding block_def StatCards_def
  by (simp add: check_append check_block [OF StatCard_block] scan_facts)

lemma errors_block [block_facts]: "block StatsError" "block JobsError"
  by (simp_all add: block_def StatsError_def JobsError_def check_simps scan_facts)

lemma JobRow_block: "block (JobRow job)"
  by (simp add: block_def JobRow_def check_simps scan_facts)

lemma JobTable_block [block_facts]: "block (JobTable jobs flt)"
  unfolding block_def JobTable_def
  by (simp add: check_simps check_block [OF block_concat [OF JobRow_block]] scan_facts)

lemma Dashboard_block [block_facts]: "block (Dashboard stats jobs flt notice)"
  unfolding Dashboard_def
proof (rule Page_block)
  have "block (Dashboard_tab flt tab)" for tab
    by (simp add: block_def Dashboard_tab_def check_simps scan_facts)
  then have "check LText S (concat (map (Dashboard_tab flt) FilterTabs)) = Some (LText, S)" for S
    by (intro check_block block_concat)
  moreover have "check LText S (Dashboard_head stats notice) = Some (LText, S)" for S
    by (simp add: Dashboard_head_def check_simps check_block [OF StatCards_block] scan_facts)
  ultimately show "block (Dashboard_head stats notice @ Dashboard_tabs flt @ Dashboard_series flt @ JobTable jobs flt)"
    by (simp add: block_def Dashboard_tabs_def Dashboard_series_def check_simps check_block [OF JobTable_block] scan_facts)
qed

lemma fieldRow_block: "block (fieldRow label val)"
  by (simp add: block_def fieldRow_def check_simps scan_facts)

lemma JobDetail_block [block_facts]: "block (JobDetail job events)"
  unfolding JobDetail_def
proof (rule Page_block)
  have "block (JobDetail_event e)" for e
    by (simp add: block_def JobDetail_event_def check_simps scan_facts)
  then have rows: "check LText S (concat (map JobDetail_event events)) = Some (LText, S)" for S
    by (intro check_block block_concat)
  have "check LText S (JobDetail_actions job) = Some (LText, ''div'' # S)" for S
    by (simp add: JobDetail_actions_def check_simps scan_facts)
  moreover have "check LText (''div'' # S) (JobDetail_fields job) = Some (LText, ''dl'' # ''div'' # ''div'' # S)" for S
    by (simp add: JobDetail_fields_def check_simps check_block [OF fieldRow_block] scan_facts)
  moreover have "check LText (''dl'' # ''div'' # S) (JobDetail_payload job) = Some (LText, ''div'' # S)" for S
    by (simp add: JobDetail_payload_def check_simps scan_facts)
  moreover have "check LText (''div'' # ''div'' # S) (JobDetail_timeline events) = Some (LText, S)" for S
    by (simp add: JobDetail_timeline_def check_simps rows scan_facts)
  ultimately show "block (JobDetail_actions job @ JobDetail_fields job @ JobDetail_payload job @ JobDetail_timeline events)"
    by (simp add: block_def check_append)
qed

lemma JobNew_block [block_facts]: "block (JobNew form errMsg)"
  unfolding JobNew_def
proof (rule Page_block)
  have "block (JobNew_type form t)" "block (JobNew_queue form q)" for t q
    by (simp_all add: block_def JobNew_type_def JobNew_queue_def check_simps scan_facts)
  then have "check LText S (concat (map (JobNew_type form) QueueTypes)) = Some (LText, S)"
    "check LText S (concat (map (JobNew_queue form) QueueOptions)) = Some (LText, S)" for S
    by (auto intro!: check_block block_concat)
  then show "block (JobNew_types form errMsg @ JobNew_queues form @ JobNew_payload form @ JobNew_times form)"
    by (simp add: block_def JobNew_types_def JobNew_queues_def JobNew_payload_def JobNew_times_def check_simps scan_facts)
qed

subsection \<open>Every page\<close>

definition template :: "view \<Rightarrow> component option" where
  \<comment> \<open>the component a handler renders\<close>
  "template v =
     (case v of
        VLogin email msg \<Rightarrow> Some (Login email msg)
      | VRegister name email msg \<Rightarrow> Some (Register name email msg)
      | VError code msg \<Rightarrow> Some (ErrorPage code msg)
      | VDashboard stats jobs flt notice \<Rightarrow> Some (Dashboard stats jobs flt notice)
      | VJobDetail job events \<Rightarrow> Some (JobDetail job events)
      | VJobNew form msg \<Rightarrow> Some (JobNew form msg)
      | VStatCards stats \<Rightarrow> Some (StatCards stats)
      | VStatsError \<Rightarrow> Some StatsError
      | VJobTable jobs flt \<Rightarrow> Some (JobTable jobs flt)
      | VJobsError \<Rightarrow> Some JobsError
      | VText _ \<Rightarrow> None)"

lemma template_block: "template v = Some c \<Longrightarrow> block c"
  by (auto simp: template_def block_facts split: view.splits)

definition local_link :: "string \<Rightarrow> bool" where
  \<comment> \<open>a path of this server; in particular not \<open>//host\<close> and no other scheme\<close>
  "local_link u \<longleftrightarrow> HasPrefix u ''/?'' \<or> HasPrefix u ''/jobs/''"

definition links_ok :: "component \<Rightarrow> bool" where
  "links_ok c \<longleftrightarrow> (\<forall>u. WUrl u \<in> set c \<longrightarrow> local_link u)"

lemma links_append [simp]: "links_ok (a @ b) \<longleftrightarrow> links_ok a \<and> links_ok b"
  by (auto simp: links_ok_def)

lemma links_Cons [simp]: "links_ok (x # c) \<longleftrightarrow> (\<forall>u. x = WUrl u \<longrightarrow> local_link u) \<and> links_ok c"
  by (auto simp: links_ok_def)

lemma links_Nil [simp]: "links_ok []"
  by (simp add: links_ok_def)

lemma links_concat: "(\<And>x. links_ok (f x)) \<Longrightarrow> links_ok (concat (map f xs))"
  by (induction xs) simp_all

lemma links_opt: "links_ok c \<Longrightarrow> links_ok (opt b c)"
  by (simp add: opt_def)

lemma local_links:
  "local_link (CHR ''/'' # CHR ''?'' # q)" "local_link (tabLink tab flt)"
  "local_link (CHR ''/'' # CHR ''j'' # CHR ''o'' # CHR ''b'' # CHR ''s'' # CHR ''/'' # q)"
  by (simp_all add: local_link_def tabLink_def)

lemma Layout_links: "links_ok c \<Longrightarrow> links_ok (Layout title authed c)"
  by (simp add: Layout_def)

named_theorems link_facts \<open>components whose links stay on the dashboard\<close>

lemma part_links [link_facts]:
  "links_ok (StatCard label val sub)" "links_ok (JobRow job)" "links_ok (fieldRow label val)"
  "links_ok (Dashboard_tab flt tab)" "links_ok (JobDetail_event e)" "links_ok (JobNew_type form t)"
  "links_ok (JobNew_queue form q)"
  by (simp_all add: StatCard_def JobRow_def fieldRow_def Dashboard_tab_def JobDetail_event_def JobNew_type_def
      JobNew_queue_def links_opt local_links)

lemma fragment_links [link_facts]:
  "links_ok (StatCards stats)" "links_ok StatsError" "links_ok JobsError" "links_ok (JobTable jobs flt)"
  by (simp_all add: StatCards_def StatsError_def JobsError_def JobTable_def link_facts links_concat links_opt local_links)

lemma section_links [link_facts]:
  "links_ok (Dashboard_head stats notice)" "links_ok (Dashboard_tabs flt)" "links_ok (Dashboard_series flt)"
  "links_ok (JobDetail_actions job)" "links_ok (JobDetail_fields job)" "links_ok (JobDetail_payload job)"
  "links_ok (JobDetail_timeline events)" "links_ok (JobNew_types form errMsg)" "links_ok (JobNew_queues form)"
  "links_ok (JobNew_payload form)" "links_ok (JobNew_times form)"
  by (simp_all add: Dashboard_head_def Dashboard_tabs_def Dashboard_series_def JobDetail_actions_def
      JobDetail_fields_def JobDetail_payload_def JobDetail_timeline_def JobNew_types_def JobNew_queues_def
      JobNew_payload_def JobNew_times_def link_facts links_concat links_opt local_links)

lemma template_links: "template v = Some c \<Longrightarrow> links_ok c"
  unfolding template_def Login_def Register_def ErrorPage_def Dashboard_def JobDetail_def JobNew_def
  by (auto simp: link_facts links_opt Layout_links split: view.splits)

text \<open>C9. No data can break or take over a page. Whatever the jobs, events, forms and messages
  contain, and wherever the writing stops, the scanner of tags accepts what was written; a page
  that is written to its end is a well-formed text, every opened element closed, whose tags are
  exactly those of the template's own texts, so that none comes from the data; and every computed
  link or form target is a path of the dashboard itself. Relied on is that the library's escaping
  functions leave no angle bracket or quote.\<close>

theorem pages_well_formed:
  assumes "templ_ok te" and "template v = Some c" and "Render te c = (err, out)"
  shows "html_lex LText [] out \<noteq> None \<and>
    (err = None \<longrightarrow> html_lex LText [] out = Some (LText, []) \<and> tags LText out = own_tags LText c) \<and>
    links_ok c"
  using Render_scan [OF assms(1) check_block [OF template_block [OF assms(2)]] assms(3)]
    template_links [OF assms(2)] by simp

definition html_escape :: "string \<Rightarrow> string" where
  "html_escape s =
     concat (map (\<lambda>c. if c = CHR ''<'' then ''&lt;'' else if c = CHR ''>'' then ''&gt;''
       else if c = CHR 0x22 then ''&#34;'' else [c]) s)"

definition demo_te :: templ_env where
  "demo_te =
     \<lparr>te_JoinString = Inr, te_JoinURL = Inr, te_Escape = html_escape, te_Attr = (\<lambda>s. Inr (html_escape s)),
      te_CSS = (\<lambda>_. Inr []), te_Classes = concat, te_CtxErr = (\<lambda>_. None), te_Write = (\<lambda>_ _. None),
      te_Flush = (\<lambda>_. None)\<rparr>"

lemma demo_te_ok: "templ_ok demo_te"
  by (auto simp: templ_ok_def demo_te_def html_escape_def safe_text_def split: if_splits)

lemma demo_te_Render: "fst (Render demo_te c) = None"
proof -
  have "fst (run_ops demo_te c out) = None" for out
  proof (induction c arbitrary: out)
    case (Cons x xs)
    have "\<exists>s. op_text demo_te x out = Inr s" by (cases x) (simp_all add: demo_te_def)
    moreover have "te_Write demo_te o1 s = None" for o1 s by (simp add: demo_te_def)
    ultimately show ?case using Cons.IH by auto
  qed simp
  from this [of "[]"] show ?thesis by (auto simp: Render_def demo_te_def split: prod.splits option.splits)
qed

theorem pages_well_formed_witness:
  "\<exists>out. Render demo_te (ErrorPage 404 ''</p><script>'') = (None, out) \<and> html_lex LText [] out = Some (LText, []) \<and>
     tags LText out = own_tags LText (ErrorPage 404 [])"
proof -
  let ?c = "ErrorPage 404 ''</p><script>''"
  have t: "template (VError 404 ''</p><script>'') = Some ?c" by (simp add: template_def)
  obtain out where r: "Render demo_te ?c = (None, out)" using demo_te_Render [of ?c] by (cases "Render demo_te ?c") auto
  have "own_tags LText ?c = own_tags LText (ErrorPage 404 [])"
    by (simp add: ErrorPage_def Layout_def)
  then show ?thesis using pages_well_formed [OF demo_te_ok t r] r by auto
qed

subsection \<open>The actions of a job's page\<close>

fun posts :: "component \<Rightarrow> string list" where
  \<comment> \<open>the targets of its forms\<close>
  "posts (WStr s # WUrl u # xs) = (if HasSuffix s ''method=\"POST\" action=\"'' then u # posts xs else posts xs)"
| "posts (x # xs) = posts xs"
| "posts [] = []"

definition url_path :: "string \<Rightarrow> string" where
  "url_path u = takeWhile (\<lambda>c. c \<noteq> CHR ''?'') u"

definition uuid_text :: "string \<Rightarrow> bool" where
  \<comment> \<open>all that is needed of the text of an identifier\<close>
  "uuid_text i \<longleftrightarrow> i \<noteq> [] \<and> (\<forall>c \<in> set i. c \<noteq> CHR ''/'' \<and> c \<noteq> CHR ''?'')"

lemma url_paths:
  assumes "uuid_text i"
  shows "url_path (''/jobs/'' @ i @ ''/retry'') = ''/jobs/'' @ i @ ''/retry''"
    and "url_path (''/jobs/'' @ i @ ''/cancel'') = ''/jobs/'' @ i @ ''/cancel''"
    and "url_path (''/jobs/'' @ i @ ''/cancel?series=true'') = ''/jobs/'' @ i @ ''/cancel''"
proof -
  have "takeWhile (\<lambda>c. c \<noteq> CHR ''?'') (i @ x) = i @ takeWhile (\<lambda>c. c \<noteq> CHR ''?'') x" for x
    using assms by (auto simp: uuid_text_def takeWhile_append2)
  then show "url_path (''/jobs/'' @ i @ ''/retry'') = ''/jobs/'' @ i @ ''/retry''"
    "url_path (''/jobs/'' @ i @ ''/cancel'') = ''/jobs/'' @ i @ ''/cancel''"
    "url_path (''/jobs/'' @ i @ ''/cancel?series=true'') = ''/jobs/'' @ i @ ''/cancel''"
    by (simp_all add: url_path_def)
qed

lemma Contains_count: "Contains s p \<Longrightarrow> count_list p c \<le> count_list s c"
proof (induction s p rule: Contains.induct)
  case (2 a s p)
  show ?case
  proof (cases "HasPrefix (a # s) p")
    case True
    then obtain t where "a # s = p @ t" by (auto simp: HasPrefix_iff)
    then show ?thesis by (metis count_list_append le_add1)
  next
    case False
    then have "count_list p c \<le> count_list s c" using 2 by simp
    then show ?thesis by (simp add: le_Suc_eq)
  qed
qed simp

lemma job_sub_route:
  assumes "uuid_text i" and "sub \<in> {''retry'', ''cancel''}" and "p = ''/jobs/'' @ i @ ''/'' @ sub"
  shows "web_route p = RJobSub" and "CutPrefix p ''/jobs/'' = Some (i @ ''/'' @ sub)"
    and "\<not> Contains (i @ ''/'' @ sub) ''/../''" and "CutChar CHR ''/'' (i @ ''/'' @ sub) = (i, sub, True)"
proof -
  have i: "i \<noteq> []" "\<forall>c \<in> set i. c \<noteq> CHR ''/''" using assms(1) by (auto simp: uuid_text_def)
  then have c: "count_list i (CHR ''/'') = 0" by (auto simp: count_list_0_iff)
  have "p \<notin> set (map fst web_routes)" using assms(2) unfolding assms(3) web_routes_def by auto
  then have "map_of web_routes p = None" by (simp add: map_of_eq_None_iff)
  then show "web_route p = RJobSub" by (simp add: web_route_def assms(3))
  show "CutPrefix p ''/jobs/'' = Some (i @ ''/'' @ sub)" by (simp add: CutPrefix_def assms(3))
  show "\<not> Contains (i @ ''/'' @ sub) ''/../''"
    using Contains_count [of "i @ ''/'' @ sub" "''/../''" "CHR ''/''"] assms(2) c by auto
  show "CutChar CHR ''/'' (i @ ''/'' @ sub) = (i, sub, True)"
    using i by (simp add: CutChar_def takeWhile_append2 dropWhile_append2)
qed

lemma form_text:
  "HasSuffix ''<form method=\"POST\" action=\"'' ''method=\"POST\" action=\"''"
  "\<not> HasSuffix ''<a href=\"'' ''method=\"POST\" action=\"''"
  by code_simp+

lemma posts_actions:
  "posts (JobDetail_actions job) =
     (if view_Retryable (vj_Status job) then [''/jobs/'' @ vj_ID job @ ''/retry''] else []) @
     (if view_Cancellable (vj_Status job)
      then (''/jobs/'' @ vj_ID job @ ''/cancel'') #
           (if vj_IsRecurring job then [''/jobs/'' @ vj_ID job @ ''/cancel?series=true''] else [])
      else [])"
  by (simp add: JobDetail_actions_def opt_def form_text)

lemma view_guards:
  "s \<in> set db_statuses \<Longrightarrow> view_Retryable (status_string s) \<longleftrightarrow> s = JobFailed"
  "s \<in> set db_statuses \<Longrightarrow> view_Cancellable (status_string s) \<longleftrightarrow> cancellable s"
  by (auto simp: db_statuses_def view_Retryable_def view_Cancellable_def cancellable_def)


definition demo_page_job :: ViewJob where
  "demo_page_job =
     \<lparr>vj_ID = ''1a'', vj_Status = ''failed'', vj_Type = ''email'', vj_Queue = ''email-high'', vj_Priority = 1, vj_Attempt = 3,
      vj_MaxRetry = 3, vj_CreatedAt = [], vj_StartedAt = [], vj_CompletedAt = [], vj_ScheduledAt = [],
      vj_LastError = ''<b>'', vj_PayloadStr = [], vj_IsRecurring = False, vj_Cron = [], vj_CronTZ = [], vj_SeriesID = []\<rparr>"

definition demo_page_post :: web_request where
  "demo_page_post =
     \<lparr>wr_Method = ''POST'', wr_Path = ''/jobs/1a/retry'', wr_Cookie = Some ''t'', wr_Query = (\<lambda>_. []), wr_Form = (\<lambda>_. []),
      wr_ParseForm = True\<rparr>"


text \<open>
  A new form selects all three types, since the condition of the option compares with the empty type
  for each of them; a browser keeps the last, while the queue offered is that of the first.
\<close>

lemma new_form_selects_every_type:
  "map (\<lambda>t. WStr '' selected'' \<in> set (JobNew_type empty_form t)) QueueTypes = [True, True, True] \<and>
   SelectedQueue empty_form = ''email-high''"
  by code_simp

end
