(* ===== verification/Processes.thy ===== *)
theory Processes
  imports Startup Reaper Handler_Email Jobs_Refinement
begin

text \<open>
  The processes around their components: the \<open>run\<close> functions of \<open>cmd/scheduler\<close> and \<open>cmd/reaper\<close> with
  the retention goroutine, and the addresses \<open>cmd/api\<close> and \<open>cmd/web\<close> serve on. Theory \<open>Server_Run\<close> has the
  life of these two.
\<close>

subsection \<open>From settings to components\<close>

definition Seconds_of :: "int \<Rightarrow> duration" where
  \<comment> \<open>\<open>time.Duration(n) * time.Second\<close>\<close>
  "Seconds_of n = wrap64 (n * second)"

definition process_store :: "Config \<Rightarrow> RedisStore" where
  "process_store cfg = \<lparr>MaxLen = StreamMaxLen cfg, HasJobs = False\<rparr>"

definition scheduler_of :: "env \<Rightarrow> Config \<Rightarrow> Scheduler" where
  "scheduler_of env cfg =
     Scheduler_New (Some (AddJobRefToStream env (process_store cfg))) (Seconds_of (SchedPollSeconds cfg)) (SchedBatchSize cfg)"

definition retention_poll :: "Config \<Rightarrow> duration" where
  "retention_poll cfg =
     (let p = Seconds_of (RetentionPollSeconds cfg) in if p \<le> 0 then DefaultRetentionPoll else p)"

definition retention_batch :: "Config \<Rightarrow> int" where
  "retention_batch cfg = (if RetentionBatchSize cfg \<le> 0 then DefaultRetentionBatch else RetentionBatchSize cfg)"

definition reaper_of :: "env \<Rightarrow> Config \<Rightarrow> Reaper" where
  "reaper_of env cfg =
     Reaper_New (Some (AddJobRefToStream env (process_store cfg))) (Seconds_of (ReaperPollSeconds cfg)) (ReaperBatchSize cfg)
       (Seconds_of (ReaperStaleSeconds cfg)) (Seconds_of (ReaperSweepAfterSeconds cfg))"

lemma intervals_positive:
  "0 < sc_pollInterval (scheduler_of env cfg)" "0 < sc_batchSize (scheduler_of env cfg)"
  "0 < retention_poll cfg" "0 < retention_batch cfg" "0 < rp_pollInterval (reaper_of env cfg)"
  "0 < rp_batchSize (reaper_of env cfg)" "0 < rp_staleAfter (reaper_of env cfg)" "0 < rp_sweepAfter (reaper_of env cfg)"
  by (simp_all add: scheduler_of_def Scheduler_New_def retention_poll_def retention_batch_def Let_def
      reaper_of_def Reaper_New_def Sched_DefaultPollInterval_def Sched_DefaultBatchSize_def
      DefaultRetentionPoll_def DefaultRetentionBatch_def Reap_DefaultPollInterval_def
      Reap_DefaultBatchSize_def DefaultStaleAfter_def DefaultSweepAfter_def second_def minute_def)

subsection \<open>Retention\<close>

record cycle_env =
  cy_done :: "nat \<Rightarrow> bool" \<comment> \<open>before the tick of this number the context is done\<close>
  cy_now :: "nat \<Rightarrow> instant"
  cy_flt :: "nat \<Rightarrow> faults"
  cy_ddl :: "nat \<Rightarrow> string \<Rightarrow> bool" \<comment> \<open>a partition statement fails\<close>

fun retention_loop :: "cycle_env \<Rightarrow> Config \<Rightarrow> nat \<Rightarrow> nat \<Rightarrow> partition list \<Rightarrow> db \<Rightarrow> bool \<times> partition list \<times> db" where
  \<comment> \<open>at most \<open>n\<close> ticks, from number \<open>k\<close> on; the flag says whether the goroutine has returned\<close>
  "retention_loop cy cfg k 0 ps d = (False, ps, d)"
| "retention_loop cy cfg k (Suc n) ps d =
     (if cy_done cy k then (True, ps, d)
      else
        (case Maintain (cy_ddl cy k) (cy_flt cy k) (cy_now cy k) (RetentionDays cfg) (retention_batch cfg) ps d of
           (_, ps1, d1) \<Rightarrow> retention_loop cy cfg (Suc k) n ps1 d1))"

lemma Maintain_moves:
  assumes "store_inv d" and "Maintain fails flt now days batch ps d = (r, ps1, d1)"
  shows "store_inv d1 \<and> moves forgets d d1 \<and> (days \<le> 0 \<longrightarrow> d1 = d)"
  using assms DeleteOldJobs_moves [OF assms(1)] DeleteOldJobs_inv [OF assms(1)]
  by (auto simp: Maintain_def split: prod.splits bool.splits if_splits) (metis snd_conv)+

text \<open>
  However long retention runs, with whatever clock and faults, the jobs that are gone were completed
  or cancelled and all others are as they were; with no positive number of days nothing is deleted.
\<close>

theorem retention_keeps_live_jobs:
  "store_inv d \<Longrightarrow> retention_loop cy cfg k n ps d = (b, ps', d') \<Longrightarrow>
     store_inv d' \<and> moves forgets d d' \<and> (RetentionDays cfg \<le> 0 \<longrightarrow> d' = d)"
proof (induction cy cfg k n ps d rule: retention_loop.induct)
  case (2 cy cfg k n ps d)
  show ?case
  proof (cases "cy_done cy k")
    case False
    obtain r ps1 d1 where m: "Maintain (cy_ddl cy k) (cy_flt cy k) (cy_now cy k) (RetentionDays cfg)
        (retention_batch cfg) ps d = (r, ps1, d1)" by (metis prod_cases3)
    note one = Maintain_moves [OF 2(2) m]
    have rest: "store_inv d' \<and> moves forgets d1 d' \<and> (RetentionDays cfg \<le> 0 \<longrightarrow> d' = d1)"
      using 2(1) [OF False m [symmetric]] 2(3) one False m by simp
    then show ?thesis using one moves_trans [OF batch_moves_trans(4)] by blast
  qed (use 2 in auto)
qed simp

subsection \<open>A process from its start to its end\<close>

datatype role = RoleScheduler | RoleReaper

definition redis_text :: "role \<Rightarrow> string" where
  "redis_text r =
     (case r of RoleScheduler \<Rightarrow> ''scheduler: redis connect: '' | RoleReaper \<Rightarrow> ''reaper: redis connect: '')"

definition db_text :: "role \<Rightarrow> string" where
  "db_text r =
     (case r of RoleScheduler \<Rightarrow> ''scheduler: db connect: '' | RoleReaper \<Rightarrow> ''reaper: db connect: '')"

definition process_run :: "su_env \<Rightarrow> role \<Rightarrow> Config \<Rightarrow> run_start \<times> su_step list" where
  \<comment> \<open>the start, the loop of theories \<open>Scheduler\<close> and \<open>Reaper\<close> until the context is done, and what
     the deferred calls close at the end: the pools, then Redis\<close>
  "process_run su r cfg =
     (case start_process su (redis_text r) (db_text r) cfg of
        (RunServes rds stores, es) \<Rightarrow>
          (RunServes rds stores, es @ snd (Stores_Close su (Some (Some (fst stores), Some (snd stores)))) @ [SClose rds])
      | (other, es) \<Rightarrow> (other, es))"

text \<open>Once Redis was reached a process that has ended has closed what it opened.\<close>

lemma dial_handle: "dial_redis su t = (Inr k, es) \<Longrightarrow> live h es = of_bool (k = h)"
  by (cases t)
    (auto simp: dial_redis_def Redis_Connect_def Redis_ConnectWithSentinel_def Let_def
      split: if_splits option.splits)

theorem process_run_live:
  assumes "process_run su r cfg = (res, es)" and "res \<noteq> RunPanics"
  shows "live h es = 0"
proof -
  let ?t = "ConnectFromConfig (RedisURI cfg) (RedisSentinels cfg) (RedisMasterName cfg)"
  obtain d es1 where d: "dial_redis su ?t = (d, es1)" by fastforce
  obtain c es2 where c: "Connect su (DB_URL cfg) (DB_READ_URL cfg) = (c, es2)" by fastforce
  show ?thesis
    using assms dial_handle [of su ?t _ es1 h] Connect_live [OF c, of h] d c
    by (cases d; cases c)
      (auto simp: process_run_def start_process_def Stores_Close_def Let_def split: prod.splits)
qed

subsection \<open>Addresses\<close>

definition api_addr :: "Config \<Rightarrow> string" where
  "api_addr cfg = JoinHostPort (Config.Host cfg) (Config.Port cfg)"

definition web_getenv :: "lookup_env \<Rightarrow> string \<Rightarrow> string \<Rightarrow> string" where
  \<comment> \<open>\<open>getenv\<close> of \<open>cmd/web\<close>: an empty variable counts as unset\<close>
  "web_getenv look key fallback =
     (case look key of Some v \<Rightarrow> if v \<noteq> [] then v else fallback | None \<Rightarrow> fallback)"

definition web_apiBase :: "lookup_env \<Rightarrow> string" where
  \<comment> \<open>with the trailing slashes removed by \<open>NewServer\<close>\<close>
  "web_apiBase look = TrimRightChar CHR ''/'' (web_getenv look ''API_BASE_URL'' ''http://localhost:8000'')"

definition web_addr :: "lookup_env \<Rightarrow> string" where
  "web_addr look = JoinHostPort ''0.0.0.0'' (web_getenv look ''PORT'' ''3000'')"

text \<open>Without any setting the dashboard and the API do not meet.\<close>

lemma default_addresses:
  "api_addr (initConfig (\<lambda>_. None)) = ''0.0.0.0:8080''" "web_apiBase (\<lambda>_. None) = ''http://localhost:8000''"
  by code_simp+

end
