(* ===== verification/Server_Run.thy ===== *)
theory Server_Run
  imports Processes
begin

text \<open>
  The life of the two HTTP processes as state machines: \<open>Run\<close> and \<open>GracefulShutDown\<close> of
  \<open>internal/api/server.go\<close>, \<open>Server.Run\<close> of \<open>internal/web/server.go\<close>, and the \<open>main\<close> functions with their
  exit codes. A step is one goroutine moving, a request coming or being answered, or a signal;
  which one moves is not determined. Of \<open>net/http\<close> the machines use what its documentation says:
  once \<open>Shutdown\<close> is called \<open>ListenAndServe\<close> returns \<open>ErrServerClosed\<close> at once, and \<open>Shutdown\<close> itself
  returns when no request is left or its context's ten seconds are over.
\<close>

subsection \<open>A serving process\<close>

datatype listener = NotListening | Listening | ListenFailed string | ListenClosed
  \<comment> \<open>the state of \<open>ListenAndServe\<close>; the last is the result \<open>ErrServerClosed\<close>\<close>

datatype shutdown = AwaitCtx | InShutdown | ShutReturned
  \<comment> \<open>the goroutine at \<open><-ctx.Done()\<close>, in \<open>Shutdown\<close>, and after it\<close>

datatype process = Alive | Exited nat | Terminated \<comment> \<open>the last: by a signal nobody handles\<close>

record server =
  sr_listener :: listener
  sr_requests :: nat \<comment> \<open>requests being answered\<close>
  sr_ctx :: bool \<comment> \<open>the context is done\<close>
  sr_shut :: shutdown
  sr_timeout :: bool \<comment> \<open>\<open>Shutdown\<close> gave up\<close>
  sr_process :: process

inductive serve_step :: "'a server_scheme \<Rightarrow> 'a server_scheme \<Rightarrow> bool" where
  listens: "sr_listener s = NotListening \<Longrightarrow> sr_shut s = AwaitCtx \<Longrightarrow>
    serve_step s (s\<lparr>sr_listener := Listening\<rparr>)"
| listen_fails: "sr_listener s \<in> {NotListening, Listening} \<Longrightarrow> sr_shut s = AwaitCtx \<Longrightarrow>
    serve_step s (s\<lparr>sr_listener := ListenFailed e\<rparr>)"
| listen_closed: "sr_listener s \<in> {NotListening, Listening} \<Longrightarrow> sr_shut s \<noteq> AwaitCtx \<Longrightarrow>
    serve_step s (s\<lparr>sr_listener := ListenClosed\<rparr>)"
| request: "sr_listener s = Listening \<Longrightarrow> sr_shut s = AwaitCtx \<Longrightarrow>
    serve_step s (s\<lparr>sr_requests := Suc (sr_requests s)\<rparr>)"
| answered: "sr_requests s = Suc n \<Longrightarrow> serve_step s (s\<lparr>sr_requests := n\<rparr>)"
| interrupted: "serve_step s (s\<lparr>sr_ctx := True\<rparr>)"
| shutdown_called: "sr_shut s = AwaitCtx \<Longrightarrow> sr_ctx s \<Longrightarrow> serve_step s (s\<lparr>sr_shut := InShutdown\<rparr>)"
| drained: "sr_shut s = InShutdown \<Longrightarrow> sr_requests s = 0 \<Longrightarrow> serve_step s (s\<lparr>sr_shut := ShutReturned\<rparr>)"
| gave_up: "sr_shut s = InShutdown \<Longrightarrow>
    serve_step s (s\<lparr>sr_shut := ShutReturned, sr_timeout := True\<rparr>)"

definition server_inv :: "'a server_scheme \<Rightarrow> bool" where
  "server_inv s \<longleftrightarrow>
     (sr_shut s \<noteq> AwaitCtx \<longrightarrow> sr_ctx s) \<and>
     (sr_listener s = ListenClosed \<longrightarrow> sr_shut s \<noteq> AwaitCtx) \<and>
     (sr_shut s = ShutReturned \<longrightarrow> sr_requests s = 0 \<or> sr_timeout s)"

lemma serve_step_inv: "serve_step s t \<Longrightarrow> server_inv s \<Longrightarrow> server_inv t"
  by (induction rule: serve_step.induct) (auto simp: server_inv_def)

lemma serve_step_frame:
  "serve_step s t \<Longrightarrow> server.more t = server.more s \<and> sr_process t = sr_process s"
  by (induction rule: serve_step.induct) simp_all

lemma serve_step_progress:
  \<comment> \<open>what has happened stays so\<close>
  "serve_step s t \<Longrightarrow> sr_shut s = ShutReturned \<Longrightarrow>
     sr_shut t = ShutReturned \<and> (sr_timeout t \<longleftrightarrow> sr_timeout s) \<and> sr_requests t \<le> sr_requests s"
  by (induction rule: serve_step.induct) auto

lemma serve_step_listener:
  "serve_step s t \<Longrightarrow> sr_listener s \<notin> {NotListening, Listening} \<Longrightarrow> sr_listener t = sr_listener s"
  by (induction rule: serve_step.induct) auto

subsection \<open>The API\<close>

record api_life = server +
  al_run :: bool \<comment> \<open>\<open>Run\<close> has returned (nil)\<close>
  al_stores :: bool \<comment> \<open>the deferred closes of the goroutine around \<open>GracefulShutDown\<close> have run\<close>
  al_redis :: bool

definition api_start :: "su_env \<Rightarrow> Config \<Rightarrow> run_start \<times> su_step list" where
  \<comment> \<open>the connections at the head of \<open>Run\<close>; the text of its error ends the line\<close>
  "api_start su cfg =
     (case start_process su ''Failed to connect to redis: '' ''Failed to connect to db: '' cfg of
        (RunFails e, es) \<Rightarrow> (RunFails (e @ [CHR 0x0A]), es)
      | other \<Rightarrow> other)"

definition api_up :: api_life where
  \<comment> \<open>after the connections are made (\<open>api_start\<close> with \<open>RunServes\<close>)\<close>
  "api_up =
     \<lparr>sr_listener = NotListening, sr_requests = 0, sr_ctx = False, sr_shut = AwaitCtx, sr_timeout = False,
      sr_process = Alive, al_run = False, al_stores = False, al_redis = False\<rparr>"

text \<open>
  The context listens to the interrupt only, so a termination signal ends the process where it is.
  \<open>GracefulShutDown\<close> releases the wait group when it returns; the closes of the goroutine that called
  it come after that and race with \<open>Run\<close> and \<open>main\<close>.
\<close>

inductive api_step :: "api_life \<Rightarrow> api_life \<Rightarrow> bool" where
  serve: "sr_process s = Alive \<Longrightarrow> serve_step s t \<Longrightarrow> api_step s t"
| terminated: "sr_process s = Alive \<Longrightarrow> api_step s (s\<lparr>sr_process := Terminated\<rparr>)"
| close_stores: "sr_process s = Alive \<Longrightarrow> sr_shut s = ShutReturned \<Longrightarrow> api_step s (s\<lparr>al_stores := True\<rparr>)"
| close_redis: "sr_process s = Alive \<Longrightarrow> al_stores s \<Longrightarrow> api_step s (s\<lparr>al_redis := True\<rparr>)"
| run_returns: "sr_process s = Alive \<Longrightarrow> sr_shut s = ShutReturned \<Longrightarrow> api_step s (s\<lparr>al_run := True\<rparr>)"
| main_returns: "sr_process s = Alive \<Longrightarrow> al_run s \<Longrightarrow> api_step s (s\<lparr>sr_process := Exited 0\<rparr>)"

definition api_reach :: "api_life \<Rightarrow> bool" where
  "api_reach = api_step\<^sup>*\<^sup>* api_up"

definition api_inv :: "api_life \<Rightarrow> bool" where
  "api_inv s \<longleftrightarrow>
     server_inv s \<and>
     (al_run s \<or> al_stores s \<or> al_redis s \<longrightarrow> sr_shut s = ShutReturned) \<and> (al_redis s \<longrightarrow> al_stores s) \<and>
     (\<forall>n. sr_process s = Exited n \<longrightarrow> al_run s \<and> n = 0)"

lemma serve_step_api:
  assumes "serve_step s (t :: api_life)"
  shows "al_run t = al_run s \<and> al_stores t = al_stores s \<and> al_redis t = al_redis s \<and> sr_process t = sr_process s"
  using assms by (induction rule: serve_step.induct) simp_all

lemma api_step_inv: "api_step s t \<Longrightarrow> api_inv s \<Longrightarrow> api_inv t"
proof (induction rule: api_step.induct)
  case (serve s t)
  then show ?case
    using serve_step_api [OF serve(2)] serve_step_inv [OF serve(2)] serve_step_progress [OF serve(2)]
    by (auto simp: api_inv_def)
qed (auto simp: api_inv_def server_inv_def)

lemma api_up_inv: "api_inv api_up"
  by (simp add: api_inv_def server_inv_def api_up_def)

lemma api_reach_inv: "api_reach s \<Longrightarrow> api_inv s"
  unfolding api_reach_def by (induction rule: rtranclp_induct) (blast intro: api_up_inv api_step_inv)+

lemma api_reach_step: "api_reach s \<Longrightarrow> api_step s t \<Longrightarrow> api_reach t"
  by (simp add: api_reach_def)

lemma api_reach_serve: "api_reach s \<Longrightarrow> sr_process s = Alive \<Longrightarrow> serve_step s t \<Longrightarrow> api_reach t"
  by (rule api_reach_step [OF _ api_step.serve])

text \<open>
  \<open>Run\<close> returns only after an interrupt, and only when \<open>Shutdown\<close> has: every request has been answered
  unless the ten seconds ran out. What is closed is closed in order, the pools before Redis.
\<close>

theorem api_run_drains:
  assumes "api_reach s" and "al_run s"
  shows "sr_ctx s \<and> sr_shut s = ShutReturned \<and> (sr_requests s = 0 \<or> sr_timeout s) \<and> (al_redis s \<longrightarrow> al_stores s)"
  using api_reach_inv [OF assms(1)] assms(2) by (auto simp: api_inv_def server_inv_def)

text \<open>
  A listener that fails is not noticed by anyone: until a signal comes the process neither exits nor
  listens again.
\<close>

lemma listen_failed_stays:
  "api_step\<^sup>*\<^sup>* s t \<Longrightarrow> sr_listener s = ListenFailed e \<Longrightarrow> sr_listener t = ListenFailed e"
proof (induction rule: rtranclp_induct)
  case (step t u)
  from step(2) step(3) [OF step(4)] show ?case
    by (induction rule: api_step.induct) (auto dest: serve_step_listener)
qed simp

theorem api_survives_listen_error:
  assumes "api_reach s" and "sr_listener s = ListenFailed e" and "api_step\<^sup>*\<^sup>* s t"
  shows "sr_listener t = ListenFailed e \<and> (\<not> sr_ctx t \<longrightarrow> sr_process t \<in> {Alive, Terminated})"
proof -
  have "api_reach t" using assms(1,3) unfolding api_reach_def by (rule rtranclp_trans)
  then have "api_inv t" by (rule api_reach_inv)
  then have "\<not> sr_ctx t \<longrightarrow> sr_process t \<in> {Alive, Terminated}"
    by (cases "sr_process t") (auto simp: api_inv_def server_inv_def)
  then show ?thesis using listen_failed_stays [OF assms(3,2)] by blast
qed

text \<open>Once interrupted, the process can always get to its end with everything closed.\<close>

lemma api_finishes:
  assumes "sr_process s = Alive" and "sr_shut s = ShutReturned"
  shows "api_step\<^sup>*\<^sup>* s (s\<lparr>al_stores := True, al_redis := True, al_run := True, sr_process := Exited 0\<rparr>)"
proof -
  let ?a = "s\<lparr>al_stores := True\<rparr>"
  let ?b = "?a\<lparr>al_redis := True\<rparr>"
  let ?c = "?b\<lparr>al_run := True\<rparr>"
  have "api_step s ?a" "api_step ?a ?b" "api_step ?b ?c" "api_step ?c (?c\<lparr>sr_process := Exited 0\<rparr>)"
    using assms by (auto intro!: api_step.intros(2-))
  then show ?thesis by (meson converse_rtranclp_into_rtranclp rtranclp.rtrancl_refl)
qed

theorem api_can_finish:
  assumes "sr_process s = Alive" and "sr_ctx s"
  shows "\<exists>t. api_step\<^sup>*\<^sup>* s t \<and> sr_process t = Exited 0 \<and> al_stores t \<and> al_redis t"
proof -
  let ?d = "\<lambda>u. u\<lparr>sr_shut := ShutReturned, sr_timeout := True\<rparr>"
  have "\<exists>u. api_step\<^sup>*\<^sup>* s u \<and> sr_process u = Alive \<and> sr_shut u = ShutReturned"
  proof (cases "sr_shut s")
    case AwaitCtx
    let ?i = "s\<lparr>sr_shut := InShutdown\<rparr>"
    have g: "serve_step ?i (?d ?i)" by (rule serve_step.gave_up) simp
    have "api_step ?i (?d ?i)" by (rule api_step.serve [OF _ g]) (simp add: assms)
    moreover have "api_step s ?i" using assms AwaitCtx by (intro api_step.serve serve_step.shutdown_called)
    ultimately have "api_step\<^sup>*\<^sup>* s (?d ?i)" by (meson converse_rtranclp_into_rtranclp rtranclp.rtrancl_refl)
    then show ?thesis using assms(1) by (intro exI [of _ "?d ?i"]) simp
  next
    case InShutdown
    then have "api_step s (?d s)" using assms by (auto intro!: api_step.serve serve_step.gave_up)
    then show ?thesis using assms(1) by (intro exI [of _ "?d s"]) auto
  qed (use assms in auto)
  then obtain u where u: "api_step\<^sup>*\<^sup>* s u" and e: "sr_process u = Alive" "sr_shut u = ShutReturned" by blast
  note f = rtranclp_trans [OF u api_finishes [OF e]]
  show ?thesis by (rule exI, rule conjI [OF f]) simp
qed

text \<open>
  The closes may also be skipped: \<open>Run\<close> and \<open>main\<close> can be through before the goroutine that owns the
  deferred closes moves again.
\<close>

definition api_early_exit :: api_life where
  "api_early_exit = api_up\<lparr>sr_ctx := True, sr_shut := ShutReturned, al_run := True, sr_process := Exited 0\<rparr>"

theorem api_may_skip_closes:
  "api_reach api_early_exit \<and> sr_process api_early_exit = Exited 0 \<and> \<not> sr_timeout api_early_exit \<and>
     \<not> al_stores api_early_exit \<and> \<not> al_redis api_early_exit"
proof -
  let ?a = "api_up\<lparr>sr_ctx := True\<rparr>"
  let ?b = "?a\<lparr>sr_shut := InShutdown\<rparr>"
  let ?c = "?b\<lparr>sr_shut := ShutReturned\<rparr>"
  let ?d = "?c\<lparr>al_run := True\<rparr>"
  have start: "api_reach api_up" by (simp add: api_reach_def)
  have a: "api_reach ?a" by (rule api_reach_serve [OF start _ serve_step.interrupted]) (simp add: api_up_def)
  have b: "api_reach ?b" by (rule api_reach_serve [OF a _ serve_step.shutdown_called]) (simp_all add: api_up_def)
  have c: "api_reach ?c" by (rule api_reach_serve [OF b _ serve_step.drained]) (simp_all add: api_up_def)
  have d: "api_reach ?d" by (rule api_reach_step [OF c api_step.run_returns]) (simp_all add: api_up_def)
  have "api_reach (?d\<lparr>sr_process := Exited 0\<rparr>)"
    by (rule api_reach_step [OF d api_step.main_returns]) (simp_all add: api_up_def)
  then show ?thesis by (simp add: api_early_exit_def api_up_def)
qed

subsection \<open>The dashboard\<close>

record web_life = server +
  wl_run :: "string option option" \<comment> \<open>what \<open>Run\<close> has returned\<close>

definition web_up :: web_life where
  "web_up =
     \<lparr>sr_listener = NotListening, sr_requests = 0, sr_ctx = False, sr_shut = AwaitCtx, sr_timeout = False,
      sr_process = Alive, wl_run = None\<rparr>"

fun web_result :: "listener \<Rightarrow> string option option" where
  \<comment> \<open>what \<open>Run\<close> makes of the result of \<open>ListenAndServe\<close>, when there is one\<close>
  "web_result ListenClosed = Some None"
| "web_result (ListenFailed e) = Some (Some (''web listen: '' @ e))"
| "web_result _ = None"

text \<open>
  Here it is \<open>ListenAndServe\<close> that \<open>Run\<close> waits for, and the shutdown is left to its goroutine. The context
  listens to both signals.
\<close>

inductive web_step :: "web_life \<Rightarrow> web_life \<Rightarrow> bool" where
  serve: "sr_process s = Alive \<Longrightarrow> serve_step s t \<Longrightarrow> web_step s t"
| run_returns: "sr_process s = Alive \<Longrightarrow> wl_run s = None \<Longrightarrow> web_result (sr_listener s) = Some r \<Longrightarrow>
    web_step s (s\<lparr>wl_run := Some r\<rparr>)"
| main_returns: "sr_process s = Alive \<Longrightarrow> wl_run s = Some r \<Longrightarrow>
    web_step s (s\<lparr>sr_process := Exited (if r = None then 0 else 1)\<rparr>)"

definition web_reach :: "web_life \<Rightarrow> bool" where
  "web_reach = web_step\<^sup>*\<^sup>* web_up"

definition web_inv :: "web_life \<Rightarrow> bool" where
  "web_inv s \<longleftrightarrow>
     server_inv s \<and> sr_process s \<noteq> Terminated \<and>
     (\<forall>r. wl_run s = Some r \<longrightarrow> web_result (sr_listener s) = Some r) \<and>
     (\<forall>n. sr_process s = Exited n \<longrightarrow> (\<exists>r. wl_run s = Some r \<and> n = (if r = None then 0 else 1)))"

lemma serve_step_web:
  assumes "serve_step s (t :: web_life)"
  shows "wl_run t = wl_run s \<and> sr_process t = sr_process s"
  using assms by (induction rule: serve_step.induct) simp_all

lemma web_step_inv: "web_step s t \<Longrightarrow> web_inv s \<Longrightarrow> web_inv t"
proof (induction rule: web_step.induct)
  case (serve s t)
  then show ?case
    using serve_step_web [OF serve(2)] serve_step_inv [OF serve(2)] serve_step_listener [OF serve(2)]
    by (cases "sr_listener s") (auto simp: web_inv_def)
qed (auto simp: web_inv_def server_inv_def)

lemma web_up_inv: "web_inv web_up"
  by (simp add: web_inv_def server_inv_def web_up_def)

lemma web_reach_inv: "web_reach s \<Longrightarrow> web_inv s"
  unfolding web_reach_def by (induction rule: rtranclp_induct) (blast intro: web_up_inv web_step_inv)+

lemma web_reach_step: "web_reach s \<Longrightarrow> web_step s t \<Longrightarrow> web_reach t"
  by (simp add: web_reach_def)

lemma web_reach_serve: "web_reach s \<Longrightarrow> sr_process s = Alive \<Longrightarrow> serve_step s t \<Longrightarrow> web_reach t"
  by (rule web_reach_step [OF _ web_step.serve])

text \<open>The exit code tells a failed listener, which ends the process, from a shutdown.\<close>

theorem web_exit_code:
  assumes "web_reach s" and "sr_process s = Exited n"
  shows "(n = 0 \<and> sr_ctx s \<and> sr_shut s \<noteq> AwaitCtx \<and> wl_run s = Some None) \<or>
    (n = 1 \<and> (\<exists>e. sr_listener s = ListenFailed e \<and> wl_run s = Some (Some (''web listen: '' @ e))))"
proof -
  have i: "web_inv s" by (rule web_reach_inv [OF assms(1)])
  then obtain r where r: "wl_run s = Some r" "n = (if r = None then 0 else 1)"
    using assms(2) by (auto simp: web_inv_def)
  then have "web_result (sr_listener s) = Some r" using i by (simp add: web_inv_def)
  then show ?thesis
    using i r by (cases "sr_listener s") (auto simp: web_inv_def server_inv_def)
qed

text \<open>
  It does not drain: \<open>ListenAndServe\<close> returns as soon as \<open>Shutdown\<close> is called, so \<open>Run\<close> and the process
  can end with a request half answered and the ten seconds not used.
\<close>

definition web_dropped :: web_life where
  "web_dropped =
     web_up\<lparr>sr_listener := ListenClosed, sr_requests := 1, sr_ctx := True, sr_shut := InShutdown,
       wl_run := Some None, sr_process := Exited 0\<rparr>"

theorem web_exit_drops_requests:
  "web_reach web_dropped \<and> sr_process web_dropped = Exited 0 \<and> sr_requests web_dropped = 1 \<and> \<not> sr_timeout web_dropped"
proof -
  let ?a = "web_up\<lparr>sr_listener := Listening\<rparr>"
  let ?b = "?a\<lparr>sr_requests := Suc 0\<rparr>"
  let ?c = "?b\<lparr>sr_ctx := True\<rparr>"
  let ?d = "?c\<lparr>sr_shut := InShutdown\<rparr>"
  let ?e = "?d\<lparr>sr_listener := ListenClosed\<rparr>"
  let ?f = "?e\<lparr>wl_run := Some None\<rparr>"
  have start: "web_reach web_up" by (simp add: web_reach_def)
  have a: "web_reach ?a" by (rule web_reach_serve [OF start _ serve_step.listens]) (simp_all add: web_up_def)
  have b: "web_reach ?b"
    using web_reach_serve [OF a _ serve_step.request] by (simp add: web_up_def)
  have c: "web_reach ?c" by (rule web_reach_serve [OF b _ serve_step.interrupted]) (simp add: web_up_def)
  have d: "web_reach ?d" by (rule web_reach_serve [OF c _ serve_step.shutdown_called]) (simp_all add: web_up_def)
  have e: "web_reach ?e" by (rule web_reach_serve [OF d _ serve_step.listen_closed]) (simp_all add: web_up_def)
  have f: "web_reach ?f" by (rule web_reach_step [OF e web_step.run_returns]) (simp_all add: web_up_def)
  have "web_reach (?f\<lparr>sr_process := Exited (if (None :: string option) = None then 0 else 1)\<rparr>)"
    by (rule web_reach_step [OF f web_step.main_returns]) (simp_all add: web_up_def)
  then show ?thesis by (simp add: web_dropped_def web_up_def)
qed

subsection \<open>The \<open>main\<close> functions\<close>

datatype run_error = CtxCanceled | RunError string

definition background_main :: "string \<Rightarrow> run_error option \<Rightarrow> string \<times> nat" where
  \<comment> \<open>of \<open>cmd/worker\<close>, \<open>cmd/scheduler\<close> and \<open>cmd/reaper\<close>: the text on standard error and the exit code, from
     the result of the run\<close>
  "background_main name r =
     (case r of
        None \<Rightarrow> ([], 0)
      | Some CtxCanceled \<Rightarrow> ([], 0)
      | Some (RunError e) \<Rightarrow> (name @ '' exited: '' @ e @ [CHR 0x0A], 1))"

definition api_main ::
  "su_env \<Rightarrow> Config \<Rightarrow> (string \<Rightarrow> string) \<Rightarrow> nat \<times> bool \<Rightarrow> string option \<Rightarrow> string list \<Rightarrow> string \<times> nat" where
  \<comment> \<open>\<open>os.Args\<close> with the name of the program at its head; \<open>run\<close> is the result of \<open>Run\<close>\<close>
  "api_main su cfg quote v run argv =
     (if length argv > 1 \<and> argv ! 1 = ''migrate''
      then (case fst (runMigrate su cfg quote v (drop 2 argv)) of
              None \<Rightarrow> ([], 0) | Some e \<Rightarrow> (''migrate: '' @ e @ [CHR 0x0A], 1))
      else (case run of None \<Rightarrow> ([], 0) | Some e \<Rightarrow> (e @ [CHR 0x0A], 1)))"

text \<open>\<open>api migrate\<close> exits with 0 exactly when the command succeeds, and a second run of \<open>up\<close> succeeds.\<close>

lemma migrate_up_exit:
  "dsn = DB_URL cfg \<Longrightarrow> fst (openMigrate su dsn) = Inr k \<Longrightarrow>
     snd (api_main su cfg quote v run [name, ''migrate'', ''up'']) =
       (if su (SMigrate ''up'') \<in> {None, Some ErrNoChange} then 0 else 1)"
  by (auto simp: api_main_def runMigrate_def MigrateUp_def with_migrate_def Let_def split: prod.split option.split)

end
