(* ===== verification/Pool_Shutdown.thy ===== *)
theory Pool_Shutdown
  imports Worker_Pool Pool_Start "HOL-Library.Sublist"
begin

text \<open>
  The end of a pool process: the last \<open>select\<close> of \<open>runPool\<close>, and the branches for a done context in
  \<open>workerLoop\<close> (\<open>internal/worker/worker.go\<close>) and in the dispatcher's \<open>Run\<close>
  (\<open>internal/dispatcher/dispatcher.go\<close>), on top of the channels of theory \<open>Worker_Pool\<close>. When a branch
  of a \<open>select\<close> and the done context can both proceed either may.
\<close>

subsection \<open>States and steps\<close>

datatype pool_main =
    Serving \<comment> \<open>in the \<open>select\<close> on the context and the two consumers\<close>
  | Draining \<comment> \<open>waiting for the workers, at most five seconds\<close>
  | Drained \<comment> \<open>returned after \<open>wg.Wait\<close>\<close>
  | DrainTimeout
  | ServeEnded \<comment> \<open>returned because a consumer did\<close>

record closing =
  cl_pool :: pool
  cl_ctx :: bool
  cl_disp :: bool \<comment> \<open>the dispatcher's goroutine has returned\<close>
  cl_gone :: "bool list" \<comment> \<open>the workers' goroutines that have returned\<close>
  cl_main :: pool_main

definition closing_init :: "nat \<Rightarrow> closing" where
  "closing_init n =
     \<lparr>cl_pool = new_pool n, cl_ctx = False, cl_disp = False, cl_gone = replicate n False, cl_main = Serving\<rparr>"

fun act_alive :: "pool_action \<Rightarrow> closing \<Rightarrow> bool" where
  \<comment> \<open>the goroutines that take part in an action are still there\<close>
  "act_alive (Dispatch job) s = True"
| "act_alive TakeJob s = (\<not> cl_disp s)"
| "act_alive PickWorker s = (\<not> cl_disp s)"
| "act_alive HandOver s =
     (\<not> cl_disp s \<and> (case dispatcher (cl_pool s) of Handing _ i \<Rightarrow> \<not> cl_gone s ! i | _ \<Rightarrow> False))"
| "act_alive (Finish i) s = (\<not> cl_gone s ! i)"
| "act_alive (PutBack i) s = (\<not> cl_gone s ! i)"
| "act_alive (Register i) s = (\<not> cl_gone s ! i)"

definition set_worker :: "nat \<Rightarrow> worker_state \<Rightarrow> closing \<Rightarrow> closing" where
  "set_worker i w s = s\<lparr>cl_pool := (cl_pool s)\<lparr>workers := (workers (cl_pool s))[i := w]\<rparr>\<rparr>"

inductive closing_step :: "closing \<Rightarrow> closing \<Rightarrow> bool" where
  act: "act_alive a s \<Longrightarrow> pool_act a (cl_pool s) = Some p \<Longrightarrow> closing_step s (s\<lparr>cl_pool := p\<rparr>)"
| cancelled: "closing_step s (s\<lparr>cl_ctx := True\<rparr>)"
| dispatcher_returns: "cl_ctx s \<Longrightarrow> closing_step s (s\<lparr>cl_disp := True\<rparr>)"
| worker_returns: "cl_ctx s \<Longrightarrow> i < length (cl_gone s) \<Longrightarrow> workers (cl_pool s) ! i = Receiving \<Longrightarrow>
    closing_step s (s\<lparr>cl_gone := (cl_gone s)[i := True]\<rparr>)"
| not_put_back: "cl_ctx s \<Longrightarrow> i < length (cl_gone s) \<Longrightarrow> workers (cl_pool s) ! i = Returning \<Longrightarrow>
    closing_step s (set_worker i Registering s)"
| not_registered: "cl_ctx s \<Longrightarrow> i < length (cl_gone s) \<Longrightarrow> workers (cl_pool s) ! i = Registering \<Longrightarrow>
    closing_step s (set_worker i Receiving s)"
| drains: "cl_ctx s \<Longrightarrow> cl_main s = Serving \<Longrightarrow> closing_step s (s\<lparr>cl_main := Draining\<rparr>)"
| drain_ends: "cl_main s = Draining \<Longrightarrow> list_all id (cl_gone s) \<Longrightarrow> closing_step s (s\<lparr>cl_main := Drained\<rparr>)"
| drain_timeout: "cl_main s = Draining \<Longrightarrow> closing_step s (s\<lparr>cl_main := DrainTimeout\<rparr>)"
| serve_ends: "cl_main s = Serving \<Longrightarrow> closing_step s (s\<lparr>cl_main := ServeEnded\<rparr>)"

definition closing_reach :: "nat \<Rightarrow> closing \<Rightarrow> bool" where
  "closing_reach n = closing_step\<^sup>*\<^sup>* (closing_init n)"

subsection \<open>The invariant\<close>

definition closing_inv :: "closing \<Rightarrow> bool" where
  "closing_inv s \<longleftrightarrow>
     queue_inv (cl_pool s) \<and> length (cl_gone s) = length (workers (cl_pool s)) \<and>
     (\<forall>i < length (cl_gone s). cl_gone s ! i \<longrightarrow> workers (cl_pool s) ! i = Receiving) \<and>
     (cl_main s = Drained \<longrightarrow> list_all id (cl_gone s))"

lemma pool_act_workers:
  assumes "pool_act a (cl_pool s) = Some p" and "act_alive a s"
  shows "length (workers p) = length (workers (cl_pool s))"
    and "cl_gone s ! i \<Longrightarrow> workers p ! i = workers (cl_pool s) ! i"
  using assms
  by (cases a; auto split: if_splits prod.splits dispatcher_state.splits list.splits worker_state.splits
      simp: nth_list_update)+

lemma closing_step_inv: "closing_step s t \<Longrightarrow> closing_inv s \<Longrightarrow> closing_inv t"
proof (induction rule: closing_step.induct)
  case (act a s p)
  then show ?case
    using pool_act_workers [OF act(2,1)] queue_inv_step [of "cl_pool s" a p] by (auto simp: closing_inv_def)
next
  case (worker_returns s i)
  then show ?case by (auto simp: closing_inv_def nth_list_update list_all_length)
qed (auto simp: closing_inv_def set_worker_def queue_inv_def nth_list_update)

lemma closing_init_inv: "closing_inv (closing_init n)"
  using new_pool_inv(1) by (simp add: closing_inv_def closing_init_def new_pool_def)

lemma closing_reach_inv: "closing_reach n s \<Longrightarrow> closing_inv s"
  unfolding closing_reach_def by (induction rule: rtranclp_induct) (blast intro: closing_init_inv closing_step_inv)+

lemma closing_reach_full: "closing_reach n s \<Longrightarrow> \<not> cl_ctx s \<Longrightarrow> full_inv n (cl_pool s)"
  unfolding closing_reach_def
proof (induction rule: rtranclp_induct)
  case base
  then show ?case by (simp add: closing_init_def new_pool_inv)
next
  case (step s t)
  from step(2,3,4) show ?case by (induction rule: closing_step.induct) (auto intro: full_inv_step simp: set_worker_def)
qed

text \<open>A run of the channels' actions, with every goroutine there.\<close>

fun closing_run :: "pool_action list \<Rightarrow> closing \<Rightarrow> closing option" where
  "closing_run [] s = Some s"
| "closing_run (a # as) s =
     (if act_alive a s
      then (case pool_act a (cl_pool s) of None \<Rightarrow> None | Some p \<Rightarrow> closing_run as (s\<lparr>cl_pool := p\<rparr>)) else None)"

lemma closing_run_reach: "closing_run as s = Some t \<Longrightarrow> closing_reach n s \<Longrightarrow> closing_reach n t"
proof (induction as arbitrary: s)
  case (Cons a as)
  then obtain p where p: "act_alive a s" "pool_act a (cl_pool s) = Some p" "closing_run as (s\<lparr>cl_pool := p\<rparr>) = Some t"
    by (auto split: if_splits option.splits)
  have "closing_reach n (s\<lparr>cl_pool := p\<rparr>)"
    using Cons.prems(2) closing_step.act [OF p(1,2)] unfolding closing_reach_def by (rule rtranclp.rtrancl_into_rtrancl)
  then show ?case by (rule Cons.IH [OF p(3)])
qed simp

definition demo_restart :: "pool_action list" where
  "demo_restart = [Register 0, PickWorker, HandOver]"

definition demo_closings :: "closing \<times> closing" where
  \<comment> \<open>a pool of one worker that has run its job, and the same after a cancellation and another job\<close>
  "demo_closings =
     (let s = (closing_init 1)\<lparr>cl_pool := demo_pool\<rparr>
      in (s, the (closing_run demo_restart (set_worker 0 Registering (s\<lparr>cl_ctx := True\<rparr>)))))"

lemma demo_closing: "closing_reach 1 (fst demo_closings)" "cl_pool (fst demo_closings) = demo_pool"
proof -
  have "closing_run demo_actions (closing_init 1) = Some (fst demo_closings)"
    by (simp add: demo_actions_def demo_closings_def demo_pool_def closing_init_def new_pool_def Jobqueue_cap_def)
  then show "closing_reach 1 (fst demo_closings)"
    by (rule closing_run_reach) (simp add: closing_reach_def)
qed (simp add: demo_closings_def Let_def)

subsection \<open>What a shutdown leaves\<close>



text \<open>C4. A worker pool stops after one job per worker: \<open>workerPoolCh\<close> is filled to its capacity
  at start-up and nothing ever receives from it, so a worker that finishes its first job
  blocks on sending itself to it and does not offer its \<open>JobChannel\<close> again. As long as the context of
  a pool of \<open>n\<close> workers lives, in every reachable state at most \<open>n\<close> jobs have been started, no worker can
  put itself back, and at most \<open>n + 101\<close> jobs have been accepted before \<open>DispatchTask\<close>
  blocks. (Only the cancelled context lets a worker pass the send.)\<close>

theorem pool_starts_at_most_n_jobs:
  assumes "closing_reach n s" and "\<not> cl_ctx s" and "p = cl_pool s"
  shows "length (started p) \<le> n \<and> pool_act (PutBack i) p = None \<and> length (accepted p) \<le> n + 101"
proof -
  have full: "full_inv n p" and q: "queue_inv p"
    using closing_reach_full [OF assms(1)] closing_reach_inv [OF assms(1)] assms(2,3) by (simp_all add: closing_inv_def)
  show ?thesis using full_inv_started [OF full] queue_inv_accepted [OF q] full by (simp add: full_inv_def)
qed

lemma pool_starts_at_most_n_jobs_witness:
  "length (started demo_pool) \<le> 1 \<and> workers demo_pool = [Returning] \<and>
   pool_act (PutBack 0) demo_pool = None \<and> pool_act PickWorker demo_pool = None"
proof -
  have "\<not> cl_ctx (fst demo_closings)" by (simp add: demo_closings_def closing_init_def Let_def)
  from pool_starts_at_most_n_jobs [OF demo_closing(1) this refl, of 0] show ?thesis
    by (simp add: demo_closing(2) demo_pool_facts)
qed

text \<open>Once it is cancelled the bound is gone: a worker may skip the full channel and still
  offer itself, and start one more job while the process closes.\<close>

lemma restart_after_cancel: "closing_reach 1 (snd demo_closings) \<and> length (started (cl_pool (snd demo_closings))) = 2"
proof -
  let ?s = "fst demo_closings"
  let ?c = "?s\<lparr>cl_ctx := True\<rparr>"
  let ?r = "set_worker 0 Registering ?c"
  have p: "cl_pool ?s = demo_pool" "\<not> cl_disp ?s" "cl_gone ?s = [False]"
    by (simp_all add: demo_closings_def closing_init_def Let_def)
  have "closing_step ?s ?c" by (rule closing_step.cancelled)
  moreover have "closing_step ?c ?r"
    by (rule closing_step.not_put_back) (simp_all add: p demo_pool_facts)
  moreover have "closing_run demo_restart ?r = Some (snd demo_closings)"
    by (simp add: demo_closings_def Let_def demo_restart_def p set_worker_def demo_pool_facts closing_init_def)
  ultimately have "closing_reach 1 (snd demo_closings)"
    using demo_closing(1) closing_run_reach by (metis closing_reach_def rtranclp.rtrancl_into_rtrancl)
  moreover have "length (started (cl_pool (snd demo_closings))) = 2"
    by (simp add: demo_closings_def Let_def demo_restart_def p set_worker_def demo_pool_facts closing_init_def)
  ultimately show ?thesis by blast
qed

text \<open>
  What the dispatcher has when it returns no worker
  gets any more; these jobs are claimed and their messages are not acked, so they come back
  through the pending list and the reaper.
\<close>

lemma abandoned_step:
  assumes "closing_step s t" and "cl_disp s"
  shows "cl_disp t \<and> started (cl_pool t) = started (cl_pool s) \<and> dispatcher (cl_pool t) = dispatcher (cl_pool s) \<and>
    prefix (Jobqueue (cl_pool s)) (Jobqueue (cl_pool t))"
  using assms
proof (induction rule: closing_step.induct)
  case (act a s p)
  then show ?case
    by (cases a) (auto split: if_splits worker_state.splits dispatcher_state.splits)
qed (auto simp: set_worker_def)

theorem abandoned_stay:
  assumes "closing_step\<^sup>*\<^sup>* s t" and "cl_disp s"
  shows "started (cl_pool t) = started (cl_pool s) \<and> in_hand (dispatcher (cl_pool t)) = in_hand (dispatcher (cl_pool s)) \<and>
    prefix (Jobqueue (cl_pool s)) (Jobqueue (cl_pool t))"
proof -
  from assms(1) have "cl_disp t \<and> started (cl_pool t) = started (cl_pool s) \<and>
      dispatcher (cl_pool t) = dispatcher (cl_pool s) \<and> prefix (Jobqueue (cl_pool s)) (Jobqueue (cl_pool t))"
  proof (induction rule: rtranclp_induct)
    case (step t u)
    then show ?case using abandoned_step [OF step(2)] by (auto intro: prefix_order.trans)
  qed (simp add: assms(2))
  then show ?thesis by simp
qed

text \<open>When \<open>runPool\<close> returns with its workers drained, no handler runs any more.\<close>

theorem drained_idle:
  assumes "closing_reach n s" and "cl_main s = Drained"
  shows "\<forall>w\<in>set (workers (cl_pool s)). w = Receiving"
  using closing_reach_inv [OF assms(1)] assms(2) by (auto simp: closing_inv_def list_all_length in_set_conv_nth)

subsection \<open>A shutdown can always end\<close>

lemma set_worker_same [simp]:
  "set_worker i w (set_worker i v s) = set_worker i w s" "cl_ctx (set_worker i w s) = cl_ctx s"
  "cl_gone (set_worker i w s) = cl_gone s" "cl_main (set_worker i w s) = cl_main s"
  "workers (cl_pool (set_worker i w s)) = (workers (cl_pool s))[i := w]"
  by (simp_all add: set_worker_def)

lemma set_worker_id: "workers (cl_pool s) ! i = w \<Longrightarrow> set_worker i w s = s"
  by (auto simp: set_worker_def list_update_id)

text \<open>
  A worker gets back to the head of its loop once the context is done, also when \<open>workerPoolCh\<close> is
  full, which holds it there as long as the context lasts (theory \<open>Worker_Pool\<close>).
\<close>

lemma worker_winds_down:
  assumes "cl_ctx s" and "i < length (cl_gone s)" and "i < length (workers (cl_pool s))" and "\<not> cl_gone s ! i"
  shows "closing_step\<^sup>*\<^sup>* s (set_worker i Receiving s)"
proof -
  let ?s = "\<lambda>w. set_worker i w s"
  have c: "closing_step (?s Registering) (?s Receiving)"
    using closing_step.not_registered [of "?s Registering" i] assms by simp
  have b: "closing_step (?s Returning) (?s Registering)"
    using closing_step.not_put_back [of "?s Returning" i] assms by simp
  have a: "closing_step s (?s Returning)" if "workers (cl_pool s) ! i = Working j" for j
    using closing_step.act [of "Finish i" s] assms that by (simp add: set_worker_def)
  show ?thesis
  proof (cases "workers (cl_pool s) ! i")
    case Receiving
    then show ?thesis by (simp add: set_worker_id)
  next
    case (Working j)
    show ?thesis by (meson a [OF Working] b c converse_rtranclp_into_rtranclp rtranclp.rtrancl_refl)
  next
    case Returning
    then have "?s Returning = s" by (rule set_worker_id)
    then show ?thesis using b c by (metis converse_rtranclp_into_rtranclp rtranclp.rtrancl_refl)
  next
    case Registering
    then have "?s Registering = s" by (rule set_worker_id)
    then show ?thesis using c by auto
  qed
qed

lemma worker_ends:
  assumes "cl_ctx s" and "closing_inv s" and "i < length (cl_gone s)"
  shows "\<exists>t. closing_step\<^sup>*\<^sup>* s t \<and> cl_gone t = (cl_gone s)[i := True] \<and> cl_ctx t \<and> cl_main t = cl_main s"
proof (cases "cl_gone s ! i")
  case True
  then have "(cl_gone s)[i := True] = cl_gone s" by (metis list_update_id)
  then show ?thesis using assms(1) by (intro exI [of _ s]) simp
next
  case False
  let ?t = "set_worker i Receiving s"
  have len: "i < length (workers (cl_pool s))" using assms(2,3) by (simp add: closing_inv_def)
  have "closing_step ?t (?t\<lparr>cl_gone := (cl_gone s)[i := True]\<rparr>)"
    using closing_step.worker_returns [of ?t i] assms len by simp
  with worker_winds_down [OF assms(1,3) len False]
  have "closing_step\<^sup>*\<^sup>* s (?t\<lparr>cl_gone := (cl_gone s)[i := True]\<rparr>)" by (rule rtranclp.rtrancl_into_rtrancl)
  then show ?thesis using assms(1) by (intro exI [of _ "?t\<lparr>cl_gone := (cl_gone s)[i := True]\<rparr>"]) simp
qed

lemma closing_steps_inv: "closing_step\<^sup>*\<^sup>* s t \<Longrightarrow> closing_inv s \<Longrightarrow> closing_inv t"
  by (induction rule: rtranclp_induct) (blast intro: closing_step_inv)+

lemma workers_end:
  assumes "cl_ctx s" and "closing_inv s" and "k \<le> length (cl_gone s)"
  shows "\<exists>t. closing_step\<^sup>*\<^sup>* s t \<and> (\<forall>i < k. cl_gone t ! i) \<and> cl_ctx t \<and> cl_main t = cl_main s \<and>
    length (cl_gone t) = length (cl_gone s)"
  using assms(3)
proof (induction k)
  case 0
  then show ?case using assms(1) by auto
next
  case (Suc k)
  then obtain t where t: "closing_step\<^sup>*\<^sup>* s t" "\<forall>i < k. cl_gone t ! i" "cl_ctx t" "cl_main t = cl_main s"
    "length (cl_gone t) = length (cl_gone s)" by auto
  obtain u where u: "closing_step\<^sup>*\<^sup>* t u" "cl_gone u = (cl_gone t)[k := True]" "cl_ctx u" "cl_main u = cl_main t"
    using worker_ends [OF t(3) closing_steps_inv [OF t(1) assms(2)], of k] Suc(2) t(5) by auto
  have "\<forall>i < Suc k. cl_gone u ! i" using u(2) t(2,5) Suc(2) by (auto simp: nth_list_update less_Suc_eq)
  then show ?case using rtranclp_trans [OF t(1) u(1)] u t by (intro exI [of _ u]) simp
qed

text \<open>
  From every state in which the context is done and \<open>runPool\<close> has not returned, it can return with all
  workers drained, whatever the workers were doing and however full the channels are.
\<close>

theorem shutdown_can_drain:
  assumes "closing_reach n s" and "cl_ctx s" and "cl_main s \<in> {Serving, Draining}"
  shows "\<exists>t. closing_step\<^sup>*\<^sup>* s t \<and> cl_main t = Drained \<and> (\<forall>w\<in>set (workers (cl_pool t)). w = Receiving)"
proof -
  obtain t where t: "closing_step\<^sup>*\<^sup>* s t" "\<forall>i < length (cl_gone s). cl_gone t ! i" "cl_ctx t" "cl_main t = cl_main s"
    "length (cl_gone t) = length (cl_gone s)"
    using workers_end [OF assms(2) closing_reach_inv [OF assms(1)] order.refl] by auto
  let ?u = "t\<lparr>cl_main := Draining\<rparr>"
  have gone: "list_all id (cl_gone t)" using t(2,5) by (simp add: list_all_length)
  have "closing_step\<^sup>*\<^sup>* t ?u"
  proof (cases "cl_main s")
    case Serving
    then show ?thesis using closing_step.drains [of t] t(3,4) by auto
  next
    case Draining
    then have "?u = t" using t(4) by simp
    then show ?thesis by simp
  qed (use assms(3) in auto)
  moreover have "closing_step ?u (?u\<lparr>cl_main := Drained\<rparr>)" using gone by (intro closing_step.drain_ends) simp_all
  ultimately have steps: "closing_step\<^sup>*\<^sup>* s (t\<lparr>cl_main := Drained\<rparr>)"
    using rtranclp_trans [OF t(1)] by (simp add: rtranclp.rtrancl_into_rtrancl)
  have "closing_inv (t\<lparr>cl_main := Drained\<rparr>)"
    by (rule closing_steps_inv [OF steps closing_reach_inv [OF assms(1)]])
  then have "\<forall>w\<in>set (workers (cl_pool t)). w = Receiving"
    using gone by (auto simp: closing_inv_def list_all_length in_set_conv_nth)
  then show ?thesis using steps by (intro exI [of _ "t\<lparr>cl_main := Drained\<rparr>"]) simp
qed

end
