(* ===== verification/End_To_End.thy ===== *)
theory End_To_End
  imports Pipeline Api_Enqueue Pool_Start
begin

text \<open>
  A job's way from the caller to its completion: the API's \<open>EnqueueHandler\<close>, the router and the wire
  format, the pool that reads the stream, the consumer, the worker and the store, composed. The
  API and the worker are two processes: they share the database and the library, and nothing
  else but the message.
\<close>

subsection \<open>What the API has pushed\<close>

lemma created_job_more [simp]: "Type (created_job lib inp) = Type inp"
  by (simp add: created_job_def created_row_def scanJobRow_def job_row.defs)

lemma enqueue_pushes:
  assumes "EnqueueHandler env al rds rq w = (resp, w')" and "rq_Method rq = ''POST''" and "rq_User rq = Some u"
    and "enqueue_check env al (w_trace w) rq u = Inr inp" and "fresh_id (e_uuid env (w_trace w)) (w_db w)"
    and "ERedis (XAdd st vs n) rep \<in> set (drop (length (w_trace w)) (w_trace w'))"
    and "c = create_defaults (e_uuid env (w_trace w)) (e_now env (w_trace w)) inp"
  shows "find_job (JobID c) (w_db w') = Some (created_row (e_lib env) c) \<and> JobID c = e_uuid env (w_trace w) \<and>
    Status c = JobPending \<and> (\<exists>g. StreamFor (QueueName c) (Priority c) = Some (st, g)) \<and>
    vs = ToJobFields (e_lib env) (created_job (e_lib env) c)"
proof -
  note job = enqueue_check_job [OF assms(4)]
  obtain res w1 where cr: "pg_CreateJob env inp w = (res, w1)" by (rule prod.exhaust)
  note k = pg_CreateJob_cases [OF cr job(1) assms(5), folded assms(7)]
  show ?thesis
  proof (cases res)
    case (Inl e)
    then have "w' = w1" using assms(1-4) cr by (auto simp: EnqueueHandler_def split: store_err.splits)
    then show ?thesis using assms(6) k by simp
  next
    case (Inr created)
    then have c: "JobID c = e_uuid env (w_trace w)" "created = created_job (e_lib env) c"
        "find_job (JobID c) (w_db w1) = Some (created_row (e_lib env) c)"
      using k unfolding Inr sum.case Let_def by blast+
    have "Status c \<in> {JobPending, JobScheduled}" using job(4) by (auto simp: assms(7) create_defaults_def)
    then have "Status created \<in> {JobPending, JobScheduled}" using c(2) by simp
    from enqueue_created [OF assms(1-4) cr [unfolded Inr] this] obtain es where
      e: "w_db w' = w_db w1" "w_trace w' = w_trace w1 @ es" "pushed env rds created (rs_Code resp \<noteq> 202) es"
        "Status created = JobScheduled \<longrightarrow> es = []" by blast
    have "ERedis (XAdd st vs n) rep \<in> set es" using assms(6) e(2) k by auto
    then show ?thesis using e c \<open>Status c \<in> _\<close> by (auto simp: pushed_def)
  qed
qed

lemma reference_read_back:
  assumes "golib_ok lib" and "Type j \<noteq> []"
  shows "\<exists>ref. JobFromFields lib (ToJobFields lib j) = Inr ref \<and> JobID ref = JobID j \<and> Type ref = Type j"
  using assms
  by (simp add: JobFromFields_def get_str_ToJobFields golib_ok_def job_type_field_def)

subsection \<open>What the worker makes of it\<close>

lemma decode_payload_value [simp]: "decode_payload lib b \<noteq> JNull"
  by (simp add: decode_payload_def split: option.split)

lemma lifecycle_kept [simp]:
  "PayloadRef (set_running wid tok t r) = PayloadRef r" "OwnerUserID (set_running wid tok t r) = OwnerUserID r"
  "OwnerUserID (set_completed t r) = OwnerUserID r"
  by (simp_all add: set_running_def set_completed_def)

lemma fetched_payload:
  assumes "PayloadRef r = Some b" and "b \<noteq> []"
  shows "Payload (fetched lib (set_running wid tok t r)) = decode_payload lib b"
  using assms by (simp add: fetched_def hydratePayload_def scanJobRow_def job_row.defs)

lemma claimed_payload: "Payload c \<noteq> JNull \<Longrightarrow> Payload (claimed_job job c tok) = Payload c"
  by (simp add: claimed_job_def)

lemma ref_job_type [simp]: "Type (ref_job m ref s g) = Type ref"
  by (simp add: ref_job_def)

lemma created_row_fields [simp]:
  "Status (created_row lib c) = Status c" "AttemptCount (created_row lib c) = AttemptCount c"
  "NotBefore (created_row lib c) = NotBefore c" "OwnerUserID (created_row lib c) = OwnerUserID c"
  "PayloadRef (created_row lib c) = create_payload_ref lib c"
  by (simp_all add: created_row_def)

lemma create_defaults_fields [simp]:
  "AttemptCount (create_defaults i t inp) = AttemptCount inp" "NotBefore (create_defaults i t inp) = NotBefore inp"
  "OwnerUserID (create_defaults i t inp) = OwnerUserID inp" "PayloadRef (create_defaults i t inp) = PayloadRef inp"
  "Payload (create_defaults i t inp) = Payload inp" "Type (create_defaults i t inp) = Type inp"
  by (simp_all add: create_defaults_def)

lemma one_pool:
  assumes "(st, g) \<in> set streamsAndGroups"
  shows "\<exists>!pool. pool \<in> set poolOrder \<and> st \<in> fst ` set (pool_streams pool)"
proof -
  have "list_all (\<lambda>sg. length (filter (\<lambda>k. fst sg \<in> fst ` set (pool_streams k)) poolOrder) = 1) streamsAndGroups"
    by code_simp
  then have "length (filter (\<lambda>k. st \<in> fst ` set (pool_streams k)) poolOrder) = 1"
    using assms unfolding list_all_iff by fastforce
  then show ?thesis by (rule filter_single)
qed

text \<open>C1. From the request to its completion: when the API has accepted a request and pushed it to a
  stream, exactly one pool reads this stream; when the message is delivered there, the
  database answers and the handler succeeds, the handler is run once, with the type and the payload
  the caller sent, the row the API created, still the caller's, is completed on its first
  attempt, the message is acked last, and a redelivery of it changes nothing.\<close>

theorem enqueued_job_completes:
  assumes "EnqueueHandler env al rds rq w = (resp, w')" and "rq_Method rq = ''POST''" and "rq_User rq = Some u"
    and "enqueue_check env al (w_trace w) rq u = Inr inp" and "fresh_id (e_uuid env (w_trace w)) (w_db w)"
    and "e_uuid env (w_trace w) \<noteq> uuid_Nil"
    and "ERedis (XAdd st vs n) rep \<in> set (drop (length (w_trace w)) (w_trace w'))"
    and "golib_ok (e_lib env)"
    and "\<And>b. json_Marshal (e_lib env) (Payload inp) = Some b \<Longrightarrow> decode_payload (e_lib env) b = Payload inp"
    and "e_lib we = e_lib env" and "\<And>t. e_flt we t = no_faults" and "\<And>t. \<not> e_done we t"
    and "HasJobs store" and "xm_values msg = vs" and "xm_id msg \<noteq> []" and "w_db v = w_db w'"
  shows "(\<exists>!pool. pool \<in> set poolOrder \<and> st \<in> fst ` set (pool_streams pool)) \<and>
    (\<exists>g job v1 v2 r ack again. (st, g) \<in> set streamsAndGroups \<and> v1 = process_msg we store st g wid msg v \<and>
      worker_round we store job (HandlerDone (Inr res)) v1 = (True, v2) \<and>
      w_trace v2 = w_trace v @ [EDb (OpClaim (e_uuid env (w_trace w)) wid) None, EDispatch job True,
        ERun (Type inp) (payload_text we (Payload inp)),
        EDb (OpComplete (e_uuid env (w_trace w)) (the (ClaimToken job))) None, ERedis (XAck st g (xm_id msg)) ack] \<and>
      find_job (e_uuid env (w_trace w)) (w_db v2) = Some r \<and> Status r = JobCompleted \<and> OwnerUserID r = Some u \<and>
      AttemptCount r = 1 \<and> w_db (process_msg we store st g wid msg v2) = w_db v2 \<and>
      w_trace (process_msg we store st g wid msg v2) = w_trace v2 @
        [EDb (OpClaim (e_uuid env (w_trace w)) wid) (Some ErrNotClaimable), ERedis (XAck st g (xm_id msg)) again])"
proof -
  let ?id = "e_uuid env (w_trace w)" and ?lib = "e_lib env"
  let ?c = "create_defaults ?id (e_now env (w_trace w)) inp"
  let ?r = "created_row ?lib ?c"
  note f = enqueue_check_fields [OF assms(4)]
  from enqueue_pushes [OF assms(1-5,7) refl] obtain g where
    p: "find_job ?id (w_db w') = Some ?r" "JobID ?c = ?id" "Status ?c = JobPending"
      "StreamFor (QueueName ?c) (Priority ?c) = Some (st, g)" "vs = ToJobFields ?lib (created_job ?lib ?c)" by metis
  have sg: "(st, g) \<in> set streamsAndGroups" by (rule StreamFor_created [OF p(4)])
  have ne: "st \<noteq> []" "g \<noteq> []" using StreamFor_nonempty [OF p(4)] by auto
  obtain ref where ref: "JobFromFields (e_lib we) (xm_values msg) = Inr ref" "JobID ref = ?id" "Type ref = Type inp"
    using reference_read_back [OF assms(8), of "created_job ?lib ?c"] f(4) p(2,5) assms(10,14) by auto
  obtain b where b: "json_Marshal ?lib (Payload inp) = Some b" "b \<noteq> []"
    using f(5) assms(8) by (auto simp: golib_ok_def)
  have pref: "PayloadRef ?r = Some b" using f(3,5) b(1) by (auto simp: create_payload_ref_def)
  have r: "claimable (Status ?r)" "\<not> gated ?r t" "is_int16 (AttemptCount ?r + 1)" for t
    using p(3) f(1,2) by (simp_all add: claimable_def gated_def is_int16_def)
  have find: "find_job ?id (w_db v) = Some ?r" using p(1) assms(16) by simp
  obtain tok t1 t2 job v2 ack again where
    m: "job = claimed_job (ref_job msg ref st g) (fetched (e_lib we) (set_running wid tok t1 ?r)) tok"
      "w_trace (process_msg we store st g wid msg v) = w_trace v @ [EDb (OpClaim ?id wid) None, EDispatch job True]"
      "worker_round we store job (HandlerDone (Inr res)) (process_msg we store st g wid msg v) = (True, v2)"
      "w_trace v2 = w_trace (process_msg we store st g wid msg v) @ [ERun (Type job) (payload_text we (Payload job)),
        EDb (OpComplete ?id (the (ClaimToken job))) None, ERedis (XAck st g (xm_id msg)) ack]"
      "find_job ?id (w_db v2) = Some (set_completed t2 (set_running wid tok t1 ?r))"
      "w_db (process_msg we store st g wid msg v2) = w_db v2"
      "w_trace (process_msg we store st g wid msg v2) = w_trace v2 @
        [EDb (OpClaim ?id wid) (Some ErrNotClaimable), ERedis (XAck st g (xm_id msg)) again]"
    using message_processed [OF find r(1) r(2) r(3) assms(11,12) ref(1,2) assms(6,13,15) ne refl, of wid res] by blast
  have object: "Payload inp \<noteq> JNull" using f(5) by auto
  have job: "Type job = Type inp" "Payload job = Payload inp"
    using ref(3) claimed_payload [of "fetched (e_lib we) (set_running wid tok t1 ?r)" "ref_job msg ref st g" tok]
      fetched_payload [OF pref b(2), of "e_lib we" wid tok t1] assms(9) [OF b(1)] assms(10) object
    by (simp_all add: m(1))
  have "\<exists>g job v1 v2 r ack again. (st, g) \<in> set streamsAndGroups \<and> v1 = process_msg we store st g wid msg v \<and>
      worker_round we store job (HandlerDone (Inr res)) v1 = (True, v2) \<and>
      w_trace v2 = w_trace v @ [EDb (OpClaim ?id wid) None, EDispatch job True,
        ERun (Type inp) (payload_text we (Payload inp)),
        EDb (OpComplete ?id (the (ClaimToken job))) None, ERedis (XAck st g (xm_id msg)) ack] \<and>
      find_job ?id (w_db v2) = Some r \<and> Status r = JobCompleted \<and> OwnerUserID r = Some u \<and>
      AttemptCount r = 1 \<and> w_db (process_msg we store st g wid msg v2) = w_db v2 \<and>
      w_trace (process_msg we store st g wid msg v2) = w_trace v2 @
        [EDb (OpClaim ?id wid) (Some ErrNotClaimable), ERedis (XAck st g (xm_id msg)) again]"
    by (rule exI [of _ g], rule exI [of _ job], rule exI [of _ "process_msg we store st g wid msg v"],
        rule exI [of _ v2], rule exI [of _ "set_completed t2 (set_running wid tok t1 ?r)"], rule exI [of _ ack],
        rule exI [of _ again])
      (use sg m job f(1) enqueue_check_job(2) [OF assms(4)] in simp)
  then show ?thesis using one_pool [OF sg] by blast
qed

definition demo_direct :: apilib where
  \<comment> \<open>a scanner that reads every body as an e-mail job to be run at once\<close>
  "demo_direct = demo_al\<lparr>json_Scan := (\<lambda>_ _. ScanValue (RObj [(''type'', RStr ''email''), (''payload'', RObj [])]))\<rparr>"

definition demo_request :: enqueueRequest where
  "demo_request = zero_request\<lparr>er_Type := ''email'', er_QueueName := ''email-high'', er_Payload := Some []\<rparr>"

lemma demo_checked: "enqueue_check live_env demo_direct [] demo_post 9 = Inr (enqueue_job demo_request [] 9)"
  by (simp add: enqueue_check_def decodeEnqueueRequest_def read_json_def demo_al_def demo_direct_def demo_post_def
      request_members_def bind_dec_def um_field_def um_string_def um_map_def um_max_retry_def enqueue_normal_def
      Let_def MaxEnqueueBodyBytes_def TrimSpace_def is_space_def allowedTypes_def live_env_def dead_env_def
      demo_lib_def MaxPayloadBytes_def enqueue_schedule_def demo_request_def zero_request_def)

definition demo_answer :: "response \<times> world" where
  "demo_answer = EnqueueHandler live_env demo_direct (Some \<lparr>MaxLen = 0, HasJobs = False\<rparr>) demo_post \<lparr>w_db = empty_db, w_trace = []\<rparr>"

lemma demo_pushed: "\<exists>vs n rep. w_trace (snd demo_answer) = [EDb OpCreate None, ERedis (XAdd EmailHighStream vs n) rep]"
proof -
  let ?w = "\<lparr>w_db = empty_db, w_trace = []\<rparr>" and ?inp = "enqueue_job demo_request [] 9"
  let ?c = "create_defaults 1 (e_now live_env []) ?inp"
  have env: "e_uuid live_env [] = 1" "e_flt live_env [] = no_faults" by (simp_all add: live_env_def dead_env_def)
  have req: "QueueName ?inp = ''email-high''" "IdempotencyKey ?inp = None"
    by (simp_all add: demo_request_def zero_request_def)
  have keep: "Status ?c = JobPending" "IdempotencyKey ?c = None" "QueueName ?c = ''email-high''"
    using req by (simp_all add: create_defaults_def)
  have "\<exists>w1. pg_CreateJob live_env ?inp ?w = (Inr (created_job (e_lib live_env) ?c), w1) \<and> w_trace w1 = [EDb OpCreate None]"
    using keep by (simp add: pg_CreateJob_def db_do_def CreateJob_def Let_def env no_faults_def commit_tx_def
        key_conflict_def pk_conflict_def empty_db_def db_statuses_def)
  then obtain w1 where cr: "pg_CreateJob live_env ?inp ?w = (Inr (created_job (e_lib live_env) ?c), w1)"
      "w_trace w1 = [EDb OpCreate None]" by blast
  have stream: "StreamFor ''email-high'' p = Some (EmailHighStream, EmailGroupHigh)" for p
  proof -
    have "split_tier (ToLower (TrimSpace ''email-high'')) p = (''email'', True)"
      unfolding split_tier_def by code_simp
    then show ?thesis by (simp add: StreamFor_def)
  qed
  have ne: "EmailHighStream \<noteq> []" by (simp add: stream_consts)
  show ?thesis
    using demo_checked cr keep stream ne
    by (simp add: demo_answer_def EnqueueHandler_def demo_post_def push_response_def enqueue_texts_def Let_def
        AddJobRefToStream_def redis_do_def live_env_def dead_env_def)
qed

lemma enqueued_job_completes_witness:
  "\<exists>msg job v2 r. worker_round live_env \<lparr>MaxLen = 0, HasJobs = True\<rparr> job (HandlerDone (Inr ''ok''))
     (process_msg live_env \<lparr>MaxLen = 0, HasJobs = True\<rparr> EmailHighStream EmailGroupHigh ''c'' msg (snd demo_answer)) = (True, v2) \<and>
     find_job 1 (w_db v2) = Some r \<and> Status r = JobCompleted \<and> OwnerUserID r = Some 9"
proof -
  obtain vs n rep where t: "w_trace (snd demo_answer) = [EDb OpCreate None, ERedis (XAdd EmailHighStream vs n) rep]"
    using demo_pushed by blast
  define msg where "msg = \<lparr>xm_id = ''1-0'', xm_values = vs\<rparr>"
  let ?w = "\<lparr>w_db = empty_db, w_trace = []\<rparr>"
  have h: "EnqueueHandler live_env demo_direct (Some \<lparr>MaxLen = 0, HasJobs = False\<rparr>) demo_post ?w =
      (fst demo_answer, snd demo_answer)" by (simp add: demo_answer_def)
  have e: "e_uuid live_env t = 1" "e_lib live_env = demo_lib" "e_flt live_env t = no_faults" "\<not> e_done live_env t" for t
    by (simp_all add: live_env_def dead_env_def)
  have fr: "fresh_id (e_uuid live_env (w_trace ?w)) (w_db ?w)" by (simp add: fresh_id_def empty_db_def)
  have x: "ERedis (XAdd EmailHighStream vs n) rep \<in> set (drop (length (w_trace ?w)) (w_trace (snd demo_answer)))"
    by (simp add: t)
  have d: "decode_payload (e_lib live_env) b = Payload (enqueue_job demo_request [] 9)"
    if "json_Marshal (e_lib live_env) (Payload (enqueue_job demo_request [] 9)) = Some b" for b
    using that by (auto simp: e demo_lib_def decode_payload_def)
  have g: "(EmailHighStream, g) \<in> set streamsAndGroups \<Longrightarrow> g = EmailGroupHigh" for g
    by (simp add: streamsAndGroups_def stream_consts)
  have q: "rq_Method demo_post = ''POST''" "rq_User demo_post = Some 9" by (simp_all add: demo_post_def)
  have c: "enqueue_check live_env demo_direct (w_trace ?w) demo_post 9 = Inr (enqueue_job demo_request [] 9)"
    using demo_checked by simp
  have i: "e_uuid live_env (w_trace ?w) \<noteq> uuid_Nil" "golib_ok (e_lib live_env)" by (simp_all add: e golib_ok_demo)
  have m: "HasJobs \<lparr>MaxLen = 0, HasJobs = True\<rparr>" "xm_values msg = vs" "xm_id msg \<noteq> []" by (simp_all add: msg_def)
  from enqueued_job_completes [OF h q c fr i(1) x i(2) d refl e(3,4) m refl, of "''c''" "''ok''"] g
  show ?thesis unfolding e(1) by blast
qed

end
