(* ===== verification/Spec2Isabelle.thy ===== *)
theory Spec2Isabelle
  imports Pipeline Jobs_Batch_Props Api_Server Api_Jobs_Props Auth_Props Processing
    Rate_Limit Startup Web_Props Pool_Start Cli Jobs_Refinement Page_Props Server_Run Pool_Shutdown End_To_End
begin

text \<open>
  PierceMQ, a distributed task queue: verification library.

  \<^bold>\<open>The program.\<close> Five Go processes share a PostgreSQL database and a Redis server. The API
  (\<open>internal/api\<close>, \<open>internal/auth\<close>) authenticates callers, stores a job (\<open>internal/storage/jobs\<close>)
  and pushes a reference to it onto one of six Redis streams (\<open>internal/broker\<close>,
  \<open>internal/queue\<close>). A worker process per job type reads its streams through a consumer group
  (\<open>broker.ServeJobs\<close>), claims the job's row, hands it to a goroutine of its pool
  (\<open>internal/dispatcher\<close>, \<open>internal/worker\<close>), runs the handler of the type
  (\<open>internal/task/handlers\<close>) and then writes the outcome to the row before it acks the message.
  The scheduler promotes scheduled and retryable jobs and purges old ones, the reaper takes back
  the jobs of workers that stopped heartbeating and re-sends messages that were lost. The row is
  the truth; the stream only carries references. The dashboard (\<open>internal/web\<close>) is a fifth process,
  which shows and changes jobs through the API with the session of the browser it serves.

  \<^bold>\<open>Theories.\<close>
  \<^item> \<open>Prelude\<close>: machine integers, Go's \<open>strings\<close> and \<open>strconv\<close>, SQL statements on lists of rows.
  \<^item> \<open>Task\<close> (\<open>internal/task/tasks.go\<close>): the job record and its stream format. \<open>Queue\<close>
    (\<open>internal/queue\<close>, \<open>internal/cronx\<close>): streams, groups, routing, cron.
  \<^item> \<open>Jobs_Schema\<close>, \<open>Jobs_Queries\<close>, \<open>Jobs_Lifecycle\<close>, \<open>Jobs_Ops\<close>, \<open>Jobs_Batch\<close>: the tables and
    the operations of \<open>internal/storage/jobs\<close>, one file each. Every operation is a function from
    the tables to its result and the new tables, with a fault oracle at each of its database
    calls; its transaction is one atomic step (row locks serialise them).
  \<^item> \<open>Jobs_Machine\<close>: these operations as the steps of a state machine; \<open>Jobs_Props\<close>,
    \<open>Jobs_Contract\<close>, \<open>Jobs_Atomic\<close>, \<open>Jobs_Batch_Props\<close>: what they promise. \<open>Jobs_Refinement\<close>: an abstract lease
    book and the proof that the store implements it.
  \<^item> \<open>World\<close>: effects of a process (Redis commands, database calls, waits) as a trace, with oracles
    that see it; the interface \<open>broker.JobStore\<close> as the locale \<open>job_store\<close>.
  \<^item> \<open>Broker\<close> (\<open>internal/broker\<close>), \<open>Scheduler\<close> (\<open>internal/scheduler\<close>), \<open>Reaper\<close>
    (\<open>internal/reaper\<close>), \<open>Worker\<close> and \<open>Worker_Pool\<close> (\<open>internal/worker\<close>, \<open>internal/dispatcher\<close>):
    the processes. \<open>Worker_Pool\<close> is the channels of a pool as a state machine, \<open>Supervisor\<close> the
    process that starts the pools again, with its goroutines; \<open>Pool_Start\<close> a pool process from its
    start to its end and its liveness key; \<open>Pool_Shutdown\<close> adds the context to \<open>Worker_Pool\<close>: the
    branches its goroutines take when it is done, and what holds of a pool before and after.
  \<^item> \<open>Pipeline\<close>: consumer, worker and store composed on one message and its redelivery.
    \<open>End_To_End\<close>: the API's enqueueing in front of it, from the request to the completed row.
  \<^item> \<open>Http\<close>, \<open>Api_Enqueue\<close>, \<open>Api_Jobs\<close>, \<open>Api_Jobs_Props\<close> (\<open>internal/api/handlers\<close>), \<open>Auth\<close>,
    \<open>Auth_Props\<close> (\<open>internal/auth\<close>, \<open>internal/storage/auth\<close>, \<open>internal/storage/users\<close>,
    \<open>internal/api/middleware/auth.go\<close>), \<open>Api_Server\<close> (\<open>internal/api/routes\<close>): the API.
  \<^item> \<open>Paths\<close> (Go's \<open>path/filepath\<close>), \<open>Handlers\<close>, \<open>Handler_Exec\<close>, \<open>Handler_File\<close>,
    \<open>Handler_File_Props\<close>, \<open>Handler_Email\<close> (\<open>internal/task/handlers\<close>) and \<open>Processing\<close>
    (\<open>Worker.ProcessJobs\<close>): what a job does. A file system is the set of its directories and the
    map of its files; every call on it can fail, \<open>os.Remove\<close> and a half-done \<open>MkdirAll\<close> included.
  \<^item> \<open>Config\<close> (\<open>internal/config\<close>): settings and their defaults. \<open>Rate_Limit\<close>
    (\<open>internal/api/middleware/ratelimit.go\<close>, \<open>NewServer\<close>): the token buckets in front of the API.
    \<open>Startup\<close> (\<open>internal/storage/database.go\<close>, \<open>migrate.go\<close>, the dialling in
    \<open>internal/broker/redis.go\<close>): connections, migrations and how the processes start.
    \<open>Processes\<close> (\<open>cmd/scheduler\<close>, \<open>cmd/reaper\<close>): their settings, the retention goroutine, start and
    end. \<open>Server_Run\<close> (\<open>internal/api/server.go\<close>, \<open>internal/web/server.go\<close>, the \<open>main\<close> functions): the two
    HTTP servers from start to exit as state machines, exit codes.
  \<^item> \<open>Web_Views\<close> (\<open>internal/web/views/types.go\<close>), \<open>Web\<close> and \<open>Web_Props\<close> (\<open>internal/web\<close>): the
    dashboard. \<open>Html\<close>: how a page is written and what a well-formed text is; \<open>Templates\<close>: the pages,
    \<open>internal/web/views/*_templ.go\<close>; \<open>Page_Scan\<close> and \<open>Page_Props\<close>: what holds of every page.
  \<^item> \<open>Client\<close> (\<open>pkg/client\<close>) and \<open>Cli\<close> (\<open>cmd/enqueue-cli\<close>): the callers of the API.

  \<^bold>\<open>Correspondence.\<close> A Go struct is a record with the struct's field names, an error return a
  \<open>datatype\<close> on the left of a sum, a \<open>sql.Null\<close> column an option, \<open>int16\<close> columns are \<open>int\<close> with the
  range or the wrap-around written out (\<open>int16\<close>, \<open>wrap64\<close>). Definitions carry the Go names; a
  prefix tells two of the same name apart (\<open>broker_RetryJob\<close>, \<open>local_Put\<close>, \<open>s3_Put\<close>), \<open>pg_\<close> marks
  a store operation called from a process.

  \<^bold>\<open>What the lemmas show.\<close>
  \<^item> Store: every row, event and key reachable by any interleaving of operations, faults and clocks
    satisfies the invariant (\<open>reachable_rows_ok\<close>, \<open>timeline_ok\<close>); terminal jobs stay terminal;
    a claim token fences off all others and one of two racing claims wins; retries are gated
    and counted exactly; creation is idempotent; operations are all or nothing under every fault,
    with the rows, events and keys they leave spelled out; tenants are isolated; the batch claims
    promote exactly the due rows, and nothing else changes. All of it refines a lease
    book of five operations and four batch moves, in which no token is held twice.
  \<^item> The whole: a job the API accepts and pushes is read by one pool, run with the type and payload
    the caller sent and completed on its first attempt, when database and handler succeed.
  \<^item> Processes: the outcome of a job is in the database before its message is acked, unless the
    database refused it, a message is
    processed once and its redelivery absorbed, no path acks early, a scheduler tick dispatches
    what it promoted, a reaper tick recovers lost jobs and duplicates none. The supervisor keeps
    exactly one account of every pool and ends within a bounded number of steps; a pool that shuts down drops
    no job unseen, can always drain, and has no handler running when it has; supervisor, pools
    and router agree on who reads which stream.
  \<^item> API: enqueueing is a database-first dual write, job endpoints reach only the caller's jobs
    and do not disclose others (apart from the keys, which are global), every endpoint but three needs credentials, keys and tokens do
    what they promise.
  \<^item> Handlers: what a file job may touch, what a copy leaves behind, which processes an exec job
    starts and where, and that an unconfigured worker does none of this.
  \<^item> Around them: a caller's burst is bounded exactly, tokens stay within the bucket, no start-up or
    migration path leaves a database handle open, the API exits only after an interrupt and with its
    requests answered or its ten seconds used, the dashboard acts only with the session of its
    request and falls back to the login page when the API refuses it, its enqueue form agrees with
    the router of the broker. Its pages are well-formed whatever the data, no tag comes from data, and
    the buttons of a job's page appear exactly where the store accepts them. The server decodes what
    the client library encodes, bytes that are not UTF-8 replaced as \<open>encoding/json\<close> does, and a command makes at most one call.
  \<^item> Some theorems state behaviour that the code's comments do not intend; they are the evidence
    for the findings of the manifest: a pool runs at most as many jobs as it has workers, an
    outcome the database refused is acked all the same, a retry key of one tenant can refuse
    another's, a dead Redis makes the poll loop spin, a crashing job is retried for ever, a cron expression without
    a next instant floods the queue, a refused retry spends its idempotency key, a command's work
    directory can leave the sandbox, a copy to the base directory writes outside it, a client that
    changes its header is never limited, a listener that fails does not end the API, the API can exit
    before its deferred closes, the dashboard exits without waiting for the requests it is answering.

  \<^bold>\<open>Parameters.\<close> \<open>golib\<close> (JSON, UUID and time text, cron parser, time zones), \<open>apilib\<close> (JSON scanner
  and its kin), \<open>authlib\<close> (JWT, bcrypt, SHA-256), \<open>hlib\<close> (address and URL parsers, hashes) stand for
  packages outside the repository; \<open>env\<close>, \<open>aenv\<close>, \<open>exec_env\<close>, \<open>file_env\<close>, \<open>smtp_env\<close> hold the answers of
  the outside world; \<open>su_env\<close> says which step of a start-up fails, \<open>web_env\<close> holds the answers of
  the API and of Go's clock and formats, \<open>client_env\<close> and \<open>cli_env\<close> those a client sees, \<open>templ_env\<close>
  is templ's runtime, \<open>f64\<close> is the rounding of \<open>float64\<close>. Theorems hold for all of them, up to the documented round trips of \<open>golib_ok\<close>
  and its kin, which the witnesses instantiate.

  \<^bold>\<open>Bounds.\<close> Loops that run until a context ends (\<open>ServeJobs\<close>, \<open>Scheduler_Run\<close>, \<open>Reaper_Run\<close>,
  \<open>heartbeatJob\<close>, \<open>heartbeatLoop\<close>, \<open>retention_loop\<close>) take the number of rounds as an argument; the theorems about a round hold for
  every round, those about a run for every number. The SCAN loop of the statistics takes fuel
  for the cursor steps of the server and sums what it has seen when the fuel ends.

  \<^bold>\<open>Not modelled.\<close> What the database driver, the migration library, templ's runtime, the HTTP server
  and the operating system do (of \<open>net/http\<close> the two servers use the documented behaviour of
  \<open>ListenAndServe\<close> and \<open>Shutdown\<close>); sizes and time-outs of connection pools; log output, failing
  writes to standard output and help texts. PostgreSQL keeps microseconds of an instant; the tables
  here keep it whole, so instants that differ by less are told apart. Concurrency inside a process is modelled where
  it decides behaviour (\<open>Worker_Pool\<close>, \<open>Supervisor\<close>, the time-out race), and otherwise as
  sequential procedures over oracles. Symbolic links are outside the file model.
\<close>

end
